(* ===== verification/Prelude.thy ===== *)
theory Prelude
  imports Complex_Main "HOL-Library.AList" "HOL-Library.Multiset"
begin

text \<open>
  Shared vocabulary of the e-commerce model. Monetary amounts, which the Python code
  keeps in \<open>float\<close>, are exact rationals here, and Python's \<open>round(x, 2)\<close> is
  \<open>py_round2\<close>: round half to even on the hundredths. Datetimes are natural
  numbers (the instant returned by \<open>datetime.utcnow()\<close>) and \<open>isoformat()\<close> is
  their decimal rendering. A JSON-like value type \<open>pyval\<close> models the dictionaries
  that are built as event payloads and sent through the broker, and
  \<open>http_exception\<close> is FastAPI's \<open>HTTPException(status_code, detail)\<close>.
  The theory also holds the lemmas on rounding and on dictionaries that the
  component theories share.
\<close>

named_theorems money_simps "facts on two-decimal amounts used by the pricing proofs"

type_synonym money = rat
type_synonym timestamp = nat
type_synonym doc_id = nat

subsection \<open>Python's \<open>round(x, 2)\<close>\<close>

definition round_half_even :: "rat \<Rightarrow> int" where
  "round_half_even y =
     (let f = \<lfloor>y\<rfloor>; d = y - of_int f in
      if d < 1/2 then f else if 1/2 < d then f + 1 else if even f then f else f + 1)"

definition py_round2 :: "money \<Rightarrow> money" where
  "py_round2 x = of_int (round_half_even (x * 100)) / 100"

text \<open>An amount is a whole number of cents when it is a fixed point of the rounding.\<close>

definition is_cents :: "money \<Rightarrow> bool" where
  "is_cents x \<longleftrightarrow> of_int \<lfloor>x * 100\<rfloor> = x * 100"

lemma round_half_even_of_int [simp]: "round_half_even (of_int k) = k"
  by (simp add: round_half_even_def)

lemma is_cents_iff: "is_cents x \<longleftrightarrow> (\<exists>k. x * 100 = of_int k)"
proof
  assume "is_cents x"
  then show "\<exists>k. x * 100 = of_int k" by (auto simp: is_cents_def)
next
  assume "\<exists>k. x * 100 = of_int k"
  then obtain k where "x * 100 = of_int k" by blast
  then show "is_cents x" by (simp add: is_cents_def)
qed

lemma is_cents_of_int_div [simp, money_simps]: "is_cents (of_int k / 100)"
  by (simp add: is_cents_iff)

lemma py_round2_cents: "py_round2 (of_int k / 100) = of_int k / 100"
  by (simp add: py_round2_def)

lemma py_round2_idem [money_simps]: "is_cents x \<Longrightarrow> py_round2 x = x"
proof -
  assume "is_cents x"
  then obtain k where k: "x * 100 = of_int k" by (auto simp: is_cents_iff)
  then have "py_round2 x = of_int k / 100" by (simp add: py_round2_def)
  also from k have "\<dots> = x" by simp
  finally show ?thesis .
qed

lemma is_cents_py_round2 [simp, money_simps]: "is_cents (py_round2 x)"
  by (simp add: py_round2_def)

lemma is_cents_add [money_simps]: "is_cents x \<Longrightarrow> is_cents y \<Longrightarrow> is_cents (x + y)"
proof -
  assume "is_cents x" "is_cents y"
  then obtain a b where "x * 100 = of_int a" "y * 100 = of_int b"
    by (auto simp: is_cents_iff)
  then have "(x + y) * 100 = of_int (a + b)" by (simp add: distrib_right)
  then show ?thesis unfolding is_cents_iff by blast
qed

lemma is_cents_zero [simp, money_simps]: "is_cents 0"
  by (simp add: is_cents_def)

lemma is_cents_sum_list [money_simps]:
  "(\<forall>x \<in> set xs. is_cents x) \<Longrightarrow> is_cents (sum_list xs)"
  by (induction xs) (auto intro: is_cents_add)

lemma round_half_even_nonneg: "0 \<le> y \<Longrightarrow> 0 \<le> round_half_even y"
  by (simp add: round_half_even_def Let_def)

lemma py_round2_nonneg [money_simps]: "0 \<le> x \<Longrightarrow> 0 \<le> py_round2 x"
  by (simp add: py_round2_def round_half_even_nonneg)

lemma py_round2_sum_cents [money_simps]:
  "(\<forall>x \<in> set xs. is_cents x) \<Longrightarrow> py_round2 (sum_list xs) = sum_list xs"
  by (simp add: py_round2_idem is_cents_sum_list)

text \<open>Shifting by a whole number commutes with the rounding away from exact ties.\<close>

lemma round_half_even_shift:
  "y - of_int \<lfloor>y\<rfloor> \<noteq> 1/2 \<Longrightarrow> round_half_even (y + of_int c) = round_half_even y + c"
  by (simp add: round_half_even_def Let_def)

subsection \<open>Lists\<close>

text \<open>A filter keeps the whole list exactly when every element passes.\<close>

lemma length_filter_eq_iff: "length (filter P xs) = length xs \<longleftrightarrow> list_all P xs"
proof (induction xs)
  case (Cons x xs)
  have le: "length (filter P xs) \<le> length xs" by (rule length_filter_le)
  show ?case
  proof (cases "P x")
    case True
    with Cons.IH show ?thesis by simp
  next
    case False
    from le have "length (filter P xs) \<noteq> Suc (length xs)" by linarith
    with False show ?thesis by simp
  qed
qed simp

text \<open>\<open>find_one\<close>: the first document of a query that satisfies a filter.\<close>

lemma find_Some_mem: "find P xs = Some x \<Longrightarrow> x \<in> set xs \<and> P x"
  by (induction xs) (auto split: if_splits)

lemma find_append': "find P (xs @ ys) = (case find P xs of None \<Rightarrow> find P ys | Some x \<Rightarrow> Some x)"
  by (induction xs) auto

lemma find_map': "find P (map f xs) = map_option f (find (P \<circ> f) xs)"
  by (induction xs) auto

lemma map_filter_cong': "(\<And>x. x \<in> set xs \<Longrightarrow> f x = g x) \<Longrightarrow> List.map_filter f xs = List.map_filter g xs"
  by (induction xs) (simp_all add: List.map_filter_def)

lemma map_filter_append': "List.map_filter f (xs @ ys) = List.map_filter f xs @ List.map_filter f ys"
  by (simp add: List.map_filter_def)

text \<open>
  \<open>.limit(n)\<close> of a query is MongoDB's limit, under which \<open>0\<close> means no limit, and
  \<open>.skip(offset).limit(limit)\<close> takes a page of the documents in query order.
\<close>

definition mongo_limit :: "nat \<Rightarrow> 'a list \<Rightarrow> 'a list" where
  "mongo_limit n xs = (if n = 0 then xs else take n xs)"

definition page_of :: "nat \<Rightarrow> nat \<Rightarrow> 'a list \<Rightarrow> 'a list" where
  "page_of limit offset xs = mongo_limit limit (drop offset xs)"

lemma set_mongo_limit: "set (mongo_limit n xs) \<subseteq> set xs"
  by (auto simp: mongo_limit_def dest: in_set_takeD)

lemma length_mongo_limit: "0 < n \<Longrightarrow> length (mongo_limit n xs) \<le> n"
  by (simp add: mongo_limit_def)

lemma mongo_limit_short: "n = 0 \<or> length (mongo_limit n xs) < n \<Longrightarrow> mongo_limit n xs = xs"
  by (cases "n = 0") (simp_all add: mongo_limit_def)

lemma sorted_mongo_limit: "sorted_wrt R (map f xs) \<Longrightarrow> sorted_wrt R (map f (mongo_limit n xs))"
  by (simp add: mongo_limit_def take_map [symmetric] sorted_wrt_take)

text \<open>
  The contract of a sorted, limited query \<open>find(P).sort(f).limit(l)\<close>: ordered by
  the key, only matching documents, at most \<open>l\<close> of them, and all of them when the
  answer is shorter than the limit or there is none.
\<close>

lemma sorted_query_contract:
  assumes "r = mongo_limit l (sort_key f (filter P xs))"
  shows "sorted (map f r) \<and> (\<forall>x\<in>set r. P x \<and> x \<in> set xs) \<and> (0 < l \<longrightarrow> length r \<le> l)
    \<and> (l = 0 \<or> length r < l \<longrightarrow> mset r = mset (filter P xs))"
proof -
  have "sorted (map f r)"
    using assms sorted_mongo_limit [of "(\<le>)" f "sort_key f (filter P xs)" l] by simp
  moreover have "set r \<subseteq> set (filter P xs)"
    using assms set_mongo_limit by fastforce
  ultimately show ?thesis
    using assms mongo_limit_short [of l "sort_key f (filter P xs)"] length_mongo_limit [of l "sort_key f (filter P xs)"]
    by auto
qed

lemma set_page_of: "set (page_of l off xs) \<subseteq> set xs"
  using set_mongo_limit by (fastforce simp: page_of_def dest: in_set_dropD)

lemma length_page_of: "0 < l \<Longrightarrow> length (page_of l off xs) \<le> l"
  by (simp add: page_of_def length_mongo_limit)

text \<open>The number of pages of size \<open>p\<close> that hold \<open>t\<close> items, computed as \<open>(t + p - 1) div p\<close>.\<close>

lemma ceil_div_bounds:
  "0 < p \<Longrightarrow> t \<le> ((t + p - 1) div p) * p \<and> ((t + p - 1) div p) * p < t + (p::nat)"
proof -
  assume p: "0 < p"
  have eq: "((t + p - 1) div p) * p + (t + p - 1) mod p = t + p - 1" by (rule div_mult_mod_eq)
  have "(t + p - 1) mod p < p" using p by simp
  with eq p show ?thesis by linarith
qed


subsection \<open>Truthiness of optional strings\<close>

text \<open>
  \<open>if notes:\<close> on an \<open>Optional[str]\<close> is false for \<open>None\<close> and for the empty
  string alike.
\<close>

definition py_truthy :: "string option \<Rightarrow> bool" where
  "py_truthy s = (case s of None \<Rightarrow> False | Some t \<Rightarrow> t \<noteq> [])"

lemma py_truthy_simps [simp]:
  "py_truthy None = False" "py_truthy (Some t) = (t \<noteq> [])"
  by (simp_all add: py_truthy_def)

text \<open>\<open>sep.join(parts)\<close>.\<close>

fun py_join :: "string \<Rightarrow> string list \<Rightarrow> string" where
  "py_join sep [] = []"
| "py_join sep [x] = x"
| "py_join sep (x # y # zs) = x @ sep @ py_join sep (y # zs)"

text \<open>\<open>str.split(sep)\<close> with an explicit separator: empty fields are kept.\<close>

fun py_split :: "char \<Rightarrow> string \<Rightarrow> string list" where
  "py_split sep [] = [[]]"
| "py_split sep (c # cs) =
     (let ws = py_split sep cs in if c = sep then [] # ws else (c # hd ws) # tl ws)"

lemma py_split_ne [simp]: "py_split sep s \<noteq> []"
  by (induction s) (simp_all add: Let_def)

lemma py_split_no_sep: "sep \<notin> set s \<Longrightarrow> py_split sep s = [s]"
  by (induction s) (auto simp: Let_def)

lemma py_split_append_sep:
  "sep \<notin> set s \<Longrightarrow> py_split sep (s @ sep # r) = s # py_split sep r"
  by (induction s) (auto simp: Let_def)

lemma py_split_join:
  "ts \<noteq> [] \<Longrightarrow> \<forall>t\<in>set ts. sep \<notin> set t \<Longrightarrow> py_split sep (py_join [sep] ts) = ts"
proof (induction ts rule: induct_list012)
  case (2 x)
  then show ?case by (simp add: py_split_no_sep)
next
  case (3 x y zs)
  then show ?case by (simp add: py_split_append_sep)
qed simp

subsection \<open>Datetimes\<close>

fun decimal_digits :: "nat \<Rightarrow> string" where
  "decimal_digits n =
     (if n < 10 then [char_of (48 + n)]
      else decimal_digits (n div 10) @ [char_of (48 + n mod 10)])"

definition isoformat :: "timestamp \<Rightarrow> string" where
  "isoformat t = decimal_digits t"

subsection \<open>Document ids\<close>

text \<open>
  Document ids are numbers; their string form is the decimal rendering, and
  \<open>ObjectId(s)\<close> on a string from a request is \<open>parse_id\<close>, which fails (the
  repositories' \<open>except Exception: return None\<close>) on anything that is not such a rendering.
\<close>

definition is_digit :: "char \<Rightarrow> bool" where
  "is_digit c \<longleftrightarrow> 48 \<le> (of_char c :: nat) \<and> (of_char c :: nat) \<le> 57"

definition digits_value :: "string \<Rightarrow> nat" where
  "digits_value s = foldl (\<lambda>acc c. 10 * acc + (of_char c - 48)) 0 s"

definition parse_id :: "string \<Rightarrow> doc_id option" where
  "parse_id s = (if s \<noteq> [] \<and> list_all is_digit s then Some (digits_value s) else None)"

text \<open>
  The defining equation unfolds without end on a variable, so it is replaced in the
  simpset by two conditional ones, which evaluate numerals and leave variables alone.
\<close>

declare decimal_digits.simps [simp del]

lemma decimal_digits_lt10 [simp]: "n < 10 \<Longrightarrow> decimal_digits n = [char_of (48 + n)]"
  by (simp add: decimal_digits.simps)

lemma decimal_digits_ge10 [simp]:
  "10 \<le> n \<Longrightarrow> decimal_digits n = decimal_digits (n div 10) @ [char_of (48 + n mod 10)]"
  by (subst decimal_digits.simps) simp

lemma char_of_digits [simp]:
  "char_of (48::nat) = CHR ''0''" "char_of (49::nat) = CHR ''1''" "char_of (50::nat) = CHR ''2''"
  "char_of (51::nat) = CHR ''3''" "char_of (52::nat) = CHR ''4''" "char_of (53::nat) = CHR ''5''"
  "char_of (54::nat) = CHR ''6''" "char_of (55::nat) = CHR ''7''" "char_of (56::nat) = CHR ''8''"
  "char_of (57::nat) = CHR ''9''"
  by (simp_all add: char_of_def bit_simps)

lemma of_char_digit: "k < 10 \<Longrightarrow> (of_char (char_of (48 + k) :: char) :: nat) = 48 + k"
  by simp

lemma decimal_digits_ne [simp]: "decimal_digits n \<noteq> []"
  by (induction n rule: decimal_digits.induct) (subst decimal_digits.simps, simp)

lemma decimal_digits_props: "list_all is_digit (decimal_digits n) \<and> digits_value (decimal_digits n) = n"
proof (induction n rule: decimal_digits.induct)
  case (1 n)
  show ?case
  proof (cases "n < 10")
    case True
    then show ?thesis by (subst decimal_digits.simps) (simp add: is_digit_def digits_value_def of_char_digit)
  next
    case False
    then have ih: "list_all is_digit (decimal_digits (n div 10)) \<and> digits_value (decimal_digits (n div 10)) = n div 10"
      using 1 by simp
    have "n mod 10 < 10" by simp
    then show ?thesis using False ih
      by (subst decimal_digits.simps) (simp add: is_digit_def digits_value_def of_char_digit)
  qed
qed

lemma parse_id_decimal_digits [simp]: "parse_id (decimal_digits n) = Some n"
  using decimal_digits_props [of n] by (simp add: parse_id_def)

subsection \<open>Dictionaries and JSON values\<close>

text \<open>
  The values a payload dictionary holds: \<open>None\<close>, booleans, integers, floats,
  strings, lists, nested dictionaries and the ObjectId of a stored document. A dictionary is an association list in
  insertion order, as a Python dict literal is.
\<close>

datatype pyval =
    PNone
  | PBool bool
  | PInt int
  | PNum rat
  | PStr string
  | PList "pyval list"
  | PDict "(string \<times> pyval) list"
  | PObjectId doc_id

type_synonym pydict = "(string \<times> pyval) list"

text \<open>
  \<open>json.dumps(v)\<close> succeeds exactly on the values built from \<open>None\<close>, booleans,
  numbers, strings, lists and dicts; a Beanie \<open>PydanticObjectId\<close> (the \<open>id\<close> that
  \<open>Document.dict()\<close> includes) makes it raise \<open>TypeError\<close>.
\<close>

fun json_serializable :: "pyval \<Rightarrow> bool" where
  "json_serializable (PList vs) = list_all json_serializable vs"
| "json_serializable (PDict d) = list_all (\<lambda>kv. json_serializable (snd kv)) d"
| "json_serializable (PObjectId _) = False"
| "json_serializable _ = True"

lemma json_serializable_map [simp]:
  "list_all json_serializable (map f xs) = (\<forall>x\<in>set xs. json_serializable (f x))"
  by (simp add: list.pred_map comp_def list_all_iff)

text \<open>\<open>d.get(k, default)\<close>.\<close>

definition dict_get :: "pydict \<Rightarrow> string \<Rightarrow> pyval \<Rightarrow> pyval" where
  "dict_get d k dflt = (case map_of d k of None \<Rightarrow> dflt | Some v \<Rightarrow> v)"

text \<open>\<open>d.get(k, default)\<close> on a value that is not known to be a dictionary.\<close>

definition val_get :: "pyval \<Rightarrow> string \<Rightarrow> pyval \<Rightarrow> pyval" where
  "val_get v k dflt = (case v of PDict d \<Rightarrow> dict_get d k dflt | _ \<Rightarrow> dflt)"

lemma dict_get_Cons [simp]:
  "dict_get ((k', v) # d) k dflt = (if k = k' then v else dict_get d k dflt)"
  by (simp add: dict_get_def)

lemma dict_get_Nil [simp]: "dict_get [] k dflt = dflt"
  by (simp add: dict_get_def)

lemma val_get_PDict [simp]: "val_get (PDict d) k dflt = dict_get d k dflt"
  by (simp add: val_get_def)

text \<open>\<open>d.update({k: v})\<close> keeps the position of an existing key and appends a new one.\<close>

lemma dict_get_update [simp]:
  "dict_get (AList.update k' v d) k dflt = (if k = k' then v else dict_get d k dflt)"
  by (simp add: dict_get_def update_conv)

lemma json_serializable_dict_get [simp]:
  "json_serializable (PDict d) \<Longrightarrow> json_serializable dflt \<Longrightarrow> json_serializable (dict_get d k dflt)"
  by (cases "map_of d k") (auto simp: dict_get_def list_all_iff dest!: map_of_SomeD)

subsection \<open>Errors\<close>

text \<open>FastAPI's \<open>HTTPException(status_code=..., detail=...)\<close>.\<close>

datatype http_exception = HTTPException (status_code: nat) (detail: string)

subsection \<open>Requests in flight\<close>

text \<open>
  A handler that awaits between a check and a write is modelled by a list of the
  requests that have passed their check and not yet written; one of them, at any
  position, may proceed next.
\<close>

definition remove_at :: "nat \<Rightarrow> 'a list \<Rightarrow> 'a list" where
  "remove_at i xs = take i xs @ drop (Suc i) xs"

lemma remove_at_snoc2 [simp]: "remove_at (length xs) (xs @ [a, b]) = xs @ [b]"
  by (simp add: remove_at_def)

lemma remove_at_snoc1 [simp]: "remove_at (length xs) (xs @ [a]) = xs"
  by (simp add: remove_at_def)

end
