(* ===== verification/Orders.thy ===== *)
theory Orders
  imports Prelude
begin

text \<open>
  The order data model of \<open>src/order_service/app/models/order.py\<close>: the two status
  enumerations, the \<open>OrderItem\<close>, \<open>ShippingAddress\<close> and \<open>Order\<close> documents, the
  pydantic validators that derive \<open>total_price\<close>, \<open>subtotal\<close> and \<open>total_amount\<close>
  when a document is constructed, and the predicates \<open>is_editable\<close> and
  \<open>is_cancellable\<close>. The well-formedness predicate \<open>order_wf\<close> collects what the
  validators make true of every constructed order.
\<close>

subsection \<open>Enumerations\<close>

datatype OrderStatus = PENDING | CONFIRMED | PROCESSING | SHIPPED | DELIVERED | CANCELLED | REFUNDED

datatype PaymentStatus = PAY_PENDING | PAID | FAILED | PAY_REFUNDED

primrec status_value :: "OrderStatus \<Rightarrow> string" where
  "status_value PENDING = ''pending''"
| "status_value CONFIRMED = ''confirmed''"
| "status_value PROCESSING = ''processing''"
| "status_value SHIPPED = ''shipped''"
| "status_value DELIVERED = ''delivered''"
| "status_value CANCELLED = ''cancelled''"
| "status_value REFUNDED = ''refunded''"

primrec payment_status_value :: "PaymentStatus \<Rightarrow> string" where
  "payment_status_value PAY_PENDING = ''pending''"
| "payment_status_value PAID = ''paid''"
| "payment_status_value FAILED = ''failed''"
| "payment_status_value PAY_REFUNDED = ''refunded''"

subsection \<open>Documents\<close>

record order_item =
  product_id :: string
  product_name :: string
  product_sku :: "string option"
  unit_price :: money
  quantity :: int
  total_price :: money
  product_snapshot :: pydict

text \<open>The field \<open>state\<close> of the address is \<open>addr_state\<close> here.\<close>

record shipping_address =
  address_id :: doc_id
  full_name :: string
  address_line_1 :: string
  address_line_2 :: "string option"
  city :: string
  addr_state :: string
  postal_code :: string
  country :: string
  phone :: "string option"

record order =
  order_id :: doc_id
  order_number :: string
  user_id :: string
  user_email :: string
  items :: "order_item list"
  subtotal :: money
  tax_amount :: money
  shipping_cost :: money
  discount_amount :: money
  total_amount :: money
  status :: OrderStatus
  payment_status :: PaymentStatus
  shipping_address :: shipping_address
  shipping_method :: "string option"
  tracking_number :: "string option"
  payment_method :: "string option"
  payment_transaction_id :: "string option"
  created_at :: timestamp
  updated_at :: timestamp
  confirmed_at :: "timestamp option"
  shipped_at :: "timestamp option"
  delivered_at :: "timestamp option"
  order_notes :: "string option"
  metadata :: pydict

subsection \<open>Validators\<close>

text \<open>
  \<open>OrderItem.calculate_total_price\<close> ignores the value passed for \<open>total_price\<close> and
  recomputes it from the already validated \<open>unit_price\<close> and \<open>quantity\<close>.
\<close>

definition calculate_total_price :: "money \<Rightarrow> money \<Rightarrow> int \<Rightarrow> money" where
  "calculate_total_price v up q = py_round2 (up * of_int q)"

text \<open>
  Constructing an \<open>OrderItem\<close>: the field constraint \<open>quantity > 0\<close> raises a
  validation error (\<open>None\<close>), otherwise the validator fixes \<open>total_price\<close>.
\<close>

definition OrderItem ::
  "string \<Rightarrow> string \<Rightarrow> string option \<Rightarrow> money \<Rightarrow> int \<Rightarrow> money \<Rightarrow> pydict \<Rightarrow> order_item option" where
  "OrderItem pid name sku up q tp snap =
     (if 0 < q
      then Some \<lparr>product_id = pid, product_name = name, product_sku = sku, unit_price = up,
                 quantity = q, total_price = calculate_total_price tp up q,
                 product_snapshot = snap\<rparr>
      else None)"

definition calculate_subtotal :: "money \<Rightarrow> order_item list \<Rightarrow> money" where
  "calculate_subtotal v its = (if its \<noteq> [] then py_round2 (sum_list (map total_price its)) else v)"

definition calculate_total_amount :: "money \<Rightarrow> money \<Rightarrow> money \<Rightarrow> money \<Rightarrow> money" where
  "calculate_total_amount sub tax ship disc = py_round2 (max (sub + tax + ship - disc) 0)"

text \<open>
  \<open>Order(**data)\<close>: pydantic validates the fields in declaration order, so
  \<open>subtotal\<close> is recomputed before \<open>total_amount\<close> reads it.
\<close>

definition validate_order :: "order \<Rightarrow> order" where
  "validate_order ordr =
     (let o1 = ordr\<lparr>subtotal := calculate_subtotal (subtotal ordr) (items ordr)\<rparr>
      in o1\<lparr>total_amount := calculate_total_amount (subtotal o1) (tax_amount o1)
                              (shipping_cost o1) (discount_amount o1)\<rparr>)"

subsection \<open>Predicates and queries\<close>

definition is_editable :: "order \<Rightarrow> bool" where
  "is_editable ordr \<longleftrightarrow> status ordr \<in> set [PENDING, CONFIRMED]"

definition is_cancellable :: "order \<Rightarrow> bool" where
  "is_cancellable ordr \<longleftrightarrow> status ordr \<in> set [PENDING, CONFIRMED, PROCESSING]"

definition get_item_count :: "order \<Rightarrow> int" where
  "get_item_count ordr = sum_list (map quantity (items ordr))"

definition get_items_by_product :: "order \<Rightarrow> string \<Rightarrow> order_item list" where
  "get_items_by_product ordr pid = filter (\<lambda>it. product_id it = pid) (items ordr)"

subsection \<open>Well-formed orders\<close>

definition item_wf :: "order_item \<Rightarrow> bool" where
  "item_wf it \<longleftrightarrow> 0 < quantity it \<and> total_price it = py_round2 (unit_price it * of_int (quantity it))"

definition order_wf :: "order \<Rightarrow> bool" where
  "order_wf ordr \<longleftrightarrow>
     list_all item_wf (items ordr)
     \<and> (items ordr \<noteq> [] \<longrightarrow> subtotal ordr = sum_list (map total_price (items ordr)))
     \<and> total_amount ordr = calculate_total_amount (subtotal ordr) (tax_amount ordr) (shipping_cost ordr) (discount_amount ordr)"

lemma OrderItem_Some:
  "OrderItem pid name sku up q tp snap = Some it \<longleftrightarrow>
     0 < q \<and> it = \<lparr>product_id = pid, product_name = name, product_sku = sku, unit_price = up,
                   quantity = q, total_price = py_round2 (up * of_int q), product_snapshot = snap\<rparr>"
  by (auto simp: OrderItem_def calculate_total_price_def)

lemma OrderItem_wf: "OrderItem pid name sku up q tp snap = Some it \<Longrightarrow> item_wf it"
  by (auto simp: OrderItem_Some item_wf_def)

lemma item_wf_cents: "item_wf it \<Longrightarrow> is_cents (total_price it)"
  by (simp add: item_wf_def)

lemma calculate_total_amount_nonneg: "0 \<le> calculate_total_amount sub tax ship disc"
  by (simp add: calculate_total_amount_def py_round2_nonneg)

text \<open>Line totals are whole cents, so the subtotal validator's rounding changes nothing.\<close>

lemma calculate_subtotal_items:
  "list_all item_wf its \<Longrightarrow> its \<noteq> [] \<Longrightarrow>
     calculate_subtotal v its = sum_list (map total_price its)"
  by (simp add: calculate_subtotal_def py_round2_sum_cents item_wf_cents list_all_iff)

lemma validate_order_fields [simp]:
  "items (validate_order ordr) = items ordr"
  "tax_amount (validate_order ordr) = tax_amount ordr"
  "shipping_cost (validate_order ordr) = shipping_cost ordr"
  "discount_amount (validate_order ordr) = discount_amount ordr"
  "status (validate_order ordr) = status ordr"
  "payment_status (validate_order ordr) = payment_status ordr"
  "order_id (validate_order ordr) = order_id ordr"
  "user_id (validate_order ordr) = user_id ordr"
  "user_email (validate_order ordr) = user_email ordr"
  "created_at (validate_order ordr) = created_at ordr"
  "subtotal (validate_order ordr) = calculate_subtotal (subtotal ordr) (items ordr)"
  "total_amount (validate_order ordr) =
     calculate_total_amount (calculate_subtotal (subtotal ordr) (items ordr)) (tax_amount ordr)
       (shipping_cost ordr) (discount_amount ordr)"
  by (simp_all add: validate_order_def)

lemma validate_order_wf: "list_all item_wf (items ordr) \<Longrightarrow> order_wf (validate_order ordr)"
  by (simp add: order_wf_def calculate_subtotal_items)

text \<open>The status setters of the lifecycle manager leave the priced part of an order alone.\<close>

lemma order_wf_status_update [simp]:
  "order_wf (ordr\<lparr>status := s\<rparr>) = order_wf ordr"
  "order_wf (ordr\<lparr>payment_status := ps\<rparr>) = order_wf ordr"
  "order_wf (ordr\<lparr>updated_at := t\<rparr>) = order_wf ordr"
  "order_wf (ordr\<lparr>confirmed_at := c\<rparr>) = order_wf ordr"
  "order_wf (ordr\<lparr>shipped_at := c\<rparr>) = order_wf ordr"
  "order_wf (ordr\<lparr>delivered_at := c\<rparr>) = order_wf ordr"
  "order_wf (ordr\<lparr>order_notes := n\<rparr>) = order_wf ordr"
  "order_wf (ordr\<lparr>payment_method := m\<rparr>) = order_wf ordr"
  "order_wf (ordr\<lparr>payment_transaction_id := x\<rparr>) = order_wf ordr"
  "order_wf (ordr\<lparr>order_id := i\<rparr>) = order_wf ordr"
  by (simp_all add: order_wf_def)

lemma order_wf_total_nonneg: "order_wf ordr \<Longrightarrow> 0 \<le> total_amount ordr"
  by (simp add: order_wf_def calculate_total_amount_nonneg)

lemma calculate_subtotal_sum:
  "list_all item_wf its \<Longrightarrow> calculate_subtotal (sum_list (map total_price its)) its = sum_list (map total_price its)"
  by (cases "its = []") (simp_all add: calculate_subtotal_items, simp add: calculate_subtotal_def)

text \<open>
  Whatever the stored or submitted amounts, an order constructed through the
  validators never has a negative total: a discount larger than subtotal, tax and
  shipping together gives a total of zero.
\<close>

theorem validate_order_total_nonneg: "0 \<le> total_amount (validate_order ordr)"
  by (simp add: calculate_total_amount_nonneg)

end
