(* ===== verification/OrderRepository.thy ===== *)
theory OrderRepository
  imports Orders
begin

text \<open>
  The order repository of \<open>src/order_service/app/repositories/order_repository.py\<close>
  over an explicit document store: the \<open>orders\<close> collection is a map from document
  ids to orders, and \<open>insert()\<close> takes the next id. Every repository call is a
  function from the store (and the current instant \<open>now\<close>, the value of
  \<open>datetime.utcnow()\<close>) to its result and the new store. Lookups that fail
  (a missing document or a malformed id) give \<open>None\<close>, as the repository's
  \<open>try ... except: return None\<close> does. The store invariant \<open>db_inv\<close> says that every
  stored order sits under its own id, below the id counter, and is well formed.
\<close>

record order_db =
  orders :: "doc_id \<rightharpoonup> order"
  next_order_id :: doc_id

definition empty_order_db :: order_db where
  "empty_order_db = \<lparr>orders = Map.empty, next_order_id = 0\<rparr>"

definition newline :: char where
  "newline = CHR 0x0A"

subsection \<open>Writes\<close>

text \<open>
  \<open>create_order\<close>: \<open>Order(**order_data)\<close> runs the validators and the default
  factories of \<open>created_at\<close> and \<open>updated_at\<close>; \<open>insert()\<close> assigns the id.
\<close>

definition repo_create_order :: "order \<Rightarrow> timestamp \<Rightarrow> order_db \<Rightarrow> order \<times> order_db" where
  "repo_create_order data now db =
     (let oid = next_order_id db;
          ordr = validate_order (data\<lparr>order_id := oid, created_at := now, updated_at := now\<rparr>)
      in (ordr, db\<lparr>orders := (orders db)(oid \<mapsto> ordr), next_order_id := Suc oid\<rparr>))"

text \<open>The status-specific timestamps of \<open>update_order_status\<close>: set on first entry only.\<close>

definition stamp_status :: "OrderStatus \<Rightarrow> timestamp \<Rightarrow> order \<Rightarrow> order" where
  "stamp_status s now ordr =
     (if s = CONFIRMED \<and> confirmed_at ordr = None then ordr\<lparr>confirmed_at := Some now\<rparr>
      else if s = SHIPPED \<and> shipped_at ordr = None then ordr\<lparr>shipped_at := Some now\<rparr>
      else if s = DELIVERED \<and> delivered_at ordr = None then ordr\<lparr>delivered_at := Some now\<rparr>
      else ordr)"

text \<open>The notes log of \<open>update_order_status\<close>: one timestamped line per non-empty note.\<close>

definition note_line :: "timestamp \<Rightarrow> string \<Rightarrow> string" where
  "note_line now n = isoformat now @ '': '' @ n"

definition append_note :: "string option \<Rightarrow> timestamp \<Rightarrow> order \<Rightarrow> order" where
  "append_note n now ordr =
     (if py_truthy n
      then (if py_truthy (order_notes ordr)
            then ordr\<lparr>order_notes := Some (the (order_notes ordr) @ [newline] @ note_line now (the n))\<rparr>
            else ordr\<lparr>order_notes := Some (note_line now (the n))\<rparr>)
      else ordr)"

definition repo_update_order_status ::
  "doc_id \<Rightarrow> OrderStatus \<Rightarrow> string option \<Rightarrow> timestamp \<Rightarrow> order_db \<Rightarrow> order option \<times> order_db" where
  "repo_update_order_status oid s n now db =
     (case orders db oid of
        None \<Rightarrow> (None, db)
      | Some ordr \<Rightarrow>
          (let ordr' = append_note n now (stamp_status s now (ordr\<lparr>status := s, updated_at := now\<rparr>))
           in (Some ordr', db\<lparr>orders := (orders db)(oid \<mapsto> ordr')\<rparr>)))"

definition repo_update_payment_status ::
  "doc_id \<Rightarrow> PaymentStatus \<Rightarrow> string option \<Rightarrow> timestamp \<Rightarrow> order_db \<Rightarrow> order option \<times> order_db" where
  "repo_update_payment_status oid ps txn now db =
     (case orders db oid of
        None \<Rightarrow> (None, db)
      | Some ordr \<Rightarrow>
          (let o1 = ordr\<lparr>payment_status := ps, updated_at := now\<rparr>;
               o2 = (if py_truthy txn then o1\<lparr>payment_transaction_id := txn\<rparr> else o1)
           in (Some o2, db\<lparr>orders := (orders db)(oid \<mapsto> o2)\<rparr>)))"

text \<open>\<open>delete_order\<close> is a cancellation, and a no-op on an order that is not cancellable.\<close>

definition repo_delete_order :: "doc_id \<Rightarrow> timestamp \<Rightarrow> order_db \<Rightarrow> bool \<times> order_db" where
  "repo_delete_order oid now db =
     (case orders db oid of
        None \<Rightarrow> (False, db)
      | Some ordr \<Rightarrow>
          (if is_cancellable ordr
           then (True, db\<lparr>orders := (orders db)(oid \<mapsto> ordr\<lparr>status := CANCELLED, updated_at := now\<rparr>)\<rparr>)
           else (False, db)))"

text \<open>
  The service saves \<open>order.payment_method\<close> after the payment update with a bare
  \<open>save()\<close>, which writes the document back as it is.
\<close>

definition repo_save :: "order \<Rightarrow> order_db \<Rightarrow> order_db" where
  "repo_save ordr db = db\<lparr>orders := (orders db)(order_id ordr \<mapsto> ordr)\<rparr>"

subsection \<open>Reads\<close>

definition repo_get_order_by_id :: "doc_id \<Rightarrow> order_db \<Rightarrow> order option" where
  "repo_get_order_by_id oid db = orders db oid"

text \<open>The collection in id order, which is insertion order.\<close>

definition all_orders :: "order_db \<Rightarrow> order list" where
  "all_orders db = List.map_filter (orders db) [0..<next_order_id db]"

text \<open>\<open>.sort(-Order.created_at)\<close>: newest first; ties keep insertion order.\<close>

definition newest_first :: "order list \<Rightarrow> order list" where
  "newest_first os = sort_key (\<lambda>ordr. - int (created_at ordr)) os"

definition repo_get_orders_by_user ::
  "string \<Rightarrow> OrderStatus option \<Rightarrow> nat \<Rightarrow> nat \<Rightarrow> order_db \<Rightarrow> order list" where
  "repo_get_orders_by_user uid st limit offset db =
     page_of limit offset
       (newest_first (filter (\<lambda>ordr. user_id ordr = uid \<and> (case st of None \<Rightarrow> True | Some s \<Rightarrow> status ordr = s))
                        (all_orders db)))"

text \<open>The filters of \<open>count_orders\<close>: a \<open>user_id\<close> filter applies only when it is truthy.\<close>

definition order_matches ::
  "OrderStatus option \<Rightarrow> PaymentStatus option \<Rightarrow> string option \<Rightarrow> order \<Rightarrow> bool" where
  "order_matches st ps uid ordr \<longleftrightarrow>
     (case st of None \<Rightarrow> True | Some s \<Rightarrow> status ordr = s)
     \<and> (case ps of None \<Rightarrow> True | Some p \<Rightarrow> payment_status ordr = p)
     \<and> (if py_truthy uid then user_id ordr = the uid else True)"

definition repo_count_orders ::
  "OrderStatus option \<Rightarrow> PaymentStatus option \<Rightarrow> string option \<Rightarrow> order_db \<Rightarrow> nat" where
  "repo_count_orders st ps uid db = length (filter (order_matches st ps uid) (all_orders db))"

definition repo_get_orders ::
  "OrderStatus option \<Rightarrow> PaymentStatus option \<Rightarrow> string option \<Rightarrow> nat \<Rightarrow> nat \<Rightarrow> order_db \<Rightarrow> order list" where
  "repo_get_orders st ps uid limit offset db =
     page_of limit offset (newest_first (filter (order_matches st ps uid) (all_orders db)))"

subsection \<open>The store invariant\<close>

definition db_inv :: "order_db \<Rightarrow> bool" where
  "db_inv db \<longleftrightarrow>
     (\<forall>oid ordr. orders db oid = Some ordr \<longrightarrow> oid < next_order_id db \<and> order_id ordr = oid \<and> order_wf ordr)"

lemma db_inv_empty: "db_inv empty_order_db"
  by (simp add: db_inv_def empty_order_db_def)

lemma stamp_status_fields [simp]:
  "order_id (stamp_status s now ordr) = order_id ordr"
  "status (stamp_status s now ordr) = status ordr"
  "items (stamp_status s now ordr) = items ordr"
  "user_id (stamp_status s now ordr) = user_id ordr"
  "total_amount (stamp_status s now ordr) = total_amount ordr"
  "payment_status (stamp_status s now ordr) = payment_status ordr"
  "order_notes (stamp_status s now ordr) = order_notes ordr"
  "order_wf (stamp_status s now ordr) = order_wf ordr"
  by (simp_all add: stamp_status_def)

lemma append_note_fields [simp]:
  "order_id (append_note n now ordr) = order_id ordr"
  "status (append_note n now ordr) = status ordr"
  "items (append_note n now ordr) = items ordr"
  "user_id (append_note n now ordr) = user_id ordr"
  "total_amount (append_note n now ordr) = total_amount ordr"
  "payment_status (append_note n now ordr) = payment_status ordr"
  "confirmed_at (append_note n now ordr) = confirmed_at ordr"
  "shipped_at (append_note n now ordr) = shipped_at ordr"
  "delivered_at (append_note n now ordr) = delivered_at ordr"
  "order_wf (append_note n now ordr) = order_wf ordr"
  by (simp_all add: append_note_def)

text \<open>A successful update rewrites the order under its own id and nothing else.\<close>

lemma repo_update_order_status_Some:
  "repo_update_order_status oid s n now db = (Some ordr', db') \<longleftrightarrow>
     (\<exists>ordr. orders db oid = Some ordr
        \<and> ordr' = append_note n now (stamp_status s now (ordr\<lparr>status := s, updated_at := now\<rparr>))
        \<and> db' = db\<lparr>orders := (orders db)(oid \<mapsto> ordr')\<rparr>)"
  by (auto simp: repo_update_order_status_def Let_def split: option.splits)

lemma repo_update_order_status_None:
  "orders db oid = None \<Longrightarrow> repo_update_order_status oid s n now db = (None, db)"
  by (simp add: repo_update_order_status_def)

lemma repo_update_payment_status_None:
  "orders db oid = None \<Longrightarrow> repo_update_payment_status oid ps txn now db = (None, db)"
  by (simp add: repo_update_payment_status_def)

lemma db_inv_replace:
  "db_inv db \<Longrightarrow> orders db oid = Some ordr \<Longrightarrow> order_id ordr' = oid \<Longrightarrow> order_wf ordr' \<Longrightarrow>
     db_inv (db\<lparr>orders := (orders db)(oid \<mapsto> ordr')\<rparr>)"
  by (auto simp: db_inv_def)

lemma db_inv_repo_create_order:
  "db_inv db \<Longrightarrow> list_all item_wf (items data) \<Longrightarrow> db_inv (snd (repo_create_order data now db))"
  by (auto simp: db_inv_def repo_create_order_def Let_def validate_order_wf less_Suc_eq)

lemma db_inv_repo_update_order_status:
  "db_inv db \<Longrightarrow> db_inv (snd (repo_update_order_status oid s n now db))"
proof (cases "orders db oid")
  case (Some ordr)
  assume inv: "db_inv db"
  with Some have "order_id ordr = oid" "order_wf ordr" by (auto simp: db_inv_def)
  with inv Some show ?thesis
    by (simp add: repo_update_order_status_def db_inv_replace Let_def)
qed (simp add: repo_update_order_status_def)

lemma db_inv_repo_update_payment_status:
  "db_inv db \<Longrightarrow> db_inv (snd (repo_update_payment_status oid ps txn now db))"
proof (cases "orders db oid")
  case (Some ordr)
  assume inv: "db_inv db"
  with Some have "order_id ordr = oid" "order_wf ordr" by (auto simp: db_inv_def)
  with inv Some show ?thesis
    by (simp add: repo_update_payment_status_def db_inv_replace Let_def)
qed (simp add: repo_update_payment_status_def)

lemma db_inv_repo_delete_order:
  "db_inv db \<Longrightarrow> db_inv (snd (repo_delete_order oid now db))"
proof (cases "orders db oid")
  case (Some ordr)
  assume inv: "db_inv db"
  with Some have "order_id ordr = oid" "order_wf ordr" by (auto simp: db_inv_def)
  with inv Some show ?thesis
    by (simp add: repo_delete_order_def db_inv_replace)
qed (simp add: repo_delete_order_def)

lemma db_inv_repo_save:
  "db_inv db \<Longrightarrow> orders db (order_id ordr) = Some ordr0 \<Longrightarrow> order_wf ordr \<Longrightarrow>
     db_inv (repo_save ordr db)"
  by (simp add: repo_save_def db_inv_replace)

lemma all_orders_insert:
  "orders db' = (orders db)(next_order_id db \<mapsto> ordr) \<Longrightarrow> next_order_id db' = Suc (next_order_id db) \<Longrightarrow>
     all_orders db' = all_orders db @ [ordr]"
proof -
  assume o: "orders db' = (orders db)(next_order_id db \<mapsto> ordr)" and n: "next_order_id db' = Suc (next_order_id db)"
  have "List.map_filter (orders db') [0..<next_order_id db] = all_orders db"
    unfolding all_orders_def using o by (intro map_filter_cong') simp
  then show ?thesis
    using o n by (simp add: all_orders_def map_filter_append' List.map_filter_simps)
qed

lemma db_inv_stored:
  "db_inv db \<Longrightarrow> orders db oid = Some ordr \<Longrightarrow> order_id ordr = oid \<and> order_wf ordr"
  by (simp add: db_inv_def)

lemmas db_inv_preserved =
  db_inv_repo_create_order db_inv_repo_update_order_status
  db_inv_repo_update_payment_status db_inv_repo_delete_order db_inv_repo_save

end
