(* ===== verification/ExternalServices.thy ===== *)
theory ExternalServices
  imports Prelude
begin

text \<open>
  The order service's clients for its peers, \<open>src/order_service/app/utils/external_services.py\<close>.
  The HTTP calls themselves are the interface to the other services: token verification
  is a function \<open>token_verifier\<close> from a bearer token to the caller's profile
  (\<open>None\<close> on any non-200 answer or exception), and \<open>get_product_by_id\<close> is a
  function \<open>product_fetch\<close> from a product id to the product's JSON (\<open>None\<close> likewise).
  The JSON is that of the product service's \<open>ProductResponse\<close>, so it is a record
  here and every \<open>.get(key, default)\<close> of the client finds its key. What the
  client computes from the answers is modelled in full: the availability check and
  the "reservation" loop, which only checks availability and writes nothing.
\<close>

record user_info =
  ui_id :: string
  ui_email :: string

record product_info =
  p_name :: string
  p_description :: string
  p_price :: money
  p_category_name :: "string option"
  p_sku :: "string option"
  p_stock_quantity :: int
  p_is_available :: bool
  p_image_urls :: "string list"

type_synonym token_verifier = "string \<Rightarrow> user_info option"
type_synonym product_fetch = "string \<Rightarrow> product_info option"

subsection \<open>Availability\<close>

datatype availability =
    Available (available_quantity: int) product_info
  | Unavailable (reason: string) (available_quantity: int)

definition check_product_availability :: "product_fetch \<Rightarrow> string \<Rightarrow> int \<Rightarrow> availability" where
  "check_product_availability fetch pid q =
     (case fetch pid of
        None \<Rightarrow> Unavailable ''Product not found'' 0
      | Some p \<Rightarrow>
          (if \<not> p_is_available p then Unavailable ''Product not available'' 0
           else if p_stock_quantity p < q then Unavailable ''Insufficient stock'' (p_stock_quantity p)
           else Available (p_stock_quantity p) p))"

text \<open>What the reservation step promises of a line: the product exists, is available and has the stock.\<close>

definition line_available :: "product_fetch \<Rightarrow> string \<times> int \<Rightarrow> bool" where
  "line_available fetch line \<longleftrightarrow>
     (case fetch (fst line) of None \<Rightarrow> False | Some p \<Rightarrow> p_is_available p \<and> snd line \<le> p_stock_quantity p)"

lemma check_product_availability_Available:
  "(\<exists>n p. check_product_availability fetch pid q = Available n p) \<longleftrightarrow> line_available fetch (pid, q)"
  by (auto simp: check_product_availability_def line_available_def split: option.splits)

text \<open>
  The contract the product service gives its clients: every product it returns has a
  positive price (\<open>Product.price\<close> is declared with \<open>gt=0\<close>).
\<close>

definition prices_positive :: "product_fetch \<Rightarrow> bool" where
  "prices_positive fetch \<longleftrightarrow> (\<forall>pid p. fetch pid = Some p \<longrightarrow> 0 < p_price p)"

subsection \<open>Reservation\<close>

datatype reservation =
    Reserved (res_product_id: string) (res_quantity: int) (res_product: product_info)
  | NotReserved (res_product_id: string) (res_quantity: int) (res_reason: string) (res_available: int)

record reservation_result =
  res_success :: bool
  res_total_items :: nat
  res_reserved_items :: nat
  reservations :: "reservation list"

text \<open>The loop of \<open>reserve_products\<close>, with its two accumulators.\<close>

fun reserve_loop ::
  "product_fetch \<Rightarrow> (string \<times> int) list \<Rightarrow> reservation list \<Rightarrow> nat \<Rightarrow> reservation list \<times> nat" where
  "reserve_loop fetch [] acc n = (acc, n)"
| "reserve_loop fetch ((pid, q) # rest) acc n =
     (case check_product_availability fetch pid q of
        Available _ p \<Rightarrow> reserve_loop fetch rest (acc @ [Reserved pid q p]) (Suc n)
      | Unavailable r a \<Rightarrow> reserve_loop fetch rest (acc @ [NotReserved pid q r a]) n)"

definition reserve_products :: "product_fetch \<Rightarrow> (string \<times> int) list \<Rightarrow> reservation_result" where
  "reserve_products fetch lines =
     (let (rs, n) = reserve_loop fetch lines [] 0
      in \<lparr>res_success = (n = length lines), res_total_items = length lines,
          res_reserved_items = n, reservations = rs\<rparr>)"

text \<open>A reference reading of the loop: one reservation per line, computed independently.\<close>

definition reserve_one :: "product_fetch \<Rightarrow> string \<times> int \<Rightarrow> reservation" where
  "reserve_one fetch line =
     (case check_product_availability fetch (fst line) (snd line) of
        Available _ p \<Rightarrow> Reserved (fst line) (snd line) p
      | Unavailable r a \<Rightarrow> NotReserved (fst line) (snd line) r a)"

primrec is_reserved :: "reservation \<Rightarrow> bool" where
  "is_reserved (Reserved _ _ _) = True"
| "is_reserved (NotReserved _ _ _ _) = False"

lemma reserve_loop_eq:
  "reserve_loop fetch lines acc n =
     (acc @ map (reserve_one fetch) lines, n + length (filter is_reserved (map (reserve_one fetch) lines)))"
  by (induction fetch lines acc n rule: reserve_loop.induct)
     (auto simp: reserve_one_def split: availability.splits)

lemma is_reserved_reserve_one:
  "is_reserved (reserve_one fetch line) \<longleftrightarrow> line_available fetch line"
  using check_product_availability_Available [of fetch "fst line" "snd line"]
  by (auto simp: reserve_one_def split: availability.splits)

lemma reservations_reserve_products:
  "reservations (reserve_products fetch lines) = map (reserve_one fetch) lines"
  by (simp add: reserve_products_def reserve_loop_eq)

lemma res_success_iff:
  "res_success (reserve_products fetch lines) \<longleftrightarrow> list_all (line_available fetch) lines"
proof -
  have "length (filter is_reserved (map (reserve_one fetch) lines)) = length lines
          \<longleftrightarrow> list_all (\<lambda>line. is_reserved (reserve_one fetch line)) lines"
    using length_filter_eq_iff [of is_reserved "map (reserve_one fetch) lines"]
    by (simp add: list_all_iff)
  then show ?thesis
    by (simp add: reserve_products_def reserve_loop_eq is_reserved_reserve_one)
qed

text \<open>
  C11. The accumulator loop of \<open>reserve_products\<close> computes exactly the reference
  reading: success iff every line is available, the counts, and one reservation per
  line in request order.
\<close>

theorem reserve_products_equiv:
  "reserve_products fetch lines =
     \<lparr>res_success = list_all (line_available fetch) lines, res_total_items = length lines,
      res_reserved_items = length (filter (line_available fetch) lines),
      reservations = map (reserve_one fetch) lines\<rparr>"
proof -
  have "length (filter is_reserved (map (reserve_one fetch) lines)) = length (filter (line_available fetch) lines)"
    by (induction lines) (simp_all add: is_reserved_reserve_one)
  then show ?thesis
    using res_success_iff [of fetch lines]
    by (simp add: reserve_products_def reserve_loop_eq)
qed

subsection \<open>The clients' other calls\<close>

text \<open>
  \<open>get_products_by_ids\<close>: one \<open>get_product_by_id\<close> per id, keeping the truthy
  answers in a dictionary keyed by the id (a later duplicate id overwrites with the
  same answer).
\<close>

definition get_products_by_ids :: "product_fetch \<Rightarrow> string list \<Rightarrow> string \<rightharpoonup> product_info" where
  "get_products_by_ids fetch pids =
     fold (\<lambda>pid m. case fetch pid of Some p \<Rightarrow> m(pid \<mapsto> p) | None \<Rightarrow> m) pids Map.empty"

text \<open>
  An HTTP call with a path parameter, query parameters and a JSON body, made to a
  peer with state \<open>'s\<close>: the answer's status code, or \<open>None\<close> when the call raises
  (connection error, timeout).
\<close>

type_synonym 's http_call = "string \<Rightarrow> (string \<times> string) list \<Rightarrow> pydict \<Rightarrow> 's \<Rightarrow> nat option \<times> 's"

text \<open>
  \<open>update_product_stock\<close>: \<open>PATCH {base_url}/api/v1/products/{product_id}/stock\<close> with
  \<open>json={"quantity_change": quantity_change}\<close> and no query parameters; \<open>True\<close>
  exactly on a 200 answer, \<open>False\<close> on any other answer or an exception.
\<close>

definition update_product_stock_client :: "'s http_call \<Rightarrow> string \<Rightarrow> int \<Rightarrow> 's \<Rightarrow> bool \<times> 's" where
  "update_product_stock_client patch pid q s =
     (case patch pid [] [(''quantity_change'', PInt q)] s of
        (Some c, s') \<Rightarrow> (c = 200, s')
      | (None, s') \<Rightarrow> (False, s'))"

lemma get_products_by_ids_fold:
  "fold (\<lambda>pid m. case fetch pid of Some p \<Rightarrow> m(pid \<mapsto> p) | None \<Rightarrow> m) pids m0 =
     (\<lambda>pid. if pid \<in> set pids \<and> fetch pid \<noteq> None then fetch pid else m0 pid)"
  by (induction pids arbitrary: m0) (auto split: option.splits intro!: ext)

lemma get_products_by_ids_eq:
  "get_products_by_ids fetch pids = (\<lambda>pid. if pid \<in> set pids then fetch pid else None)"
  by (auto simp: get_products_by_ids_def get_products_by_ids_fold)

end
