(* ===== verification/Events.thy ===== *)
theory Events
  imports Prelude
begin

text \<open>
  The event emitter: the \<open>KafkaProducer\<close> class of
  \<open>src/order_service/app/utils/kafka_producer.py\<close> (the user and product services
  carry the same class with another service name, so the name is a parameter here) and
  the order service's \<open>publish_*_event\<close> helpers. The producer's state is whether
  Kafka is enabled, whether a producer object exists and runs, whether the broker
  accepts messages, and the log of messages the broker has acknowledged. A failed
  send is absorbed: it leaves the log as it was and never reaches the caller.
\<close>

subsection \<open>Producer state\<close>

text \<open>
  \<open>self.producer\<close> is \<open>None\<close> before \<open>start()\<close> (or after a failed start), a running
  producer after a successful start, and a stopped producer object after \<open>stop()\<close>,
  which does not reset the attribute to \<open>None\<close>.
\<close>

datatype producer_handle = NoProducer | Running | Stopped

record kafka_producer =
  kafka_enabled :: bool
  producer :: producer_handle
  broker_up :: bool
  sent :: "(string \<times> pyval \<times> pyval) list"

definition KafkaProducer_init :: "bool \<Rightarrow> bool \<Rightarrow> kafka_producer" where
  "KafkaProducer_init enabled up =
     \<lparr>kafka_enabled = enabled, producer = NoProducer, broker_up = up, sent = []\<rparr>"

definition producer_start :: "kafka_producer \<Rightarrow> kafka_producer" where
  "producer_start p =
     (if \<not> kafka_enabled p then p
      else if broker_up p then p\<lparr>producer := Running\<rparr>
      else p\<lparr>producer := NoProducer\<rparr>)"

definition producer_stop :: "kafka_producer \<Rightarrow> kafka_producer" where
  "producer_stop p = (if producer p = NoProducer then p else p\<lparr>producer := Stopped\<rparr>)"

subsection \<open>Sending\<close>

text \<open>The envelope \<open>send_event\<close> wraps around a payload before it is sent.\<close>

definition enrich_event :: "string \<Rightarrow> string \<Rightarrow> pydict \<Rightarrow> pyval" where
  "enrich_event service topic event_data =
     PDict [(''service'', PStr service),
            (''timestamp'', dict_get event_data ''timestamp'' PNone),
            (''event_type'', PStr topic),
            (''data'', PDict event_data)]"

text \<open>
  \<open>send_event\<close>: a silent no-op when Kafka is disabled or no producer exists; otherwise
  \<open>send_and_wait\<close>, which succeeds on a running producer with the broker up and a
  payload the \<open>value_serializer\<close> (\<open>json.dumps(v)\<close>) accepts, and raises otherwise,
  the exception being logged and dropped by \<open>except Exception\<close>.
\<close>

definition send_event ::
  "string \<Rightarrow> string \<Rightarrow> pydict \<Rightarrow> pyval \<Rightarrow> kafka_producer \<Rightarrow> kafka_producer" where
  "send_event service topic event_data key p =
     (let enriched_event = enrich_event service topic event_data
      in if \<not> kafka_enabled p \<or> producer p = NoProducer then p
         else if producer p = Running \<and> broker_up p \<and> json_serializable enriched_event
         then p\<lparr>sent := sent p @ [(topic, enriched_event, key)]\<rparr>
         else p)"

text \<open>Whether a send from this state reaches the broker.\<close>

definition delivers :: "kafka_producer \<Rightarrow> bool" where
  "delivers p \<longleftrightarrow> kafka_enabled p \<and> producer p = Running \<and> broker_up p"

lemma json_serializable_enrich_event [simp]:
  "json_serializable (enrich_event service topic d) = json_serializable (PDict d)"
  by (auto simp: enrich_event_def)

lemma send_event_eq:
  "send_event service topic d key p =
     (if delivers p \<and> json_serializable (PDict d)
      then p\<lparr>sent := sent p @ [(topic, enrich_event service topic d, key)]\<rparr>
      else p)"
  by (auto simp: send_event_def delivers_def Let_def)

lemma send_event_frame [simp]:
  "kafka_enabled (send_event service topic d key p) = kafka_enabled p"
  "producer (send_event service topic d key p) = producer p"
  "broker_up (send_event service topic d key p) = broker_up p"
  "delivers (send_event service topic d key p) = delivers p"
  by (simp_all add: send_event_eq delivers_def)

lemma sent_send_event:
  "sent (send_event service topic d key p) =
     sent p @ (if delivers p \<and> json_serializable (PDict d) then [(topic, enrich_event service topic d, key)] else [])"
  by (simp add: send_event_eq)

subsection \<open>The order service's events\<close>

definition ORDER_CREATED :: string where "ORDER_CREATED = ''order.created''"
definition ORDER_CONFIRMED :: string where "ORDER_CONFIRMED = ''order.confirmed''"
definition ORDER_CANCELLED :: string where "ORDER_CANCELLED = ''order.cancelled''"
definition ORDER_SHIPPED :: string where "ORDER_SHIPPED = ''order.shipped''"
definition ORDER_DELIVERED :: string where "ORDER_DELIVERED = ''order.delivered''"
definition ORDER_PAYMENT_COMPLETED :: string where
  "ORDER_PAYMENT_COMPLETED = ''order.payment_completed''"
definition ORDER_PAYMENT_FAILED :: string where
  "ORDER_PAYMENT_FAILED = ''order.payment_failed''"

lemmas order_event_names =
  ORDER_CREATED_def ORDER_CONFIRMED_def ORDER_CANCELLED_def ORDER_SHIPPED_def
  ORDER_DELIVERED_def ORDER_PAYMENT_COMPLETED_def ORDER_PAYMENT_FAILED_def

text \<open>The order service sends every event to \<open>order-events\<close>, keyed by the order id.\<close>

definition send_order_event :: "pydict \<Rightarrow> pydict \<Rightarrow> kafka_producer \<Rightarrow> kafka_producer" where
  "send_order_event event_data order_data =
     send_event ''order-service'' ''order-events'' event_data (dict_get order_data ''id'' PNone)"

definition publish_order_created_event :: "pydict \<Rightarrow> kafka_producer \<Rightarrow> kafka_producer" where
  "publish_order_created_event od =
     send_order_event
       [(''event_type'', PStr ORDER_CREATED),
        (''order_id'', dict_get od ''id'' PNone),
        (''order_number'', dict_get od ''order_number'' PNone),
        (''user_id'', dict_get od ''user_id'' PNone),
        (''user_email'', dict_get od ''user_email'' PNone),
        (''total_amount'', dict_get od ''total_amount'' PNone),
        (''item_count'', dict_get od ''item_count'' PNone),
        (''items'', dict_get od ''items'' (PList [])),
        (''timestamp'', dict_get od ''created_at'' PNone)] od"

definition publish_order_confirmed_event :: "pydict \<Rightarrow> kafka_producer \<Rightarrow> kafka_producer" where
  "publish_order_confirmed_event od =
     send_order_event
       [(''event_type'', PStr ORDER_CONFIRMED),
        (''order_id'', dict_get od ''id'' PNone),
        (''order_number'', dict_get od ''order_number'' PNone),
        (''user_id'', dict_get od ''user_id'' PNone),
        (''user_email'', dict_get od ''user_email'' PNone),
        (''total_amount'', dict_get od ''total_amount'' PNone),
        (''items'', dict_get od ''items'' (PList [])),
        (''timestamp'', dict_get od ''confirmed_at'' PNone)] od"

definition publish_order_cancelled_event :: "pydict \<Rightarrow> kafka_producer \<Rightarrow> kafka_producer" where
  "publish_order_cancelled_event od =
     send_order_event
       [(''event_type'', PStr ORDER_CANCELLED),
        (''order_id'', dict_get od ''id'' PNone),
        (''order_number'', dict_get od ''order_number'' PNone),
        (''user_id'', dict_get od ''user_id'' PNone),
        (''user_email'', dict_get od ''user_email'' PNone),
        (''total_amount'', dict_get od ''total_amount'' PNone),
        (''reason'', dict_get od ''cancellation_reason'' PNone),
        (''timestamp'', dict_get od ''updated_at'' PNone)] od"

definition publish_order_shipped_event :: "pydict \<Rightarrow> kafka_producer \<Rightarrow> kafka_producer" where
  "publish_order_shipped_event od =
     send_order_event
       [(''event_type'', PStr ORDER_SHIPPED),
        (''order_id'', dict_get od ''id'' PNone),
        (''order_number'', dict_get od ''order_number'' PNone),
        (''user_id'', dict_get od ''user_id'' PNone),
        (''user_email'', dict_get od ''user_email'' PNone),
        (''tracking_number'', dict_get od ''tracking_number'' PNone),
        (''shipping_method'', dict_get od ''shipping_method'' PNone),
        (''shipping_address'', dict_get od ''shipping_address'' PNone),
        (''timestamp'', dict_get od ''shipped_at'' PNone)] od"

definition publish_order_delivered_event :: "pydict \<Rightarrow> kafka_producer \<Rightarrow> kafka_producer" where
  "publish_order_delivered_event od =
     send_order_event
       [(''event_type'', PStr ORDER_DELIVERED),
        (''order_id'', dict_get od ''id'' PNone),
        (''order_number'', dict_get od ''order_number'' PNone),
        (''user_id'', dict_get od ''user_id'' PNone),
        (''user_email'', dict_get od ''user_email'' PNone),
        (''total_amount'', dict_get od ''total_amount'' PNone),
        (''timestamp'', dict_get od ''delivered_at'' PNone)] od"

definition publish_payment_completed_event :: "pydict \<Rightarrow> kafka_producer \<Rightarrow> kafka_producer" where
  "publish_payment_completed_event od =
     send_order_event
       [(''event_type'', PStr ORDER_PAYMENT_COMPLETED),
        (''order_id'', dict_get od ''id'' PNone),
        (''order_number'', dict_get od ''order_number'' PNone),
        (''user_id'', dict_get od ''user_id'' PNone),
        (''user_email'', dict_get od ''user_email'' PNone),
        (''total_amount'', dict_get od ''total_amount'' PNone),
        (''payment_method'', dict_get od ''payment_method'' PNone),
        (''payment_transaction_id'', dict_get od ''payment_transaction_id'' PNone),
        (''timestamp'', dict_get od ''updated_at'' PNone)] od"

definition publish_payment_failed_event :: "pydict \<Rightarrow> kafka_producer \<Rightarrow> kafka_producer" where
  "publish_payment_failed_event od =
     send_order_event
       [(''event_type'', PStr ORDER_PAYMENT_FAILED),
        (''order_id'', dict_get od ''id'' PNone),
        (''order_number'', dict_get od ''order_number'' PNone),
        (''user_id'', dict_get od ''user_id'' PNone),
        (''user_email'', dict_get od ''user_email'' PNone),
        (''total_amount'', dict_get od ''total_amount'' PNone),
        (''payment_method'', dict_get od ''payment_method'' PNone),
        (''failure_reason'', dict_get od ''failure_reason'' PNone),
        (''timestamp'', dict_get od ''updated_at'' PNone)] od"

lemmas publish_defs =
  publish_order_created_event_def publish_order_confirmed_event_def
  publish_order_cancelled_event_def publish_order_shipped_event_def
  publish_order_delivered_event_def publish_payment_completed_event_def
  publish_payment_failed_event_def send_order_event_def

text \<open>
  The shape of every message the order service sends: on \<open>order-events\<close>, the
  envelope of a payload whose \<open>event_type\<close> is one of the seven order event names.
\<close>

definition order_event_types :: "string list" where
  "order_event_types = [ORDER_CREATED, ORDER_CONFIRMED, ORDER_CANCELLED, ORDER_SHIPPED, ORDER_DELIVERED,
     ORDER_PAYMENT_COMPLETED, ORDER_PAYMENT_FAILED]"

definition order_envelope :: "string \<times> pyval \<times> pyval \<Rightarrow> bool" where
  "order_envelope m \<longleftrightarrow> fst m = ''order-events''
     \<and> (case val_get (fst (snd m)) ''data'' PNone of
          PDict d \<Rightarrow> fst (snd m) = enrich_event ''order-service'' ''order-events'' d
                    \<and> dict_get d ''event_type'' PNone \<in> set (map PStr order_event_types)
        | _ \<Rightarrow> False)"

lemma publish_envelopes [simp]:
  assumes "list_all order_envelope (sent p)"
  shows "list_all order_envelope (sent (publish_order_created_event od p))"
    "list_all order_envelope (sent (publish_order_confirmed_event od p))"
    "list_all order_envelope (sent (publish_order_cancelled_event od p))"
    "list_all order_envelope (sent (publish_order_shipped_event od p))"
    "list_all order_envelope (sent (publish_order_delivered_event od p))"
    "list_all order_envelope (sent (publish_payment_completed_event od p))"
    "list_all order_envelope (sent (publish_payment_failed_event od p))"
  using assms by (simp_all add: publish_defs sent_send_event order_envelope_def enrich_event_def order_event_types_def)

subsection \<open>Properties of the emitter\<close>

text \<open>Sending only ever appends to the log; nothing already sent is lost or changed.\<close>

lemma send_event_log_prefix:
  "\<exists>new. sent (send_event service topic d key p) = sent p @ new \<and> length new \<le> 1"
  by (simp add: sent_send_event)


text \<open>
  When the send goes through, the broker receives the envelope: the originating
  service, the payload's timestamp, the payload itself, and under \<open>event_type\<close> the
  topic name, not the payload's own \<open>event_type\<close>.
\<close>

lemma send_event_delivered_envelope:
  assumes "delivers p" and "json_serializable (PDict d)"
  shows "sent (send_event service topic d key p) = sent p @ [(topic, enrich_event service topic d, key)]
    \<and> val_get (enrich_event service topic d) ''event_type'' PNone = PStr topic
    \<and> val_get (enrich_event service topic d) ''data'' PNone = PDict d
    \<and> val_get (enrich_event service topic d) ''service'' PNone = PStr service"
  using assms by (simp add: sent_send_event enrich_event_def)

definition ex_live_producer :: kafka_producer where
  "ex_live_producer = \<lparr>kafka_enabled = True, producer = Running, broker_up = True, sent = []\<rparr>"

theorem send_event_delivered_envelope_witness:
  "sent (send_event ''order-service'' ''order-events'' [(''event_type'', PStr ''order.shipped'')] (PStr ''7'') ex_live_producer)
     = [(''order-events'', enrich_event ''order-service'' ''order-events'' [(''event_type'', PStr ''order.shipped'')], PStr ''7'')]
   \<and> val_get (enrich_event ''order-service'' ''order-events'' [(''event_type'', PStr ''order.shipped'')]) ''event_type'' PNone
     = PStr ''order-events''"
  using send_event_delivered_envelope [where p = ex_live_producer and service = "''order-service''"
          and topic = "''order-events''" and d = "[(''event_type'', PStr ''order.shipped'')]" and key = "PStr ''7''"]
  by (simp add: ex_live_producer_def delivers_def)

text \<open>
  A producer built with Kafka disabled ignores every event: the state, and with it
  the log of delivered messages, is unchanged whatever is sent.
\<close>

theorem send_event_disabled: "\<not> kafka_enabled p \<Longrightarrow> send_event service topic d key p = p"
  by (simp add: send_event_def)

theorem send_event_disabled_witness:
  "send_event ''user-service'' ''user-events'' [] PNone (KafkaProducer_init False True) = KafkaProducer_init False True"
  using send_event_disabled [of "KafkaProducer_init False True" "''user-service''" "''user-events''" "[]" PNone]
  by (simp add: KafkaProducer_init_def)

end
