(* ===== verification/OrderService.thy ===== *)
theory OrderService
  imports OrderRepository ExternalServices Events
begin

text \<open>
  The order service, \<open>src/order_service/app/services/order_service.py\<close>: the order
  assembler (\<open>create_order\<close>), the lifecycle manager (\<open>update_order_status\<close>,
  \<open>update_payment_status\<close>, \<open>cancel_order\<close>) and the reads. The service's state is
  the orders collection, the shipping-address collection and the event producer;
  the user and product services are reached through the interfaces
  \<open>token_verifier\<close> and \<open>product_fetch\<close>. Each handler returns
  \<open>Inl (HTTPException code detail)\<close> where the code raises and
  \<open>Inr (result, new state)\<close> otherwise, so every early return of the source is a
  branch of the model. The clock (\<open>now\<close>) and the random part of the order number
  (\<open>uuid\<close>) are inputs.
\<close>

record order_service_state =
  db :: order_db
  addresses :: "doc_id \<rightharpoonup> shipping_address"
  next_address_id :: doc_id
  kafka :: kafka_producer

record order_create =
  oc_items :: "(string \<times> int) list"
  oc_shipping_address :: shipping_address
  oc_shipping_method :: "string option"
  oc_payment_method :: "string option"
  oc_notes :: "string option"

text \<open>
  The body's constraint that pydantic checks before the endpoint runs:
  \<open>OrderItemCreate.quantity\<close> is declared with \<open>gt=0\<close>.
\<close>

definition OrderCreate_valid :: "order_create \<Rightarrow> bool" where
  "OrderCreate_valid req \<longleftrightarrow> list_all (\<lambda>line. 0 < snd line) (oc_items req)"

type_synonym 'a response = "http_exception + 'a \<times> order_service_state"

subsection \<open>Helpers\<close>

definition char_upper :: "char \<Rightarrow> char" where
  "char_upper c =
     (let n = (of_char c :: nat) in if 97 \<le> n \<and> n \<le> 122 then char_of (n - 32) else c)"

text \<open>\<open>_generate_order_number\<close>: \<open>ORD-\<close>, the time stamp, and eight upper-cased characters of a UUID.\<close>

definition generate_order_number :: "timestamp \<Rightarrow> string \<Rightarrow> string" where
  "generate_order_number now uuid = ''ORD-'' @ decimal_digits now @ ''-'' @ map char_upper (take 8 uuid)"

definition id_str :: "doc_id \<Rightarrow> string" where
  "id_str i = decimal_digits i"

definition opt_str :: "string option \<Rightarrow> pyval" where
  "opt_str s = (case s of None \<Rightarrow> PNone | Some t \<Rightarrow> PStr t)"

definition opt_ts :: "timestamp option \<Rightarrow> pyval" where
  "opt_ts t = (case t of None \<Rightarrow> PNone | Some x \<Rightarrow> PStr (isoformat x))"

definition product_snapshot_of :: "product_info \<Rightarrow> pydict" where
  "product_snapshot_of p =
     [(''name'', PStr (p_name p)), (''description'', PStr (p_description p)),
      (''price'', PNum (p_price p)), (''category_name'', opt_str (p_category_name p)),
      (''image_urls'', PList (map PStr (p_image_urls p)))]"

text \<open>The loop that turns reserved lines into order items and adds up the subtotal.\<close>

fun build_order_items ::
  "(string \<times> int) list \<Rightarrow> reservation list \<Rightarrow> order_item list \<Rightarrow> money \<Rightarrow> (order_item list \<times> money) option" where
  "build_order_items ((pid, q) # ls) (r # rs) acc sub =
     (case r of
        Reserved _ _ p \<Rightarrow>
          (case OrderItem pid (p_name p) (p_sku p) (p_price p) q (p_price p * of_int q) (product_snapshot_of p) of
             None \<Rightarrow> None
           | Some it \<Rightarrow> build_order_items ls rs (acc @ [it]) (sub + total_price it))
      | NotReserved _ _ _ _ \<Rightarrow> build_order_items ls rs acc sub)"
| "build_order_items _ _ acc sub = Some (acc, sub)"

definition reservation_error_detail :: "reservation list \<Rightarrow> string" where
  "reservation_error_detail rs =
     ''Product reservation failed: '' @
       py_join ''; ''
         (map (\<lambda>r. ''Product '' @ res_product_id r @ '': '' @ res_reason r)
              (filter (\<lambda>r. \<not> is_reserved r) rs))"

definition tax_rate :: money where
  "tax_rate = 8 / 100"

definition shipping_cost_for :: "money \<Rightarrow> money" where
  "shipping_cost_for sub = (if sub < 100 then 10 else 0)"

definition item_event_json :: "order_item \<Rightarrow> pyval" where
  "item_event_json it =
     PDict [(''product_id'', PStr (product_id it)), (''product_name'', PStr (product_name it)),
            (''quantity'', PInt (quantity it)), (''unit_price'', PNum (unit_price it))]"

definition order_created_data :: "order \<Rightarrow> pydict" where
  "order_created_data ordr =
     [(''id'', PStr (id_str (order_id ordr))), (''order_number'', PStr (order_number ordr)),
      (''user_id'', PStr (user_id ordr)), (''user_email'', PStr (user_email ordr)),
      (''total_amount'', PNum (total_amount ordr)), (''item_count'', PInt (get_item_count ordr)),
      (''items'', PList (map item_event_json (items ordr))),
      (''created_at'', PStr (isoformat (created_at ordr)))]"

text \<open>The order dictionary \<open>create_order\<close> hands to the repository.\<close>

definition new_order_data ::
  "user_info \<Rightarrow> order_create \<Rightarrow> order_item list \<Rightarrow> money \<Rightarrow> shipping_address \<Rightarrow> string \<Rightarrow> timestamp \<Rightarrow> order" where
  "new_order_data ui req its sub addr onum now =
     (let tax = py_round2 (sub * tax_rate); ship = shipping_cost_for sub
      in \<lparr>order_id = 0, order_number = onum, user_id = ui_id ui, user_email = ui_email ui,
          items = its, subtotal = sub, tax_amount = tax, shipping_cost = ship,
          discount_amount = 0, total_amount = sub + tax + ship,
          status = PENDING, payment_status = PAY_PENDING, shipping_address = addr,
          shipping_method = oc_shipping_method req, tracking_number = None,
          payment_method = oc_payment_method req, payment_transaction_id = None,
          created_at = now, updated_at = now, confirmed_at = None, shipped_at = None,
          delivered_at = None, order_notes = oc_notes req, metadata = []\<rparr>)"

subsection \<open>Order assembly\<close>

text \<open>
  The part of \<open>create_order\<close> after the checks: insert the shipping address,
  compute tax and shipping, insert the order, publish \<open>order.created\<close>.
\<close>

definition persist_order ::
  "user_info \<Rightarrow> order_create \<Rightarrow> order_item list \<Rightarrow> money \<Rightarrow> timestamp \<Rightarrow> string \<Rightarrow>
   order_service_state \<Rightarrow> order \<times> order_service_state" where
  "persist_order ui req its sub now uuid st =
     (let aid = next_address_id st;
          addr = (oc_shipping_address req)\<lparr>address_id := aid\<rparr>;
          st1 = st\<lparr>addresses := (addresses st)(aid \<mapsto> addr), next_address_id := Suc aid\<rparr>;
          data = new_order_data ui req its sub addr (generate_order_number now uuid) now;
          (ordr, db') = repo_create_order data now (db st1)
      in (ordr, st1\<lparr>db := db', kafka := publish_order_created_event (order_created_data ordr) (kafka st1)\<rparr>))"

definition create_order ::
  "token_verifier \<Rightarrow> product_fetch \<Rightarrow> order_create \<Rightarrow> string \<Rightarrow> timestamp \<Rightarrow> string \<Rightarrow>
   order_service_state \<Rightarrow> order response" where
  "create_order verify fetch req token now uuid st =
     (case verify token of
        None \<Rightarrow> Inl (HTTPException 401 ''Invalid or expired token'')
      | Some ui \<Rightarrow>
          (let rr = reserve_products fetch (oc_items req)
           in if \<not> res_success rr
              then Inl (HTTPException 400 (reservation_error_detail (reservations rr)))
              else
                (case build_order_items (oc_items req) (reservations rr) [] 0 of
                   None \<Rightarrow> Inl (HTTPException 500 ''Failed to create order'')
                 | Some (its, sub) \<Rightarrow> Inr (persist_order ui req its sub now uuid st))))"

subsection \<open>Reads\<close>

definition get_order_by_id ::
  "token_verifier \<Rightarrow> doc_id \<Rightarrow> string \<Rightarrow> order_service_state \<Rightarrow> order response" where
  "get_order_by_id verify oid token st =
     (case verify token of
        None \<Rightarrow> Inl (HTTPException 401 ''Invalid or expired token'')
      | Some ui \<Rightarrow>
          (case repo_get_order_by_id oid (db st) of
             None \<Rightarrow> Inl (HTTPException 404 ''Order not found'')
           | Some ordr \<Rightarrow>
               (if user_id ordr \<noteq> ui_id ui then Inl (HTTPException 403 ''Access denied'')
                else Inr (ordr, st))))"

record order_list_response =
  ol_orders :: "order list"
  ol_total :: nat
  ol_page :: nat
  ol_per_page :: nat
  ol_total_pages :: nat

text \<open>\<open>page\<close> and \<open>per_page\<close> arrive validated by the controller: \<open>page \<ge> 1\<close>, \<open>1 \<le> per_page \<le> 100\<close>.\<close>

definition get_user_orders ::
  "token_verifier \<Rightarrow> string \<Rightarrow> OrderStatus option \<Rightarrow> nat \<Rightarrow> nat \<Rightarrow> order_service_state \<Rightarrow>
   order_list_response response" where
  "get_user_orders verify token sf page per_page st =
     (case verify token of
        None \<Rightarrow> Inl (HTTPException 401 ''Invalid or expired token'')
      | Some ui \<Rightarrow>
          (let offset = (page - 1) * per_page;
               os = repo_get_orders_by_user (ui_id ui) sf per_page offset (db st);
               total = repo_count_orders sf None (Some (ui_id ui)) (db st);
               total_pages = (total + per_page - 1) div per_page
           in Inr (\<lparr>ol_orders = os, ol_total = total, ol_page = page, ol_per_page = per_page,
                    ol_total_pages = total_pages\<rparr>, st)))"

subsection \<open>Lifecycle\<close>

definition status_event_base :: "order \<Rightarrow> pydict" where
  "status_event_base ordr =
     [(''id'', PStr (id_str (order_id ordr))), (''order_number'', PStr (order_number ordr)),
      (''user_id'', PStr (user_id ordr)), (''user_email'', PStr (user_email ordr)),
      (''total_amount'', PNum (total_amount ordr)),
      (''updated_at'', PStr (isoformat (updated_at ordr)))]"

text \<open>
  \<open>order.shipping_address.dict()\<close>: the address is a Beanie \<open>Document\<close> that
  \<open>create_order\<close> inserted, so the dictionary begins with its \<open>id\<close>, the ObjectId
  (not its string form) of the stored address.
\<close>

definition address_json :: "shipping_address \<Rightarrow> pyval" where
  "address_json a =
     PDict [(''id'', PObjectId (address_id a)), (''full_name'', PStr (full_name a)), (''address_line_1'', PStr (address_line_1 a)),
            (''address_line_2'', opt_str (address_line_2 a)), (''city'', PStr (city a)),
            (''state'', PStr (addr_state a)), (''postal_code'', PStr (postal_code a)),
            (''country'', PStr (country a)), (''phone'', opt_str (phone a))]"

text \<open>The event that \<open>update_order_status\<close> publishes after a successful update.\<close>

definition status_event :: "OrderStatus \<Rightarrow> string option \<Rightarrow> order \<Rightarrow> kafka_producer \<Rightarrow> kafka_producer" where
  "status_event s n ordr k =
     (let ed = status_event_base ordr
      in if s = CONFIRMED
         then publish_order_confirmed_event (AList.update ''confirmed_at'' (opt_ts (confirmed_at ordr)) ed) k
         else if s = CANCELLED
         then publish_order_cancelled_event (AList.update ''cancellation_reason'' (opt_str n) ed) k
         else if s = SHIPPED
         then publish_order_shipped_event
                (AList.update ''shipping_address'' (address_json (shipping_address ordr))
                  (AList.update ''shipping_method'' (opt_str (shipping_method ordr))
                    (AList.update ''tracking_number'' (opt_str (tracking_number ordr))
                      (AList.update ''shipped_at'' (opt_ts (shipped_at ordr)) ed)))) k
         else if s = DELIVERED
         then publish_order_delivered_event (AList.update ''delivered_at'' (opt_ts (delivered_at ordr)) ed) k
         else k)"

definition update_order_status ::
  "doc_id \<Rightarrow> OrderStatus \<Rightarrow> string option \<Rightarrow> timestamp \<Rightarrow> order_service_state \<Rightarrow> order response" where
  "update_order_status oid s n now st =
     (case repo_update_order_status oid s n now (db st) of
        (None, _) \<Rightarrow> Inl (HTTPException 404 ''Order not found'')
      | (Some ordr, db') \<Rightarrow> Inr (ordr, st\<lparr>db := db', kafka := status_event s n ordr (kafka st)\<rparr>))"

definition payment_event_data :: "order \<Rightarrow> pydict" where
  "payment_event_data ordr =
     [(''id'', PStr (id_str (order_id ordr))), (''order_number'', PStr (order_number ordr)),
      (''user_id'', PStr (user_id ordr)), (''user_email'', PStr (user_email ordr)),
      (''total_amount'', PNum (total_amount ordr)),
      (''payment_method'', opt_str (payment_method ordr)),
      (''payment_transaction_id'', opt_str (payment_transaction_id ordr)),
      (''updated_at'', PStr (isoformat (updated_at ordr)))]"

definition payment_event :: "PaymentStatus \<Rightarrow> order \<Rightarrow> kafka_producer \<Rightarrow> kafka_producer" where
  "payment_event ps ordr k =
     (if ps = PAID then publish_payment_completed_event (payment_event_data ordr) k
      else if ps = FAILED
      then publish_payment_failed_event
             (AList.update ''failure_reason'' (PStr ''Payment processing failed'') (payment_event_data ordr)) k
      else k)"

definition update_payment_status ::
  "doc_id \<Rightarrow> PaymentStatus \<Rightarrow> string option \<Rightarrow> string option \<Rightarrow> timestamp \<Rightarrow> order_service_state \<Rightarrow>
   order response" where
  "update_payment_status oid ps pm txn now st =
     (case repo_update_payment_status oid ps txn now (db st) of
        (None, _) \<Rightarrow> Inl (HTTPException 404 ''Order not found'')
      | (Some ordr, db') \<Rightarrow>
          (let ordr' = (if py_truthy pm then ordr\<lparr>payment_method := pm\<rparr> else ordr);
               db'' = (if py_truthy pm then repo_save ordr' db' else db')
           in Inr (ordr', st\<lparr>db := db'', kafka := payment_event ps ordr' (kafka st)\<rparr>)))"

definition cancel_reason :: string where
  "cancel_reason = ''Cancelled by customer''"

definition cancel_order ::
  "token_verifier \<Rightarrow> doc_id \<Rightarrow> string \<Rightarrow> timestamp \<Rightarrow> order_service_state \<Rightarrow> order response" where
  "cancel_order verify oid token now st =
     (case verify token of
        None \<Rightarrow> Inl (HTTPException 401 ''Invalid or expired token'')
      | Some ui \<Rightarrow>
          (case repo_get_order_by_id oid (db st) of
             None \<Rightarrow> Inl (HTTPException 404 ''Order not found'')
           | Some ordr \<Rightarrow>
               (if user_id ordr \<noteq> ui_id ui then Inl (HTTPException 403 ''Access denied'')
                else if \<not> is_cancellable ordr
                then Inl (HTTPException 400 (''Order cannot be cancelled in '' @ status_value (status ordr) @ '' status''))
                else
                  (case repo_update_order_status oid CANCELLED (Some cancel_reason) now (db st) of
                     (None, _) \<Rightarrow> Inl (HTTPException 500 ''Internal server error'')
                   | (Some co, db') \<Rightarrow>
                       Inr (co, st\<lparr>db := db',
                                   kafka := publish_order_cancelled_event
                                     [(''id'', PStr (id_str (order_id co))), (''order_number'', PStr (order_number co)),
                                      (''user_id'', PStr (user_id co)), (''user_email'', PStr (user_email co)),
                                      (''total_amount'', PNum (total_amount co)),
                                      (''cancellation_reason'', PStr cancel_reason),
                                      (''updated_at'', PStr (isoformat (updated_at co)))] (kafka st)\<rparr>)))))"

subsection \<open>The assembler's building blocks\<close>

lemma opt_serializable [simp]:
  "json_serializable (opt_str s)" "json_serializable (opt_ts t)"
  by (simp_all add: opt_str_def opt_ts_def split: option.split)

lemma order_created_data_serializable [simp]: "json_serializable (PDict (order_created_data ordr))"
  by (simp add: order_created_data_def item_event_json_def)

lemma build_order_items_Some:
  "build_order_items ls rs acc s = Some (its, sub) \<Longrightarrow>
     \<exists>new. its = acc @ new \<and> list_all item_wf new \<and> sub = s + sum_list (map total_price new)
       \<and> map (\<lambda>it. (product_id it, quantity it)) new = map fst (filter (\<lambda>lr. is_reserved (snd lr)) (zip ls rs))
       \<and> (\<forall>it \<in> set new. \<exists>r \<in> set rs. is_reserved r \<and> unit_price it = p_price (res_product r))"
proof (induction ls rs acc s rule: build_order_items.induct)
  case (1 pid q ls r rs acc s0)
  show ?case
  proof (cases r)
    case (Reserved x y p)
    with "1.prems" obtain it where it: "OrderItem pid (p_name p) (p_sku p) (p_price p) q (p_price p * of_int q) (product_snapshot_of p) = Some it"
      and rest: "build_order_items ls rs (acc @ [it]) (s0 + total_price it) = Some (its, sub)"
      by (auto split: option.splits)
    from "1.IH"(1) [OF Reserved it rest] obtain new where
      "its = (acc @ [it]) @ new" "list_all item_wf new" "sub = s0 + total_price it + sum_list (map total_price new)"
      "map (\<lambda>it. (product_id it, quantity it)) new = map fst (filter (\<lambda>lr. is_reserved (snd lr)) (zip ls rs))"
      "\<forall>it \<in> set new. \<exists>r \<in> set rs. is_reserved r \<and> unit_price it = p_price (res_product r)"
      by blast
    moreover have "item_wf it" by (rule OrderItem_wf [OF it])
    moreover from it have "product_id it = pid" "quantity it = q" "unit_price it = p_price p"
      by (auto simp: OrderItem_Some)
    ultimately show ?thesis using Reserved
      by (intro exI [of _ "it # new"]) (auto simp: add.assoc)
  next
    case (NotReserved x y z w)
    with "1.prems" "1.IH"(2) show ?thesis by fastforce
  qed
qed auto

lemma reserve_one_Reserved:
  "reserve_one fetch l = Reserved a b p \<Longrightarrow> fetch (fst l) = Some p"
  by (auto simp: reserve_one_def check_product_availability_def split: option.splits if_splits availability.splits)

lemma filter_all_reserved:
  "list_all (line_available fetch) ls \<Longrightarrow>
     map fst (filter (\<lambda>lr. is_reserved (snd lr)) (zip ls (map (reserve_one fetch) ls))) = ls"
  by (induction ls) (auto simp: is_reserved_reserve_one)

lemma reserved_price_positive:
  "prices_positive fetch \<Longrightarrow> r \<in> set (map (reserve_one fetch) ls) \<Longrightarrow> is_reserved r \<Longrightarrow> 0 < p_price (res_product r)"
  by (cases r) (auto simp: prices_positive_def dest!: reserve_one_Reserved [OF sym])

lemma item_total_nonneg: "item_wf it \<Longrightarrow> 0 < unit_price it \<Longrightarrow> 0 \<le> total_price it"
  by (simp add: item_wf_def py_round2_nonneg)

text \<open>On reserved lines of positive quantity the item constructor never fails.\<close>

lemma build_order_items_valid:
  "list_all (\<lambda>line. 0 < snd line) ls \<Longrightarrow> build_order_items ls (map (reserve_one fetch) ls) acc s \<noteq> None"
proof (induction ls arbitrary: acc s)
  case Nil
  then show ?case by simp
next
  case (Cons line ls)
  obtain pid q where l: "line = (pid, q)" by fastforce
  with Cons show ?case by (auto simp: reserve_one_def OrderItem_def split: availability.splits)
qed

lemma create_order_valid_Inr:
  assumes "OrderCreate_valid req" and "verify token = Some ui" and "list_all (line_available fetch) (oc_items req)"
  shows "\<exists>ordr st'. create_order verify fetch req token now uuid st = Inr (ordr, st')"
proof -
  obtain its sub where "build_order_items (oc_items req) (map (reserve_one fetch) (oc_items req)) [] 0 = Some (its, sub)"
    using build_order_items_valid [of "oc_items req" fetch "[]" 0] assms(1) by (auto simp: OrderCreate_valid_def)
  then show ?thesis
    using assms(2,3) by (simp add: create_order_def res_success_iff reservations_reserve_products)
qed

subsection \<open>Tax and totals\<close>

text \<open>
  Eight percent of a whole number of cents is never an exact half cent, so no tie ever
  reaches Python's half-even rounding, and rounding the total is the same as rounding
  only its tax part.
\<close>

lemma tax_no_tie: "of_int (8 * k) / 100 - of_int \<lfloor>of_int (8 * k) / (100::rat)\<rfloor> \<noteq> (1/2::rat)"
proof
  define f where "f = \<lfloor>of_int (8 * k) / (100::rat)\<rfloor>"
  assume "of_int (8 * k) / 100 - of_int \<lfloor>of_int (8 * k) / (100::rat)\<rfloor> = (1/2::rat)"
  then have "of_int (8 * k) / 100 = of_int f + (1/2::rat)" by (simp add: f_def)
  then have "of_int (8 * k) = (of_int (100 * f + 50) :: rat)" by (simp add: field_simps)
  then have "8 * k = 100 * f + 50" by (simp only: of_int_eq_iff)
  then show False by presburger
qed

lemma py_round2_tax_total:
  assumes "is_cents sub" "is_cents ship"
  shows "py_round2 (sub + sub * tax_rate + ship) = sub + py_round2 (sub * tax_rate) + ship"
proof -
  obtain a b where a: "sub * 100 = of_int a" and b: "ship * 100 = of_int b"
    using assms by (auto simp: is_cents_iff)
  have y: "sub * tax_rate * 100 = of_int (8 * a) / 100"
    using a by (simp add: tax_rate_def field_simps)
  have eq: "(sub + sub * tax_rate + ship) * 100 = of_int (8 * a) / 100 + of_int (a + b)"
    using a b y by (simp add: distrib_right)
  have "round_half_even (of_int (8 * a) / 100 + of_int (a + b)) = round_half_even (of_int (8 * a) / 100) + (a + b)"
    by (rule round_half_even_shift [OF tax_no_tie])
  then have R: "round_half_even ((sub + sub * tax_rate + ship) * 100) = round_half_even (sub * tax_rate * 100) + (a + b)"
    by (simp only: eq y)
  have "py_round2 (sub + sub * tax_rate + ship) = of_int (round_half_even (sub * tax_rate * 100) + (a + b)) / 100"
    by (simp only: py_round2_def R)
  also have "\<dots> = of_int (round_half_even (sub * tax_rate * 100)) / 100 + of_int a / 100 + of_int b / 100"
    by (simp add: add_divide_distrib)
  also have "\<dots> = sub + py_round2 (sub * tax_rate) + ship"
    using a b by (simp add: py_round2_def)
  finally show ?thesis .
qed

lemma create_order_Inr:
  "create_order verify fetch req token now uuid st = Inr r \<longleftrightarrow>
     (\<exists>ui its sub. verify token = Some ui \<and> list_all (line_available fetch) (oc_items req)
        \<and> build_order_items (oc_items req) (map (reserve_one fetch) (oc_items req)) [] 0 = Some (its, sub)
        \<and> r = persist_order ui req its sub now uuid st)"
  by (auto simp: create_order_def Let_def res_success_iff reservations_reserve_products
           split: option.splits prod.splits)

lemma persist_order_order:
  "fst (persist_order ui req its sub now uuid st) =
     validate_order ((new_order_data ui req its sub ((oc_shipping_address req)\<lparr>address_id := next_address_id st\<rparr>)
        (generate_order_number now uuid) now)\<lparr>order_id := next_order_id (db st), created_at := now, updated_at := now\<rparr>)"
  by (simp add: persist_order_def repo_create_order_def Let_def split: prod.splits)

subsection \<open>Order assembly: lemmas\<close>

lemma persist_order_db:
  "persist_order ui req its sub now uuid st = (ordr, st') \<Longrightarrow>
     order_id ordr = next_order_id (db st)
     \<and> orders (db st') = (orders (db st))(order_id ordr \<mapsto> ordr)
     \<and> next_order_id (db st') = Suc (next_order_id (db st))
     \<and> ordr = validate_order ((new_order_data ui req its sub ((oc_shipping_address req)\<lparr>address_id := next_address_id st\<rparr>)
          (generate_order_number now uuid) now)\<lparr>order_id := next_order_id (db st), created_at := now, updated_at := now\<rparr>)"
  by (auto simp: persist_order_def repo_create_order_def Let_def split: prod.splits)

lemma create_order_lines:
  assumes "create_order verify fetch req token now uuid st = Inr (ordr, st')"
  shows "map (\<lambda>it. (product_id it, quantity it)) (items ordr) = oc_items req
    \<and> all_orders (db st') = all_orders (db st) @ [ordr]"
proof -
  from assms obtain ui its sub where
    av: "list_all (line_available fetch) (oc_items req)" and
    b: "build_order_items (oc_items req) (map (reserve_one fetch) (oc_items req)) [] 0 = Some (its, sub)" and
    p: "persist_order ui req its sub now uuid st = (ordr, st')"
    by (auto simp: create_order_Inr)
  from build_order_items_Some [OF b] have wf: "list_all item_wf its"
    and pairs: "map (\<lambda>it. (product_id it, quantity it)) its
              = map fst (filter (\<lambda>lr. is_reserved (snd lr)) (zip (oc_items req) (map (reserve_one fetch) (oc_items req))))"
    by auto
  note pd = persist_order_db [OF p]
  from pd have i: "order_id ordr = next_order_id (db st)" and om: "orders (db st') = (orders (db st))(order_id ordr \<mapsto> ordr)"
    and nx: "next_order_id (db st') = Suc (next_order_id (db st))" by blast+
  from pd have o: "ordr = validate_order ((new_order_data ui req its sub ((oc_shipping_address req)\<lparr>address_id := next_address_id st\<rparr>)
          (generate_order_number now uuid) now)\<lparr>order_id := next_order_id (db st), created_at := now, updated_at := now\<rparr>)"
    by blast
  from om nx i have "all_orders (db st') = all_orders (db st) @ [ordr]"
    by (intro all_orders_insert) simp_all
  moreover have "items ordr = its" by (subst o) (simp add: validate_order_def new_order_data_def Let_def)
  ultimately show ?thesis using pairs av by (simp add: filter_all_reserved)
qed

lemma new_order_data_fields [simp]:
  "items (new_order_data ui req its sub addr onum now) = its"
  "subtotal (new_order_data ui req its sub addr onum now) = sub"
  "tax_amount (new_order_data ui req its sub addr onum now) = py_round2 (sub * tax_rate)"
  "shipping_cost (new_order_data ui req its sub addr onum now) = shipping_cost_for sub"
  "discount_amount (new_order_data ui req its sub addr onum now) = 0"
  "status (new_order_data ui req its sub addr onum now) = PENDING"
  "payment_status (new_order_data ui req its sub addr onum now) = PAY_PENDING"
  "user_id (new_order_data ui req its sub addr onum now) = ui_id ui"
  by (simp_all add: new_order_data_def Let_def)

lemma shipping_cost_for_cents [simp]: "is_cents (shipping_cost_for sub)"
  by (simp add: shipping_cost_for_def is_cents_def)

lemma shipping_cost_for_nonneg: "0 \<le> shipping_cost_for sub"
  by (simp add: shipping_cost_for_def)

lemma tax_nonneg: "0 \<le> sub \<Longrightarrow> 0 \<le> py_round2 (sub * tax_rate)"
  by (simp add: py_round2_nonneg tax_rate_def)

subsection \<open>Example inputs\<close>

text \<open>
  A signed-in customer, a catalogue with one product at 30.00 with five in stock, and a
  request for two of it, against an empty store with Kafka disabled.
\<close>

definition ex_user :: user_info where
  "ex_user = \<lparr>ui_id = ''u1'', ui_email = ''ann@example.com''\<rparr>"

definition ex_other :: user_info where
  "ex_other = \<lparr>ui_id = ''u2'', ui_email = ''bob@example.com''\<rparr>"

definition ex_verify :: token_verifier where
  "ex_verify t = (if t = ''tok'' then Some ex_user else if t = ''tok2'' then Some ex_other else None)"

definition ex_product_A :: product_info where
  "ex_product_A = \<lparr>p_name = ''Lamp'', p_description = ''A desk lamp'', p_price = 30,
     p_category_name = None, p_sku = Some ''LMP-1'', p_stock_quantity = 5, p_is_available = True,
     p_image_urls = []\<rparr>"

definition ex_fetch :: product_fetch where
  "ex_fetch pid = (if pid = ''A'' then Some ex_product_A else None)"

definition ex_address :: shipping_address where
  "ex_address = \<lparr>address_id = 0, full_name = ''Ann'', address_line_1 = ''1 Main St'', address_line_2 = None,
     city = ''Springfield'', addr_state = ''IL'', postal_code = ''62701'', country = ''US'', phone = None\<rparr>"

definition ex_request :: order_create where
  "ex_request = \<lparr>oc_items = [(''A'', 2)], oc_shipping_address = ex_address, oc_shipping_method = None,
     oc_payment_method = None, oc_notes = None\<rparr>"

definition ex_state :: order_service_state where
  "ex_state = \<lparr>db = empty_order_db, addresses = Map.empty, next_address_id = 0,
     kafka = KafkaProducer_init False False\<rparr>"

lemmas ex_defs = ex_user_def ex_other_def ex_verify_def ex_product_A_def ex_fetch_def ex_address_def ex_request_def ex_state_def

lemma ex_build:
  "build_order_items (oc_items ex_request) (map (reserve_one ex_fetch) (oc_items ex_request)) [] 0 =
     Some ([\<lparr>product_id = ''A'', product_name = ''Lamp'', product_sku = Some ''LMP-1'', unit_price = 30,
             quantity = 2, total_price = 60, product_snapshot = product_snapshot_of ex_product_A\<rparr>], 60)"
  by (simp add: ex_request_def ex_fetch_def reserve_one_def check_product_availability_def ex_product_A_def
      OrderItem_def calculate_total_price_def py_round2_def round_half_even_def)

subsection \<open>Properties of the order assembler\<close>

text \<open>
  C1. When \<open>create_order\<close> succeeds (and the product service's prices are positive, as
  its model requires), the persisted order has one line per requested line, in order;
  its subtotal is the sum of the line totals; the tax is the subtotal times 0.08 rounded
  to cents; shipping is 10.00 below a subtotal of 100 and free from 100 on; the total
  is subtotal plus tax plus shipping, which is also the spec's
  \<open>round(subtotal + 0.08 * subtotal + shipping, 2)\<close>; both statuses are pending; and
  the order is stored under its id.
\<close>

theorem create_order_totals:
  assumes ok: "create_order verify fetch req token now uuid st = Inr (ordr, st')"
    and pos: "prices_positive fetch"
  shows "map (\<lambda>it. (product_id it, quantity it)) (items ordr) = oc_items req
    \<and> subtotal ordr = sum_list (map total_price (items ordr))
    \<and> tax_amount ordr = py_round2 (subtotal ordr * 8 / 100)
    \<and> shipping_cost ordr = (if subtotal ordr < 100 then 10 else 0)
    \<and> total_amount ordr = subtotal ordr + tax_amount ordr + shipping_cost ordr
    \<and> total_amount ordr = py_round2 (subtotal ordr + subtotal ordr * 8 / 100 + shipping_cost ordr)
    \<and> status ordr = PENDING \<and> payment_status ordr = PAY_PENDING
    \<and> orders (db st') (order_id ordr) = Some ordr"
proof -
  from ok obtain ui its sub where
    av: "list_all (line_available fetch) (oc_items req)" and
    b: "build_order_items (oc_items req) (map (reserve_one fetch) (oc_items req)) [] 0 = Some (its, sub)" and
    p: "persist_order ui req its sub now uuid st = (ordr, st')"
    by (auto simp: create_order_Inr)
  from build_order_items_Some [OF b] have
    wf: "list_all item_wf its" and sub: "sub = sum_list (map total_price its)" and
    pairs: "map (\<lambda>it. (product_id it, quantity it)) its
              = map fst (filter (\<lambda>lr. is_reserved (snd lr)) (zip (oc_items req) (map (reserve_one fetch) (oc_items req))))" and
    prices: "\<forall>it \<in> set its. \<exists>r \<in> set (map (reserve_one fetch) (oc_items req)). is_reserved r \<and> unit_price it = p_price (res_product r)"
    by auto
  have nonneg: "0 \<le> sub"
    unfolding sub
  proof (rule sum_list_nonneg)
    fix x assume "x \<in> set (map total_price its)"
    then obtain it where it: "it \<in> set its" "x = total_price it" by auto
    from it(1) prices obtain r where "r \<in> set (map (reserve_one fetch) (oc_items req))"
      "is_reserved r" "unit_price it = p_price (res_product r)"
      by blast
    with pos have "0 < unit_price it" by (simp add: reserved_price_positive)
    with it wf show "0 \<le> x" by (auto simp: list_all_iff intro: item_total_nonneg)
  qed
  have cents: "is_cents sub"
    using wf by (simp add: sub is_cents_sum_list item_wf_cents list_all_iff)
  from persist_order_db [OF p] have
    stored: "orders (db st') (order_id ordr) = Some ordr" and
    o: "ordr = validate_order ((new_order_data ui req its sub ((oc_shipping_address req)\<lparr>address_id := next_address_id st\<rparr>)
          (generate_order_number now uuid) now)\<lparr>order_id := next_order_id (db st), created_at := now, updated_at := now\<rparr>)"
    by auto
  have items: "items ordr = its" and subt: "subtotal ordr = sub"
    using o wf by (simp_all add: sub calculate_subtotal_sum)
  have tax: "tax_amount ordr = py_round2 (sub * tax_rate)" and ship: "shipping_cost ordr = shipping_cost_for sub"
    and pend: "status ordr = PENDING" "payment_status ordr = PAY_PENDING"
    using o by simp_all
  have sum_nonneg: "0 \<le> sub + py_round2 (sub * tax_rate) + shipping_cost_for sub"
    using nonneg tax_nonneg [OF nonneg] shipping_cost_for_nonneg by (simp add: add_nonneg_nonneg)
  have total: "total_amount ordr = sub + py_round2 (sub * tax_rate) + shipping_cost_for sub"
    using o wf sum_nonneg cents
    by (simp add: sub calculate_subtotal_sum calculate_total_amount_def py_round2_idem is_cents_add)
  have spec_total: "py_round2 (sub + sub * tax_rate + shipping_cost_for sub) = sub + py_round2 (sub * tax_rate) + shipping_cost_for sub"
    using cents by (simp add: py_round2_tax_total)
  have tr: "\<And>x. x * 8 / 100 = x * tax_rate" by (simp add: tax_rate_def)
  show ?thesis
    unfolding tr
    using items subt tax ship pend total spec_total stored pairs av
    by (simp add: sub filter_all_reserved shipping_cost_for_def)
qed

theorem create_order_totals_witness:
  "\<exists>ordr st'. create_order ex_verify ex_fetch ex_request ''tok'' 1 ''abcdefgh'' ex_state = Inr (ordr, st')
     \<and> prices_positive ex_fetch
     \<and> map (\<lambda>it. (product_id it, quantity it)) (items ordr) = oc_items ex_request
     \<and> total_amount ordr = subtotal ordr + tax_amount ordr + shipping_cost ordr
     \<and> orders (db st') (order_id ordr) = Some ordr"
proof -
  have av: "list_all (line_available ex_fetch) (oc_items ex_request)"
    by (simp add: ex_request_def ex_fetch_def line_available_def ex_product_A_def)
  obtain ordr st' where eq: "create_order ex_verify ex_fetch ex_request ''tok'' 1 ''abcdefgh'' ex_state = Inr (ordr, st')"
    using av ex_build by (simp add: create_order_Inr ex_verify_def) (metis prod.collapse)
  have pos: "prices_positive ex_fetch"
    by (simp add: prices_positive_def ex_fetch_def ex_product_A_def)
  from create_order_totals [OF eq pos] eq pos show ?thesis by blast
qed

text \<open>
  The spec's worked example: two units of a product priced 30.00 give subtotal 60.00,
  tax 4.80, shipping 10.00 and total 74.80.
\<close>

theorem create_order_spec_example:
  "\<exists>ordr st'. create_order ex_verify ex_fetch ex_request ''tok'' 1 ''abcdefgh'' ex_state = Inr (ordr, st')
     \<and> subtotal ordr = 60 \<and> tax_amount ordr = 24/5 \<and> shipping_cost ordr = 10 \<and> total_amount ordr = 374/5"
proof -
  have av: "list_all (line_available ex_fetch) (oc_items ex_request)"
    by (simp add: ex_request_def ex_fetch_def line_available_def ex_product_A_def)
  let ?r = "persist_order ex_user ex_request [\<lparr>product_id = ''A'', product_name = ''Lamp'', product_sku = Some ''LMP-1'', unit_price = 30,
             quantity = 2, total_price = 60, product_snapshot = product_snapshot_of ex_product_A\<rparr>] 60 1 ''abcdefgh'' ex_state"
  have eq: "create_order ex_verify ex_fetch ex_request ''tok'' 1 ''abcdefgh'' ex_state = Inr ?r"
    using av ex_build by (simp add: create_order_Inr ex_verify_def)
  have "subtotal (fst ?r) = 60 \<and> tax_amount (fst ?r) = 24/5 \<and> shipping_cost (fst ?r) = 10 \<and> total_amount (fst ?r) = 374/5"
    by (simp add: persist_order_def repo_create_order_def validate_order_def new_order_data_def Let_def
        calculate_subtotal_def calculate_total_amount_def tax_rate_def shipping_cost_for_def py_round2_def round_half_even_def
        split: prod.splits)
  with eq show ?thesis by (metis prod.collapse)
qed

text \<open>
  C3. If any requested line fails the availability check, \<open>create_order\<close> raises
  400 with a detail that lists every failing line with its reason, and nothing is
  written: no address, no order, no event.
\<close>

theorem create_order_reservation_failure:
  "verify token = Some ui \<Longrightarrow> \<not> list_all (line_available fetch) (oc_items req) \<Longrightarrow>
     create_order verify fetch req token now uuid st =
       Inl (HTTPException 400 (reservation_error_detail (map (reserve_one fetch) (oc_items req))))"
  by (simp add: create_order_def res_success_iff reservations_reserve_products)

theorem create_order_reservation_failure_witness:
  "create_order ex_verify ex_fetch (ex_request\<lparr>oc_items := [(''A'', 9)]\<rparr>) ''tok'' 1 ''abcdefgh'' ex_state =
     Inl (HTTPException 400 ''Product reservation failed: Product A: Insufficient stock'')"
proof -
  have v: "ex_verify ''tok'' = Some ex_user" by (simp add: ex_verify_def)
  have na: "\<not> list_all (line_available ex_fetch) (oc_items (ex_request\<lparr>oc_items := [(''A'', 9)]\<rparr>))"
    by (simp add: ex_fetch_def line_available_def ex_product_A_def)
  show ?thesis
    using create_order_reservation_failure
            [where verify = ex_verify and token = "''tok''" and fetch = ex_fetch, OF v na,
             of 1 "''abcdefgh''" ex_state]
    by (simp add: reservation_error_detail_def reserve_one_def check_product_availability_def
                  ex_fetch_def ex_product_A_def)
qed

text \<open>An invalid or expired token fails \<open>create_order\<close> with 401 before anything else happens.\<close>

theorem create_order_unauthorized:
  "verify token = None \<Longrightarrow>
     create_order verify fetch req token now uuid st = Inl (HTTPException 401 ''Invalid or expired token'')"
  by (simp add: create_order_def)

theorem create_order_unauthorized_witness:
  "ex_verify ''expired'' = None \<and>
   create_order ex_verify ex_fetch ex_request ''expired'' 1 ''abcdefgh'' ex_state =
     Inl (HTTPException 401 ''Invalid or expired token'')"
proof -
  have v: "ex_verify ''expired'' = None" by (simp add: ex_verify_def)
  show ?thesis
    using v create_order_unauthorized [of ex_verify "''expired''" ex_fetch ex_request 1 "''abcdefgh''" ex_state]
    by simp
qed

text \<open>
  C4. For a body pydantic accepts, the 500 branch of \<open>create_order\<close> ("Failed to
  create order") is dead: once the token is verified and every line passes the
  availability check, the order is created.
\<close>

theorem create_order_validated_succeeds:
  assumes "OrderCreate_valid req" and "verify token = Some ui" and "list_all (line_available fetch) (oc_items req)"
  shows "\<exists>ordr st'. create_order verify fetch req token now uuid st = Inr (ordr, st')"
  using assms by (rule create_order_valid_Inr)

theorem create_order_validated_succeeds_witness:
  "\<exists>ordr st'. create_order ex_verify ex_fetch ex_request ''tok'' 1 ''abcdefgh'' ex_state = Inr (ordr, st')"
proof -
  have "OrderCreate_valid ex_request" by (simp add: OrderCreate_valid_def ex_request_def)
  moreover have "ex_verify ''tok'' = Some ex_user" by (simp add: ex_verify_def)
  moreover have "list_all (line_available ex_fetch) (oc_items ex_request)"
    by (simp add: ex_request_def ex_fetch_def line_available_def ex_product_A_def)
  ultimately show ?thesis by (rule create_order_validated_succeeds)
qed

end
