(* ===== verification/OrderLifecycle.thy ===== *)
theory OrderLifecycle
  imports OrderService
begin

text \<open>
  Properties of the lifecycle manager of \<open>src/order_service/app/services/order_service.py\<close>
  (\<open>update_order_status\<close>, \<open>update_payment_status\<close>, \<open>cancel_order\<close>) and of the
  paginated read \<open>get_user_orders\<close>. The first part characterises each handler's
  successful result exactly; the claims follow, each with a witness on a fixture store
  that holds one priced order.
\<close>

subsection \<open>Characterisation of the handlers\<close>

lemma update_order_status_Inr:
  "update_order_status oid s n now st = Inr (ordr', st') \<longleftrightarrow>
     (\<exists>ordr. orders (db st) oid = Some ordr
        \<and> ordr' = append_note n now (stamp_status s now (ordr\<lparr>status := s, updated_at := now\<rparr>))
        \<and> st' = st\<lparr>db := (db st)\<lparr>orders := (orders (db st))(oid \<mapsto> ordr')\<rparr>,
                   kafka := status_event s n ordr' (kafka st)\<rparr>)"
  by (auto simp: update_order_status_def repo_update_order_status_def Let_def split: option.splits)

lemma stamp_status_milestones:
  "confirmed_at (stamp_status s now ordr) = (if s = CONFIRMED \<and> confirmed_at ordr = None then Some now else confirmed_at ordr)"
  "shipped_at (stamp_status s now ordr) = (if s = SHIPPED \<and> shipped_at ordr = None then Some now else shipped_at ordr)"
  "delivered_at (stamp_status s now ordr) = (if s = DELIVERED \<and> delivered_at ordr = None then Some now else delivered_at ordr)"
  by (simp_all add: stamp_status_def)

lemma cancel_order_Inr:
  "cancel_order verify oid token now st = Inr (co, st') \<longleftrightarrow>
     (\<exists>ui ordr. verify token = Some ui \<and> orders (db st) oid = Some ordr \<and> user_id ordr = ui_id ui
        \<and> is_cancellable ordr
        \<and> co = append_note (Some cancel_reason) now (stamp_status CANCELLED now (ordr\<lparr>status := CANCELLED, updated_at := now\<rparr>))
        \<and> st' = st\<lparr>db := (db st)\<lparr>orders := (orders (db st))(oid \<mapsto> co)\<rparr>,
                   kafka := publish_order_cancelled_event
                     [(''id'', PStr (id_str (order_id co))), (''order_number'', PStr (order_number co)),
                      (''user_id'', PStr (user_id co)), (''user_email'', PStr (user_email co)),
                      (''total_amount'', PNum (total_amount co)),
                      (''cancellation_reason'', PStr cancel_reason),
                      (''updated_at'', PStr (isoformat (updated_at co)))] (kafka st)\<rparr>)"
  by (auto simp: cancel_order_def repo_get_order_by_id_def repo_update_order_status_def Let_def split: option.splits)

lemma append_note_Some:
  "t \<noteq> [] \<Longrightarrow> order_notes (append_note (Some t) now ordr) =
     Some ((if py_truthy (order_notes ordr) then the (order_notes ordr) @ [newline] else []) @ note_line now t)"
  by (simp add: append_note_def)

lemma update_payment_status_Inr:
  "update_payment_status oid ps pm txn now st = Inr (ordr', st') \<longleftrightarrow>
     (\<exists>ordr. orders (db st) oid = Some ordr
        \<and> (let o1 = ordr\<lparr>payment_status := ps, updated_at := now\<rparr>;
               o2 = (if py_truthy txn then o1\<lparr>payment_transaction_id := txn\<rparr> else o1);
               db1 = (db st)\<lparr>orders := (orders (db st))(oid \<mapsto> o2)\<rparr>
           in ordr' = (if py_truthy pm then o2\<lparr>payment_method := pm\<rparr> else o2)
              \<and> st' = st\<lparr>db := (if py_truthy pm then repo_save ordr' db1 else db1),
                         kafka := payment_event ps ordr' (kafka st)\<rparr>))"
  by (auto simp: update_payment_status_def repo_update_payment_status_def Let_def split: option.splits)

text \<open>The event name each target status publishes, if any.\<close>

definition status_event_name :: "OrderStatus \<Rightarrow> string option" where
  "status_event_name s =
     (if s = CONFIRMED then Some ORDER_CONFIRMED else if s = CANCELLED then Some ORDER_CANCELLED
      else if s = SHIPPED then Some ORDER_SHIPPED else if s = DELIVERED then Some ORDER_DELIVERED else None)"


subsection \<open>A fixture store\<close>

text \<open>The order that the assembler's example produces, stored under id 0 with a given status.\<close>

definition ex_item :: order_item where
  "ex_item = \<lparr>product_id = ''A'', product_name = ''Lamp'', product_sku = Some ''LMP-1'', unit_price = 30,
     quantity = 2, total_price = 60, product_snapshot = product_snapshot_of ex_product_A\<rparr>"

definition ex_order :: "OrderStatus \<Rightarrow> order" where
  "ex_order s = \<lparr>order_id = 0, order_number = ''ORD-1-ABCDEFGH'', user_id = ''u1'', user_email = ''ann@example.com'',
     items = [ex_item], subtotal = 60, tax_amount = 24/5, shipping_cost = 10, discount_amount = 0,
     total_amount = 374/5, status = s, payment_status = PAY_PENDING, shipping_address = ex_address,
     shipping_method = None, tracking_number = None, payment_method = None, payment_transaction_id = None,
     created_at = 1, updated_at = 1, confirmed_at = None, shipped_at = None, delivered_at = None,
     order_notes = None, metadata = []\<rparr>"

definition ex_store :: "order \<Rightarrow> order_service_state" where
  "ex_store ordr = ex_state\<lparr>db := \<lparr>orders = [0 \<mapsto> ordr], next_order_id = 1\<rparr>\<rparr>"

lemma ex_store_lookup [simp]: "orders (db (ex_store ordr)) 0 = Some ordr"
  by (simp add: ex_store_def)

lemma ex_order_wf: "order_wf (ex_order s)"
  by (simp add: order_wf_def item_wf_def ex_order_def ex_item_def calculate_total_amount_def
                py_round2_def round_half_even_def)

lemma ex_store_db_inv: "db_inv (db (ex_store (ex_order s)))"
  using ex_order_wf by (simp add: db_inv_def ex_store_def ex_order_def)

subsection \<open>Properties of the lifecycle manager\<close>

text \<open>
  C5. Cancelling an order that is shipped, delivered, cancelled or refunded is refused
  with 400, whoever owns it, and nothing changes.
\<close>

theorem cancel_order_not_cancellable:
  "verify token = Some ui \<Longrightarrow> orders (db st) oid = Some ordr \<Longrightarrow> user_id ordr = ui_id ui \<Longrightarrow>
     status ordr \<in> {SHIPPED, DELIVERED, CANCELLED, REFUNDED} \<Longrightarrow>
     cancel_order verify oid token now st =
       Inl (HTTPException 400 (''Order cannot be cancelled in '' @ status_value (status ordr) @ '' status''))"
  by (auto simp: cancel_order_def repo_get_order_by_id_def is_cancellable_def)

theorem cancel_order_not_cancellable_witness:
  "cancel_order ex_verify 0 ''tok'' 5 (ex_store (ex_order SHIPPED)) =
     Inl (HTTPException 400 ''Order cannot be cancelled in shipped status'')"
  using cancel_order_not_cancellable [of ex_verify "''tok''" ex_user "ex_store (ex_order SHIPPED)" 0 "ex_order SHIPPED" 5]
  by (simp add: ex_verify_def ex_order_def ex_user_def)

text \<open>
  C6. The owner cancelling a pending, confirmed or processing order succeeds: the stored
  order becomes cancelled, gains the note line "Cancelled by customer" with the time
  stamp, keeps its items and total, and exactly one event is sent when the producer
  delivers (none otherwise).
\<close>

theorem cancel_order_cancellable:
  assumes "verify token = Some ui" "orders (db st) oid = Some ordr" "user_id ordr = ui_id ui"
    "status ordr \<in> {PENDING, CONFIRMED, PROCESSING}"
  shows "\<exists>co st'. cancel_order verify oid token now st = Inr (co, st')
    \<and> status co = CANCELLED \<and> orders (db st') oid = Some co
    \<and> (\<exists>prev. order_notes co = Some (prev @ isoformat now @ '': Cancelled by customer''))
    \<and> items co = items ordr \<and> total_amount co = total_amount ordr
    \<and> length (sent (kafka st')) = length (sent (kafka st)) + (if delivers (kafka st) then 1 else 0)"
proof -
  have c: "is_cancellable ordr" using assms(4) by (auto simp: is_cancellable_def)
  let ?co = "append_note (Some cancel_reason) now (stamp_status CANCELLED now (ordr\<lparr>status := CANCELLED, updated_at := now\<rparr>))"
  have nts: "\<exists>prev. order_notes ?co = Some (prev @ isoformat now @ '': Cancelled by customer'')"
    by (simp add: append_note_Some cancel_reason_def note_line_def)
  show ?thesis
    using assms c nts
    by (auto simp: cancel_order_Inr publish_defs sent_send_event)
qed

theorem cancel_order_cancellable_witness:
  "\<exists>co st'. cancel_order ex_verify 0 ''tok'' 5 (ex_store (ex_order PROCESSING)) = Inr (co, st')
     \<and> status co = CANCELLED \<and> orders (db st') 0 = Some co"
  using cancel_order_cancellable [of ex_verify "''tok''" ex_user "ex_store (ex_order PROCESSING)" 0
          "ex_order PROCESSING" 5]
  by (auto simp: ex_verify_def ex_order_def ex_user_def)

text \<open>
  C7. A status update stamps \<open>confirmed_at\<close>, \<open>shipped_at\<close> and \<open>delivered_at\<close>
  only on the first entry into the status; entering it again keeps the first stamp.
\<close>

theorem update_order_status_milestones:
  assumes "orders (db st) oid = Some ordr" "update_order_status oid s n now st = Inr (ordr', st')"
  shows "confirmed_at ordr' = (if s = CONFIRMED \<and> confirmed_at ordr = None then Some now else confirmed_at ordr)
    \<and> shipped_at ordr' = (if s = SHIPPED \<and> shipped_at ordr = None then Some now else shipped_at ordr)
    \<and> delivered_at ordr' = (if s = DELIVERED \<and> delivered_at ordr = None then Some now else delivered_at ordr)"
  using assms by (auto simp: update_order_status_Inr stamp_status_milestones)

theorem update_order_status_milestones_witness:
  "\<exists>o1 st1 o2 st2. update_order_status 0 CONFIRMED None 3 (ex_store (ex_order PENDING)) = Inr (o1, st1)
     \<and> update_order_status 0 CONFIRMED None 7 st1 = Inr (o2, st2)
     \<and> confirmed_at o1 = Some 3 \<and> confirmed_at o2 = Some 3"
proof -
  obtain o1 st1 where u1: "update_order_status 0 CONFIRMED None 3 (ex_store (ex_order PENDING)) = Inr (o1, st1)"
    by (simp add: update_order_status_Inr)
  have c1: "confirmed_at o1 = Some 3"
    using update_order_status_milestones [OF ex_store_lookup u1] by (simp add: ex_order_def)
  have l1: "orders (db st1) 0 = Some o1" using u1 by (auto simp: update_order_status_Inr)
  obtain o2 st2 where u2: "update_order_status 0 CONFIRMED None 7 st1 = Inr (o2, st2)"
    using l1 by (simp add: update_order_status_Inr)
  have "confirmed_at o2 = Some 3"
    using update_order_status_milestones [OF l1 u2] c1 by simp
  with u1 u2 c1 show ?thesis by blast
qed

text \<open>
  C8. The lifecycle manager enforces no transition graph: any existing order can be
  moved to any status, and the update touches no other order.
\<close>

theorem update_order_status_any_status:
  "orders (db st) oid = Some ordr \<Longrightarrow>
     \<exists>ordr' st'. update_order_status oid s n now st = Inr (ordr', st')
       \<and> status ordr' = s \<and> orders (db st') oid = Some ordr'
       \<and> (\<forall>oid'. oid' \<noteq> oid \<longrightarrow> orders (db st') oid' = orders (db st) oid')"
  by (simp add: update_order_status_Inr)

theorem update_order_status_any_status_witness:
  "\<exists>ordr' st'. update_order_status 0 PENDING None 9 (ex_store (ex_order DELIVERED)) = Inr (ordr', st')
     \<and> status ordr' = PENDING \<and> orders (db st') 0 = Some ordr'"
  using update_order_status_any_status [OF ex_store_lookup, of PENDING None 9] by blast

text \<open>A signed-in caller who does not own the order cannot cancel it: 403.\<close>

theorem cancel_order_forbidden:
  "verify token = Some ui \<Longrightarrow> orders (db st) oid = Some ordr \<Longrightarrow> user_id ordr \<noteq> ui_id ui \<Longrightarrow>
     cancel_order verify oid token now st = Inl (HTTPException 403 ''Access denied'')"
  by (simp add: cancel_order_def repo_get_order_by_id_def)

theorem cancel_order_forbidden_witness:
  "cancel_order ex_verify 0 ''tok2'' 5 (ex_store (ex_order PENDING)) = Inl (HTTPException 403 ''Access denied'')"
  using cancel_order_forbidden [of ex_verify "''tok2''" ex_other "ex_store (ex_order PENDING)" 0 "ex_order PENDING" 5]
  by (simp add: ex_verify_def ex_order_def ex_other_def)

text \<open>A status update for an id with no order fails with 404.\<close>

theorem update_order_status_not_found:
  "orders (db st) oid = None \<Longrightarrow> update_order_status oid s n now st = Inl (HTTPException 404 ''Order not found'')"
  by (simp add: update_order_status_def repo_update_order_status_def)

theorem update_order_status_not_found_witness:
  "update_order_status 4 SHIPPED None 9 (ex_store (ex_order PENDING)) = Inl (HTTPException 404 ''Order not found'')"
  using update_order_status_not_found [of "ex_store (ex_order PENDING)" 4 SHIPPED None 9]
  by (simp add: ex_store_def)

text \<open>
  Payment status is independent of order status: a payment update sets the payment
  status, the transaction id and method when given (non-empty), and leaves the order
  status, the items and the total as they were.
\<close>

theorem update_payment_status_independent:
  assumes "db_inv (db st)" "orders (db st) oid = Some ordr"
    "update_payment_status oid ps pm txn now st = Inr (ordr', st')"
  shows "payment_status ordr' = ps \<and> status ordr' = status ordr \<and> items ordr' = items ordr
    \<and> total_amount ordr' = total_amount ordr
    \<and> payment_method ordr' = (if py_truthy pm then pm else payment_method ordr)
    \<and> payment_transaction_id ordr' = (if py_truthy txn then txn else payment_transaction_id ordr)
    \<and> orders (db st') oid = Some ordr'"
proof -
  from assms(1,2) have "order_id ordr = oid" by (simp add: db_inv_stored)
  with assms(2,3) show ?thesis
    by (auto simp: update_payment_status_Inr Let_def repo_save_def)
qed

theorem update_payment_status_independent_witness:
  "\<exists>ordr' st'. update_payment_status 0 PAID (Some ''card'') (Some ''tx-1'') 4 (ex_store (ex_order SHIPPED)) = Inr (ordr', st')
     \<and> payment_status ordr' = PAID \<and> status ordr' = SHIPPED \<and> orders (db st') 0 = Some ordr'"
proof -
  obtain ordr' st' where u: "update_payment_status 0 PAID (Some ''card'') (Some ''tx-1'') 4 (ex_store (ex_order SHIPPED)) = Inr (ordr', st')"
    by (simp add: update_payment_status_Inr Let_def)
  from update_payment_status_independent [OF ex_store_db_inv ex_store_lookup u] u show ?thesis
    by (auto simp: ex_order_def)
qed

text \<open>
  C9. After a successful status update, exactly one event is sent for confirmed,
  cancelled and delivered (when the producer delivers), carrying the
  status-specific event type and the order id, and none for the other statuses.
  For shipped no event is ever sent: the payload holds \<open>shipping_address.dict()\<close>,
  whose \<open>id\<close> is the ObjectId of the inserted address, \<open>json.dumps\<close> raises, and
  \<open>send_event\<close> swallows the error.
\<close>

theorem update_order_status_events:
  assumes "update_order_status oid s n now st = Inr (ordr', st')"
  shows "(case status_event_name s of
            None \<Rightarrow> sent (kafka st') = sent (kafka st)
          | Some ev \<Rightarrow>
              if s = SHIPPED then sent (kafka st') = sent (kafka st)
              else (\<exists>d. sent (kafka st') = sent (kafka st) @
                     (if delivers (kafka st) then [(''order-events'', enrich_event ''order-service'' ''order-events'' d,
                                                   PStr (id_str (order_id ordr')))] else [])
                   \<and> dict_get d ''event_type'' PNone = PStr ev
                   \<and> dict_get d ''order_id'' PNone = PStr (id_str (order_id ordr'))))"
  using assms
  by (auto simp: update_order_status_Inr status_event_def status_event_name_def publish_defs
                 sent_send_event status_event_base_def order_event_names address_json_def)

theorem update_order_status_events_witness:
  "\<exists>ordr' st'. update_order_status 0 SHIPPED None 9 ((ex_store (ex_order CONFIRMED))\<lparr>kafka := ex_live_producer\<rparr>) = Inr (ordr', st')
     \<and> delivers (kafka ((ex_store (ex_order CONFIRMED))\<lparr>kafka := ex_live_producer\<rparr>))
     \<and> sent (kafka st') = []"
proof -
  obtain ordr' st' where u: "update_order_status 0 SHIPPED None 9 ((ex_store (ex_order CONFIRMED))\<lparr>kafka := ex_live_producer\<rparr>) = Inr (ordr', st')"
    by (simp add: update_order_status_Inr)
  from update_order_status_events [OF u] u show ?thesis
    by (auto simp: status_event_name_def ex_live_producer_def delivers_def)
qed

subsection \<open>Reads\<close>

text \<open>
  \<open>get_user_orders\<close> changes nothing, returns at most \<open>per_page\<close> orders, all
  of them the caller's, and its page count is the ceiling of total over page size.
\<close>

theorem get_user_orders_page:
  assumes "verify token = Some ui" "0 < per_page"
    "get_user_orders verify token sf page per_page st = Inr (r, st')"
  shows "st' = st \<and> length (ol_orders r) \<le> per_page
    \<and> (\<forall>ordr \<in> set (ol_orders r). user_id ordr = ui_id ui)
    \<and> ol_total r \<le> ol_total_pages r * per_page \<and> ol_total_pages r * per_page < ol_total r + per_page"
proof -
  have "set (ol_orders r) \<subseteq> {ordr. user_id ordr = ui_id ui}"
    using assms(1,3) set_page_of
    by (fastforce simp: get_user_orders_def repo_get_orders_by_user_def Let_def newest_first_def)
  then show ?thesis
    using assms ceil_div_bounds [OF assms(2)] length_page_of
    by (auto simp: get_user_orders_def repo_get_orders_by_user_def Let_def)
qed

theorem get_user_orders_page_witness:
  "\<exists>r st'. get_user_orders ex_verify ''tok'' None 1 20 (ex_store (ex_order PENDING)) = Inr (r, st')
     \<and> st' = ex_store (ex_order PENDING) \<and> length (ol_orders r) \<le> 20"
proof -
  obtain r st' where g: "get_user_orders ex_verify ''tok'' None 1 20 (ex_store (ex_order PENDING)) = Inr (r, st')"
    by (simp add: get_user_orders_def ex_verify_def Let_def)
  have v: "ex_verify ''tok'' = Some ex_user" by (simp add: ex_verify_def)
  from get_user_orders_page [OF v _ g] g show ?thesis by auto
qed

end
