(* ===== verification/OrderController.thy ===== *)
theory OrderController
  imports OrderService
begin

text \<open>
  The HTTP layer of the order service, \<open>src/order_service/app/controllers/order_controller.py\<close>.
  The user endpoints take the bearer token from the \<open>Authorization\<close> header with
  \<open>get_auth_token\<close>; the admin endpoints take none. Path ids are strings: the
  repository's \<open>Order.get(order_id)\<close> finds nothing for a string that is not an id,
  which is the service's answer for an id with no stored order (the lemmas
  \<open>*_absent\<close> below show that the handlers answer an absent id so). Query ranges
  (\<open>page \<ge> 1\<close>, \<open>1 \<le> per_page \<le> 100\<close>) are checked by FastAPI before the endpoint
  runs.
\<close>

subsection \<open>The bearer token\<close>

definition get_auth_token :: "string \<Rightarrow> http_exception + string" where
  "get_auth_token authorization =
     (if take 7 authorization = ''Bearer '' then Inr (py_split CHR '' '' authorization ! 1)
      else Inl (HTTPException 401 ''Invalid authorization header format''))"

definition with_token :: "string \<Rightarrow> (string \<Rightarrow> 'a response) \<Rightarrow> 'a response" where
  "with_token authorization k = (case get_auth_token authorization of Inl ex \<Rightarrow> Inl ex | Inr tok \<Rightarrow> k tok)"

subsection \<open>Ids that are not ids\<close>

text \<open>The service's answer for an order that is not there, with and without a caller to verify.\<close>

definition unknown_order :: "token_verifier \<Rightarrow> string \<Rightarrow> 'a response" where
  "unknown_order verify token =
     (case verify token of None \<Rightarrow> Inl (HTTPException 401 ''Invalid or expired token'')
      | Some _ \<Rightarrow> Inl (HTTPException 404 ''Order not found''))"

definition order_not_found :: "'a response" where
  "order_not_found = Inl (HTTPException 404 ''Order not found'')"

subsection \<open>Endpoints\<close>

definition api_create_order ::
  "token_verifier \<Rightarrow> product_fetch \<Rightarrow> order_create \<Rightarrow> string \<Rightarrow> timestamp \<Rightarrow> string \<Rightarrow> order_service_state \<Rightarrow> order response" where
  "api_create_order verify fetch req authorization now uuid st =
     with_token authorization (\<lambda>tok. create_order verify fetch req tok now uuid st)"

definition api_get_user_orders ::
  "token_verifier \<Rightarrow> OrderStatus option \<Rightarrow> nat \<Rightarrow> nat \<Rightarrow> string \<Rightarrow> order_service_state \<Rightarrow> order_list_response response" where
  "api_get_user_orders verify sf page per_page authorization st =
     with_token authorization (\<lambda>tok. get_user_orders verify tok sf page per_page st)"

definition api_get_order :: "token_verifier \<Rightarrow> string \<Rightarrow> string \<Rightarrow> order_service_state \<Rightarrow> order response" where
  "api_get_order verify s authorization st =
     with_token authorization (\<lambda>tok.
       case parse_id s of Some oid \<Rightarrow> get_order_by_id verify oid tok st | None \<Rightarrow> unknown_order verify tok)"

definition api_cancel_order ::
  "token_verifier \<Rightarrow> string \<Rightarrow> string \<Rightarrow> timestamp \<Rightarrow> order_service_state \<Rightarrow> order response" where
  "api_cancel_order verify s authorization now st =
     with_token authorization (\<lambda>tok.
       case parse_id s of Some oid \<Rightarrow> cancel_order verify oid tok now st | None \<Rightarrow> unknown_order verify tok)"

definition api_update_order_status ::
  "string \<Rightarrow> OrderStatus \<Rightarrow> string option \<Rightarrow> timestamp \<Rightarrow> order_service_state \<Rightarrow> order response" where
  "api_update_order_status s status_upd notes now st =
     (case parse_id s of Some oid \<Rightarrow> update_order_status oid status_upd notes now st | None \<Rightarrow> order_not_found)"

definition api_update_payment_status ::
  "string \<Rightarrow> PaymentStatus \<Rightarrow> string option \<Rightarrow> string option \<Rightarrow> timestamp \<Rightarrow> order_service_state \<Rightarrow> order response" where
  "api_update_payment_status s ps pm txn now st =
     (case parse_id s of Some oid \<Rightarrow> update_payment_status oid ps pm txn now st | None \<Rightarrow> order_not_found)"

text \<open>\<open>GET /admin/all\<close>: the repository's filtered page and count, with its own page arithmetic.\<close>

definition api_get_all_orders ::
  "OrderStatus option \<Rightarrow> PaymentStatus option \<Rightarrow> string option \<Rightarrow> nat \<Rightarrow> nat \<Rightarrow> order_service_state \<Rightarrow> order_list_response" where
  "api_get_all_orders sf pf uid page per_page st =
     (let offset = (page - 1) * per_page;
          os = repo_get_orders sf pf uid per_page offset (db st);
          total = repo_count_orders sf pf uid (db st);
          total_pages = (total + per_page - 1) div per_page
      in \<lparr>ol_orders = os, ol_total = total, ol_page = page, ol_per_page = per_page, ol_total_pages = total_pages\<rparr>)"

record status_options =
  order_statuses :: "string list"
  payment_statuses :: "string list"

definition get_status_options :: status_options where
  "get_status_options =
     \<lparr>order_statuses = map status_value [PENDING, CONFIRMED, PROCESSING, SHIPPED, DELIVERED, CANCELLED, REFUNDED],
      payment_statuses = map payment_status_value [PAY_PENDING, PAID, FAILED, PAY_REFUNDED]\<rparr>"

subsection \<open>An id that is not stored\<close>

lemma get_order_by_id_absent:
  "orders (db st) oid = None \<Longrightarrow> get_order_by_id verify oid token st = unknown_order verify token"
  by (simp add: get_order_by_id_def unknown_order_def repo_get_order_by_id_def split: option.splits)

lemma cancel_order_absent:
  "orders (db st) oid = None \<Longrightarrow> cancel_order verify oid token now st = unknown_order verify token"
  by (simp add: cancel_order_def unknown_order_def repo_get_order_by_id_def split: option.splits)

lemma update_order_status_absent:
  "orders (db st) oid = None \<Longrightarrow> update_order_status oid s n now st = order_not_found"
  by (simp add: update_order_status_def repo_update_order_status_def order_not_found_def)

lemma update_payment_status_absent:
  "orders (db st) oid = None \<Longrightarrow> update_payment_status oid ps pm txn now st = order_not_found"
  by (simp add: update_payment_status_def repo_update_payment_status_def order_not_found_def)

subsection \<open>Properties of the controller\<close>

text \<open>
  The bearer header round-trips: a header \<open>Bearer\<close>, a space and a token
  without spaces yields exactly that token, and a header that does not start with
  \<open>Bearer \<close> is refused with 401 before any service is asked.
\<close>

theorem get_auth_token_bearer:
  "(CHR '' '' \<notin> set t \<longrightarrow> get_auth_token (''Bearer '' @ t) = Inr t)
   \<and> (take 7 h \<noteq> ''Bearer '' \<longrightarrow> get_auth_token h = Inl (HTTPException 401 ''Invalid authorization header format''))"
proof -
  have "py_split CHR '' '' (''Bearer'' @ CHR '' '' # t) = ''Bearer'' # py_split CHR '' '' t"
    by (rule py_split_append_sep) simp
  then have "CHR '' '' \<notin> set t \<Longrightarrow> py_split CHR '' '' (''Bearer '' @ t) = [''Bearer'', t]"
    by (simp add: py_split_no_sep)
  then show ?thesis by (simp add: get_auth_token_def)
qed

theorem get_auth_token_bearer_witness:
  "get_auth_token ''Bearer abc'' = Inr ''abc''
   \<and> get_auth_token ''Token abc'' = Inl (HTTPException 401 ''Invalid authorization header format'')"
  using get_auth_token_bearer [of "''abc''" "''Token abc''"] by simp

text \<open>
  C37. The admin listing returns at most \<open>per_page\<close> orders, all matching the
  filters, and its page count covers the total with less than one page to spare.
\<close>

theorem api_get_all_orders_page:
  assumes "0 < per_page" and "r = api_get_all_orders sf pf uid page per_page st"
  shows "length (ol_orders r) \<le> per_page \<and> (\<forall>ordr\<in>set (ol_orders r). order_matches sf pf uid ordr)
    \<and> ol_total r \<le> ol_total_pages r * per_page \<and> ol_total_pages r * per_page < ol_total r + per_page"
proof -
  have "set (repo_get_orders sf pf uid per_page ((page - 1) * per_page) (db st)) \<subseteq> {ordr. order_matches sf pf uid ordr}"
    using set_page_of by (fastforce simp: repo_get_orders_def newest_first_def)
  then show ?thesis
    using assms ceil_div_bounds [OF assms(1)]
    by (auto simp: api_get_all_orders_def Let_def repo_get_orders_def length_page_of)
qed

theorem api_get_all_orders_page_witness:
  "length (ol_orders (api_get_all_orders None None None 1 50 ex_state)) \<le> 50
   \<and> ol_total_pages (api_get_all_orders None None None 1 50 ex_state) = 0"
  using api_get_all_orders_page [of 50 _ None None None 1 ex_state]
  by (simp add: api_get_all_orders_def repo_count_orders_def all_orders_def ex_state_def empty_order_db_def)

end
