(* ===== verification/OrderStats.thy ===== *)
theory OrderStats
  imports OrderController
begin

text \<open>
  The admin statistics of the order service: \<open>OrderRepository.get_order_stats\<close>
  (\<open>src/order_service/app/repositories/order_repository.py\<close>) and the endpoint
  \<open>GET /admin/stats\<close> that returns it. The aggregation groups the orders by status,
  one group per status that occurs, with the number of orders and the sum of their
  totals; the loop over the groups fills the statistics.
\<close>

record order_stats =
  total_orders :: nat
  pending_orders :: nat
  confirmed_orders :: nat
  processing_orders :: nat
  shipped_orders :: nat
  delivered_orders :: nat
  cancelled_orders :: nat
  total_revenue :: money
  average_order_value :: money

definition empty_order_stats :: order_stats where
  "empty_order_stats =
     \<lparr>total_orders = 0, pending_orders = 0, confirmed_orders = 0, processing_orders = 0, shipped_orders = 0,
      delivered_orders = 0, cancelled_orders = 0, total_revenue = 0, average_order_value = 0\<rparr>"

text \<open>The \<open>$group\<close> stage: one item per status present, with its count and summed total.\<close>

definition status_groups :: "order list \<Rightarrow> (OrderStatus \<times> nat \<times> money) list" where
  "status_groups os =
     map (\<lambda>s. (s, length (filter (\<lambda>o'. status o' = s) os), sum_list (map total_amount (filter (\<lambda>o'. status o' = s) os))))
       (remdups (map status os))"

text \<open>The \<open>for item in result\<close> loop.\<close>

fun stats_loop :: "(OrderStatus \<times> nat \<times> money) list \<Rightarrow> order_stats \<Rightarrow> order_stats" where
  "stats_loop [] st = st"
| "stats_loop ((s, c, amt) # grps) st =
     stats_loop grps
       (let st1 = st\<lparr>total_orders := total_orders st + c\<rparr>
        in if s = PENDING then st1\<lparr>pending_orders := c\<rparr>
           else if s = CONFIRMED then st1\<lparr>confirmed_orders := c\<rparr>
           else if s = PROCESSING then st1\<lparr>processing_orders := c\<rparr>
           else if s = SHIPPED then st1\<lparr>shipped_orders := c\<rparr>
           else if s = DELIVERED then st1\<lparr>delivered_orders := c, total_revenue := total_revenue st1 + amt\<rparr>
           else if s = CANCELLED then st1\<lparr>cancelled_orders := c\<rparr>
           else st1)"

definition repo_get_order_stats :: "order_db \<Rightarrow> order_stats" where
  "repo_get_order_stats odb =
     (let os = all_orders odb;
          st = stats_loop (status_groups os) empty_order_stats
      in if 0 < total_orders st
         then st\<lparr>average_order_value := py_round2 (sum_list (map total_amount os) / of_nat (total_orders st))\<rparr>
         else st)"

definition api_get_order_stats :: "order_service_state \<Rightarrow> order_stats" where
  "api_get_order_stats st = repo_get_order_stats (db st)"

subsection \<open>What the loop computes\<close>

definition count_status :: "OrderStatus \<Rightarrow> order list \<Rightarrow> nat" where
  "count_status s os = length (filter (\<lambda>o'. status o' = s) os)"

text \<open>The counter field a status fills, \<open>0\<close> for refunded, which has none.\<close>

primrec stat_field :: "OrderStatus \<Rightarrow> order_stats \<Rightarrow> nat" where
  "stat_field PENDING st = pending_orders st"
| "stat_field CONFIRMED st = confirmed_orders st"
| "stat_field PROCESSING st = processing_orders st"
| "stat_field SHIPPED st = shipped_orders st"
| "stat_field DELIVERED st = delivered_orders st"
| "stat_field CANCELLED st = cancelled_orders st"
| "stat_field REFUNDED st = 0"

lemma stats_loop_total:
  "total_orders (stats_loop grps st) = total_orders st + sum_list (map (fst \<circ> snd) grps)"
  by (induction grps arbitrary: st) (auto simp: Let_def)

lemma stats_loop_field:
  "stat_field s (stats_loop grps st) =
     (case map_of (rev grps) s of None \<Rightarrow> stat_field s st | Some (c, _) \<Rightarrow> if s = REFUNDED then 0 else c)"
proof (induction grps arbitrary: st)
  case (Cons it grps)
  obtain s' c a where it: "it = (s', c, a)" by (cases it) auto
  show ?case
    using Cons[of "_"] by (cases s; cases s') (auto simp: it Let_def map_of_append split: option.splits)
qed (cases s; simp)

lemma stats_loop_revenue:
  "total_revenue (stats_loop grps st) =
     total_revenue st + sum_list (map (snd \<circ> snd) (filter (\<lambda>i. fst i = DELIVERED) grps))"
  by (induction grps arbitrary: st) (auto simp: Let_def)

lemma sum_list_indicator:
  "distinct L \<Longrightarrow> x \<in> set L \<Longrightarrow> sum_list (map (\<lambda>s. if x = s then 1 else 0) L) = (1::nat)"
  by (simp add: sum_list_distinct_conv_sum_set)

lemma sum_count_status:
  "distinct L \<Longrightarrow> set (map status os) \<subseteq> set L \<Longrightarrow> sum_list (map (\<lambda>s. count_status s os) L) = length os"
proof (induction os)
  case (Cons x os)
  have c: "count_status s (x # os) = (if status x = s then 1 else 0) + count_status s os" for s
    by (simp add: count_status_def)
  have "sum_list (map (\<lambda>s. count_status s (x # os)) L)
      = sum_list (map (\<lambda>s. if status x = s then 1 else 0) L) + sum_list (map (\<lambda>s. count_status s os) L)"
    by (simp only: c sum_list_addf)
  with Cons show ?case by (simp add: sum_list_indicator)
qed (simp add: count_status_def)

lemma map_of_rev_status_groups:
  "map_of (rev (status_groups os)) s =
     (if s \<in> set (map status os) then Some (count_status s os, sum_list (map total_amount (filter (\<lambda>o'. status o' = s) os)))
      else None)"
proof -
  have "distinct (map fst (rev (status_groups os)))"
    by (simp add: status_groups_def map_map comp_def flip: rev_map)
  then show ?thesis
    by (auto simp: status_groups_def count_status_def map_of_eq_None_iff intro!: map_of_is_SomeI)
qed

lemma stat_field_groups:
  "s \<noteq> REFUNDED \<Longrightarrow> stat_field s (stats_loop (status_groups os) empty_order_stats) = count_status s os"
proof -
  assume r: "s \<noteq> REFUNDED"
  have "stat_field s (stats_loop (status_groups os) empty_order_stats)
      = (case map_of (rev (status_groups os)) s of None \<Rightarrow> stat_field s empty_order_stats
         | Some (c, _) \<Rightarrow> if s = REFUNDED then 0 else c)"
    by (rule stats_loop_field)
  with r show ?thesis
    by (cases s) (auto simp: map_of_rev_status_groups empty_order_stats_def count_status_def filter_empty_conv image_iff)
qed

lemma total_groups: "total_orders (stats_loop (status_groups os) empty_order_stats) = length os"
  using sum_count_status [of "remdups (map status os)" os]
  by (simp add: stats_loop_total status_groups_def empty_order_stats_def comp_def count_status_def)

lemma filter_eq_remdups: "filter (\<lambda>s. s = a) (remdups xs) = (if a \<in> set xs then [a] else [])"
  by (induction xs) auto

lemma revenue_groups:
  "total_revenue (stats_loop (status_groups os) empty_order_stats)
     = sum_list (map total_amount (filter (\<lambda>o'. status o' = DELIVERED) os))"
proof -
  have "filter (\<lambda>i. fst i = DELIVERED) (status_groups os)
      = map (\<lambda>s. (s, length (filter (\<lambda>o'. status o' = s) os), sum_list (map total_amount (filter (\<lambda>o'. status o' = s) os))))
          (filter (\<lambda>s. s = DELIVERED) (remdups (map status os)))"
    by (simp add: status_groups_def filter_map comp_def)
  moreover have "DELIVERED \<notin> status ` set os \<Longrightarrow> filter (\<lambda>o'. status o' = DELIVERED) os = []"
    by (force simp: filter_empty_conv)
  ultimately show ?thesis
    by (cases "DELIVERED \<in> status ` set os") (simp_all add: stats_loop_revenue empty_order_stats_def filter_eq_remdups)
qed

text \<open>
  C39. The admin statistics count every order once in \<open>total_orders\<close> and each
  status in its own field, but refunded orders have no field, so the per-status
  counts add up to the total only up to the refunded orders; \<open>total_revenue\<close> sums
  the totals of delivered orders only.
\<close>

theorem order_stats_counts:
  "total_orders (api_get_order_stats st) = length (all_orders (db st))
   \<and> pending_orders (api_get_order_stats st) = count_status PENDING (all_orders (db st))
   \<and> confirmed_orders (api_get_order_stats st) = count_status CONFIRMED (all_orders (db st))
   \<and> processing_orders (api_get_order_stats st) = count_status PROCESSING (all_orders (db st))
   \<and> shipped_orders (api_get_order_stats st) = count_status SHIPPED (all_orders (db st))
   \<and> delivered_orders (api_get_order_stats st) = count_status DELIVERED (all_orders (db st))
   \<and> cancelled_orders (api_get_order_stats st) = count_status CANCELLED (all_orders (db st))
   \<and> total_orders (api_get_order_stats st)
       = pending_orders (api_get_order_stats st) + confirmed_orders (api_get_order_stats st)
         + processing_orders (api_get_order_stats st) + shipped_orders (api_get_order_stats st)
         + delivered_orders (api_get_order_stats st) + cancelled_orders (api_get_order_stats st)
         + count_status REFUNDED (all_orders (db st))
   \<and> total_revenue (api_get_order_stats st)
       = sum_list (map total_amount (filter (\<lambda>o'. status o' = DELIVERED) (all_orders (db st))))"
proof -
  let ?os = "all_orders (db st)"
  let ?r = "stats_loop (status_groups ?os) empty_order_stats"
  have f: "s \<noteq> REFUNDED \<Longrightarrow> stat_field s ?r = count_status s ?os" for s
    by (rule stat_field_groups)
  have part: "length ?os = count_status PENDING ?os + count_status CONFIRMED ?os + count_status PROCESSING ?os
      + count_status SHIPPED ?os + count_status DELIVERED ?os + count_status CANCELLED ?os + count_status REFUNDED ?os"
  proof -
    have "set (map status ?os) \<subseteq> set [PENDING, CONFIRMED, PROCESSING, SHIPPED, DELIVERED, CANCELLED, REFUNDED]"
      by (auto intro: OrderStatus.exhaust)
    from sum_count_status [OF _ this] show ?thesis by simp
  qed
  show ?thesis
    using f [of PENDING] f [of CONFIRMED] f [of PROCESSING] f [of SHIPPED] f [of DELIVERED] f [of CANCELLED]
      total_groups [of ?os] revenue_groups [of ?os] part
    by (simp add: api_get_order_stats_def repo_get_order_stats_def Let_def)
qed

end
