(* ===== verification/OrderResponses.thy ===== *)
theory OrderResponses
  imports OrderStats OrderLifecycle
begin

text \<open>
  The response models of the order service, \<open>OrderItemResponse\<close>,
  \<open>ShippingAddressResponse\<close> and \<open>OrderResponse\<close> of
  \<open>src/order_service/app/schemas/order_schemas.py\<close>, and the conversion
  \<open>OrderService._convert_to_response\<close> of \<open>src/order_service/app/services/order_service.py\<close>
  that every order-returning handler applies to its result. The handlers of
  \<open>OrderService\<close> return the stored \<open>order\<close>; \<open>to_order_response\<close> applies the
  conversion to such a result. An \<open>OrderItem\<close> is a Beanie \<open>Document\<close> embedded in
  its order and never inserted on its own, so its \<open>id\<close> is \<open>None\<close> and
  \<open>str(item.id)\<close> is the string \<open>None\<close> for every item.
\<close>

subsection \<open>Response models\<close>

record order_item_response =
  ir_id :: string
  ir_product_id :: string
  ir_product_name :: string
  ir_product_sku :: "string option"
  ir_unit_price :: money
  ir_quantity :: int
  ir_total_price :: money
  ir_product_snapshot :: pydict

record shipping_address_response =
  sar_id :: string
  sar_full_name :: string
  sar_address_line_1 :: string
  sar_address_line_2 :: "string option"
  sar_city :: string
  sar_state :: string
  sar_postal_code :: string
  sar_country :: string
  sar_phone :: "string option"

record order_response =
  or_id :: string
  or_order_number :: string
  or_user_id :: string
  or_user_email :: string
  or_items :: "order_item_response list"
  or_subtotal :: money
  or_tax_amount :: money
  or_shipping_cost :: money
  or_discount_amount :: money
  or_total_amount :: money
  or_status :: OrderStatus
  or_payment_status :: PaymentStatus
  or_shipping_address :: shipping_address_response
  or_shipping_method :: "string option"
  or_tracking_number :: "string option"
  or_payment_method :: "string option"
  or_payment_transaction_id :: "string option"
  or_created_at :: timestamp
  or_updated_at :: timestamp
  or_confirmed_at :: "timestamp option"
  or_shipped_at :: "timestamp option"
  or_delivered_at :: "timestamp option"
  or_notes :: "string option"
  or_metadata :: pydict
  or_item_count :: int
  or_is_editable :: bool
  or_is_cancellable :: bool

subsection \<open>The conversion\<close>

text \<open>\<open>str(item.id)\<close> of an embedded, never inserted \<open>OrderItem\<close>.\<close>

definition embedded_item_id :: string where
  "embedded_item_id = ''None''"

definition convert_item_response :: "order_item \<Rightarrow> order_item_response" where
  "convert_item_response it =
     \<lparr>ir_id = embedded_item_id, ir_product_id = product_id it, ir_product_name = product_name it,
      ir_product_sku = product_sku it, ir_unit_price = unit_price it, ir_quantity = quantity it,
      ir_total_price = total_price it, ir_product_snapshot = product_snapshot it\<rparr>"

definition convert_address_response :: "shipping_address \<Rightarrow> shipping_address_response" where
  "convert_address_response a =
     \<lparr>sar_id = id_str (address_id a), sar_full_name = full_name a, sar_address_line_1 = address_line_1 a,
      sar_address_line_2 = address_line_2 a, sar_city = city a, sar_state = addr_state a,
      sar_postal_code = postal_code a, sar_country = country a, sar_phone = phone a\<rparr>"

definition convert_to_response :: "order \<Rightarrow> order_response" where
  "convert_to_response ordr =
     \<lparr>or_id = id_str (order_id ordr), or_order_number = order_number ordr, or_user_id = user_id ordr,
      or_user_email = user_email ordr, or_items = map convert_item_response (items ordr),
      or_subtotal = subtotal ordr, or_tax_amount = tax_amount ordr, or_shipping_cost = shipping_cost ordr,
      or_discount_amount = discount_amount ordr, or_total_amount = total_amount ordr,
      or_status = status ordr, or_payment_status = payment_status ordr,
      or_shipping_address = convert_address_response (shipping_address ordr),
      or_shipping_method = shipping_method ordr, or_tracking_number = tracking_number ordr,
      or_payment_method = payment_method ordr, or_payment_transaction_id = payment_transaction_id ordr,
      or_created_at = created_at ordr, or_updated_at = updated_at ordr, or_confirmed_at = confirmed_at ordr,
      or_shipped_at = shipped_at ordr, or_delivered_at = delivered_at ordr, or_notes = order_notes ordr,
      or_metadata = metadata ordr, or_item_count = get_item_count ordr,
      or_is_editable = is_editable ordr, or_is_cancellable = is_cancellable ordr\<rparr>"

text \<open>\<open>return await self._convert_to_response(order)\<close> at the end of a handler.\<close>

definition to_order_response :: "order response \<Rightarrow> http_exception + order_response \<times> order_service_state" where
  "to_order_response r = (case r of Inl ex \<Rightarrow> Inl ex | Inr (ordr, st) \<Rightarrow> Inr (convert_to_response ordr, st))"

subsection \<open>Properties of the conversion\<close>

lemma length_le_sum_pos: "list_all (\<lambda>x. 0 < f x) xs \<Longrightarrow> int (length xs) \<le> sum_list (map f xs)"
  by (induction xs) (auto simp: add_mono_thms_linordered_semiring(1))

lemma is_editable_cancellable: "is_editable ordr \<Longrightarrow> is_cancellable ordr"
  by (auto simp: is_editable_def is_cancellable_def)

text \<open>
  C13. The answer for a stored order agrees with itself: its id is the key the
  order is stored under, its \<open>item_count\<close> is the sum of the quantities of the items
  it lists and at least their number, an editable order is cancellable, every item
  carries the id \<open>None\<close> and a price that is its quantity times its unit price, and
  the total is computed from the amounts it shows.
\<close>

theorem convert_to_response_consistent:
  assumes "db_inv (db st)" and "orders (db st) oid = Some ordr" and "r = convert_to_response ordr"
  shows "or_id r = decimal_digits oid
    \<and> or_item_count r = sum_list (map ir_quantity (or_items r))
    \<and> int (length (or_items r)) \<le> or_item_count r
    \<and> (or_is_editable r \<longrightarrow> or_is_cancellable r)
    \<and> (\<forall>ir\<in>set (or_items r). ir_id ir = ''None'' \<and> 0 < ir_quantity ir
          \<and> ir_total_price ir = py_round2 (ir_unit_price ir * of_int (ir_quantity ir)))
    \<and> or_total_amount r = calculate_total_amount (or_subtotal r) (or_tax_amount r) (or_shipping_cost r) (or_discount_amount r)"
proof -
  have o: "order_id ordr = oid" and wf: "order_wf ordr"
    using db_inv_stored [OF assms(1,2)] by simp_all
  have its: "list_all item_wf (items ordr)"
    using wf by (simp add: order_wf_def)
  then have "list_all (\<lambda>x. 0 < quantity x) (items ordr)"
    by (simp add: list_all_iff item_wf_def)
  then have "int (length (items ordr)) \<le> get_item_count ordr"
    by (simp add: get_item_count_def length_le_sum_pos)
  moreover have "sum_list (map ir_quantity (map convert_item_response (items ordr))) = get_item_count ordr"
    by (simp add: get_item_count_def comp_def convert_item_response_def)
  ultimately show ?thesis
    using assms(3) o wf its is_editable_cancellable
    by (auto simp: convert_to_response_def convert_item_response_def embedded_item_id_def id_str_def
                   order_wf_def list_all_iff item_wf_def)
qed

theorem convert_to_response_consistent_witness:
  "or_item_count (convert_to_response (ex_order PENDING)) = 2
   \<and> or_id (convert_to_response (ex_order PENDING)) = ''0''"
  using convert_to_response_consistent [OF ex_store_db_inv [of PENDING] ex_store_lookup refl]
  by (simp add: convert_to_response_def get_item_count_def ex_order_def ex_item_def id_str_def)

end
