(* ===== verification/Notifications.thy ===== *)
theory Notifications
  imports Prelude
begin

text \<open>
  The notification dispatcher: \<open>src/notification_service/app/models/notification.py\<close>,
  \<open>repositories/notification_repository.py\<close> and \<open>services/notification_service.py\<close>.
  The collection is a map from ids to notifications with an id counter. The delivery
  channels are mocks that log and mark the notification sent; whether a channel raises
  is the argument \<open>ch_ok\<close> (the mocks as written never raise, which is \<open>ch_ok = True\<close>),
  so that the failure and retry paths of the code are part of the model. Raising is a
  flag in the result beside the new store, since the writes made before an exception
  stay in the database.
\<close>

datatype NotificationType = EMAIL | SMS | PUSH | IN_APP

primrec type_value :: "NotificationType \<Rightarrow> string" where
  "type_value EMAIL = ''email''"
| "type_value SMS = ''sms''"
| "type_value PUSH = ''push''"
| "type_value IN_APP = ''in_app''"

datatype NotificationStatus = N_PENDING | N_SENT | N_FAILED | N_DELIVERED

text \<open>\<open>NotificationType(value)\<close>: the member with that value, if any.\<close>

definition parse_type :: "string \<Rightarrow> NotificationType option" where
  "parse_type s = find (\<lambda>t. type_value t = s) [EMAIL, SMS, PUSH, IN_APP]"

record notification =
  n_type :: NotificationType
  n_recipient :: string
  n_subject :: "string option"
  n_message :: string
  n_status :: NotificationStatus
  n_sent_at :: "timestamp option"
  n_delivered_at :: "timestamp option"
  n_event_type :: string
  n_event_data :: pydict
  n_source_service :: string
  n_template_id :: "string option"
  n_priority :: int
  n_retry_count :: int
  n_max_retries :: int
  n_created_at :: timestamp
  n_updated_at :: timestamp

record notif_db =
  notifs :: "doc_id \<rightharpoonup> notification"
  next_notif_id :: doc_id

definition empty_notif_db :: notif_db where
  "empty_notif_db = \<lparr>notifs = Map.empty, next_notif_id = 0\<rparr>"

text \<open>The dictionary the consumer passes to \<open>create_notification\<close>.\<close>

record notif_request =
  rq_type :: string
  rq_recipient :: string
  rq_subject :: string
  rq_message :: string
  rq_event_type :: string
  rq_event_data :: pydict
  rq_source_service :: string
  rq_priority :: int

subsection \<open>Repository\<close>

definition repo_create_notification ::
  "NotificationType \<Rightarrow> notif_request \<Rightarrow> timestamp \<Rightarrow> notif_db \<Rightarrow> (doc_id \<times> notification) \<times> notif_db" where
  "repo_create_notification t rq now db =
     (let nid = next_notif_id db;
          n = \<lparr>n_type = t, n_recipient = rq_recipient rq, n_subject = Some (rq_subject rq),
               n_message = rq_message rq, n_status = N_PENDING, n_sent_at = None, n_delivered_at = None,
               n_event_type = rq_event_type rq, n_event_data = rq_event_data rq,
               n_source_service = rq_source_service rq, n_template_id = None, n_priority = rq_priority rq,
               n_retry_count = 0, n_max_retries = 3, n_created_at = now, n_updated_at = now\<rparr>
      in ((nid, n), db\<lparr>notifs := (notifs db)(nid \<mapsto> n), next_notif_id := Suc nid\<rparr>))"

text \<open>\<open>update_notification\<close>: the \<open>setattr\<close> loop, as a function on the stored document.\<close>

definition repo_update_notification ::
  "doc_id \<Rightarrow> (notification \<Rightarrow> notification) \<Rightarrow> notif_db \<Rightarrow> notification option \<times> notif_db" where
  "repo_update_notification nid f db =
     (case notifs db nid of
        None \<Rightarrow> (None, db)
      | Some n \<Rightarrow> (Some (f n), db\<lparr>notifs := (notifs db)(nid \<mapsto> f n)\<rparr>))"

definition all_notifications :: "notif_db \<Rightarrow> (doc_id \<times> notification) list" where
  "all_notifications db = List.map_filter (\<lambda>i. map_option (Pair i) (notifs db i)) [0..<next_notif_id db]"

text \<open>\<open>.sort(-Notification.created_at)\<close>: newest first, ties in insertion order.\<close>

definition newest_notifs_first :: "(doc_id \<times> notification) list \<Rightarrow> (doc_id \<times> notification) list" where
  "newest_notifs_first ns = sort_key (\<lambda>d. - int (n_created_at (snd d))) ns"

definition repo_get_notifications ::
  "string option \<Rightarrow> NotificationStatus option \<Rightarrow> nat \<Rightarrow> nat \<Rightarrow> notif_db \<Rightarrow> (doc_id \<times> notification) list" where
  "repo_get_notifications rcp st limit offset db =
     page_of limit offset
       (newest_notifs_first
          (filter (\<lambda>d. (case rcp of Some r \<Rightarrow> r \<noteq> [] \<longrightarrow> n_recipient (snd d) = r | None \<Rightarrow> True)
                      \<and> (case st of Some s \<Rightarrow> n_status (snd d) = s | None \<Rightarrow> True))
                  (all_notifications db)))"

subsection \<open>Service\<close>

definition update_notification_status ::
  "doc_id \<Rightarrow> NotificationStatus \<Rightarrow> timestamp option \<Rightarrow> timestamp \<Rightarrow> notif_db \<Rightarrow> notification option \<times> notif_db" where
  "update_notification_status nid s delivered now db =
     repo_update_notification nid
       (\<lambda>n. n\<lparr>n_status := s, n_updated_at := now,
              n_sent_at := (if s = N_SENT then Some now else n_sent_at n),
              n_delivered_at := (if s = N_DELIVERED \<and> delivered \<noteq> None then delivered else n_delivered_at n)\<rparr>)
       db"

text \<open>
  \<open>_send_notification\<close> with the notification object the caller holds. The result
  is whether it raised, and the store. On an exception the status becomes failed and
  \<open>retry_count\<close> becomes the caller's copy's count plus one.
\<close>

definition send_channel :: "NotificationType \<Rightarrow> doc_id \<Rightarrow> timestamp \<Rightarrow> notif_db \<Rightarrow> notif_db" where
  "send_channel t nid now db =
     (case t of
        EMAIL \<Rightarrow> snd (update_notification_status nid N_DELIVERED (Some now) now
                   (snd (update_notification_status nid N_SENT None now db)))
      | _ \<Rightarrow> snd (update_notification_status nid N_SENT None now db))"

definition send_notification :: "bool \<Rightarrow> timestamp \<Rightarrow> doc_id \<times> notification \<Rightarrow> notif_db \<Rightarrow> bool \<times> notif_db" where
  "send_notification ch_ok now d db =
     (if ch_ok then (False, send_channel (n_type (snd d)) (fst d) now db)
      else (True, snd (repo_update_notification (fst d)
                         (\<lambda>m. m\<lparr>n_retry_count := n_retry_count (snd d) + 1, n_updated_at := now\<rparr>)
                         (snd (update_notification_status (fst d) N_FAILED None now db)))))"

datatype notif_error = InvalidType string | ChannelError

definition create_notification ::
  "bool \<Rightarrow> notif_request \<Rightarrow> timestamp \<Rightarrow> notif_db \<Rightarrow> (notif_error + doc_id) \<times> notif_db" where
  "create_notification ch_ok rq now db =
     (case parse_type (rq_type rq) of
        None \<Rightarrow> (Inl (InvalidType (''Invalid notification type: '' @ rq_type rq)), db)
      | Some t \<Rightarrow>
          (let (d, db1) = repo_create_notification t rq now db;
               (raised, db2) = send_notification ch_ok now d db1
           in if raised then (Inl ChannelError, db2) else (Inr (fst d), db2)))"

text \<open>
  The loop of \<open>retry_failed_notifications\<close> over the fetched failed notifications,
  with the retry counter; \<open>ch_ok nid\<close> is whether the channel raises for that one.
\<close>

fun retry_loop ::
  "(doc_id \<Rightarrow> bool) \<Rightarrow> int \<Rightarrow> timestamp \<Rightarrow> (doc_id \<times> notification) list \<Rightarrow> nat \<Rightarrow> notif_db \<Rightarrow> nat \<times> notif_db" where
  "retry_loop ch_ok max_retries now [] cnt db = (cnt, db)"
| "retry_loop ch_ok max_retries now (d # ds) cnt db =
     (if n_retry_count (snd d) < max_retries
      then (let (raised, db') = send_notification (ch_ok (fst d)) now d db
            in retry_loop ch_ok max_retries now ds (if raised then cnt else Suc cnt) db')
      else retry_loop ch_ok max_retries now ds cnt db)"

definition retry_failed_notifications ::
  "(doc_id \<Rightarrow> bool) \<Rightarrow> int \<Rightarrow> timestamp \<Rightarrow> notif_db \<Rightarrow> nat \<times> notif_db" where
  "retry_failed_notifications ch_ok max_retries now db =
     retry_loop ch_ok max_retries now (repo_get_notifications None (Some N_FAILED) 100 0 db) 0 db"

end
