(* ===== verification/NotificationConsumer.thy ===== *)
theory NotificationConsumer
  imports Notifications
begin

text \<open>
  The notification service's Kafka consumer, \<open>src/notification_service/app/utils/kafka_consumer.py\<close>:
  its start/stop state, the loop over the incoming messages and the routing of one
  message to the handlers that create notifications. A message is a topic and a JSON
  value. Every exception raised while a message is handled is caught and logged by
  the consumer, so a handler that raises leaves the store as the writes before the
  exception left it.
\<close>

subsection \<open>Python values in the handlers\<close>

text \<open>Python truthiness of a JSON value (\<open>if user_email:\<close>).\<close>

fun pyval_truthy :: "pyval \<Rightarrow> bool" where
  "pyval_truthy PNone = False"
| "pyval_truthy (PBool b) = b"
| "pyval_truthy (PInt i) = (i \<noteq> 0)"
| "pyval_truthy (PNum r) = (r \<noteq> 0)"
| "pyval_truthy (PStr s) = (s \<noteq> [])"
| "pyval_truthy (PList xs) = (xs \<noteq> [])"
| "pyval_truthy (PDict d) = (d \<noteq> [])"

definition int_str :: "int \<Rightarrow> string" where
  "int_str i = (if i < 0 then ''-'' @ decimal_digits (nat (- i)) else decimal_digits (nat i))"

text \<open>
  \<open>str(v)\<close> in an f-string, for the values the producers put in these fields (strings,
  ints, booleans, \<open>None\<close>); other values are rendered by their kind only.
\<close>

fun py_str :: "pyval \<Rightarrow> string" where
  "py_str PNone = ''None''"
| "py_str (PBool b) = (if b then ''True'' else ''False'')"
| "py_str (PInt i) = int_str i"
| "py_str (PStr s) = s"
| "py_str (PNum r) = ''<float>''"
| "py_str (PList xs) = ''<list>''"
| "py_str (PDict d) = ''<dict>''"

text \<open>\<open>stock_quantity < 10\<close>; \<open>None\<close> when the comparison raises \<open>TypeError\<close>.\<close>

fun py_less_10 :: "pyval \<Rightarrow> bool option" where
  "py_less_10 (PInt i) = Some (i < 10)"
| "py_less_10 (PNum r) = Some (r < 10)"
| "py_less_10 (PBool b) = Some True"
| "py_less_10 _ = None"

subsection \<open>Handlers\<close>

text \<open>
  \<open>create_notification\<close> as the handlers call it: the notification model needs
  string recipient and service, so other values raise a validation error before
  anything is written.
\<close>

definition notify ::
  "bool \<Rightarrow> pyval \<Rightarrow> string \<Rightarrow> string \<Rightarrow> string \<Rightarrow> pydict \<Rightarrow> pyval \<Rightarrow> int \<Rightarrow> timestamp \<Rightarrow> notif_db \<Rightarrow> notif_db" where
  "notify ch_ok recipient subject message event_type event_data service prio now db =
     (case (recipient, service) of
        (PStr r, PStr sv) \<Rightarrow>
          snd (create_notification ch_ok
                 \<lparr>rq_type = ''email'', rq_recipient = r, rq_subject = subject, rq_message = message,
                  rq_event_type = event_type, rq_event_data = event_data, rq_source_service = sv,
                  rq_priority = prio\<rparr> now db)
      | _ \<Rightarrow> db)"

definition handle_user_registered :: "bool \<Rightarrow> pydict \<Rightarrow> pyval \<Rightarrow> timestamp \<Rightarrow> notif_db \<Rightarrow> notif_db" where
  "handle_user_registered ch_ok data service now db =
     (let email = dict_get data ''email'' PNone;
          name = dict_get data ''name'' PNone
      in if pyval_truthy email
         then notify ch_ok email ''Welcome to E-commerce Platform!''
                (''Hello '' @ py_str name @ '', welcome to our platform! We're excited to have you on board.'')
                ''user.registered'' data service 3 now db
         else db)"

definition handle_product_stock_updated :: "bool \<Rightarrow> pydict \<Rightarrow> pyval \<Rightarrow> timestamp \<Rightarrow> notif_db \<Rightarrow> notif_db" where
  "handle_product_stock_updated ch_ok data service now db =
     (let pid = dict_get data ''product_id'' PNone;
          stock = dict_get data ''stock_quantity'' PNone
      in if stock \<noteq> PNone \<and> py_less_10 stock = Some True
         then notify ch_ok (PStr ''admin@ecommerce.com'') ''Low Stock Alert''
                (''Product '' @ py_str pid @ '' has low stock: '' @ py_str stock @ '' units remaining.'')
                ''product.stock_updated'' data service 4 now db
         else db)"

text \<open>\<open>user.login\<close>, \<open>user.updated\<close> and \<open>product.created\<close> are only logged.\<close>

definition handle_user_event :: "bool \<Rightarrow> pyval \<Rightarrow> pydict \<Rightarrow> pyval \<Rightarrow> timestamp \<Rightarrow> notif_db \<Rightarrow> notif_db" where
  "handle_user_event ch_ok event_type data service now db =
     (if event_type = PStr ''user.registered'' then handle_user_registered ch_ok data service now db else db)"

definition handle_product_event :: "bool \<Rightarrow> pyval \<Rightarrow> pydict \<Rightarrow> pyval \<Rightarrow> timestamp \<Rightarrow> notif_db \<Rightarrow> notif_db" where
  "handle_product_event ch_ok event_type data service now db =
     (if event_type = PStr ''product.stock_updated'' then handle_product_stock_updated ch_ok data service now db
      else db)"

text \<open>
  \<open>_process_message\<close>: the envelope's \<open>service\<close>, \<open>event_type\<close> and \<open>data\<close>, routed
  on the topic. A value that is not a dictionary, or whose \<open>data\<close> is not one, makes
  the \<open>.get\<close> calls raise, and nothing happens.
\<close>

definition process_message :: "bool \<Rightarrow> timestamp \<Rightarrow> string \<times> pyval \<Rightarrow> notif_db \<Rightarrow> notif_db" where
  "process_message ch_ok now msg db =
     (case snd msg of
        PDict v \<Rightarrow>
          (let service = dict_get v ''service'' (PStr ''unknown'');
               event_type = dict_get v ''event_type'' (PStr ''unknown'')
           in (case dict_get v ''data'' (PDict []) of
                 PDict data \<Rightarrow>
                   (if fst msg = ''user-events'' then handle_user_event ch_ok event_type data service now db
                    else if fst msg = ''product-events'' then handle_product_event ch_ok event_type data service now db
                    else db)
               | _ \<Rightarrow> db))
      | _ \<Rightarrow> db)"

subsection \<open>The consumer\<close>

record kafka_consumer =
  kc_enabled :: bool
  kc_consumer :: bool
  kc_running :: bool

definition consumer_topics :: "string list" where
  "consumer_topics = [''user-events'', ''product-events'']"

definition KafkaConsumer_init :: "bool \<Rightarrow> kafka_consumer" where
  "KafkaConsumer_init enabled = \<lparr>kc_enabled = enabled, kc_consumer = False, kc_running = False\<rparr>"

definition consumer_start :: "bool \<Rightarrow> kafka_consumer \<Rightarrow> kafka_consumer" where
  "consumer_start broker_up c =
     (if \<not> kc_enabled c then c
      else if broker_up then c\<lparr>kc_consumer := True, kc_running := True\<rparr>
      else c\<lparr>kc_consumer := False\<rparr>)"

definition consumer_stop :: "kafka_consumer \<Rightarrow> kafka_consumer" where
  "consumer_stop c = c\<lparr>kc_running := False\<rparr>"

text \<open>
  \<open>_consume_messages\<close> over the messages the subscription delivers, each with the
  time it is handled and whether the channel raises for it.
\<close>

fun consume_messages ::
  "kafka_consumer \<Rightarrow> (string \<times> pyval \<times> timestamp \<times> bool) list \<Rightarrow> notif_db \<Rightarrow> notif_db" where
  "consume_messages c [] db = db"
| "consume_messages c ((topic, v, now, ch_ok) # ms) db =
     (if \<not> kc_consumer c \<or> \<not> kc_running c then db
      else consume_messages c ms (process_message ch_ok now (topic, v) db))"

end
