(* ===== verification/ServiceProducers.thy ===== *)
theory ServiceProducers
  imports Events
begin

text \<open>
  The Kafka producers of the product and user services,
  \<open>src/product_service/app/utils/kafka_producer.py\<close> and
  \<open>src/user_service/app/utils/kafka_producer.py\<close>. Their \<open>KafkaProducer\<close> class is the
  order service's with another service name in the envelope, so it is
  \<open>send_event\<close> of \<open>Events\<close> with that name; \<open>start\<close> and \<open>stop\<close> are
  \<open>producer_start\<close> and \<open>producer_stop\<close>. Their \<open>publish_*_event\<close> helpers are
  defined here; no handler of either service calls them.
\<close>

subsection \<open>Product service\<close>

definition PRODUCT_CREATED :: string where "PRODUCT_CREATED = ''product.created''"
definition PRODUCT_UPDATED :: string where "PRODUCT_UPDATED = ''product.updated''"
definition PRODUCT_STOCK_UPDATED :: string where "PRODUCT_STOCK_UPDATED = ''product.stock_updated''"
definition CATEGORY_CREATED :: string where "CATEGORY_CREATED = ''category.created''"

definition product_send_event :: "string \<Rightarrow> pydict \<Rightarrow> pyval \<Rightarrow> kafka_producer \<Rightarrow> kafka_producer" where
  "product_send_event topic event_data key = send_event ''product-service'' topic event_data key"

definition publish_product_created_event :: "pydict \<Rightarrow> kafka_producer \<Rightarrow> kafka_producer" where
  "publish_product_created_event pd =
     product_send_event ''product-events''
       [(''event_type'', PStr PRODUCT_CREATED),
        (''product_id'', dict_get pd ''id'' PNone),
        (''name'', dict_get pd ''name'' PNone),
        (''price'', dict_get pd ''price'' PNone),
        (''category_id'', dict_get pd ''category_id'' PNone),
        (''stock_quantity'', dict_get pd ''stock_quantity'' PNone),
        (''timestamp'', dict_get pd ''created_at'' PNone)] (dict_get pd ''id'' PNone)"

definition publish_product_updated_event :: "pydict \<Rightarrow> kafka_producer \<Rightarrow> kafka_producer" where
  "publish_product_updated_event pd =
     product_send_event ''product-events''
       [(''event_type'', PStr PRODUCT_UPDATED),
        (''product_id'', dict_get pd ''id'' PNone),
        (''name'', dict_get pd ''name'' PNone),
        (''price'', dict_get pd ''price'' PNone),
        (''category_id'', dict_get pd ''category_id'' PNone),
        (''stock_quantity'', dict_get pd ''stock_quantity'' PNone),
        (''timestamp'', dict_get pd ''updated_at'' PNone)] (dict_get pd ''id'' PNone)"

definition publish_product_stock_updated_event :: "pydict \<Rightarrow> kafka_producer \<Rightarrow> kafka_producer" where
  "publish_product_stock_updated_event pd =
     product_send_event ''product-events''
       [(''event_type'', PStr PRODUCT_STOCK_UPDATED),
        (''product_id'', dict_get pd ''id'' PNone),
        (''stock_quantity'', dict_get pd ''stock_quantity'' PNone),
        (''previous_stock'', dict_get pd ''previous_stock'' PNone),
        (''timestamp'', dict_get pd ''updated_at'' PNone)] (dict_get pd ''id'' PNone)"

definition publish_category_created_event :: "pydict \<Rightarrow> kafka_producer \<Rightarrow> kafka_producer" where
  "publish_category_created_event cd =
     product_send_event ''product-events''
       [(''event_type'', PStr CATEGORY_CREATED),
        (''category_id'', dict_get cd ''id'' PNone),
        (''name'', dict_get cd ''name'' PNone),
        (''description'', dict_get cd ''description'' PNone),
        (''timestamp'', dict_get cd ''created_at'' PNone)] (dict_get cd ''id'' PNone)"

subsection \<open>User service\<close>

definition USER_REGISTERED :: string where "USER_REGISTERED = ''user.registered''"
definition USER_LOGIN :: string where "USER_LOGIN = ''user.login''"
definition USER_UPDATED :: string where "USER_UPDATED = ''user.updated''"

definition user_send_event :: "string \<Rightarrow> pydict \<Rightarrow> pyval \<Rightarrow> kafka_producer \<Rightarrow> kafka_producer" where
  "user_send_event topic event_data key = send_event ''user-service'' topic event_data key"

definition publish_user_registered_event :: "pydict \<Rightarrow> kafka_producer \<Rightarrow> kafka_producer" where
  "publish_user_registered_event ud =
     user_send_event ''user-events''
       [(''event_type'', PStr USER_REGISTERED),
        (''user_id'', dict_get ud ''id'' PNone),
        (''email'', dict_get ud ''email'' PNone),
        (''name'', dict_get ud ''name'' PNone),
        (''timestamp'', dict_get ud ''created_at'' PNone)] (dict_get ud ''id'' PNone)"

definition publish_user_login_event :: "pydict \<Rightarrow> kafka_producer \<Rightarrow> kafka_producer" where
  "publish_user_login_event ud =
     user_send_event ''user-events''
       [(''event_type'', PStr USER_LOGIN),
        (''user_id'', dict_get ud ''id'' PNone),
        (''email'', dict_get ud ''email'' PNone),
        (''timestamp'', dict_get ud ''login_timestamp'' PNone)] (dict_get ud ''id'' PNone)"

definition publish_user_updated_event :: "pydict \<Rightarrow> kafka_producer \<Rightarrow> kafka_producer" where
  "publish_user_updated_event ud =
     user_send_event ''user-events''
       [(''event_type'', PStr USER_UPDATED),
        (''user_id'', dict_get ud ''id'' PNone),
        (''email'', dict_get ud ''email'' PNone),
        (''name'', dict_get ud ''name'' PNone),
        (''timestamp'', dict_get ud ''updated_at'' PNone)] (dict_get ud ''id'' PNone)"

lemmas service_publish_defs =
  publish_product_created_event_def publish_product_updated_event_def publish_product_stock_updated_event_def
  publish_category_created_event_def publish_user_registered_event_def publish_user_login_event_def
  publish_user_updated_event_def product_send_event_def user_send_event_def

end
