(* ===== verification/ServiceApps.thy ===== *)
theory ServiceApps
  imports OrderResponses NotificationConsumer ServiceProducers
begin

text \<open>
  The applications of \<open>src/*/app/main.py\<close>: the lifespan hooks that start and stop
  the event producer or consumer, the two exception handlers that render every
  error as the services' JSON envelope, and, for the order service, the HTTP
  boundary as a whole: a datatype of the calls its router accepts, dispatched to the
  endpoints of \<open>OrderController\<close>, with the success status of each route and the
  error rendering of \<open>main.py\<close>. The four \<open>main.py\<close> files define the same two
  exception handlers; the database connections (\<open>connect_to_mongo\<close>,
  \<open>close_mongo_connection\<close>) and CORS are configuration and are not modelled.
\<close>

subsection \<open>Exception handlers\<close>


text \<open>\<open>general_exception_handler\<close>: any other exception, without its message.\<close>

definition general_exception_handler :: "nat \<times> pyval" where
  "general_exception_handler =
     (500, PDict [(''success'', PBool False), (''message'', PStr ''Internal server error''), (''status_code'', PInt 500)])"

subsection \<open>Lifespans\<close>

text \<open>
  The order and product services start their producer after connecting to MongoDB
  and stop it before disconnecting; the notification service does the same with its
  consumer. The user service's lifespan only connects and disconnects: its producer
  is never started.
\<close>

definition order_lifespan_startup :: "order_service_state \<Rightarrow> order_service_state" where
  "order_lifespan_startup st = st\<lparr>kafka := producer_start (kafka st)\<rparr>"

definition order_lifespan_shutdown :: "order_service_state \<Rightarrow> order_service_state" where
  "order_lifespan_shutdown st = st\<lparr>kafka := producer_stop (kafka st)\<rparr>"

definition notification_lifespan_startup :: "bool \<Rightarrow> kafka_consumer \<Rightarrow> kafka_consumer" where
  "notification_lifespan_startup up c = consumer_start up c"

definition notification_lifespan_shutdown :: "kafka_consumer \<Rightarrow> kafka_consumer" where
  "notification_lifespan_shutdown c = consumer_stop c"

lemma order_lifespan_fields [simp]:
  "kafka (order_lifespan_startup st) = producer_start (kafka st)"
  "kafka (order_lifespan_shutdown st) = producer_stop (kafka st)"
  "db (order_lifespan_startup st) = db st" "db (order_lifespan_shutdown st) = db st"
  by (simp_all add: order_lifespan_startup_def order_lifespan_shutdown_def)

subsection \<open>The order service's HTTP boundary\<close>




text \<open>
  FastAPI validates the declared constraints before the endpoint runs: \<open>page\<close> with
  \<open>Query(1, ge=1)\<close> and \<open>per_page\<close> with \<open>Query(20, ge=1, le=100)\<close> (\<open>Query(50, ...)\<close>
  for \<open>/admin/all\<close>), and the body of \<open>POST /\<close> against \<open>OrderCreate\<close>, whose
  \<open>OrderItemCreate.quantity\<close> has \<open>gt=0\<close>. Each violated constraint is one entry of
  the error list, located by its \<open>loc\<close> path (the message and type texts, which depend
  on the pydantic version, are not modelled).
\<close>

definition loc_error :: "pyval list \<Rightarrow> pyval" where
  "loc_error loc = PDict [(''loc'', PList loc)]"


definition order_create_errors :: "order_create \<Rightarrow> pyval list" where
  "order_create_errors req =
     concat (map (\<lambda>(i, line). if 0 < snd line then []
                              else [loc_error [PStr ''body'', PStr ''items'', PInt (int i), PStr ''quantity'']])
                 (enumerate 0 (oc_items req)))"




subsection \<open>Error answers of the order service\<close>

text \<open>The status codes each handler raises: the spec's \<open>BadRequest\<close>, \<open>Unauthorized\<close>, \<open>Forbidden\<close>, \<open>NotFound\<close> and \<open>Internal\<close>.\<close>

named_theorems order_error_codes "status codes of the order service's exceptions"

lemma create_order_error_code [order_error_codes]:
  "create_order verify fetch req token now uuid st = Inl ex \<Longrightarrow> status_code ex \<in> {400, 401, 403, 404, 500}"
  by (auto simp: create_order_def Let_def split: option.splits if_splits)

lemma get_user_orders_error_code [order_error_codes]:
  "get_user_orders verify token sf page per_page st = Inl ex \<Longrightarrow> status_code ex \<in> {400, 401, 403, 404, 500}"
  by (auto simp: get_user_orders_def Let_def split: option.splits)

lemma get_order_by_id_error_code [order_error_codes]:
  "get_order_by_id verify oid token st = Inl ex \<Longrightarrow> status_code ex \<in> {400, 401, 403, 404, 500}"
  by (auto simp: get_order_by_id_def split: option.splits if_splits)

lemma cancel_order_error_code [order_error_codes]:
  "cancel_order verify oid token now st = Inl ex \<Longrightarrow> status_code ex \<in> {400, 401, 403, 404, 500}"
  by (auto simp: cancel_order_def split: option.splits if_splits prod.splits)

lemma update_order_status_error_code [order_error_codes]:
  "update_order_status oid s n now st = Inl ex \<Longrightarrow> status_code ex \<in> {400, 401, 403, 404, 500}"
  by (auto simp: update_order_status_def split: option.splits prod.splits)

lemma update_payment_status_error_code [order_error_codes]:
  "update_payment_status oid ps pm txn now st = Inl ex \<Longrightarrow> status_code ex \<in> {400, 401, 403, 404, 500}"
  by (auto simp: update_payment_status_def Let_def split: option.splits prod.splits)

lemma unknown_order_error_code [order_error_codes]:
  "unknown_order verify token = Inl ex \<Longrightarrow> status_code ex \<in> {400, 401, 403, 404, 500}"
  by (auto simp: unknown_order_def split: option.splits)

lemma api_create_order_error_code [order_error_codes]:
  "api_create_order verify fetch req h now uuid st = Inl ex \<Longrightarrow> status_code ex \<in> {400, 401, 403, 404, 500}"
  by (auto simp: api_create_order_def with_token_def get_auth_token_def split: sum.splits if_splits
           dest: create_order_error_code)

lemma api_get_user_orders_error_code [order_error_codes]:
  "api_get_user_orders verify sf page per_page h st = Inl ex \<Longrightarrow> status_code ex \<in> {400, 401, 403, 404, 500}"
  by (auto simp: api_get_user_orders_def with_token_def get_auth_token_def split: sum.splits if_splits
           dest: get_user_orders_error_code)

lemma api_get_order_error_code [order_error_codes]:
  "api_get_order verify s h st = Inl ex \<Longrightarrow> status_code ex \<in> {400, 401, 403, 404, 500}"
  by (auto simp: api_get_order_def with_token_def get_auth_token_def split: sum.splits if_splits option.splits
           dest: get_order_by_id_error_code unknown_order_error_code)

lemma api_cancel_order_error_code [order_error_codes]:
  "api_cancel_order verify s h now st = Inl ex \<Longrightarrow> status_code ex \<in> {400, 401, 403, 404, 500}"
  by (auto simp: api_cancel_order_def with_token_def get_auth_token_def split: sum.splits if_splits option.splits
           dest: cancel_order_error_code unknown_order_error_code)

lemma api_update_order_status_error_code [order_error_codes]:
  "api_update_order_status s su n now st = Inl ex \<Longrightarrow> status_code ex \<in> {400, 401, 403, 404, 500}"
  by (auto simp: api_update_order_status_def order_not_found_def split: option.splits
           dest: update_order_status_error_code)

lemma api_update_payment_status_error_code [order_error_codes]:
  "api_update_payment_status s ps pm txn now st = Inl ex \<Longrightarrow> status_code ex \<in> {400, 401, 403, 404, 500}"
  by (auto simp: api_update_payment_status_def order_not_found_def split: option.splits
           dest: update_payment_status_error_code)

lemma user_producer_never_started:
  "sent (publish_user_registered_event ud (KafkaProducer_init en up)) = []
   \<and> sent (publish_user_login_event ud (KafkaProducer_init en up)) = []
   \<and> sent (publish_user_updated_event ud (KafkaProducer_init en up)) = []"
  by (simp add: service_publish_defs send_event_def KafkaProducer_init_def)

lemma order_create_errors_Nil: "order_create_errors req = [] \<longleftrightarrow> OrderCreate_valid req"
proof -
  have "concat (map (\<lambda>(i, line). if 0 < snd line then []
                              else [loc_error [PStr ''body'', PStr ''items'', PInt (int i), PStr ''quantity'']])
                 (enumerate n xs)) = [] \<longleftrightarrow> list_all (\<lambda>line. 0 < snd line) xs" for n and xs :: "(string \<times> int) list"
    by (induction xs arbitrary: n) auto
  then show ?thesis by (simp add: order_create_errors_def OrderCreate_valid_def)
qed



end
