(* ===== verification/OrderQueries.thy ===== *)
theory OrderQueries
  imports OrderRepository
begin

text \<open>
  The reads of \<open>src/order_service/app/repositories/order_repository.py\<close> that no
  handler of the service calls: \<open>get_order_by_number\<close>, \<open>get_orders_by_status\<close>,
  \<open>get_orders_by_date_range\<close>, \<open>get_user_order_count\<close> and \<open>get_recent_orders\<close>.
  \<open>find_one\<close> returns the first match in insertion order; \<open>.sort(Order.created_at)\<close>
  is a stable sort on the creation time; \<open>.limit(n)\<close> is \<open>mongo_limit\<close>. The
  lemmas give each read's contract: what it returns, in which order, and how the
  counts agree with \<open>count_orders\<close>.
\<close>

subsection \<open>Queries\<close>

definition repo_get_order_by_number :: "string \<Rightarrow> order_db \<Rightarrow> order option" where
  "repo_get_order_by_number n db = find (\<lambda>ordr. order_number ordr = n) (all_orders db)"

text \<open>\<open>.sort(Order.created_at)\<close>: oldest first; ties keep insertion order.\<close>

definition oldest_first :: "order list \<Rightarrow> order list" where
  "oldest_first os = sort_key created_at os"

definition repo_get_orders_by_status :: "OrderStatus list \<Rightarrow> nat \<Rightarrow> order_db \<Rightarrow> order list" where
  "repo_get_orders_by_status ss limit db =
     mongo_limit limit (oldest_first (filter (\<lambda>ordr. status ordr \<in> set ss) (all_orders db)))"

definition in_date_range :: "timestamp \<Rightarrow> timestamp \<Rightarrow> OrderStatus option \<Rightarrow> order \<Rightarrow> bool" where
  "in_date_range start_date end_date st ordr \<longleftrightarrow>
     start_date \<le> created_at ordr \<and> created_at ordr \<le> end_date
     \<and> (case st of None \<Rightarrow> True | Some s \<Rightarrow> status ordr = s)"

definition repo_get_orders_by_date_range ::
  "timestamp \<Rightarrow> timestamp \<Rightarrow> OrderStatus option \<Rightarrow> order_db \<Rightarrow> order list" where
  "repo_get_orders_by_date_range start_date end_date st db =
     newest_first (filter (in_date_range start_date end_date st) (all_orders db))"

definition repo_get_user_order_count :: "string \<Rightarrow> order_db \<Rightarrow> nat" where
  "repo_get_user_order_count uid db = length (filter (\<lambda>ordr. user_id ordr = uid) (all_orders db))"

definition repo_get_recent_orders :: "nat \<Rightarrow> order_db \<Rightarrow> order list" where
  "repo_get_recent_orders limit db = mongo_limit limit (newest_first (all_orders db))"

subsection \<open>Contracts of the queries\<close>

lemma mset_newest_first [simp]: "mset (newest_first os) = mset os"
  by (simp add: newest_first_def)

lemma sorted_newest_first: "sorted_wrt (\<ge>) (map created_at (newest_first os))"
proof -
  have "sorted (map (\<lambda>ordr. - int (created_at ordr)) (newest_first os))"
    by (simp add: newest_first_def)
  then show ?thesis
    by (simp add: sorted_wrt_map sorted_iff_nth_mono_less sorted_wrt_iff_nth_less)
qed

lemma get_orders_by_status_contract:
  assumes "r = repo_get_orders_by_status ss limit db"
  shows "sorted (map created_at r) \<and> (\<forall>ordr\<in>set r. status ordr \<in> set ss \<and> ordr \<in> set (all_orders db))
    \<and> (0 < limit \<longrightarrow> length r \<le> limit)
    \<and> (limit = 0 \<or> length r < limit \<longrightarrow> mset r = mset (filter (\<lambda>ordr. status ordr \<in> set ss) (all_orders db)))"
proof -
  have "r = mongo_limit limit (sort_key created_at (filter (\<lambda>ordr. status ordr \<in> set ss) (all_orders db)))"
    using assms by (simp only: repo_get_orders_by_status_def oldest_first_def)
  from sorted_query_contract [OF this] show ?thesis .
qed

lemma get_orders_by_date_range_contract:
  "mset (repo_get_orders_by_date_range a b st db) = mset (filter (in_date_range a b st) (all_orders db))
   \<and> sorted_wrt (\<ge>) (map created_at (repo_get_orders_by_date_range a b st db))"
proof
  show "mset (repo_get_orders_by_date_range a b st db) = mset (filter (in_date_range a b st) (all_orders db))"
    by (simp add: repo_get_orders_by_date_range_def)
  show "sorted_wrt (\<ge>) (map created_at (repo_get_orders_by_date_range a b st db))"
    unfolding repo_get_orders_by_date_range_def by (rule sorted_newest_first)
qed

text \<open>
  \<open>get_user_order_count\<close> filters on the user id as given, \<open>count_orders\<close> only
  on a truthy one: they agree on every non-empty id, and for the empty id
  \<open>count_orders\<close> counts every order.
\<close>

lemma user_order_count_vs_count_orders:
  "(uid \<noteq> [] \<longrightarrow> repo_get_user_order_count uid db = repo_count_orders None None (Some uid) db)
   \<and> repo_count_orders None None (Some []) db = length (all_orders db)"
  by (auto simp: repo_get_user_order_count_def repo_count_orders_def order_matches_def intro!: arg_cong [where f = length] filter_cong)

lemma recent_orders_first_page:
  "0 < limit \<Longrightarrow> repo_get_recent_orders limit db = repo_get_orders None None None limit 0 db"
  by (simp add: repo_get_recent_orders_def repo_get_orders_def page_of_def order_matches_def py_truthy_def)

lemma get_order_by_number_first:
  "repo_get_order_by_number n db = Some ordr \<longleftrightarrow>
     (\<exists>i < length (all_orders db). all_orders db ! i = ordr \<and> order_number ordr = n
        \<and> (\<forall>j < i. order_number (all_orders db ! j) \<noteq> n))"
  by (auto simp: repo_get_order_by_number_def find_Some_iff)

end
