(* ===== verification/ProductCatalog.thy ===== *)
theory ProductCatalog
  imports Prelude
begin

text \<open>
  The product service's data and repositories: \<open>src/product_service/app/models/product.py\<close>
  and \<open>src/product_service/app/repositories/product_repository.py\<close>. The two MongoDB
  collections are maps from ids to documents with an id counter; a query runs over the
  documents in id order, which is insertion order. Deletes are soft: they clear
  \<open>is_active\<close>. The update dictionaries of the service are records of options, a
  field being \<open>None\<close> when its key is absent, and the repository's
  \<open>setattr\<close> loop writes exactly the present keys.
\<close>

record category =
  cat_name :: string
  cat_description :: "string option"
  cat_is_active :: bool
  cat_created_at :: timestamp
  cat_updated_at :: timestamp

record product =
  prod_name :: string
  prod_description :: string
  price :: money
  category_id :: "string option"
  category_name :: "string option"
  sku :: "string option"
  stock_quantity :: int
  is_available :: bool
  is_active :: bool
  image_urls :: "string list"
  tags :: "string list"
  weight :: "money option"
  dimensions :: "pydict option"
  prod_created_at :: timestamp
  prod_updated_at :: timestamp

record product_store =
  products :: "doc_id \<rightharpoonup> product"
  next_product_id :: doc_id
  categories :: "doc_id \<rightharpoonup> category"
  next_category_id :: doc_id

definition empty_product_store :: product_store where
  "empty_product_store = \<lparr>products = Map.empty, next_product_id = 0, categories = Map.empty, next_category_id = 0\<rparr>"

text \<open>\<open>setattr(doc, field, value)\<close> for a key that may be absent.\<close>

definition set_opt :: "'a option \<Rightarrow> 'a \<Rightarrow> 'a" where
  "set_opt v x = (case v of None \<Rightarrow> x | Some y \<Rightarrow> y)"

lemma set_opt_simps [simp]: "set_opt None x = x" "set_opt (Some y) x = y"
  by (simp_all add: set_opt_def)

subsection \<open>Categories\<close>

record category_update =
  cu_name :: "string option"
  cu_description :: "string option"
  cu_is_active :: "bool option"

text \<open>The constraints of \<open>CategoryCreate\<close> and \<open>CategoryUpdate\<close> that pydantic checks before an endpoint runs.\<close>

definition CategoryCreate_valid :: "string \<Rightarrow> string option \<Rightarrow> bool" where
  "CategoryCreate_valid n d \<longleftrightarrow>
     2 \<le> length n \<and> length n \<le> 100 \<and> (case d of None \<Rightarrow> True | Some t \<Rightarrow> length t \<le> 500)"

definition CategoryUpdate_valid :: "category_update \<Rightarrow> bool" where
  "CategoryUpdate_valid u \<longleftrightarrow>
     (case cu_name u of None \<Rightarrow> True | Some n \<Rightarrow> 2 \<le> length n \<and> length n \<le> 100)
     \<and> (case cu_description u of None \<Rightarrow> True | Some t \<Rightarrow> length t \<le> 500)"

definition cat_repo_create ::
  "string \<Rightarrow> string option \<Rightarrow> timestamp \<Rightarrow> product_store \<Rightarrow> (doc_id \<times> category) \<times> product_store" where
  "cat_repo_create n d now st =
     (let cid = next_category_id st;
          c = \<lparr>cat_name = n, cat_description = d, cat_is_active = True, cat_created_at = now, cat_updated_at = now\<rparr>
      in ((cid, c), st\<lparr>categories := (categories st)(cid \<mapsto> c), next_category_id := Suc cid\<rparr>))"

definition cat_repo_get_by_id :: "string \<Rightarrow> product_store \<Rightarrow> (doc_id \<times> category) option" where
  "cat_repo_get_by_id s st =
     (case parse_id s of None \<Rightarrow> None
      | Some cid \<Rightarrow> (case categories st cid of None \<Rightarrow> None | Some c \<Rightarrow> Some (cid, c)))"

text \<open>The documents of a collection in id order, with their ids.\<close>

definition all_docs :: "(doc_id \<rightharpoonup> 'a) \<Rightarrow> doc_id \<Rightarrow> (doc_id \<times> 'a) list" where
  "all_docs m n = List.map_filter (\<lambda>i. map_option (Pair i) (m i)) [0..<n]"

definition find_one :: "('a \<Rightarrow> bool) \<Rightarrow> (doc_id \<times> 'a) list \<Rightarrow> (doc_id \<times> 'a) option" where
  "find_one P docs = find (\<lambda>d. P (snd d)) docs"

definition cat_repo_get_by_name :: "string \<Rightarrow> product_store \<Rightarrow> (doc_id \<times> category) option" where
  "cat_repo_get_by_name n st = find_one (\<lambda>c. cat_name c = n) (all_docs (categories st) (next_category_id st))"

definition cat_repo_get_all :: "nat \<Rightarrow> nat \<Rightarrow> bool \<Rightarrow> product_store \<Rightarrow> (doc_id \<times> category) list" where
  "cat_repo_get_all skip limit active_only st =
     page_of limit skip
       (filter (\<lambda>d. \<not> active_only \<or> cat_is_active (snd d)) (all_docs (categories st) (next_category_id st)))"

definition cat_repo_update ::
  "string \<Rightarrow> category_update \<Rightarrow> timestamp \<Rightarrow> product_store \<Rightarrow> (doc_id \<times> category) option \<times> product_store" where
  "cat_repo_update s u now st =
     (case cat_repo_get_by_id s st of None \<Rightarrow> (None, st)
      | Some (cid, c) \<Rightarrow>
          (let c' = c\<lparr>cat_name := set_opt (cu_name u) (cat_name c),
                      cat_description := (case cu_description u of None \<Rightarrow> cat_description c | Some d \<Rightarrow> Some d),
                      cat_is_active := set_opt (cu_is_active u) (cat_is_active c),
                      cat_updated_at := now\<rparr>
           in (Some (cid, c'), st\<lparr>categories := (categories st)(cid \<mapsto> c')\<rparr>)))"

definition cat_repo_delete :: "string \<Rightarrow> timestamp \<Rightarrow> product_store \<Rightarrow> bool \<times> product_store" where
  "cat_repo_delete s now st =
     (case cat_repo_get_by_id s st of None \<Rightarrow> (False, st)
      | Some (cid, c) \<Rightarrow>
          (True, st\<lparr>categories := (categories st)(cid \<mapsto> c\<lparr>cat_is_active := False, cat_updated_at := now\<rparr>)\<rparr>))"

subsection \<open>Products\<close>

text \<open>The body of a create request, \<open>ProductCreate\<close>, and its field constraints.\<close>

record product_create =
  pc_name :: string
  pc_description :: string
  pc_price :: money
  pc_category_id :: "string option"
  pc_sku :: "string option"
  pc_stock_quantity :: int
  pc_is_available :: bool
  pc_image_urls :: "string list"
  pc_tags :: "string list"
  pc_weight :: "money option"
  pc_dimensions :: "pydict option"

definition ProductCreate_valid :: "product_create \<Rightarrow> bool" where
  "ProductCreate_valid pc \<longleftrightarrow>
     2 \<le> length (pc_name pc) \<and> length (pc_name pc) \<le> 200
     \<and> 10 \<le> length (pc_description pc) \<and> length (pc_description pc) \<le> 2000
     \<and> 0 < pc_price pc \<and> 0 \<le> pc_stock_quantity pc
     \<and> (case pc_sku pc of None \<Rightarrow> True | Some s \<Rightarrow> length s \<le> 50)
     \<and> (case pc_weight pc of None \<Rightarrow> True | Some w \<Rightarrow> 0 < w)"

text \<open>\<open>ProductUpdate\<close>: a field is \<open>None\<close> when the request leaves it out.\<close>

record product_update =
  pu_name :: "string option"
  pu_description :: "string option"
  pu_price :: "money option"
  pu_category_id :: "string option"
  pu_sku :: "string option"
  pu_stock_quantity :: "int option"
  pu_is_available :: "bool option"
  pu_is_active :: "bool option"
  pu_image_urls :: "string list option"
  pu_tags :: "string list option"
  pu_weight :: "money option"
  pu_dimensions :: "pydict option"

definition ProductUpdate_valid :: "product_update \<Rightarrow> bool" where
  "ProductUpdate_valid u \<longleftrightarrow>
     (case pu_price u of None \<Rightarrow> True | Some p \<Rightarrow> 0 < p)
     \<and> (case pu_stock_quantity u of None \<Rightarrow> True | Some q \<Rightarrow> 0 \<le> q)
     \<and> (case pu_sku u of None \<Rightarrow> True | Some s \<Rightarrow> length s \<le> 50)
     \<and> (case pu_weight u of None \<Rightarrow> True | Some w \<Rightarrow> 0 < w)
     \<and> (case pu_name u of None \<Rightarrow> True | Some n \<Rightarrow> 2 \<le> length n \<and> length n \<le> 200)
     \<and> (case pu_description u of None \<Rightarrow> True | Some d \<Rightarrow> 10 \<le> length d \<and> length d \<le> 2000)"

definition prod_repo_create ::
  "product_create \<Rightarrow> string option \<Rightarrow> timestamp \<Rightarrow> product_store \<Rightarrow> (doc_id \<times> product) \<times> product_store" where
  "prod_repo_create pc cname now st =
     (let pid = next_product_id st;
          p = \<lparr>prod_name = pc_name pc, prod_description = pc_description pc, price = pc_price pc,
               category_id = pc_category_id pc, category_name = cname, sku = pc_sku pc,
               stock_quantity = pc_stock_quantity pc, is_available = pc_is_available pc, is_active = True,
               image_urls = pc_image_urls pc, tags = pc_tags pc, weight = pc_weight pc,
               dimensions = pc_dimensions pc, prod_created_at = now, prod_updated_at = now\<rparr>
      in ((pid, p), st\<lparr>products := (products st)(pid \<mapsto> p), next_product_id := Suc pid\<rparr>))"

definition prod_repo_get_by_id :: "string \<Rightarrow> product_store \<Rightarrow> (doc_id \<times> product) option" where
  "prod_repo_get_by_id s st =
     (case parse_id s of None \<Rightarrow> None
      | Some pid \<Rightarrow> (case products st pid of None \<Rightarrow> None | Some p \<Rightarrow> Some (pid, p)))"

definition all_products :: "product_store \<Rightarrow> (doc_id \<times> product) list" where
  "all_products st = all_docs (products st) (next_product_id st)"

definition prod_repo_get_by_sku :: "string \<Rightarrow> product_store \<Rightarrow> (doc_id \<times> product) option" where
  "prod_repo_get_by_sku s st = find_one (\<lambda>p. sku p = Some s) (all_products st)"

definition prod_repo_get_all :: "nat \<Rightarrow> nat \<Rightarrow> bool \<Rightarrow> product_store \<Rightarrow> (doc_id \<times> product) list" where
  "prod_repo_get_all skip limit active_only st =
     page_of limit skip (filter (\<lambda>d. \<not> active_only \<or> is_active (snd d)) (all_products st))"

text \<open>
  The filters of \<open>search_products\<close>. \<open>matches pattern text\<close> is MongoDB's
  case-insensitive \<open>$regex\<close>; an optional filter applies when its argument is truthy
  (text, category, tags) or not \<open>None\<close> (prices, availability).
\<close>

definition search_filter ::
  "(string \<Rightarrow> string \<Rightarrow> bool) \<Rightarrow> string option \<Rightarrow> string option \<Rightarrow> money option \<Rightarrow> money option \<Rightarrow>
   string list option \<Rightarrow> bool option \<Rightarrow> product \<Rightarrow> bool" where
  "search_filter matches q cid minp maxp tgs avail p \<longleftrightarrow>
     is_active p
     \<and> (case q of Some t \<Rightarrow> t \<noteq> [] \<longrightarrow>
            matches t (prod_name p) \<or> matches t (prod_description p) \<or> t \<in> set (tags p) | None \<Rightarrow> True)
     \<and> (case cid of Some c \<Rightarrow> c \<noteq> [] \<longrightarrow> category_id p = Some c | None \<Rightarrow> True)
     \<and> (case minp of Some m \<Rightarrow> m \<le> price p | None \<Rightarrow> True)
     \<and> (case maxp of Some m \<Rightarrow> price p \<le> m | None \<Rightarrow> True)
     \<and> (case tgs of Some ts \<Rightarrow> ts \<noteq> [] \<longrightarrow> (\<exists>t\<in>set (tags p). t \<in> set ts) | None \<Rightarrow> True)
     \<and> (case avail of Some b \<Rightarrow> is_available p = b | None \<Rightarrow> True)"

definition prod_repo_search ::
  "(string \<Rightarrow> string \<Rightarrow> bool) \<Rightarrow> string option \<Rightarrow> string option \<Rightarrow> money option \<Rightarrow> money option \<Rightarrow>
   string list option \<Rightarrow> bool option \<Rightarrow> nat \<Rightarrow> nat \<Rightarrow> product_store \<Rightarrow> (doc_id \<times> product) list" where
  "prod_repo_search matches q cid minp maxp tgs avail skip limit st =
     page_of limit skip (filter (\<lambda>d. search_filter matches q cid minp maxp tgs avail (snd d)) (all_products st))"

definition prod_repo_count :: "product_store \<Rightarrow> nat" where
  "prod_repo_count st = length (filter (\<lambda>d. is_active (snd d)) (all_products st))"

text \<open>
  The \<open>setattr\<close> loop of \<open>update_product\<close> over the update dictionary: the
  non-\<open>None\<close> fields of the \<open>ProductUpdate\<close> and the \<open>category_name\<close> the
  service adds when the category changes.
\<close>

definition apply_product_update :: "product_update \<Rightarrow> string option \<Rightarrow> timestamp \<Rightarrow> product \<Rightarrow> product" where
  "apply_product_update u cname now p =
     p\<lparr>prod_name := set_opt (pu_name u) (prod_name p),
       prod_description := set_opt (pu_description u) (prod_description p),
       price := set_opt (pu_price u) (price p),
       category_id := (case pu_category_id u of None \<Rightarrow> category_id p | Some c \<Rightarrow> Some c),
       sku := (case pu_sku u of None \<Rightarrow> sku p | Some s \<Rightarrow> Some s),
       stock_quantity := set_opt (pu_stock_quantity u) (stock_quantity p),
       is_available := set_opt (pu_is_available u) (is_available p),
       is_active := set_opt (pu_is_active u) (is_active p),
       image_urls := set_opt (pu_image_urls u) (image_urls p),
       tags := set_opt (pu_tags u) (tags p),
       weight := (case pu_weight u of None \<Rightarrow> weight p | Some w \<Rightarrow> Some w),
       dimensions := (case pu_dimensions u of None \<Rightarrow> dimensions p | Some d \<Rightarrow> Some d),
       category_name := (case cname of None \<Rightarrow> category_name p | Some n \<Rightarrow> Some n),
       prod_updated_at := now\<rparr>"

definition prod_repo_update ::
  "string \<Rightarrow> product_update \<Rightarrow> string option \<Rightarrow> timestamp \<Rightarrow> product_store \<Rightarrow>
   (doc_id \<times> product) option \<times> product_store" where
  "prod_repo_update s u cname now st =
     (case prod_repo_get_by_id s st of None \<Rightarrow> (None, st)
      | Some (pid, p) \<Rightarrow>
          (let p' = apply_product_update u cname now p
           in (Some (pid, p'), st\<lparr>products := (products st)(pid \<mapsto> p')\<rparr>)))"

definition prod_repo_delete :: "string \<Rightarrow> timestamp \<Rightarrow> product_store \<Rightarrow> bool \<times> product_store" where
  "prod_repo_delete s now st =
     (case prod_repo_get_by_id s st of None \<Rightarrow> (False, st)
      | Some (pid, p) \<Rightarrow>
          (True, st\<lparr>products := (products st)(pid \<mapsto> p\<lparr>is_active := False, prod_updated_at := now\<rparr>)\<rparr>))"

definition prod_repo_update_stock ::
  "string \<Rightarrow> int \<Rightarrow> timestamp \<Rightarrow> product_store \<Rightarrow> (doc_id \<times> product) option \<times> product_store" where
  "prod_repo_update_stock s delta now st =
     (case prod_repo_get_by_id s st of None \<Rightarrow> (None, st)
      | Some (pid, p) \<Rightarrow>
          (let n = stock_quantity p + delta
           in if n < 0 then (None, st)
              else (let p' = p\<lparr>stock_quantity := n, is_available := 0 < n, prod_updated_at := now\<rparr>
                    in (Some (pid, p'), st\<lparr>products := (products st)(pid \<mapsto> p')\<rparr>))))"

end
