(* ===== verification/ProductService.thy ===== *)
theory ProductService
  imports ProductCatalog
begin

text \<open>
  The handlers of \<open>src/product_service/app/services/product_service.py\<close>
  (\<open>CategoryService\<close> and \<open>ProductService\<close>). Each takes the store and returns
  \<open>Inl (HTTPException code detail)\<close> for each \<open>raise\<close>, or the result (a document
  with its id, which is what the response model copies) with the new store. Request
  bodies reach the service only after pydantic has validated them; the step relation
  at the end of the theory records that by \<open>ProductCreate_valid\<close> and
  \<open>ProductUpdate_valid\<close>.
\<close>

type_synonym 'a presult = "http_exception + 'a \<times> product_store"

subsection \<open>Categories\<close>

definition create_category :: "string \<Rightarrow> string option \<Rightarrow> timestamp \<Rightarrow> product_store \<Rightarrow> (doc_id \<times> category) presult" where
  "create_category n d now st =
     (if cat_repo_get_by_name n st \<noteq> None
      then Inl (HTTPException 400 ''Category with this name already exists'')
      else Inr (cat_repo_create n d now st))"

definition get_category_by_id :: "string \<Rightarrow> product_store \<Rightarrow> (doc_id \<times> category) presult" where
  "get_category_by_id s st =
     (case cat_repo_get_by_id s st of
        None \<Rightarrow> Inl (HTTPException 404 ''Category not found'')
      | Some c \<Rightarrow> Inr (c, st))"

definition get_all_categories ::
  "nat \<Rightarrow> nat \<Rightarrow> bool \<Rightarrow> product_store \<Rightarrow> (doc_id \<times> category) list presult" where
  "get_all_categories skip limit active_only st = Inr (cat_repo_get_all skip limit active_only st, st)"

definition update_category :: "string \<Rightarrow> category_update \<Rightarrow> timestamp \<Rightarrow> product_store \<Rightarrow> (doc_id \<times> category) presult" where
  "update_category s u now st =
     (case cat_repo_get_by_id s st of
        None \<Rightarrow> Inl (HTTPException 404 ''Category not found'')
      | Some (cid, c) \<Rightarrow>
          (if py_truthy (cu_name u) \<and> the (cu_name u) \<noteq> cat_name c \<and> cat_repo_get_by_name (the (cu_name u)) st \<noteq> None
           then Inl (HTTPException 400 ''Category with this name already exists'')
           else (case cat_repo_update s u now st of
                   (None, st') \<Rightarrow> Inl (HTTPException 500 ''Failed to update category'')
                 | (Some c', st') \<Rightarrow> Inr (c', st'))))"

definition delete_category :: "string \<Rightarrow> timestamp \<Rightarrow> product_store \<Rightarrow> string presult" where
  "delete_category s now st =
     (case cat_repo_get_by_id s st of
        None \<Rightarrow> Inl (HTTPException 404 ''Category not found'')
      | Some _ \<Rightarrow>
          (case cat_repo_delete s now st of
             (False, st') \<Rightarrow> Inl (HTTPException 500 ''Failed to delete category'')
           | (True, st') \<Rightarrow> Inr (''Category deleted successfully'', st')))"

subsection \<open>Products\<close>

definition create_product :: "product_create \<Rightarrow> timestamp \<Rightarrow> product_store \<Rightarrow> (doc_id \<times> product) presult" where
  "create_product pc now st =
     (if py_truthy (pc_sku pc) \<and> prod_repo_get_by_sku (the (pc_sku pc)) st \<noteq> None
      then Inl (HTTPException 400 ''Product with this SKU already exists'')
      else if py_truthy (pc_category_id pc) \<and> cat_repo_get_by_id (the (pc_category_id pc)) st = None
      then Inl (HTTPException 400 ''Category not found'')
      else (let cname = (if py_truthy (pc_category_id pc)
                         then map_option (cat_name \<circ> snd) (cat_repo_get_by_id (the (pc_category_id pc)) st)
                         else None)
            in Inr (prod_repo_create pc cname now st)))"

definition get_product_by_id :: "string \<Rightarrow> product_store \<Rightarrow> (doc_id \<times> product) presult" where
  "get_product_by_id s st =
     (case prod_repo_get_by_id s st of
        None \<Rightarrow> Inl (HTTPException 404 ''Product not found'')
      | Some (pid, p) \<Rightarrow>
          (if \<not> is_active p then Inl (HTTPException 404 ''Product not found'') else Inr ((pid, p), st)))"

record product_list_response =
  pl_products :: "(doc_id \<times> product) list"
  pl_total :: nat
  pl_page :: nat
  pl_per_page :: nat
  pl_total_pages :: nat

text \<open>\<open>math.ceil(total / limit)\<close> on non-negative integers.\<close>

definition ceil_div :: "nat \<Rightarrow> nat \<Rightarrow> nat" where
  "ceil_div a b = (a + b - 1) div b"

definition get_all_products :: "nat \<Rightarrow> nat \<Rightarrow> product_store \<Rightarrow> product_list_response presult" where
  "get_all_products skip limit st =
     (let ps = prod_repo_get_all skip limit True st;
          total = prod_repo_count st
      in Inr (\<lparr>pl_products = ps, pl_total = total, pl_page = skip div limit + 1, pl_per_page = limit,
               pl_total_pages = ceil_div total limit\<rparr>, st))"

record product_search_query =
  sq_query :: "string option"
  sq_category_id :: "string option"
  sq_min_price :: "money option"
  sq_max_price :: "money option"
  sq_tags :: "string list option"
  sq_is_available :: "bool option"
  sq_page :: nat
  sq_per_page :: nat

definition search_products ::
  "(string \<Rightarrow> string \<Rightarrow> bool) \<Rightarrow> product_search_query \<Rightarrow> product_store \<Rightarrow> product_list_response presult" where
  "search_products matches q st =
     (let skip = (sq_page q - 1) * sq_per_page q;
          ps = prod_repo_search matches (sq_query q) (sq_category_id q) (sq_min_price q) (sq_max_price q)
                 (sq_tags q) (sq_is_available q) skip (sq_per_page q) st;
          total = length ps
      in Inr (\<lparr>pl_products = ps, pl_total = total, pl_page = sq_page q, pl_per_page = sq_per_page q,
               pl_total_pages = (if 0 < total then ceil_div total (sq_per_page q) else 1)\<rparr>, st))"

definition update_product :: "string \<Rightarrow> product_update \<Rightarrow> timestamp \<Rightarrow> product_store \<Rightarrow> (doc_id \<times> product) presult" where
  "update_product s u now st =
     (case prod_repo_get_by_id s st of
        None \<Rightarrow> Inl (HTTPException 404 ''Product not found'')
      | Some (pid, p) \<Rightarrow>
          (if py_truthy (pu_sku u) \<and> pu_sku u \<noteq> sku p \<and> prod_repo_get_by_sku (the (pu_sku u)) st \<noteq> None
           then Inl (HTTPException 400 ''Product with this SKU already exists'')
           else if py_truthy (pu_category_id u) \<and> cat_repo_get_by_id (the (pu_category_id u)) st = None
           then Inl (HTTPException 400 ''Category not found'')
           else (let cname = (if py_truthy (pu_category_id u)
                              then map_option (cat_name \<circ> snd) (cat_repo_get_by_id (the (pu_category_id u)) st)
                              else None)
                 in (case prod_repo_update s u cname now st of
                       (None, st') \<Rightarrow> Inl (HTTPException 500 ''Failed to update product'')
                     | (Some r, st') \<Rightarrow> Inr (r, st')))))"

definition delete_product :: "string \<Rightarrow> timestamp \<Rightarrow> product_store \<Rightarrow> string presult" where
  "delete_product s now st =
     (case prod_repo_get_by_id s st of
        None \<Rightarrow> Inl (HTTPException 404 ''Product not found'')
      | Some _ \<Rightarrow>
          (case prod_repo_delete s now st of
             (False, st') \<Rightarrow> Inl (HTTPException 500 ''Failed to delete product'')
           | (True, st') \<Rightarrow> Inr (''Product deleted successfully'', st')))"

definition update_stock :: "string \<Rightarrow> int \<Rightarrow> timestamp \<Rightarrow> product_store \<Rightarrow> (doc_id \<times> product) presult" where
  "update_stock s delta now st =
     (case prod_repo_update_stock s delta now st of
        (None, st') \<Rightarrow> Inl (HTTPException 400 ''Product not found or insufficient stock'')
      | (Some r, st') \<Rightarrow> Inr (r, st'))"

subsection \<open>The store invariant\<close>

text \<open>
  Ids stay below their counters; every product has non-negative stock and a positive
  price; a truthy SKU belongs to one product at most; category names are unique. The
  handlers check SKUs and names against every document, soft-deleted ones included.
\<close>

definition ids_bounded :: "product_store \<Rightarrow> bool" where
  "ids_bounded st \<longleftrightarrow> (\<forall>i\<in>dom (products st). i < next_product_id st) \<and> (\<forall>i\<in>dom (categories st). i < next_category_id st)"

definition stock_price_ok :: "product_store \<Rightarrow> bool" where
  "stock_price_ok st \<longleftrightarrow> (\<forall>i p. products st i = Some p \<longrightarrow> 0 \<le> stock_quantity p \<and> 0 < price p)"

definition sku_unique :: "product_store \<Rightarrow> bool" where
  "sku_unique st \<longleftrightarrow>
     (\<forall>i j p q. products st i = Some p \<longrightarrow> products st j = Some q \<longrightarrow> py_truthy (sku p) \<longrightarrow> sku p = sku q \<longrightarrow> i = j)"

definition cat_names_unique :: "product_store \<Rightarrow> bool" where
  "cat_names_unique st \<longleftrightarrow>
     (\<forall>i j c d. categories st i = Some c \<longrightarrow> categories st j = Some d \<longrightarrow> cat_name c = cat_name d \<longrightarrow> i = j)"

definition store_inv :: "product_store \<Rightarrow> bool" where
  "store_inv st \<longleftrightarrow> ids_bounded st \<and> stock_price_ok st \<and> sku_unique st \<and> cat_names_unique st"

lemma set_all_docs: "set (all_docs m n) = {(i, x). m i = Some x \<and> i < n}"
  by (force simp: all_docs_def List.map_filter_def split: option.splits)

lemma find_one_None: "find_one P docs = None \<longleftrightarrow> (\<forall>d\<in>set docs. \<not> P (snd d))"
  by (auto simp: find_one_def find_None_iff)

lemma find_one_Some: "find_one P docs = Some d \<Longrightarrow> d \<in> set docs \<and> P (snd d)"
  by (auto simp: find_one_def find_Some_iff)

lemma prod_repo_get_by_sku_None:
  "ids_bounded st \<Longrightarrow> prod_repo_get_by_sku s st = None \<longleftrightarrow> (\<forall>i p. products st i = Some p \<longrightarrow> sku p \<noteq> Some s)"
  by (auto simp: prod_repo_get_by_sku_def find_one_None all_products_def set_all_docs ids_bounded_def dom_def)

lemma cat_repo_get_by_name_None:
  "ids_bounded st \<Longrightarrow> cat_repo_get_by_name n st = None \<longleftrightarrow> (\<forall>i c. categories st i = Some c \<longrightarrow> cat_name c \<noteq> n)"
  by (fastforce simp: cat_repo_get_by_name_def find_one_None set_all_docs ids_bounded_def dom_def)

lemma prod_repo_get_by_id_Some:
  "prod_repo_get_by_id s st = Some (pid, p) \<longleftrightarrow> parse_id s = Some pid \<and> products st pid = Some p"
  by (auto simp: prod_repo_get_by_id_def split: option.splits)

lemma cat_repo_get_by_id_Some:
  "cat_repo_get_by_id s st = Some (cid, c) \<longleftrightarrow> parse_id s = Some cid \<and> categories st cid = Some c"
  by (auto simp: cat_repo_get_by_id_def split: option.splits)

lemma store_inv_empty: "store_inv empty_product_store"
  by (simp add: store_inv_def ids_bounded_def stock_price_ok_def sku_unique_def cat_names_unique_def empty_product_store_def)

lemma store_inv_create_category:
  assumes "store_inv st" "create_category n d now st = Inr (r, st')"
  shows "store_inv st'"
proof -
  from assms have nn: "cat_repo_get_by_name n st = None" and
    st': "st' = snd (cat_repo_create n d now st)"
    by (auto simp: create_category_def simp del: not_None_eq split: if_splits)
  with assms(1) have "\<forall>i c. categories st i = Some c \<longrightarrow> cat_name c \<noteq> n"
    by (simp add: store_inv_def cat_repo_get_by_name_None)
  with assms(1) st' show ?thesis
    by (auto simp: store_inv_def ids_bounded_def stock_price_ok_def sku_unique_def cat_names_unique_def
                   cat_repo_create_def Let_def dom_def)
qed

lemma store_inv_update_category:
  assumes "store_inv st" "CategoryUpdate_valid u" "update_category s u now st = Inr (r, st')"
  shows "store_inv st'"
proof -
  from assms(3) obtain cid c where g: "cat_repo_get_by_id s st = Some (cid, c)"
    by (auto simp: update_category_def split: option.splits)
  then have cs: "categories st cid = Some c" by (simp add: cat_repo_get_by_id_Some)
  from assms(3) g have nc: "\<not> (py_truthy (cu_name u) \<and> the (cu_name u) \<noteq> cat_name c \<and> cat_repo_get_by_name (the (cu_name u)) st \<noteq> None)"
    by (auto simp: update_category_def split: if_splits)
  let ?c' = "c\<lparr>cat_name := set_opt (cu_name u) (cat_name c),
                cat_description := (case cu_description u of None \<Rightarrow> cat_description c | Some d \<Rightarrow> Some d),
                cat_is_active := set_opt (cu_is_active u) (cat_is_active c), cat_updated_at := now\<rparr>"
  from assms(3) g have st': "st' = st\<lparr>categories := (categories st)(cid \<mapsto> ?c')\<rparr>"
    by (auto simp: update_category_def cat_repo_update_def Let_def split: if_splits)
  have fresh: "\<forall>j d. categories st j = Some d \<longrightarrow> j \<noteq> cid \<longrightarrow> cat_name d \<noteq> cat_name ?c'"
  proof (cases "cu_name u")
    case None
    with assms(1) cs show ?thesis by (auto simp: store_inv_def cat_names_unique_def)
  next
    case (Some m)
    show ?thesis
    proof (cases "m = cat_name c")
      case True
      with Some assms(1) cs show ?thesis by (auto simp: store_inv_def cat_names_unique_def)
    next
      case False
      from Some assms(2) have "py_truthy (cu_name u)" by (auto simp: CategoryUpdate_valid_def)
      with nc Some False have "cat_repo_get_by_name m st = None" by (auto simp del: not_None_eq)
      with assms(1) Some show ?thesis by (auto simp: store_inv_def cat_repo_get_by_name_None)
    qed
  qed
  from assms(1) cs fresh st' show ?thesis
    by (auto simp: store_inv_def ids_bounded_def stock_price_ok_def sku_unique_def cat_names_unique_def dom_def)
       metis+
qed

lemma store_inv_cat_replace:
  assumes inv: "store_inv st" and c: "categories st cid = Some c" and nm: "cat_name c' = cat_name c"
  shows "store_inv (st\<lparr>categories := (categories st)(cid \<mapsto> c')\<rparr>)"
proof -
  have "ids_bounded (st\<lparr>categories := (categories st)(cid \<mapsto> c')\<rparr>)"
    using inv c by (auto simp: store_inv_def ids_bounded_def)
  moreover have "cat_names_unique (st\<lparr>categories := (categories st)(cid \<mapsto> c')\<rparr>)"
    unfolding cat_names_unique_def
  proof (intro allI impI)
    fix i j d e
    assume "categories (st\<lparr>categories := (categories st)(cid \<mapsto> c')\<rparr>) i = Some d"
      "categories (st\<lparr>categories := (categories st)(cid \<mapsto> c')\<rparr>) j = Some e" "cat_name d = cat_name e"
    then show "i = j" using inv c nm
      by (auto simp: store_inv_def cat_names_unique_def split: if_splits)
  qed
  ultimately show ?thesis using inv unfolding store_inv_def stock_price_ok_def sku_unique_def by simp blast
qed

lemma store_inv_prod_replace:
  assumes inv: "store_inv st" and p: "products st pid = Some p"
    and ok: "0 \<le> stock_quantity p' \<and> 0 < price p'"
    and sk: "\<And>j q. py_truthy (sku p') \<Longrightarrow> products st j = Some q \<Longrightarrow> j \<noteq> pid \<Longrightarrow> sku q \<noteq> sku p'"
  shows "store_inv (st\<lparr>products := (products st)(pid \<mapsto> p')\<rparr>)"
proof -
  have "ids_bounded (st\<lparr>products := (products st)(pid \<mapsto> p')\<rparr>)"
    using inv p by (auto simp: store_inv_def ids_bounded_def)
  moreover have "stock_price_ok (st\<lparr>products := (products st)(pid \<mapsto> p')\<rparr>)"
    using inv ok by (auto simp: store_inv_def stock_price_ok_def)
  moreover have "sku_unique (st\<lparr>products := (products st)(pid \<mapsto> p')\<rparr>)"
    unfolding sku_unique_def
  proof (intro allI impI)
    fix i j a b
    assume a: "products (st\<lparr>products := (products st)(pid \<mapsto> p')\<rparr>) i = Some a"
      and b: "products (st\<lparr>products := (products st)(pid \<mapsto> p')\<rparr>) j = Some b"
      and t: "py_truthy (sku a)" and e: "sku a = sku b"
    show "i = j"
    proof (cases "i = pid"; cases "j = pid")
      assume "i = pid" "j \<noteq> pid" then show ?thesis using a b t e sk [of j b] by simp
    next
      assume "i \<noteq> pid" "j = pid" then show ?thesis using a b t e sk [of i a] by simp
    next
      assume "i \<noteq> pid" "j \<noteq> pid" then show ?thesis using a b t e inv by (auto simp: store_inv_def sku_unique_def)
    qed simp
  qed
  ultimately show ?thesis using inv unfolding store_inv_def cat_names_unique_def by simp
qed

lemma store_inv_delete_category:
  assumes "store_inv st" "delete_category s now st = Inr (r, st')"
  shows "store_inv st'"
proof -
  from assms(2) obtain cid c where g: "cat_repo_get_by_id s st = Some (cid, c)"
    and st': "st' = st\<lparr>categories := (categories st)(cid \<mapsto> c\<lparr>cat_is_active := False, cat_updated_at := now\<rparr>)\<rparr>"
    by (auto simp: delete_category_def cat_repo_delete_def split: option.splits)
  from g have "categories st cid = Some c" by (simp add: cat_repo_get_by_id_Some)
  with assms(1) st' show ?thesis by (simp add: store_inv_cat_replace)
qed

lemma prod_repo_update_stock_Some:
  "prod_repo_update_stock s delta now st = (Some r, st') \<longleftrightarrow>
     (\<exists>pid p. prod_repo_get_by_id s st = Some (pid, p) \<and> 0 \<le> stock_quantity p + delta \<and>
        r = (pid, p\<lparr>stock_quantity := stock_quantity p + delta, is_available := 0 < stock_quantity p + delta,
                    prod_updated_at := now\<rparr>) \<and>
        st' = st\<lparr>products := (products st)(pid \<mapsto> snd r)\<rparr>)"
  by (auto simp: prod_repo_update_stock_def Let_def split: option.splits)

lemma sku_unique_other:
  "store_inv st \<Longrightarrow> products st pid = Some p \<Longrightarrow> py_truthy (sku p) \<Longrightarrow> products st j = Some q \<Longrightarrow> j \<noteq> pid
     \<Longrightarrow> sku q \<noteq> sku p"
  unfolding store_inv_def sku_unique_def by metis

lemma store_inv_update_stock:
  assumes "store_inv st" "update_stock s delta now st = Inr (r, st')"
  shows "store_inv st'"
proof -
  from assms(2) have "prod_repo_update_stock s delta now st = (Some r, st')"
    by (auto simp: update_stock_def split: prod.splits option.splits)
  then obtain pid p where g: "prod_repo_get_by_id s st = Some (pid, p)" and n: "0 \<le> stock_quantity p + delta"
    and r: "r = (pid, p\<lparr>stock_quantity := stock_quantity p + delta, is_available := 0 < stock_quantity p + delta,
                    prod_updated_at := now\<rparr>)"
    and st': "st' = st\<lparr>products := (products st)(pid \<mapsto> snd r)\<rparr>"
    by (auto simp: prod_repo_update_stock_Some)
  from g have p: "products st pid = Some p" by (simp add: prod_repo_get_by_id_Some)
  from assms(1) p have "0 < price p" by (auto simp: store_inv_def stock_price_ok_def)
  with n have "0 \<le> stock_quantity (snd r) \<and> 0 < price (snd r)" by (simp add: r)
  then show ?thesis
    unfolding st' by (rule store_inv_prod_replace [OF assms(1) p]) (auto simp: r dest: sku_unique_other [OF assms(1) p])
qed

lemma store_inv_delete_product:
  assumes "store_inv st" "delete_product s now st = Inr (r, st')"
  shows "store_inv st'"
proof -
  from assms(2) obtain pid p where g: "prod_repo_get_by_id s st = Some (pid, p)"
    and st': "st' = st\<lparr>products := (products st)(pid \<mapsto> p\<lparr>is_active := False, prod_updated_at := now\<rparr>)\<rparr>"
    by (auto simp: delete_product_def prod_repo_delete_def split: option.splits)
  from g have p: "products st pid = Some p" by (simp add: prod_repo_get_by_id_Some)
  from assms(1) p have "0 \<le> stock_quantity (p\<lparr>is_active := False, prod_updated_at := now\<rparr>)
      \<and> 0 < price (p\<lparr>is_active := False, prod_updated_at := now\<rparr>)"
    by (auto simp: store_inv_def stock_price_ok_def)
  then show ?thesis
    unfolding st' by (rule store_inv_prod_replace [OF assms(1) p]) (auto dest: sku_unique_other [OF assms(1) p])
qed

lemma store_inv_create_product:
  assumes inv: "store_inv st" and v: "ProductCreate_valid pc" and c: "create_product pc now st = Inr (r, st')"
  shows "store_inv st'"
proof -
  from c have "\<exists>cname. prod_repo_create pc cname now st = (r, st')"
    by (auto simp: create_product_def Let_def split: if_splits)
  then obtain cname where "prod_repo_create pc cname now st = (r, st')" ..
  then have st': "st' = snd (prod_repo_create pc cname now st)" by simp
  from c have nosku: "py_truthy (pc_sku pc) \<Longrightarrow> prod_repo_get_by_sku (the (pc_sku pc)) st = None"
    by (auto simp: create_product_def simp del: not_None_eq split: if_splits)
  have fresh: "py_truthy (pc_sku pc) \<Longrightarrow> products st i = Some p \<Longrightarrow> sku p \<noteq> pc_sku pc" for i p
    using nosku inv by (cases "pc_sku pc") (auto simp: store_inv_def prod_repo_get_by_sku_None)
  let ?n = "next_product_id st"
  have new: "products st ?n = None" using inv by (auto simp: store_inv_def ids_bounded_def)
  have "ids_bounded st'" using inv st' by (fastforce simp: store_inv_def ids_bounded_def prod_repo_create_def Let_def dom_def)
  moreover have "stock_price_ok st'" using inv v st'
    by (auto simp: store_inv_def stock_price_ok_def prod_repo_create_def Let_def ProductCreate_valid_def)
  moreover have "sku_unique st'"
    unfolding sku_unique_def
  proof (intro allI impI)
    fix i j a b
    assume a: "products st' i = Some a" and b: "products st' j = Some b" and t: "py_truthy (sku a)" and e: "sku a = sku b"
    show "i = j"
    proof (cases "i = ?n"; cases "j = ?n")
      assume "i = ?n" "j \<noteq> ?n" then show ?thesis
        using a b t e st' fresh [of j b] by (auto simp: prod_repo_create_def Let_def)
    next
      assume "i \<noteq> ?n" "j = ?n" then show ?thesis
        using a b t e st' fresh [of i a] by (auto simp: prod_repo_create_def Let_def)
    next
      assume "i \<noteq> ?n" "j \<noteq> ?n" then show ?thesis
        using a b t e st' inv by (auto simp: prod_repo_create_def Let_def store_inv_def sku_unique_def)
    qed simp
  qed
  moreover have "cat_names_unique st'" using inv st'
    by (simp add: store_inv_def cat_names_unique_def prod_repo_create_def Let_def)
  ultimately show ?thesis by (simp add: store_inv_def)
qed

lemma update_product_Inr:
  assumes "update_product s u now st = Inr (r, st')"
  obtains pid p cname where "prod_repo_get_by_id s st = Some (pid, p)"
    and "\<not> (py_truthy (pu_sku u) \<and> pu_sku u \<noteq> sku p \<and> prod_repo_get_by_sku (the (pu_sku u)) st \<noteq> None)"
    and "r = (pid, apply_product_update u cname now p)"
    and "st' = st\<lparr>products := (products st)(pid \<mapsto> apply_product_update u cname now p)\<rparr>"
  using assms
  by (auto simp: update_product_def prod_repo_update_def Let_def simp del: not_None_eq
           split: option.splits if_splits)

lemma store_inv_update_product:
  assumes inv: "store_inv st" and v: "ProductUpdate_valid u" and c: "update_product s u now st = Inr (r, st')"
  shows "store_inv st'"
proof -
  from c obtain pid p cname where g: "prod_repo_get_by_id s st = Some (pid, p)"
    and nc: "\<not> (py_truthy (pu_sku u) \<and> pu_sku u \<noteq> sku p \<and> prod_repo_get_by_sku (the (pu_sku u)) st \<noteq> None)"
    and st': "st' = st\<lparr>products := (products st)(pid \<mapsto> apply_product_update u cname now p)\<rparr>"
    by (rule update_product_Inr)
  from g have p: "products st pid = Some p" by (simp add: prod_repo_get_by_id_Some)
  let ?p' = "apply_product_update u cname now p"
  from inv p v have ok: "0 \<le> stock_quantity ?p' \<and> 0 < price ?p'"
    by (auto simp: store_inv_def stock_price_ok_def ProductUpdate_valid_def apply_product_update_def
             split: option.splits)
  have sk: "sku q \<noteq> sku ?p'" if t: "py_truthy (sku ?p')" and q: "products st j = Some q" and j: "j \<noteq> pid" for j q
  proof (cases "pu_sku u")
    case None
    with t q j show ?thesis by (auto simp: apply_product_update_def dest: sku_unique_other [OF inv p])
  next
    case (Some x)
    show ?thesis
    proof (cases "Some x = sku p")
      case True
      with Some have e: "sku ?p' = sku p" by (simp add: apply_product_update_def split: option.splits)
      with t q j show ?thesis using sku_unique_other [OF inv p, of j q] by simp
    next
      case False
      from Some t have "py_truthy (pu_sku u)" by (simp add: apply_product_update_def)
      with nc Some False have "prod_repo_get_by_sku x st = None" by (auto simp del: not_None_eq)
      with inv q Some show ?thesis
        by (auto simp: store_inv_def prod_repo_get_by_sku_None apply_product_update_def)
    qed
  qed
  show ?thesis unfolding st' by (rule store_inv_prod_replace [OF inv p ok sk])
qed

subsection \<open>Page counts\<close>

lemma ceil_div_one: "0 < a \<Longrightarrow> a \<le> b \<Longrightarrow> ceil_div a b = 1"
  unfolding ceil_div_def by (intro div_nat_eqI) simp_all

end
