(* ===== verification/ProductController.thy ===== *)
theory ProductController
  imports ProductService
begin

text \<open>
  The HTTP layer of the product service, \<open>src/product_service/app/controllers/product_controller.py\<close>.
  Query parameters and bodies reach an endpoint only after FastAPI has checked their
  declared ranges (\<open>page \<ge> 1\<close>, \<open>1 \<le> per_page \<le> 100\<close>, \<open>1 \<le> limit \<le> 100\<close>), so the
  endpoints take checked values as natural numbers. Most endpoints re-raise the
  service's \<open>HTTPException\<close> unchanged; the three listing endpoints have only
  \<open>except Exception\<close>, which turns every exception of theirs into 500. The search
  endpoint parses its comma-separated \<open>tags\<close> parameter.
\<close>

subsection \<open>Python string helpers\<close>

text \<open>\<open>str.strip()\<close> for the ASCII whitespace characters (space, tab to carriage return).\<close>

definition py_isspace :: "char \<Rightarrow> bool" where
  "py_isspace c \<longleftrightarrow> c = CHR '' '' \<or> (9 \<le> (of_char c :: nat) \<and> (of_char c :: nat) \<le> 13)"

definition py_strip :: "string \<Rightarrow> string" where
  "py_strip s = rev (dropWhile py_isspace (rev (dropWhile py_isspace s)))"

text \<open>\<open>tag_list = [tag.strip() for tag in tags.split(",")]\<close> when \<open>tags\<close> is truthy.\<close>

definition parse_tags :: "string option \<Rightarrow> string list option" where
  "parse_tags tag_str = (if py_truthy tag_str then Some (map py_strip (py_split CHR '','' (the tag_str))) else None)"

subsection \<open>Responses\<close>

datatype response_data = CategoryData "doc_id \<times> category" | ProductData "doc_id \<times> product"

record product_standard_response =
  ps_success :: bool
  ps_message :: string
  ps_data :: "response_data option"

type_synonym 'a papi_result = "http_exception + 'a \<times> product_store"

definition prespond :: "('a \<Rightarrow> 'b) \<Rightarrow> 'a presult \<Rightarrow> 'b papi_result" where
  "prespond f r = (case r of Inl ex \<Rightarrow> Inl ex | Inr (x, st') \<Rightarrow> Inr (f x, st'))"

text \<open>\<open>except Exception: raise HTTPException(500, "Internal server error")\<close>, with no \<open>HTTPException\<close> clause before it.\<close>

definition catch_all :: "'a presult \<Rightarrow> 'a papi_result" where
  "catch_all r = (case r of Inl _ \<Rightarrow> Inl (HTTPException 500 ''Internal server error'') | Inr x \<Rightarrow> Inr x)"

definition ok_response :: "string \<Rightarrow> response_data option \<Rightarrow> product_standard_response" where
  "ok_response m d = \<lparr>ps_success = True, ps_message = m, ps_data = d\<rparr>"

subsection \<open>Category endpoints\<close>

definition api_create_category ::
  "string \<Rightarrow> string option \<Rightarrow> timestamp \<Rightarrow> product_store \<Rightarrow> product_standard_response papi_result" where
  "api_create_category n d now st =
     prespond (\<lambda>c. ok_response ''Category created successfully'' (Some (CategoryData c))) (create_category n d now st)"

definition api_get_all_categories ::
  "nat \<Rightarrow> nat \<Rightarrow> bool \<Rightarrow> product_store \<Rightarrow> (doc_id \<times> category) list papi_result" where
  "api_get_all_categories skip limit active_only st = catch_all (get_all_categories skip limit active_only st)"

definition api_get_category :: "string \<Rightarrow> product_store \<Rightarrow> (doc_id \<times> category) papi_result" where
  "api_get_category s st = prespond id (get_category_by_id s st)"

definition api_update_category ::
  "string \<Rightarrow> category_update \<Rightarrow> timestamp \<Rightarrow> product_store \<Rightarrow> product_standard_response papi_result" where
  "api_update_category s u now st =
     prespond (\<lambda>c. ok_response ''Category updated successfully'' (Some (CategoryData c))) (update_category s u now st)"

definition api_delete_category :: "string \<Rightarrow> timestamp \<Rightarrow> product_store \<Rightarrow> product_standard_response papi_result" where
  "api_delete_category s now st = prespond (\<lambda>m. ok_response m None) (delete_category s now st)"

subsection \<open>Product endpoints\<close>

definition api_create_product ::
  "product_create \<Rightarrow> timestamp \<Rightarrow> product_store \<Rightarrow> product_standard_response papi_result" where
  "api_create_product pc now st =
     prespond (\<lambda>p. ok_response ''Product created successfully'' (Some (ProductData p))) (create_product pc now st)"

definition api_get_all_products :: "nat \<Rightarrow> nat \<Rightarrow> product_store \<Rightarrow> product_list_response papi_result" where
  "api_get_all_products page per_page st = catch_all (get_all_products ((page - 1) * per_page) per_page st)"

definition api_search_products ::
  "(string \<Rightarrow> string \<Rightarrow> bool) \<Rightarrow> string option \<Rightarrow> string option \<Rightarrow> money option \<Rightarrow> money option \<Rightarrow>
   string option \<Rightarrow> bool option \<Rightarrow> nat \<Rightarrow> nat \<Rightarrow> product_store \<Rightarrow> product_list_response papi_result" where
  "api_search_products matches query cid min_p max_p tag_str avail page per_page st =
     catch_all (search_products matches
       \<lparr>sq_query = query, sq_category_id = cid, sq_min_price = min_p, sq_max_price = max_p,
        sq_tags = parse_tags tag_str, sq_is_available = avail, sq_page = page, sq_per_page = per_page\<rparr> st)"

definition api_get_product :: "string \<Rightarrow> product_store \<Rightarrow> (doc_id \<times> product) papi_result" where
  "api_get_product s st = prespond id (get_product_by_id s st)"

definition api_update_product ::
  "string \<Rightarrow> product_update \<Rightarrow> timestamp \<Rightarrow> product_store \<Rightarrow> product_standard_response papi_result" where
  "api_update_product s u now st =
     prespond (\<lambda>p. ok_response ''Product updated successfully'' (Some (ProductData p))) (update_product s u now st)"

definition api_delete_product :: "string \<Rightarrow> timestamp \<Rightarrow> product_store \<Rightarrow> product_standard_response papi_result" where
  "api_delete_product s now st = prespond (\<lambda>m. ok_response m None) (delete_product s now st)"

definition api_update_product_stock ::
  "string \<Rightarrow> int \<Rightarrow> timestamp \<Rightarrow> product_store \<Rightarrow> product_standard_response papi_result" where
  "api_update_product_stock s q now st =
     prespond (\<lambda>p. ok_response ''Stock updated successfully'' (Some (ProductData p))) (update_stock s q now st)"

subsection \<open>Binding of the stock endpoint's query parameter\<close>

text \<open>
  \<open>str(i)\<close> of a Python int, and \<open>int(s)\<close> as pydantic applies it to a query string:
  surrounding whitespace, an optional sign, and decimal digits in groups joined by
  single underscores.
\<close>

definition py_int_str :: "int \<Rightarrow> string" where
  "py_int_str i = (if i < 0 then CHR ''-'' # decimal_digits (nat (- i)) else decimal_digits (nat i))"

definition py_int_digits :: "string \<Rightarrow> bool" where
  "py_int_digits ds \<longleftrightarrow> list_all (\<lambda>g. g \<noteq> [] \<and> list_all is_digit g) (py_split CHR ''_'' ds)"

definition py_int_value :: "string \<Rightarrow> int" where
  "py_int_value ds = int (digits_value (filter (\<lambda>c. c \<noteq> CHR ''_'') ds))"

definition parse_int_str :: "string \<Rightarrow> int option" where
  "parse_int_str s =
     (case py_strip s of
        c # ds \<Rightarrow>
          (if c = CHR ''-'' then (if py_int_digits ds then Some (- py_int_value ds) else None)
           else if c = CHR ''+'' then (if py_int_digits ds then Some (py_int_value ds) else None)
           else if py_int_digits (c # ds) then Some (py_int_value (c # ds)) else None)
      | [] \<Rightarrow> None)"

text \<open>
  \<open>PATCH /api/v1/products/{product_id}/stock\<close> as FastAPI serves it: the required
  \<open>quantity_change: int = Query(...)\<close> is read from the query string (the last value
  of a repeated key), a missing or non-integer value is answered 422 before the
  endpoint runs, and the endpoint declares no body, so a JSON body is ignored. The
  answer is the status code and the new store.
\<close>

definition patch_product_stock ::
  "timestamp \<Rightarrow> string \<Rightarrow> (string \<times> string) list \<Rightarrow> pydict \<Rightarrow> product_store \<Rightarrow> nat \<times> product_store" where
  "patch_product_stock now pid query body st =
     (case map_option parse_int_str (map_of (rev query) ''quantity_change'') of
        Some (Some q) \<Rightarrow>
          (case api_update_product_stock pid q now st of
             Inl ex \<Rightarrow> (status_code ex, st)
           | Inr (_, st') \<Rightarrow> (200, st'))
      | _ \<Rightarrow> (422, st))"

subsection \<open>Basic facts\<close>

lemma prespond_simps [simp]:
  "prespond f (Inr (x, st')) = Inr (f x, st')"
  "prespond f (Inl ex) = Inl ex"
  by (simp_all add: prespond_def)

lemma catch_all_Inr [simp]: "catch_all (Inr x) = Inr x"
  by (simp add: catch_all_def)

lemma py_strip_no_space: "list_all (\<lambda>c. \<not> py_isspace c) s \<Longrightarrow> py_strip s = s"
proof -
  assume a: "list_all (\<lambda>c. \<not> py_isspace c) s"
  then have "dropWhile py_isspace s = s" by (cases s) simp_all
  moreover from a have "dropWhile py_isspace (rev s) = rev s" by (cases "rev s") (auto simp: list_all_iff dest: arg_cong [where f = set])
  ultimately show ?thesis by (simp add: py_strip_def)
qed

lemma digit_not_space: "is_digit c \<Longrightarrow> \<not> py_isspace c"
  by (auto simp: is_digit_def py_isspace_def)

lemma py_int_digits_decimal: "py_int_digits (decimal_digits n) \<and> py_int_value (decimal_digits n) = int n"
proof -
  have d: "list_all is_digit (decimal_digits n)" and v: "digits_value (decimal_digits n) = n"
    using decimal_digits_props [of n] by simp_all
  then have u: "CHR ''_'' \<notin> set (decimal_digits n)"
    by (auto simp: list_all_iff is_digit_def)
  then have "filter (\<lambda>c. c \<noteq> CHR ''_'') (decimal_digits n) = decimal_digits n"
    by (auto simp: filter_id_conv)
  then show ?thesis
    using d v u by (simp add: py_int_digits_def py_int_value_def py_split_no_sep)
qed

text \<open>A quantity the endpoint reads back from \<open>str(quantity)\<close> is that quantity.\<close>

lemma parse_int_str_py_int_str: "parse_int_str (py_int_str i) = Some i"
proof -
  obtain c ds where cd: "decimal_digits (nat \<bar>i\<bar>) = c # ds"
    by (cases "decimal_digits (nat \<bar>i\<bar>)") simp_all
  have dig: "list_all is_digit (decimal_digits (nat \<bar>i\<bar>))"
    using decimal_digits_props by blast
  then have c: "is_digit c" and ns: "list_all (\<lambda>c. \<not> py_isspace c) (decimal_digits (nat \<bar>i\<bar>))"
    using cd digit_not_space by (auto simp: list_all_iff)
  have "c \<noteq> CHR ''-''" "c \<noteq> CHR ''+''" using c by (auto simp: is_digit_def)
  moreover have "\<not> py_isspace CHR ''-''" by (simp add: py_isspace_def)
  ultimately show ?thesis
    using py_int_digits_decimal [of "nat \<bar>i\<bar>"] ns cd
    by (cases "i < 0") (simp_all add: py_int_str_def parse_int_str_def py_strip_no_space)
qed

lemma patch_product_stock_no_query:
  "map_of (rev query) ''quantity_change'' = None \<Longrightarrow> patch_product_stock now pid query body st = (422, st)"
  by (simp add: patch_product_stock_def)

lemma patch_product_stock_query:
  "patch_product_stock now pid [(''quantity_change'', py_int_str q)] body st =
     (case update_stock pid q now st of Inl ex \<Rightarrow> (status_code ex, st) | Inr (_, st') \<Rightarrow> (200, st'))"
  by (simp add: patch_product_stock_def parse_int_str_py_int_str api_update_product_stock_def prespond_def
           split: sum.splits prod.splits)

end
