(* ===== verification/ProductProperties.thy ===== *)
theory ProductProperties
  imports ProductController
begin

text \<open>
  The product service as a state machine whose requests run one at a time
  (\<open>ProductConcurrency\<close> interleaves them), and its properties: what the stock endpoint
  does, the invariant of every reachable store, the error answers, and the paginated
  reads. Each claim with a hypothesis has a witness on a store holding one product.
\<close>

subsection \<open>Reachable stores\<close>

text \<open>
  One successful call of a writing handler is a step; the request bodies are those
  pydantic accepts.
\<close>

inductive product_step :: "product_store \<Rightarrow> product_store \<Rightarrow> bool" where
  create_cat: "CategoryCreate_valid n d \<Longrightarrow> create_category n d now st = Inr (r, st') \<Longrightarrow> product_step st st'"
| update_cat: "CategoryUpdate_valid u \<Longrightarrow> update_category s u now st = Inr (r, st') \<Longrightarrow> product_step st st'"
| delete_cat: "delete_category s now st = Inr (m, st') \<Longrightarrow> product_step st st'"
| create_prod: "ProductCreate_valid pc \<Longrightarrow> create_product pc now st = Inr (r, st') \<Longrightarrow> product_step st st'"
| update_prod: "ProductUpdate_valid u \<Longrightarrow> update_product s u now st = Inr (r, st') \<Longrightarrow> product_step st st'"
| delete_prod: "delete_product s now st = Inr (m, st') \<Longrightarrow> product_step st st'"
| stock: "update_stock s delta now st = Inr (r, st') \<Longrightarrow> product_step st st'"

inductive product_reachable :: "product_store \<Rightarrow> bool" where
  init: "product_reachable empty_product_store"
| step: "product_reachable st \<Longrightarrow> product_step st st' \<Longrightarrow> product_reachable st'"

lemma product_step_store_inv: "product_step st st' \<Longrightarrow> store_inv st \<Longrightarrow> store_inv st'"
  by (induction rule: product_step.induct)
     (auto intro: store_inv_create_category store_inv_update_category store_inv_delete_category
                  store_inv_create_product store_inv_update_product store_inv_delete_product
                  store_inv_update_stock)

lemma product_reachable_store_inv: "product_reachable st \<Longrightarrow> store_inv st"
  by (induction rule: product_reachable.induct) (auto simp: store_inv_empty product_step_store_inv)

subsection \<open>A fixture store\<close>

definition ex_pc :: product_create where
  "ex_pc = \<lparr>pc_name = ''Desk lamp'', pc_description = ''A lamp for the desk'', pc_price = 30,
     pc_category_id = None, pc_sku = Some ''LMP-1'', pc_stock_quantity = 5, pc_is_available = True,
     pc_image_urls = [], pc_tags = [''lighting''], pc_weight = None, pc_dimensions = None\<rparr>"

definition ex_product :: product where
  "ex_product = \<lparr>prod_name = ''Desk lamp'', prod_description = ''A lamp for the desk'', price = 30,
     category_id = None, category_name = None, sku = Some ''LMP-1'', stock_quantity = 5, is_available = True,
     is_active = True, image_urls = [], tags = [''lighting''], weight = None, dimensions = None,
     prod_created_at = 1, prod_updated_at = 1\<rparr>"

definition ex_store :: product_store where
  "ex_store = empty_product_store\<lparr>products := [0 \<mapsto> ex_product], next_product_id := 1\<rparr>"

lemma ex_pc_valid: "ProductCreate_valid ex_pc"
  by (simp add: ProductCreate_valid_def ex_pc_def)

lemma ex_create: "create_product ex_pc 1 empty_product_store = Inr ((0, ex_product), ex_store)"
  by (simp add: create_product_def ex_pc_def prod_repo_get_by_sku_def find_one_def all_products_def all_docs_def
                empty_product_store_def prod_repo_create_def ex_product_def ex_store_def Let_def)

lemma ex_store_reachable: "product_reachable ex_store"
  by (rule product_reachable.step [OF product_reachable.init product_step.create_prod [OF ex_pc_valid ex_create]])

lemma ex_store_product [simp]: "products ex_store 0 = Some ex_product"
  by (simp add: ex_store_def)

subsection \<open>Properties of the product service\<close>

text \<open>
  C14. No stock is ever negative: in every store reachable from an empty one, every
  product, soft-deleted or not, has non-negative stock and a positive price.
\<close>

theorem reachable_stock_nonneg:
  "product_reachable st \<Longrightarrow> products st i = Some p \<Longrightarrow> 0 \<le> stock_quantity p \<and> 0 < price p"
  using product_reachable_store_inv by (auto simp: store_inv_def stock_price_ok_def)

theorem reachable_stock_nonneg_witness: "0 \<le> stock_quantity ex_product \<and> 0 < price ex_product"
  using reachable_stock_nonneg [OF ex_store_reachable ex_store_product] .

text \<open>
  When every request runs to completion before the next begins (\<open>product_step\<close>),
  a non-empty SKU identifies at most one product, and a name at most one category.
  Under the interleaving the event loop allows this fails: see
  \<open>ProductConcurrency.concurrent_creations_duplicate_sku\<close>.
\<close>

theorem reachable_unique_keys:
  assumes "product_reachable st"
  shows "(products st i = Some p \<and> products st j = Some q \<and> py_truthy (sku p) \<and> sku p = sku q \<longrightarrow> i = j)
    \<and> (categories st i = Some c \<and> categories st j = Some d \<and> cat_name c = cat_name d \<longrightarrow> i = j)"
  using product_reachable_store_inv [OF assms]
  by (auto simp: store_inv_def sku_unique_def cat_names_unique_def)

theorem reachable_unique_keys_witness:
  "products ex_store 0 = Some ex_product \<and> py_truthy (sku ex_product)"
  using reachable_unique_keys [OF ex_store_reachable, of 0 ex_product 0 ex_product] by (simp add: ex_product_def)

text \<open>
  C16. An accepted stock change moves the stock by exactly the requested delta, never
  below zero, sets \<open>is_available\<close> to whether stock remains, stamps the update time,
  and writes nothing but that product.
\<close>

theorem update_stock_accepts:
  assumes "update_stock s delta now st = Inr ((pid, p'), st')"
  shows "\<exists>p. parse_id s = Some pid \<and> products st pid = Some p
    \<and> p' = p\<lparr>stock_quantity := stock_quantity p + delta, is_available := 0 < stock_quantity p + delta,
             prod_updated_at := now\<rparr>
    \<and> 0 \<le> stock_quantity p' \<and> st' = st\<lparr>products := (products st)(pid \<mapsto> p')\<rparr>"
proof -
  from assms have "prod_repo_update_stock s delta now st = (Some (pid, p'), st')"
    by (auto simp: update_stock_def split: prod.splits option.splits)
  then show ?thesis by (auto simp: prod_repo_update_stock_Some prod_repo_get_by_id_Some)
qed

theorem update_stock_accepts_witness:
  "\<exists>r st'. update_stock ''0'' (-2) 3 ex_store = Inr (r, st') \<and> stock_quantity (snd r) = 3 \<and> is_available (snd r)"
proof -
  obtain r st' where u: "update_stock ''0'' (-2) 3 ex_store = Inr (r, st')"
    by (simp add: update_stock_def prod_repo_update_stock_def prod_repo_get_by_id_def parse_id_def is_digit_def
                  digits_value_def Let_def ex_product_def)
  obtain pid p' where r: "r = (pid, p')" by fastforce
  from update_stock_accepts [OF u [unfolded r]] have "stock_quantity p' = 3 \<and> is_available p'"
    by (auto simp: parse_id_def is_digit_def digits_value_def ex_product_def)
  with u r show ?thesis by auto
qed

text \<open>
  C17. A stock change is refused, with 400 "Product not found or insufficient stock",
  exactly when the id names no product or the change would take the stock below zero.
\<close>

theorem update_stock_rejects:
  "update_stock s delta now st = Inl (HTTPException 400 ''Product not found or insufficient stock'') \<longleftrightarrow>
     (case prod_repo_get_by_id s st of None \<Rightarrow> True | Some (pid, p) \<Rightarrow> stock_quantity p + delta < 0)"
  by (auto simp: update_stock_def prod_repo_update_stock_def Let_def split: option.splits prod.splits)

text \<open>
  C18. A soft-deleted product is "not found" for reads but not for writes:
  \<open>get_product_by_id\<close> answers 404, while \<open>update_stock\<close> (and \<open>update_product\<close>,
  which looks products up the same way) still changes it.
\<close>

theorem deleted_product_still_writable:
  assumes inv: "store_inv st" and del: "delete_product s now st = Inr (m, st')" and d: "0 \<le> delta"
  shows "get_product_by_id s st' = Inl (HTTPException 404 ''Product not found'')
    \<and> (\<exists>r st''. update_stock s delta now' st' = Inr (r, st''))"
proof -
  from del obtain pid p where g: "prod_repo_get_by_id s st = Some (pid, p)"
    and st': "st' = st\<lparr>products := (products st)(pid \<mapsto> p\<lparr>is_active := False, prod_updated_at := now\<rparr>)\<rparr>"
    by (auto simp: delete_product_def prod_repo_delete_def split: option.splits)
  from g have p: "parse_id s = Some pid" "products st pid = Some p" by (auto simp: prod_repo_get_by_id_Some)
  with inv have "0 \<le> stock_quantity p" by (auto simp: store_inv_def stock_price_ok_def)
  with p st' d show ?thesis
    by (simp add: get_product_by_id_def update_stock_def prod_repo_update_stock_def prod_repo_get_by_id_def Let_def)
qed

theorem deleted_product_still_writable_witness:
  "\<exists>m st'. delete_product ''0'' 2 ex_store = Inr (m, st')
     \<and> get_product_by_id ''0'' st' = Inl (HTTPException 404 ''Product not found'')
     \<and> (\<exists>r st''. update_stock ''0'' 4 3 st' = Inr (r, st''))"
proof -
  have inv: "store_inv ex_store" by (rule product_reachable_store_inv [OF ex_store_reachable])
  obtain m st' where del: "delete_product ''0'' 2 ex_store = Inr (m, st')"
    by (simp add: delete_product_def prod_repo_delete_def prod_repo_get_by_id_def parse_id_def is_digit_def
                  digits_value_def)
  from deleted_product_still_writable [OF inv del, of 4 3] del show ?thesis by auto
qed

text \<open>
  C19. Creating a product whose non-empty SKU is already taken, by any product
  including a soft-deleted one, is refused with 400 "Product with this SKU already
  exists" (the error taxonomy asks for a conflict).
\<close>

theorem create_product_duplicate_sku:
  assumes "ids_bounded st" "products st i = Some p" "sku p = Some x" "x \<noteq> []" "pc_sku pc = Some x"
  shows "create_product pc now st = Inl (HTTPException 400 ''Product with this SKU already exists'')"
proof -
  from assms(1-3) have "prod_repo_get_by_sku x st \<noteq> None" by (auto simp: prod_repo_get_by_sku_None)
  with assms(4,5) show ?thesis by (simp add: create_product_def)
qed

theorem create_product_duplicate_sku_witness:
  "create_product ex_pc 7 ex_store = Inl (HTTPException 400 ''Product with this SKU already exists'')"
proof -
  have "ids_bounded ex_store"
    using product_reachable_store_inv [OF ex_store_reachable] by (simp add: store_inv_def)
  then show ?thesis
    using create_product_duplicate_sku [of ex_store 0 ex_product "''LMP-1''" ex_pc 7]
    by (simp add: ex_product_def ex_pc_def)
qed

text \<open>
  C20. Search reports the length of the returned page as the total, so the answer never
  says there is more than one page: \<open>total_pages\<close> is always 1, however many products
  match.
\<close>

theorem search_products_single_page:
  assumes "1 \<le> sq_per_page q"
  shows "\<exists>r. search_products matches q st = Inr (r, st) \<and> pl_total r = length (pl_products r)
    \<and> pl_total r \<le> sq_per_page q \<and> pl_total_pages r = 1"
proof -
  let ?ps = "prod_repo_search matches (sq_query q) (sq_category_id q) (sq_min_price q) (sq_max_price q)
                 (sq_tags q) (sq_is_available q) ((sq_page q - 1) * sq_per_page q) (sq_per_page q) st"
  have le: "length ?ps \<le> sq_per_page q" using assms by (simp add: prod_repo_search_def length_page_of)
  have "0 < length ?ps \<Longrightarrow> ceil_div (length ?ps) (sq_per_page q) = 1"
    using le assms by (simp add: ceil_div_one)
  with le show ?thesis by (auto simp: search_products_def Let_def)
qed

theorem search_products_single_page_witness:
  "\<exists>r. search_products (\<lambda>pat txt. pat = txt)
          \<lparr>sq_query = None, sq_category_id = None, sq_min_price = Some 10, sq_max_price = None, sq_tags = None,
           sq_is_available = None, sq_page = 1, sq_per_page = 20\<rparr> ex_store = Inr (r, ex_store)
     \<and> pl_total_pages r = 1"
  using search_products_single_page [where q = "\<lparr>sq_query = None, sq_category_id = None, sq_min_price = Some 10,
          sq_max_price = None, sq_tags = None, sq_is_available = None, sq_page = 1, sq_per_page = 20\<rparr>"
          and matches = "\<lambda>pat txt. pat = txt" and st = ex_store]
  by auto

text \<open>
  The product listing changes nothing, returns at most \<open>limit\<close> products, none of
  them soft-deleted, counts all active products as the total, and its page count is
  the least number of pages of size \<open>limit\<close> that hold them.
\<close>

theorem get_all_products_page:
  assumes "0 < limit"
  shows "\<exists>r. get_all_products skip limit st = Inr (r, st)
    \<and> length (pl_products r) \<le> limit \<and> (\<forall>d\<in>set (pl_products r). is_active (snd d))
    \<and> pl_total r = prod_repo_count st
    \<and> pl_total r \<le> pl_total_pages r * limit \<and> pl_total_pages r * limit < pl_total r + limit"
proof -
  have "set (prod_repo_get_all skip limit True st) \<subseteq> {d. is_active (snd d)}"
    using set_page_of by (fastforce simp: prod_repo_get_all_def)
  then show ?thesis
    using ceil_div_bounds [OF assms, of "prod_repo_count st"]
    by (auto simp: get_all_products_def Let_def prod_repo_get_all_def length_page_of ceil_div_def)
qed

theorem get_all_products_page_witness:
  "\<exists>r. get_all_products 0 20 ex_store = Inr (r, ex_store) \<and> length (pl_products r) \<le> 20"
  using get_all_products_page [of 20 0 ex_store] by auto

text \<open>
  A product cannot be created in a category that does not exist: when the request
  names a category id that parses to no stored category, and its SKU is free, the
  answer is 400 "Category not found" and nothing is written.
\<close>

theorem create_product_missing_category:
  assumes "pc_category_id pc = Some c" "c \<noteq> []" "cat_repo_get_by_id c st = None"
    "\<not> (py_truthy (pc_sku pc) \<and> prod_repo_get_by_sku (the (pc_sku pc)) st \<noteq> None)"
  shows "create_product pc now st = Inl (HTTPException 400 ''Category not found'')"
  using assms by (simp add: create_product_def)

theorem create_product_missing_category_witness:
  "create_product (ex_pc\<lparr>pc_category_id := Some ''9'', pc_sku := None\<rparr>) 2 ex_store
     = Inl (HTTPException 400 ''Category not found'')"
  using create_product_missing_category [of "ex_pc\<lparr>pc_category_id := Some ''9'', pc_sku := None\<rparr>" "''9''" ex_store 2]
  by (simp add: cat_repo_get_by_id_def parse_id_def is_digit_def digits_value_def ex_store_def empty_product_store_def)

text \<open>
  The search endpoint's \<open>tags\<close> parameter carries a tag list without loss: a
  non-empty list of tags that contain no comma and no surrounding whitespace, sent
  comma-joined, is parsed back to the same list.
\<close>

theorem parse_tags_join:
  assumes "ts \<noteq> []" "\<forall>t\<in>set ts. CHR '','' \<notin> set t \<and> py_strip t = t" "py_join '','' ts \<noteq> []"
  shows "parse_tags (Some (py_join '','' ts)) = Some ts"
proof -
  have "py_split CHR '','' (py_join '','' ts) = ts"
    using py_split_join [of ts "CHR '',''"] assms(1,2) by simp
  moreover have "map py_strip ts = ts"
    using assms(2) by (simp add: map_idI)
  ultimately show ?thesis
    using assms(3) by (simp add: parse_tags_def)
qed

theorem parse_tags_join_witness:
  "parse_tags (Some ''red,blue'') = Some [''red'', ''blue'']"
proof -
  have s: "py_strip ''red'' = ''red''" "py_strip ''blue'' = ''blue''"
    by (simp_all add: py_strip_def py_isspace_def)
  show ?thesis
    using parse_tags_join [of "[''red'', ''blue'']"] s by simp
qed

end
