(* ===== verification/ProductConcurrency.thy ===== *)
theory ProductConcurrency
  imports ProductProperties
begin

text \<open>
  Creation under concurrent requests. \<open>ProductService.create_product\<close> of
  \<open>src/product_service/app/services/product_service.py\<close> awaits
  \<open>get_product_by_sku\<close>, then \<open>get_category_by_id\<close>, then \<open>create_product\<close>, and
  \<open>CategoryService.create_category\<close> awaits \<open>get_category_by_name\<close> before
  \<open>create_category\<close>; neither collection has a unique index. Each handler is split at
  its first await into a check and the rest, which reads the store again when it
  runs. \<open>product_conc_step\<close> interleaves the halves of any number of creations with
  the other writing handlers of \<open>product_step\<close>, each one step. Every sequential run
  is one of these interleavings.
\<close>

subsection \<open>The halves of the creating handlers\<close>

definition create_product_check :: "product_create \<Rightarrow> product_store \<Rightarrow> http_exception option" where
  "create_product_check pc st =
     (if py_truthy (pc_sku pc) \<and> prod_repo_get_by_sku (the (pc_sku pc)) st \<noteq> None
      then Some (HTTPException 400 ''Product with this SKU already exists'') else None)"

definition create_product_insert :: "product_create \<Rightarrow> timestamp \<Rightarrow> product_store \<Rightarrow> (doc_id \<times> product) presult" where
  "create_product_insert pc now st =
     (if py_truthy (pc_category_id pc) \<and> cat_repo_get_by_id (the (pc_category_id pc)) st = None
      then Inl (HTTPException 400 ''Category not found'')
      else (let cname = (if py_truthy (pc_category_id pc)
                         then map_option (cat_name \<circ> snd) (cat_repo_get_by_id (the (pc_category_id pc)) st)
                         else None)
            in Inr (prod_repo_create pc cname now st)))"

definition create_category_check :: "string \<Rightarrow> product_store \<Rightarrow> http_exception option" where
  "create_category_check n st =
     (if cat_repo_get_by_name n st \<noteq> None
      then Some (HTTPException 400 ''Category with this name already exists'') else None)"

subsection \<open>Interleaved requests\<close>

datatype creation = NewProduct product_create timestamp | NewCategory string "string option" timestamp

record product_server =
  ps_store :: product_store
  ps_pending :: "creation list"

definition product_server_init :: product_server where
  "product_server_init = \<lparr>ps_store = empty_product_store, ps_pending = []\<rparr>"

inductive product_conc_step :: "product_server \<Rightarrow> product_server \<Rightarrow> bool" where
  check_prod: "ProductCreate_valid pc \<Longrightarrow> create_product_check pc (ps_store s) = None \<Longrightarrow>
    product_conc_step s (s\<lparr>ps_pending := ps_pending s @ [NewProduct pc now]\<rparr>)"
| insert_prod: "i < length (ps_pending s) \<Longrightarrow> ps_pending s ! i = NewProduct pc now \<Longrightarrow>
    create_product_insert pc now (ps_store s) = Inr (r, st') \<Longrightarrow>
    product_conc_step s \<lparr>ps_store = st', ps_pending = remove_at i (ps_pending s)\<rparr>"
| fail_prod: "i < length (ps_pending s) \<Longrightarrow> ps_pending s ! i = NewProduct pc now \<Longrightarrow>
    create_product_insert pc now (ps_store s) = Inl ex \<Longrightarrow>
    product_conc_step s (s\<lparr>ps_pending := remove_at i (ps_pending s)\<rparr>)"
| check_cat: "CategoryCreate_valid n d \<Longrightarrow> create_category_check n (ps_store s) = None \<Longrightarrow>
    product_conc_step s (s\<lparr>ps_pending := ps_pending s @ [NewCategory n d now]\<rparr>)"
| insert_cat: "i < length (ps_pending s) \<Longrightarrow> ps_pending s ! i = NewCategory n d now \<Longrightarrow>
    product_conc_step s \<lparr>ps_store = snd (cat_repo_create n d now (ps_store s)), ps_pending = remove_at i (ps_pending s)\<rparr>"
| update_cat: "CategoryUpdate_valid u \<Longrightarrow> update_category str u now (ps_store s) = Inr (r, st') \<Longrightarrow>
    product_conc_step s (s\<lparr>ps_store := st'\<rparr>)"
| delete_cat: "delete_category str now (ps_store s) = Inr (m, st') \<Longrightarrow> product_conc_step s (s\<lparr>ps_store := st'\<rparr>)"
| update_prod: "ProductUpdate_valid u \<Longrightarrow> update_product str u now (ps_store s) = Inr (r, st') \<Longrightarrow>
    product_conc_step s (s\<lparr>ps_store := st'\<rparr>)"
| delete_prod: "delete_product str now (ps_store s) = Inr (m, st') \<Longrightarrow> product_conc_step s (s\<lparr>ps_store := st'\<rparr>)"
| stock: "update_stock str delta now (ps_store s) = Inr (r, st') \<Longrightarrow> product_conc_step s (s\<lparr>ps_store := st'\<rparr>)"

inductive product_conc_reachable :: "product_server \<Rightarrow> bool" where
  init: "product_conc_reachable product_server_init"
| step: "product_conc_reachable s \<Longrightarrow> product_conc_step s s' \<Longrightarrow> product_conc_reachable s'"

subsection \<open>Properties\<close>

lemma create_product_halves:
  "create_product pc now st =
     (case create_product_check pc st of Some ex \<Rightarrow> Inl ex | None \<Rightarrow> create_product_insert pc now st)"
  by (simp add: create_product_def create_product_check_def create_product_insert_def)

lemma create_category_halves:
  "create_category n d now st =
     (case create_category_check n st of Some ex \<Rightarrow> Inl ex | None \<Rightarrow> Inr (cat_repo_create n d now st))"
  by (simp add: create_category_def create_category_check_def)

lemma product_conc_steps2:
  "product_conc_reachable s \<Longrightarrow> product_conc_step s s1 \<Longrightarrow> product_conc_step s1 s2 \<Longrightarrow> product_conc_reachable s2"
  by (blast intro: product_conc_reachable.step)

lemma product_sequential_is_interleaved:
  "product_reachable st \<Longrightarrow> product_conc_reachable \<lparr>ps_store = st, ps_pending = []\<rparr>"
proof (induction rule: product_reachable.induct)
  case init
  then show ?case by (simp add: product_conc_reachable.init [unfolded product_server_init_def])
next
  case (step st st')
  let ?s = "\<lparr>ps_store = st, ps_pending = []\<rparr>"
  from step.hyps(2) show ?case
  proof (cases rule: product_step.cases)
    case (create_cat n d now r)
    then have c: "create_category_check n st = None" and i: "snd (cat_repo_create n d now st) = st'"
      by (auto simp: create_category_halves split: option.splits)
    have "product_conc_step ?s (?s\<lparr>ps_pending := [NewCategory n d now]\<rparr>)"
      using product_conc_step.check_cat [OF create_cat(1), of ?s now] c by simp
    moreover have "product_conc_step (?s\<lparr>ps_pending := [NewCategory n d now]\<rparr>) \<lparr>ps_store = st', ps_pending = []\<rparr>"
      using product_conc_step.insert_cat [of 0 "?s\<lparr>ps_pending := [NewCategory n d now]\<rparr>" n d now] i
      by (simp add: remove_at_def)
    ultimately show ?thesis using step.IH by (rule product_conc_steps2 [rotated])
  next
    case (create_prod pc now r)
    then have c: "create_product_check pc st = None" and i: "create_product_insert pc now st = Inr (r, st')"
      by (auto simp: create_product_halves split: option.splits)
    have "product_conc_step ?s (?s\<lparr>ps_pending := [NewProduct pc now]\<rparr>)"
      using product_conc_step.check_prod [OF create_prod(1), of ?s now] c by simp
    moreover have "product_conc_step (?s\<lparr>ps_pending := [NewProduct pc now]\<rparr>) \<lparr>ps_store = st', ps_pending = []\<rparr>"
      using product_conc_step.insert_prod [of 0 "?s\<lparr>ps_pending := [NewProduct pc now]\<rparr>" pc now r st'] i
      by (simp add: remove_at_def)
    ultimately show ?thesis using step.IH by (rule product_conc_steps2 [rotated])
  qed (use step.IH in \<open>auto intro: product_conc_reachable.step product_conc_step.intros [where s = ?s, simplified]\<close>)
qed

lemma prod_repo_create_store:
  "products (snd (prod_repo_create pc c now st)) i =
     (if i = next_product_id st then Some (snd (fst (prod_repo_create pc c now st))) else products st i)"
  "next_product_id (snd (prod_repo_create pc c now st)) = Suc (next_product_id st)"
  "sku (snd (fst (prod_repo_create pc c now st))) = pc_sku pc"
  "cat_repo_get_by_id x (snd (prod_repo_create pc c now st)) = cat_repo_get_by_id x st"
  by (simp_all add: prod_repo_create_def cat_repo_get_by_id_def Let_def split: option.split)

lemma create_product_insert_Inr:
  assumes "\<not> (py_truthy (pc_category_id pc) \<and> cat_repo_get_by_id (the (pc_category_id pc)) st = None)"
  shows "\<exists>c r st'. prod_repo_create pc c now st = (r, st') \<and> create_product_insert pc now st = Inr (r, st')"
  using assms by (auto simp: create_product_insert_def Let_def) (metis prod.collapse)+

text \<open>
  C15. SKUs are not unique under concurrent creations: from any reachable state, two
  valid creations with the same non-empty SKU, neither rejected by the SKU check and
  both naming an existing category or none, that both pass the SKU check before
  either inserts both succeed, and the store ends with two distinct products with
  that SKU.
\<close>

theorem concurrent_creations_duplicate_sku:
  assumes "product_conc_reachable s" and "create_product_check pc1 (ps_store s) = None"
    and "ProductCreate_valid pc1" and "ProductCreate_valid pc2" and "pc_sku pc2 = pc_sku pc1"
    and "\<not> (py_truthy (pc_category_id pc1) \<and> cat_repo_get_by_id (the (pc_category_id pc1)) (ps_store s) = None)"
    and "\<not> (py_truthy (pc_category_id pc2) \<and> cat_repo_get_by_id (the (pc_category_id pc2)) (ps_store s) = None)"
  shows "\<exists>s'. product_conc_reachable s' \<and> (\<exists>i j p q. i \<noteq> j \<and> products (ps_store s') i = Some p
           \<and> products (ps_store s') j = Some q \<and> sku p = pc_sku pc1 \<and> sku q = pc_sku pc1)"
proof -
  let ?p = "ps_pending s" and ?st = "ps_store s"
  let ?s1 = "s\<lparr>ps_pending := ?p @ [NewProduct pc1 0]\<rparr>"
  let ?s2 = "s\<lparr>ps_pending := ?p @ [NewProduct pc1 0, NewProduct pc2 0]\<rparr>"
  have c2: "create_product_check pc2 ?st = None"
    using assms(2,5) by (simp add: create_product_check_def)
  obtain c1 r1 st3 where e1: "prod_repo_create pc1 c1 0 ?st = (r1, st3)"
    and i1: "create_product_insert pc1 0 ?st = Inr (r1, st3)"
    using create_product_insert_Inr [OF assms(6)] by blast
  let ?s3 = "\<lparr>ps_store = st3, ps_pending = ?p @ [NewProduct pc2 0]\<rparr>"
  have "\<not> (py_truthy (pc_category_id pc2) \<and> cat_repo_get_by_id (the (pc_category_id pc2)) st3 = None)"
    using assms(7) prod_repo_create_store(4) [where pc = pc1 and c = c1 and now = 0 and st = "?st"] e1 by simp
  then obtain c2 r2 st4 where e2: "prod_repo_create pc2 c2 0 st3 = (r2, st4)"
    and i2: "create_product_insert pc2 0 st3 = Inr (r2, st4)"
    using create_product_insert_Inr by blast
  let ?s4 = "\<lparr>ps_store = st4, ps_pending = ?p\<rparr>"
  have 1: "product_conc_step s ?s1"
    using product_conc_step.check_prod [OF assms(3), of s 0] assms(2) by simp
  have 2: "product_conc_step ?s1 ?s2"
    using product_conc_step.check_prod [OF assms(4), of ?s1 0] c2 by simp
  have 3: "product_conc_step ?s2 ?s3"
    using product_conc_step.insert_prod [of "length ?p" ?s2 pc1 0] i1 by simp
  have 4: "product_conc_step ?s3 ?s4"
    using product_conc_step.insert_prod [of "length ?p" ?s3 pc2 0] i2 by simp
  have "product_conc_reachable ?s4"
    using product_conc_steps2 [OF product_conc_steps2 [OF assms(1) 1 2] 3 4] .
  moreover have "products st4 (next_product_id ?st) = Some (snd r1)" and "sku (snd r1) = pc_sku pc1"
    and "products st4 (Suc (next_product_id ?st)) = Some (snd r2)" and "sku (snd r2) = pc_sku pc1"
    using prod_repo_create_store [where pc = pc1 and c = c1 and now = 0 and st = "?st"]
          prod_repo_create_store [where pc = pc2 and c = c2 and now = 0 and st = st3] e1 e2 assms(5)
    by simp_all
  ultimately show ?thesis
    by (metis n_not_Suc_n product_server.select_convs(1))
qed

theorem concurrent_creations_duplicate_sku_witness:
  "\<exists>s'. product_conc_reachable s' \<and> (\<exists>i j p q. i \<noteq> j \<and> products (ps_store s') i = Some p
      \<and> products (ps_store s') j = Some q \<and> sku p = Some ''LMP-1'' \<and> sku q = Some ''LMP-1'')"
proof -
  have "create_product_check ex_pc (ps_store product_server_init) = None"
    by (simp add: create_product_check_def prod_repo_get_by_sku_def find_one_def all_products_def all_docs_def
                  product_server_init_def empty_product_store_def)
  then show ?thesis
    using concurrent_creations_duplicate_sku [OF product_conc_reachable.init _ ex_pc_valid ex_pc_valid refl]
    by (simp add: ex_pc_def)
qed

end
