(* ===== verification/NotificationProperties.thy ===== *)
theory NotificationProperties
  imports NotificationConsumer
begin

text \<open>
  Properties of the notification dispatcher and its consumer: what creating a
  notification stores when the channel succeeds and when it raises, the bound on the
  retry counter in every reachable store, the fact that with the code's mock channels
  the failure and retry paths are never taken, and the window of the retry sweep.
\<close>

subsection \<open>Characterisation of the operations\<close>

lemma update_notification_status_Some:
  "notifs db nid = Some n \<Longrightarrow> update_notification_status nid s dl now db =
     (Some (n\<lparr>n_status := s, n_updated_at := now, n_sent_at := (if s = N_SENT then Some now else n_sent_at n),
             n_delivered_at := (if s = N_DELIVERED \<and> dl \<noteq> None then dl else n_delivered_at n)\<rparr>),
      db\<lparr>notifs := (notifs db)(nid \<mapsto> n\<lparr>n_status := s, n_updated_at := now,
             n_sent_at := (if s = N_SENT then Some now else n_sent_at n),
             n_delivered_at := (if s = N_DELIVERED \<and> dl \<noteq> None then dl else n_delivered_at n)\<rparr>)\<rparr>)"
  by (simp add: update_notification_status_def repo_update_notification_def)

lemma update_notification_status_None:
  "notifs db nid = None \<Longrightarrow> update_notification_status nid s dl now db = (None, db)"
  by (simp add: update_notification_status_def repo_update_notification_def)

lemma send_channel_stored:
  assumes "notifs db nid = Some n"
  shows "notifs (send_channel t nid now db) nid =
     Some (n\<lparr>n_status := (if t = EMAIL then N_DELIVERED else N_SENT), n_updated_at := now, n_sent_at := Some now,
             n_delivered_at := (if t = EMAIL then Some now else n_delivered_at n)\<rparr>)"
  using assms by (cases t) (simp_all add: send_channel_def update_notification_status_Some)

lemma send_channel_other: "i \<noteq> nid \<Longrightarrow> notifs (send_channel t nid now db) i = notifs db i"
  by (cases t; cases "notifs db nid")
     (simp_all add: send_channel_def update_notification_status_def repo_update_notification_def)

lemma send_channel_next [simp]: "next_notif_id (send_channel t nid now db) = next_notif_id db"
  by (cases t; cases "notifs db nid")
     (simp_all add: send_channel_def update_notification_status_def repo_update_notification_def)

lemma send_failure_stored:
  assumes "notifs db nid = Some n"
  shows "notifs (snd (send_notification False now (nid, m) db)) nid =
     Some (n\<lparr>n_status := N_FAILED, n_updated_at := now, n_retry_count := n_retry_count m + 1\<rparr>)"
  using assms by (simp add: send_notification_def update_notification_status_Some repo_update_notification_def)

lemma send_notification_other:
  "i \<noteq> nid \<Longrightarrow> notifs (snd (send_notification ok now (nid, m) db)) i = notifs db i"
  by (cases "notifs db nid")
     (auto simp: send_notification_def send_channel_other update_notification_status_def repo_update_notification_def)

lemma send_notification_next [simp]: "next_notif_id (snd (send_notification ok now d db)) = next_notif_id db"
  by (cases "notifs db (fst d)")
     (auto simp: send_notification_def update_notification_status_def repo_update_notification_def)

lemma send_notification_raised: "fst (send_notification ok now d db) = (\<not> ok)"
  by (simp add: send_notification_def)

definition new_notification :: "NotificationType \<Rightarrow> notif_request \<Rightarrow> timestamp \<Rightarrow> notification" where
  "new_notification t rq now = snd (fst (repo_create_notification t rq now empty_notif_db))"

lemma repo_create_notification_eq:
  "repo_create_notification t rq now db =
     ((next_notif_id db, new_notification t rq now),
      db\<lparr>notifs := (notifs db)(next_notif_id db \<mapsto> new_notification t rq now), next_notif_id := Suc (next_notif_id db)\<rparr>)"
  by (simp add: repo_create_notification_def new_notification_def empty_notif_db_def Let_def)

lemma new_notification_fields [simp]:
  "n_type (new_notification t rq now) = t" "n_status (new_notification t rq now) = N_PENDING"
  "n_retry_count (new_notification t rq now) = 0" "n_recipient (new_notification t rq now) = rq_recipient rq"
  "n_event_type (new_notification t rq now) = rq_event_type rq" "n_max_retries (new_notification t rq now) = 3"
  "n_created_at (new_notification t rq now) = now"
  by (simp_all add: new_notification_def repo_create_notification_def empty_notif_db_def Let_def)

lemma create_notification_valid:
  assumes "parse_type (rq_type rq) = Some t"
  shows "create_notification ok rq now db =
     (if ok then Inr (next_notif_id db) else Inl ChannelError,
      snd (send_notification ok now (next_notif_id db, new_notification t rq now)
            (snd (repo_create_notification t rq now db))))"
  using assms by (cases ok) (simp_all add: create_notification_def repo_create_notification_eq send_notification_def)

lemma retry_loop_other:
  "i \<notin> fst ` set ds \<Longrightarrow> notifs (snd (retry_loop okf mr now ds cnt db)) i = notifs db i"
  by (induction okf mr now ds cnt db rule: retry_loop.induct)
     (auto simp: Let_def send_notification_other split_beta)

lemma retry_loop_next [simp]: "next_notif_id (snd (retry_loop okf mr now ds cnt db)) = next_notif_id db"
  by (induction okf mr now ds cnt db rule: retry_loop.induct) (auto simp: Let_def split_beta)

lemma retry_loop_append:
  "retry_loop okf mr now (xs @ ys) cnt db =
     (let (c, db') = retry_loop okf mr now xs cnt db in retry_loop okf mr now ys c db')"
  by (induction okf mr now xs cnt db rule: retry_loop.induct) (auto simp: Let_def split_beta)

lemma distinct_all_notifications: "distinct (map fst (all_notifications db))"
proof -
  have "map fst (List.map_filter (\<lambda>i. map_option (Pair i) (notifs db i)) xs) = filter (\<lambda>i. notifs db i \<noteq> None) xs" for xs
    by (induction xs) (auto simp: List.map_filter_simps split: option.splits)
  then show ?thesis by (simp add: all_notifications_def)
qed

lemma distinct_repo_get_notifications: "distinct (map fst (repo_get_notifications r s l off db))"
proof -
  have d: "distinct (map fst (filter P (all_notifications db)))" for P
    using distinct_all_notifications by (simp add: distinct_map_filter)
  have "distinct (map fst (newest_notifs_first xs))" if "distinct (map fst xs)" for xs :: "(doc_id \<times> notification) list"
  proof -
    have "set (map fst (newest_notifs_first xs)) = set (map fst xs)"
      "length (map fst (newest_notifs_first xs)) = length (map fst xs)"
      by (simp_all add: newest_notifs_first_def)
    with that show ?thesis by (metis card_distinct distinct_card)
  qed
  then have "distinct (map fst (newest_notifs_first (filter P (all_notifications db))))" for P
    using d by blast
  then show ?thesis
    by (simp add: repo_get_notifications_def page_of_def mongo_limit_def distinct_take distinct_drop take_map [symmetric] drop_map [symmetric])
qed

definition notif_ok :: "notification \<Rightarrow> bool" where
  "notif_ok n \<longleftrightarrow> n_max_retries n = 3 \<and> 0 \<le> n_retry_count n \<and> n_retry_count n \<le> n_max_retries n
                  \<and> (n_status n = N_FAILED \<longrightarrow> 1 \<le> n_retry_count n)"

definition notif_inv :: "notif_db \<Rightarrow> bool" where
  "notif_inv db \<longleftrightarrow> (\<forall>i n. notifs db i = Some n \<longrightarrow> notif_ok n)"

lemma notif_inv_empty: "notif_inv empty_notif_db"
  by (simp add: notif_inv_def empty_notif_db_def)

lemma notif_inv_update:
  "notif_inv db \<Longrightarrow> notifs db nid = Some n \<Longrightarrow> notif_ok n' \<Longrightarrow> notif_inv (db\<lparr>notifs := (notifs db)(nid \<mapsto> n')\<rparr>)"
  by (auto simp: notif_inv_def)

lemma notif_inv_send_channel:
  assumes "notif_inv db" shows "notif_inv (send_channel t nid now db)"
proof (cases "notifs db nid")
  case None
  then show ?thesis using assms
    by (cases t) (simp_all add: send_channel_def update_notification_status_None)
next
  case (Some n)
  then have "notif_ok n" using assms by (auto simp: notif_inv_def)
  then show ?thesis using assms Some
    by (cases t) (auto simp: send_channel_def update_notification_status_Some notif_ok_def
                       intro!: notif_inv_update [OF assms Some])
qed

lemma notif_inv_send:
  assumes inv: "notif_inv db" and m: "0 \<le> n_retry_count m \<and> n_retry_count m < 3"
  shows "notif_inv (snd (send_notification ok now (nid, m) db))"
proof (cases ok)
  case True
  then show ?thesis using inv by (simp add: send_notification_def notif_inv_send_channel)
next
  case False
  show ?thesis
  proof (cases "notifs db nid")
    case None
    with False inv show ?thesis
      by (simp add: send_notification_def update_notification_status_None repo_update_notification_def)
  next
    case (Some n)
    with inv have "notif_ok n" by (auto simp: notif_inv_def)
    with False Some inv m show ?thesis
      by (auto simp: send_notification_def update_notification_status_Some repo_update_notification_def
                     notif_ok_def intro!: notif_inv_update [OF inv Some])
  qed
qed

lemma notif_inv_retry_loop:
  "notif_inv db \<Longrightarrow> mr \<le> 3 \<Longrightarrow> list_all (\<lambda>d. 0 \<le> n_retry_count (snd d)) ds \<Longrightarrow>
     notif_inv (snd (retry_loop okf mr now ds cnt db))"
proof (induction okf mr now ds cnt db rule: retry_loop.induct)
  case (1 okf mr now cnt db)
  then show ?case by simp
next
  case (2 okf mr now d ds cnt db)
  obtain nid m where d: "d = (nid, m)" by fastforce
  show ?case
  proof (cases "n_retry_count m < mr")
    case True
    with 2(4,5) d have "notif_inv (snd (send_notification (okf nid) now (nid, m) db))"
      by (intro notif_inv_send) (auto simp: 2(3))
    with 2 True d show ?thesis by (auto simp: Let_def split_beta)
  next
    case False
    with 2 d show ?thesis by simp
  qed
qed

lemma set_all_notifications: "set (all_notifications db) = {(i, n). notifs db i = Some n \<and> i < next_notif_id db}"
  by (force simp: all_notifications_def List.map_filter_def split: option.splits)

lemma repo_get_notifications_stored:
  "d \<in> set (repo_get_notifications r s l off db) \<Longrightarrow> notifs db (fst d) = Some (snd d)"
  using set_page_of by (fastforce simp: repo_get_notifications_def newest_notifs_first_def set_all_notifications)

text \<open>
  What one sweep does to a notification of its window: a retryable one is sent
  (delivered, for e-mail) when its channel works and marked failed with one more
  retry when it raises; one that has used up its retries is left alone.
\<close>

lemma retry_window_stored:
  assumes w: "(nid, n) \<in> set (repo_get_notifications None (Some N_FAILED) 100 0 db)"
  shows "notifs (snd (retry_failed_notifications okf mr now db)) nid =
    Some (if n_retry_count n < mr then
            (if okf nid
             then n\<lparr>n_status := (if n_type n = EMAIL then N_DELIVERED else N_SENT), n_updated_at := now,
                    n_sent_at := Some now, n_delivered_at := (if n_type n = EMAIL then Some now else n_delivered_at n)\<rparr>
             else n\<lparr>n_status := N_FAILED, n_updated_at := now, n_retry_count := n_retry_count n + 1\<rparr>)
          else n)"
proof -
  let ?ds = "repo_get_notifications None (Some N_FAILED) 100 0 db"
  from w obtain xs ys where split: "?ds = xs @ (nid, n) # ys" by (meson split_list)
  from distinct_repo_get_notifications [of None "Some N_FAILED" 100 0 db] split
  have nx: "nid \<notin> fst ` set xs" and ny: "nid \<notin> fst ` set ys" by auto
  from repo_get_notifications_stored [OF w] have st: "notifs db nid = Some n" by simp
  obtain c1 db1 where l1: "retry_loop okf mr now xs 0 db = (c1, db1)" by fastforce
  have s1: "notifs db1 nid = Some n" using retry_loop_other [OF nx, of okf mr now 0 db] l1 st by simp
  show ?thesis
  proof (cases "n_retry_count n < mr")
    case False
    then have "snd (retry_failed_notifications okf mr now db) = snd (retry_loop okf mr now ys c1 db1)"
      using split l1 by (simp add: retry_failed_notifications_def retry_loop_append)
    with retry_loop_other [OF ny] s1 False show ?thesis by simp
  next
    case r: True
    show ?thesis
    proof (cases "okf nid")
      case True
      then have "snd (retry_failed_notifications okf mr now db)
          = snd (retry_loop okf mr now ys (Suc c1) (send_channel (n_type n) nid now db1))"
        using split l1 r by (simp add: retry_failed_notifications_def retry_loop_append send_notification_def)
      with retry_loop_other [OF ny] send_channel_stored [OF s1] r True show ?thesis by simp
    next
      case False
      then have "snd (retry_failed_notifications okf mr now db)
          = snd (retry_loop okf mr now ys c1 (snd (send_notification False now (nid, n) db1)))"
        using split l1 r by (simp add: retry_failed_notifications_def retry_loop_append send_notification_raised split_beta)
      with retry_loop_other [OF ny] send_failure_stored [OF s1] r False show ?thesis by simp
    qed
  qed
qed

lemma notif_inv_retry:
  assumes "notif_inv db" "mr \<le> 3"
  shows "notif_inv (snd (retry_failed_notifications okf mr now db))"
proof -
  have "list_all (\<lambda>d. 0 \<le> n_retry_count (snd d)) (repo_get_notifications None (Some N_FAILED) 100 0 db)"
    using assms(1) by (auto simp: list_all_iff notif_inv_def notif_ok_def dest!: repo_get_notifications_stored)
  with assms show ?thesis by (simp add: retry_failed_notifications_def notif_inv_retry_loop)
qed

lemma notif_ok_new: "notif_ok (new_notification t rq now)"
  by (simp add: notif_ok_def)

lemma notif_inv_create:
  assumes inv: "notif_inv db" shows "notif_inv (snd (create_notification ok rq now db))"
proof (cases "parse_type (rq_type rq)")
  case None
  with inv show ?thesis by (simp add: create_notification_def)
next
  case (Some t)
  have "notif_inv (snd (repo_create_notification t rq now db))"
    using inv notif_ok_new by (auto simp: repo_create_notification_eq notif_inv_def)
  then show ?thesis using Some
    by (simp add: create_notification_valid notif_inv_send)
qed

lemma notify_cases: "notify ok r subj msg et d sv prio now db = db \<or> (\<exists>rq. notify ok r subj msg et d sv prio now db = snd (create_notification ok rq now db))"
  by (auto simp: notify_def split: pyval.splits)

lemma process_message_cases:
  "process_message ok now m db = db \<or> (\<exists>rq. process_message ok now m db = snd (create_notification ok rq now db))"
proof -
  have u: "handle_user_event ok e d sv now db = db \<or> (\<exists>rq. handle_user_event ok e d sv now db = snd (create_notification ok rq now db))"
    for e d sv using notify_cases
    by (simp add: handle_user_event_def handle_user_registered_def Let_def)
  have p: "handle_product_event ok e d sv now db = db \<or> (\<exists>rq. handle_product_event ok e d sv now db = snd (create_notification ok rq now db))"
    for e d sv using notify_cases
    by (simp add: handle_product_event_def handle_product_stock_updated_def Let_def)
  show ?thesis using u p
    by (simp add: process_message_def Let_def split: pyval.splits)
qed

lemma notif_inv_process: "notif_inv db \<Longrightarrow> notif_inv (process_message ok now m db)"
  using process_message_cases [of ok now m db] notif_inv_create by metis

definition no_failed :: "notif_db \<Rightarrow> bool" where
  "no_failed db \<longleftrightarrow> (\<forall>i n. notifs db i = Some n \<longrightarrow> n_status n \<noteq> N_FAILED)"

lemma no_failed_fetch: "no_failed db \<Longrightarrow> repo_get_notifications r (Some N_FAILED) l off db = []"
proof -
  assume nf: "no_failed db"
  have "filter (\<lambda>d. (case r of Some x \<Rightarrow> x \<noteq> [] \<longrightarrow> n_recipient (snd d) = x | None \<Rightarrow> True)
                    \<and> n_status (snd d) = N_FAILED) (all_notifications db) = []"
    using nf by (auto simp: filter_empty_conv set_all_notifications no_failed_def)
  then show ?thesis by (simp add: repo_get_notifications_def newest_notifs_first_def page_of_def mongo_limit_def)
qed

lemma no_failed_create:
  assumes nf: "no_failed db" shows "no_failed (snd (create_notification True rq now db))"
proof (cases "parse_type (rq_type rq)")
  case None
  with nf show ?thesis by (simp add: create_notification_def)
next
  case (Some t)
  let ?k = "next_notif_id db" and ?db1 = "snd (repo_create_notification t rq now db)"
  have db': "snd (create_notification True rq now db) = send_channel t ?k now ?db1"
    using Some by (simp add: create_notification_valid send_notification_def)
  have s1: "notifs ?db1 ?k = Some (new_notification t rq now)" by (simp add: repo_create_notification_eq)
  have "n_status n \<noteq> N_FAILED" if n: "notifs (send_channel t ?k now ?db1) i = Some n" for i n
  proof (cases "i = ?k")
    case True
    with n send_channel_stored [OF s1, of t now] show ?thesis by (auto split: if_splits)
  next
    case False
    with n nf show ?thesis by (auto simp: no_failed_def send_channel_other repo_create_notification_eq)
  qed
  with db' show ?thesis by (simp add: no_failed_def)
qed

lemma no_failed_process: "no_failed db \<Longrightarrow> no_failed (process_message True now m db)"
  using process_message_cases [of True now m db] no_failed_create by metis

subsection \<open>Reachable stores\<close>

text \<open>
  A step handles one consumed message or runs the retry sweep with its default bound
  of 3 (the call of \<open>main.py\<close>). With \<open>mock\<close>, every channel call succeeds, as the
  mock channels of the code do.
\<close>

inductive notif_step :: "bool \<Rightarrow> notif_db \<Rightarrow> notif_db \<Rightarrow> bool" for mock where
  consume: "(mock \<longrightarrow> ok) \<Longrightarrow> notif_step mock db (process_message ok now m db)"
| retry: "(mock \<longrightarrow> (\<forall>i. okf i)) \<Longrightarrow> notif_step mock db (snd (retry_failed_notifications okf 3 now db))"

inductive notif_reachable :: "bool \<Rightarrow> notif_db \<Rightarrow> bool" for mock where
  init: "notif_reachable mock empty_notif_db"
| step: "notif_reachable mock db \<Longrightarrow> notif_step mock db db' \<Longrightarrow> notif_reachable mock db'"

lemma notif_reachable_inv: "notif_reachable mock db \<Longrightarrow> notif_inv db"
proof (induction rule: notif_reachable.induct)
  case init then show ?case by (rule notif_inv_empty)
next
  case (step db db')
  from step(2,3) show ?case
    by (cases rule: notif_step.cases) (auto intro: notif_inv_process notif_inv_retry)
qed

lemma no_failed_reachable: "notif_reachable True db \<Longrightarrow> no_failed db"
proof (induction rule: notif_reachable.induct)
  case init then show ?case by (simp add: no_failed_def empty_notif_db_def)
next
  case (step db db')
  from step(2,3) show ?case
  proof (cases rule: notif_step.cases)
    case (consume ok now m)
    then show ?thesis using step(3) by (simp add: no_failed_process)
  next
    case (retry okf now)
    then show ?thesis using step(3) by (simp add: retry_failed_notifications_def no_failed_fetch)
  qed
qed

subsection \<open>Fixtures\<close>

definition ex_failed :: notification where
  "ex_failed = \<lparr>n_type = EMAIL, n_recipient = ''ann@example.com'', n_subject = Some ''Welcome'', n_message = ''Hello Ann'',
     n_status = N_FAILED, n_sent_at = None, n_delivered_at = None, n_event_type = ''user.registered'',
     n_event_data = [], n_source_service = ''user-service'', n_template_id = None, n_priority = 3,
     n_retry_count = 1, n_max_retries = 3, n_created_at = 1, n_updated_at = 2\<rparr>"

definition ex_failed_db :: notif_db where
  "ex_failed_db = \<lparr>notifs = [0 \<mapsto> ex_failed], next_notif_id = 1\<rparr>"

definition ex_msg :: "string \<times> pyval" where
  "ex_msg = (''user-events'', PDict [(''service'', PStr ''user-service''), (''event_type'', PStr ''user.registered''),
     (''data'', PDict [(''email'', PStr ''ann@example.com''), (''name'', PStr ''Ann'')])])"

lemma ex_msg_creates:
  "process_message ok now ex_msg db = snd (create_notification ok
     \<lparr>rq_type = ''email'', rq_recipient = ''ann@example.com'', rq_subject = ''Welcome to E-commerce Platform!'',
      rq_message = ''Hello Ann, welcome to our platform! We're excited to have you on board.'',
      rq_event_type = ''user.registered'',
      rq_event_data = [(''email'', PStr ''ann@example.com''), (''name'', PStr ''Ann'')],
      rq_source_service = ''user-service'', rq_priority = 3\<rparr> now db)"
  by (simp add: ex_msg_def process_message_def handle_user_event_def handle_user_registered_def notify_def)

subsection \<open>Properties of the dispatcher\<close>

text \<open>
  C21. When the channel does not raise, \<open>create_notification\<close> with a valid type stores
  a new notification under the next id and returns that id; email notifications end
  delivered, with sent and delivered time stamped, the other types end sent; the retry
  count stays 0.
\<close>

theorem create_notification_delivers:
  assumes t: "parse_type (rq_type rq) = Some t" and c: "create_notification True rq now db = (r, db')"
  shows "r = Inr (next_notif_id db) \<and> next_notif_id db' = Suc (next_notif_id db)
    \<and> notifs db' (next_notif_id db) =
         Some ((new_notification t rq now)\<lparr>n_status := (if t = EMAIL then N_DELIVERED else N_SENT), n_updated_at := now,
                 n_sent_at := Some now, n_delivered_at := (if t = EMAIL then Some now else None)\<rparr>)
    \<and> (\<forall>i. i \<noteq> next_notif_id db \<longrightarrow> notifs db' i = notifs db i)"
proof -
  let ?db1 = "snd (repo_create_notification t rq now db)"
  have s1: "notifs ?db1 (next_notif_id db) = Some (new_notification t rq now)"
    by (simp add: repo_create_notification_eq)
  from c t have r: "r = Inr (next_notif_id db)"
    and db': "db' = send_channel t (next_notif_id db) now ?db1"
    by (simp_all add: create_notification_valid send_notification_def)
  have "n_delivered_at (new_notification t rq now) = None"
    by (simp add: new_notification_def repo_create_notification_def empty_notif_db_def Let_def)
  with send_channel_stored [OF s1, of t now] r db' show ?thesis
    by (auto simp: send_channel_other repo_create_notification_eq)
qed

theorem create_notification_delivers_witness:
  "\<exists>db'. create_notification True \<lparr>rq_type = ''sms'', rq_recipient = ''+15550100'', rq_subject = ''Hi'',
       rq_message = ''Your order shipped'', rq_event_type = ''order.shipped'', rq_event_data = [],
       rq_source_service = ''order-service'', rq_priority = 2\<rparr> 5 empty_notif_db = (Inr 0, db')
     \<and> map_option n_status (notifs db' 0) = Some N_SENT"
proof -
  let ?rq = "\<lparr>rq_type = ''sms'', rq_recipient = ''+15550100'', rq_subject = ''Hi'',
       rq_message = ''Your order shipped'', rq_event_type = ''order.shipped'', rq_event_data = [],
       rq_source_service = ''order-service'', rq_priority = 2\<rparr>"
  have t: "parse_type (rq_type ?rq) = Some SMS" by (simp add: parse_type_def)
  obtain r db' where c: "create_notification True ?rq 5 empty_notif_db = (r, db')" by fastforce
  from create_notification_delivers [OF t c] c show ?thesis by (auto simp: empty_notif_db_def)
qed

text \<open>
  C22. When the channel raises, \<open>create_notification\<close> re-raises, but the notification
  it inserted stays stored, now failed, with retry count 1.
\<close>

theorem create_notification_channel_failure:
  assumes t: "parse_type (rq_type rq) = Some t" and c: "create_notification False rq now db = (r, db')"
  shows "r = Inl ChannelError
    \<and> notifs db' (next_notif_id db) =
         Some ((new_notification t rq now)\<lparr>n_status := N_FAILED, n_updated_at := now, n_retry_count := 1\<rparr>)"
proof -
  let ?db1 = "snd (repo_create_notification t rq now db)"
  have s1: "notifs ?db1 (next_notif_id db) = Some (new_notification t rq now)"
    by (simp add: repo_create_notification_eq)
  from c t have "r = Inl ChannelError"
    and "db' = snd (send_notification False now (next_notif_id db, new_notification t rq now) ?db1)"
    by (simp_all add: create_notification_valid)
  with send_failure_stored [OF s1, of now "new_notification t rq now"] show ?thesis by simp
qed

theorem create_notification_channel_failure_witness:
  "\<exists>db'. create_notification False \<lparr>rq_type = ''email'', rq_recipient = ''ann@example.com'', rq_subject = ''Hi'',
       rq_message = ''Welcome'', rq_event_type = ''user.registered'', rq_event_data = [],
       rq_source_service = ''user-service'', rq_priority = 3\<rparr> 5 empty_notif_db = (Inl ChannelError, db')
     \<and> map_option n_retry_count (notifs db' 0) = Some 1"
proof -
  let ?rq = "\<lparr>rq_type = ''email'', rq_recipient = ''ann@example.com'', rq_subject = ''Hi'',
       rq_message = ''Welcome'', rq_event_type = ''user.registered'', rq_event_data = [],
       rq_source_service = ''user-service'', rq_priority = 3\<rparr>"
  have t: "parse_type (rq_type ?rq) = Some EMAIL" by (simp add: parse_type_def)
  obtain r db' where c: "create_notification False ?rq 5 empty_notif_db = (r, db')" by fastforce
  from create_notification_channel_failure [OF t c] c show ?thesis by (auto simp: empty_notif_db_def)
qed

text \<open>
  C23. In every reachable store, every notification's retry count lies between 0 and
  its \<open>max_retries\<close> (3), and a failed notification has been tried at least once.
\<close>

theorem notif_reachable_retry_bound:
  "notif_reachable mock db \<Longrightarrow> notifs db i = Some n \<Longrightarrow>
     0 \<le> n_retry_count n \<and> n_retry_count n \<le> n_max_retries n \<and> (n_status n = N_FAILED \<longrightarrow> 1 \<le> n_retry_count n)"
proof -
  assume r: "notif_reachable mock db" and n: "notifs db i = Some n"
  from notif_reachable_inv [OF r] n have "notif_ok n" by (simp add: notif_inv_def)
  then show ?thesis by (simp add: notif_ok_def)
qed

theorem notif_reachable_retry_bound_witness:
  "\<exists>n. notifs (process_message False 5 ex_msg empty_notif_db) 0 = Some n \<and> n_retry_count n \<le> n_max_retries n"
proof -
  have r: "notif_reachable False (process_message False 5 ex_msg empty_notif_db)"
    by (rule notif_reachable.step [OF notif_reachable.init notif_step.consume]) simp
  have "notifs (process_message False 5 ex_msg empty_notif_db) 0 \<noteq> None"
    by (simp add: ex_msg_creates create_notification_def parse_type_def repo_create_notification_eq
                  send_notification_def update_notification_status_def repo_update_notification_def empty_notif_db_def)
  then obtain n where n: "notifs (process_message False 5 ex_msg empty_notif_db) 0 = Some n" by blast
  from notif_reachable_retry_bound [OF r n] n show ?thesis by blast
qed

text \<open>
  C24. With the channels as the code has them (mocks that never raise), no
  notification ever becomes failed, and the retry sweep finds nothing: it retries no
  notification and changes nothing.
\<close>

theorem mock_channels_never_fail:
  assumes "notif_reachable True db"
  shows "(\<forall>i n. notifs db i = Some n \<longrightarrow> n_status n \<noteq> N_FAILED)
    \<and> retry_failed_notifications okf mr now db = (0, db)"
  using no_failed_reachable [OF assms] no_failed_fetch [of db None 100 0]
  by (simp add: no_failed_def retry_failed_notifications_def)

theorem mock_channels_never_fail_witness:
  "retry_failed_notifications (\<lambda>_. True) 3 9 (process_message True 5 ex_msg empty_notif_db)
     = (0, process_message True 5 ex_msg empty_notif_db)"
proof -
  have r: "notif_reachable True (process_message True 5 ex_msg empty_notif_db)"
    by (rule notif_reachable.step [OF notif_reachable.init notif_step.consume]) simp
  from mock_channels_never_fail [OF r] show ?thesis by blast
qed

text \<open>
  C25. The sweep only looks at the 100 newest failed notifications, whether or not they
  may still be retried: a failed notification outside that window is never touched,
  however few retries it has had.
\<close>

theorem retry_window:
  assumes "nid \<notin> fst ` set (repo_get_notifications None (Some N_FAILED) 100 0 db)"
  shows "notifs (snd (retry_failed_notifications okf mr now db)) nid = notifs db nid"
  using assms by (simp add: retry_failed_notifications_def retry_loop_other)

theorem retry_window_witness:
  "notifs (snd (retry_failed_notifications (\<lambda>_. True) 3 9 empty_notif_db)) 0 = notifs empty_notif_db 0"
  using retry_window [of 0 empty_notif_db "\<lambda>_. True" 3 9]
  by (simp add: repo_get_notifications_def all_notifications_def empty_notif_db_def page_of_def mongo_limit_def
                newest_notifs_first_def)

text \<open>
  C34. The retry sweep makes progress: a failed notification among the 100 newest
  failed ones, with fewer retries than the bound and a channel that now works, is sent
  by the sweep (delivered, for e-mail) and stamped with the sweep's time.
\<close>

theorem retry_delivers:
  assumes w: "(nid, n) \<in> set (repo_get_notifications None (Some N_FAILED) 100 0 db)"
    and r: "n_retry_count n < mr" and ok: "okf nid"
  shows "\<exists>m. notifs (snd (retry_failed_notifications okf mr now db)) nid = Some m
    \<and> n_status m = (if n_type n = EMAIL then N_DELIVERED else N_SENT) \<and> n_sent_at m = Some now"
  using retry_window_stored [OF w, of okf mr now] r ok by simp

theorem retry_delivers_witness:
  "\<exists>m. notifs (snd (retry_failed_notifications (\<lambda>_. True) 3 5 ex_failed_db)) 0 = Some m \<and> n_status m = N_DELIVERED"
proof -
  have w: "(0, ex_failed) \<in> set (repo_get_notifications None (Some N_FAILED) 100 0 ex_failed_db)"
    by (simp add: repo_get_notifications_def all_notifications_def ex_failed_db_def page_of_def mongo_limit_def
                  newest_notifs_first_def ex_failed_def)
  from retry_delivers [OF w, of 3 "\<lambda>_. True" 5] show ?thesis by (simp add: ex_failed_def) blast
qed

end
