(* ===== verification/NotificationRetry.thy ===== *)
theory NotificationRetry
  imports NotificationProperties
begin

text \<open>
  Repeated retry sweeps, as \<open>POST /api/v1/notifications/retry-failed\<close> of
  \<open>src/notification_service/app/main.py\<close> runs them with the bound 3. Each
  notification that is failed has a budget of \<open>3 - retry_count\<close> retries left; a
  sweep that finds a retryable notification in its window spends some of the total
  budget and raises none, so calling the endpoint again and again ends, after at
  most the total budget of calls, in a store where no sweep finds anything to retry.
\<close>

definition retry_left :: "notification option \<Rightarrow> nat" where
  "retry_left v = (case v of Some n \<Rightarrow> if n_status n = N_FAILED then nat (3 - n_retry_count n) else 0 | None \<Rightarrow> 0)"

definition retry_budget :: "notif_db \<Rightarrow> nat" where
  "retry_budget db = sum_list (map (\<lambda>i. retry_left (notifs db i)) [0..<next_notif_id db])"

definition retry_sweep :: "(doc_id \<Rightarrow> bool) \<Rightarrow> timestamp \<Rightarrow> notif_db \<Rightarrow> notif_db" where
  "retry_sweep okf now db = snd (retry_failed_notifications okf 3 now db)"

definition retryable_in_window :: "notif_db \<Rightarrow> bool" where
  "retryable_in_window db \<longleftrightarrow> list_ex (\<lambda>d. n_retry_count (snd d) < 3) (repo_get_notifications None (Some N_FAILED) 100 0 db)"

lemma repo_get_notifications_status:
  "d \<in> set (repo_get_notifications r (Some s) l off db) \<Longrightarrow> n_status (snd d) = s"
  using set_page_of by (fastforce simp: repo_get_notifications_def newest_notifs_first_def)

lemma sum_list_map_strict_mono:
  assumes "\<forall>x\<in>set xs. f x \<le> g x" "\<exists>x\<in>set xs. f x < g x"
  shows "sum_list (map f xs) < (sum_list (map g xs) :: nat)"
  using assms
proof (induction xs)
  case (Cons a xs)
  then show ?case
    by (cases "f a < g a") (auto intro: add_less_le_mono add_le_less_mono sum_list_mono)
qed simp

lemma retry_left_sweep:
  "retry_left (notifs (retry_sweep okf now db) i) \<le> retry_left (notifs db i)
   \<and> ((i, n) \<in> set (repo_get_notifications None (Some N_FAILED) 100 0 db) \<longrightarrow> n_retry_count n < 3 \<longrightarrow>
        retry_left (notifs (retry_sweep okf now db) i) < retry_left (notifs db i))"
proof (cases "i \<in> fst ` set (repo_get_notifications None (Some N_FAILED) 100 0 db)")
  case False
  then show ?thesis
    by (force simp: retry_sweep_def retry_failed_notifications_def retry_loop_other)
next
  case True
  then obtain m where w: "(i, m) \<in> set (repo_get_notifications None (Some N_FAILED) 100 0 db)" by force
  have st: "notifs db i = Some m" and f: "n_status m = N_FAILED"
    using repo_get_notifications_stored [OF w] repo_get_notifications_status [OF w] by simp_all
  have u: "(i, n) \<in> set (repo_get_notifications None (Some N_FAILED) 100 0 db) \<Longrightarrow> n = m" for n
    using distinct_repo_get_notifications [of None "Some N_FAILED" 100 0 db] w
    by (metis eq_key_imp_eq_value)
  show ?thesis
    using retry_window_stored [OF w, of okf 3 now] st f u
    by (auto simp: retry_sweep_def retry_left_def)
qed

lemma retry_budget_decreases:
  assumes "retryable_in_window db"
  shows "retry_budget (retry_sweep okf now db) < retry_budget db"
proof -
  from assms obtain i n where w: "(i, n) \<in> set (repo_get_notifications None (Some N_FAILED) 100 0 db)"
    and r: "n_retry_count n < 3"
    by (auto simp: retryable_in_window_def list_ex_iff)
  have "notifs db i = Some n" by (rule repo_get_notifications_stored [OF w, simplified])
  then have "i < next_notif_id db"
    using w by (auto simp: repo_get_notifications_def newest_notifs_first_def set_all_notifications
                     dest!: subsetD [OF set_page_of])
  moreover have nxt: "next_notif_id (retry_sweep okf now db) = next_notif_id db"
    by (simp add: retry_sweep_def retry_failed_notifications_def)
  ultimately show ?thesis
    unfolding retry_budget_def nxt
  proof (intro sum_list_map_strict_mono)
    show "\<forall>x\<in>set [0..<next_notif_id db]. retry_left (notifs (retry_sweep okf now db) x) \<le> retry_left (notifs db x)"
      using retry_left_sweep [of okf now db] by blast
    show "i < next_notif_id db \<Longrightarrow>
        \<exists>x\<in>set [0..<next_notif_id db]. retry_left (notifs (retry_sweep okf now db) x) < retry_left (notifs db x)"
      using retry_left_sweep [of okf now db i n] w r by auto
  qed
qed

text \<open>Calling the retry endpoint until a sweep finds nothing to retry.\<close>

function retry_drain :: "(doc_id \<Rightarrow> bool) \<Rightarrow> timestamp \<Rightarrow> notif_db \<Rightarrow> notif_db" where
  "retry_drain okf now db = (if retryable_in_window db then retry_drain okf now (retry_sweep okf now db) else db)"
  by pat_completeness auto
termination
  by (relation "measure (\<lambda>(okf, now, db). retry_budget db)") (auto intro: retry_budget_decreases)

declare retry_drain.simps [simp del]

text \<open>
  C36. Calling the retry endpoint again and again terminates: whatever the store and
  whichever channels keep failing, after at most the store's retry budget of sweeps a
  store is reached in which no sweep finds a retryable notification in its window,
  and that store is what \<open>retry_drain\<close> returns.
\<close>

theorem retry_drain_quiesces:
  "\<exists>k \<le> retry_budget db. (retry_sweep okf now ^^ k) db = retry_drain okf now db
     \<and> \<not> retryable_in_window (retry_drain okf now db)"
proof (induction okf now db rule: retry_drain.induct)
  case (1 okf now db)
  show ?case
  proof (cases "retryable_in_window db")
    case True
    with 1 obtain k where k: "k \<le> retry_budget (retry_sweep okf now db)"
      and e: "(retry_sweep okf now ^^ k) (retry_sweep okf now db) = retry_drain okf now (retry_sweep okf now db)"
      and q: "\<not> retryable_in_window (retry_drain okf now (retry_sweep okf now db))"
      by blast
    have "Suc k \<le> retry_budget db" using k retry_budget_decreases [OF True, of okf now] by simp
    moreover have "(retry_sweep okf now ^^ Suc k) db = retry_drain okf now db"
      using e True by (simp add: funpow_Suc_right retry_drain.simps [of okf now db] del: funpow.simps)
    ultimately show ?thesis using q True by (metis retry_drain.simps)
  next
    case False
    then show ?thesis by (intro exI [of _ 0]) (simp add: retry_drain.simps [of okf now db])
  qed
qed

end
