(* ===== verification/NotificationApi.thy ===== *)
theory NotificationApi
  imports NotificationRetry
begin

text \<open>
  The endpoints of \<open>src/notification_service/app/main.py\<close> that read and retry
  notifications: the statistics, the filtered listing with its status parameter, and
  the retry sweep with the default bound 3. The query parameters \<open>limit\<close> and
  \<open>offset\<close> are taken as non-negative. The exception handlers turn an
  \<open>HTTPException\<close> into a JSON answer with its code; the model returns the exception.
\<close>

subsection \<open>Statuses by value\<close>

primrec status_value :: "NotificationStatus \<Rightarrow> string" where
  "status_value N_PENDING = ''pending''"
| "status_value N_SENT = ''sent''"
| "status_value N_FAILED = ''failed''"
| "status_value N_DELIVERED = ''delivered''"

text \<open>\<open>NotificationStatus(status)\<close>: the member with that value, or \<open>ValueError\<close>.\<close>

definition parse_status :: "string \<Rightarrow> NotificationStatus option" where
  "parse_status s = find (\<lambda>t. status_value t = s) [N_PENDING, N_SENT, N_FAILED, N_DELIVERED]"

subsection \<open>Repository and endpoints\<close>

definition repo_count_notifications :: "string option \<Rightarrow> NotificationStatus option \<Rightarrow> notif_db \<Rightarrow> nat" where
  "repo_count_notifications rcp st db =
     length (filter (\<lambda>d. (if py_truthy rcp then n_recipient (snd d) = the rcp else True)
                        \<and> (case st of Some s \<Rightarrow> n_status (snd d) = s | None \<Rightarrow> True))
               (all_notifications db))"

record notification_stats =
  ns_total :: nat
  ns_pending :: nat
  ns_sent :: nat
  ns_delivered :: nat
  ns_failed :: nat

definition get_notification_stats :: "notif_db \<Rightarrow> notification_stats" where
  "get_notification_stats db =
     \<lparr>ns_total = repo_count_notifications None None db,
      ns_pending = repo_count_notifications None (Some N_PENDING) db,
      ns_sent = repo_count_notifications None (Some N_SENT) db,
      ns_delivered = repo_count_notifications None (Some N_DELIVERED) db,
      ns_failed = repo_count_notifications None (Some N_FAILED) db\<rparr>"

record notification_list =
  nl_data :: "(doc_id \<times> notification) list"
  nl_count :: nat
  nl_limit :: nat
  nl_offset :: nat

definition api_get_notifications ::
  "string option \<Rightarrow> string option \<Rightarrow> nat \<Rightarrow> nat \<Rightarrow> notif_db \<Rightarrow> http_exception + notification_list" where
  "api_get_notifications rcp status limit offset db =
     (let st = (if py_truthy status then parse_status (the status) else None)
      in if py_truthy status \<and> st = None
         then Inl (HTTPException 400 (''Invalid status: '' @ the status))
         else (let ns = repo_get_notifications rcp st limit offset db
               in Inr \<lparr>nl_data = ns, nl_count = length ns, nl_limit = limit, nl_offset = offset\<rparr>))"

record retry_response =
  rr_message :: string
  rr_retry_count :: nat

definition api_retry_failed :: "(doc_id \<Rightarrow> bool) \<Rightarrow> timestamp \<Rightarrow> notif_db \<Rightarrow> retry_response \<times> notif_db" where
  "api_retry_failed okf now db =
     (let (cnt, db') = retry_failed_notifications okf 3 now db
      in (\<lparr>rr_message = ''Retried '' @ decimal_digits cnt @ '' failed notifications'', rr_retry_count = cnt\<rparr>, db'))"

subsection \<open>Facts\<close>

lemma parse_status_value [simp]: "parse_status (status_value s) = Some s"
  by (cases s) (simp_all add: parse_status_def)

lemma length_filter_status_split:
  "length xs = length (filter (\<lambda>d. n_status (snd d) = N_PENDING) xs) + length (filter (\<lambda>d. n_status (snd d) = N_SENT) xs)
     + length (filter (\<lambda>d. n_status (snd d) = N_DELIVERED) xs) + length (filter (\<lambda>d. n_status (snd d) = N_FAILED) xs)"
proof (induction xs)
  case (Cons d xs)
  then show ?case by (cases "n_status (snd d)") simp_all
qed simp

text \<open>
  The statistics endpoint is consistent: the total is the sum of the pending,
  sent, delivered and failed counts, since every notification has exactly one of the
  four statuses.
\<close>

theorem notification_stats_partition:
  "ns_total (get_notification_stats db)
     = ns_pending (get_notification_stats db) + ns_sent (get_notification_stats db)
       + ns_delivered (get_notification_stats db) + ns_failed (get_notification_stats db)"
  using length_filter_status_split [of "all_notifications db"]
  by (simp add: get_notification_stats_def repo_count_notifications_def)

text \<open>
  The listing endpoint rejects a status parameter that names no status with 400
  \<open>Invalid status: ...\<close>; every status value is accepted, and then only
  notifications with that status are returned, at most \<open>limit\<close> of them when
  \<open>limit\<close> is positive (\<open>limit=0\<close>, which the endpoint does not refuse, is no
  limit for MongoDB).
\<close>

theorem api_get_notifications_status:
  "(py_truthy status \<and> parse_status (the status) = None
      \<longrightarrow> api_get_notifications rcp status limit offset db = Inl (HTTPException 400 (''Invalid status: '' @ the status)))
   \<and> (\<exists>r. api_get_notifications rcp (Some (status_value s)) limit offset db = Inr r
          \<and> (0 < limit \<longrightarrow> length (nl_data r) \<le> limit) \<and> nl_count r = length (nl_data r)
          \<and> (\<forall>d\<in>set (nl_data r). n_status (snd d) = s))"
proof -
  have ne: "status_value s \<noteq> []" by (cases s) simp_all
  have "0 < limit \<longrightarrow> length (repo_get_notifications rcp (Some s) limit offset db) \<le> limit"
    by (simp add: repo_get_notifications_def length_page_of)
  moreover have "\<forall>d\<in>set (repo_get_notifications rcp (Some s) limit offset db). n_status (snd d) = s"
    using repo_get_notifications_status by blast
  ultimately show ?thesis
    using ne by (auto simp: api_get_notifications_def Let_def)
qed

theorem api_get_notifications_status_witness:
  "api_get_notifications None (Some ''unknown'') 50 0 empty_notif_db = Inl (HTTPException 400 ''Invalid status: unknown'')"
  using api_get_notifications_status [of "Some ''unknown''" None 50 0 empty_notif_db N_FAILED]
  by (simp add: parse_status_def)

end
