(* ===== verification/NotificationQueries.thy ===== *)
theory NotificationQueries
  imports NotificationProperties
begin

text \<open>
  The operations of \<open>src/notification_service/app/repositories/notification_repository.py\<close>
  that the service does not call: \<open>get_notification_by_id\<close>, \<open>delete_notification\<close>,
  \<open>get_notifications_by_event_type\<close>, \<open>get_pending_notifications\<close> and
  \<open>get_failed_notifications\<close>. Ids arrive as strings; \<open>Notification.get\<close> of a
  string that is no id raises, which the repository turns into \<open>None\<close> or \<open>False\<close>.
  The lemmas give each query's contract and show that deletion keeps the store
  invariant \<open>notif_inv\<close>. \<open>get_failed_notifications\<close> filters the retry count in the
  query, which is what the retry sweep would need (see \<open>retry_window\<close>).
\<close>

subsection \<open>Operations\<close>

definition repo_get_notification_by_id :: "string \<Rightarrow> notif_db \<Rightarrow> notification option" where
  "repo_get_notification_by_id s db = (case parse_id s of None \<Rightarrow> None | Some i \<Rightarrow> notifs db i)"

definition repo_delete_notification :: "string \<Rightarrow> notif_db \<Rightarrow> bool \<times> notif_db" where
  "repo_delete_notification s db =
     (case parse_id s of
        None \<Rightarrow> (False, db)
      | Some i \<Rightarrow> (case notifs db i of
                    None \<Rightarrow> (False, db)
                  | Some _ \<Rightarrow> (True, db\<lparr>notifs := (notifs db)(i := None)\<rparr>)))"

text \<open>\<open>.sort(Notification.created_at)\<close>: oldest first, ties in insertion order.\<close>

definition oldest_notifs_first :: "(doc_id \<times> notification) list \<Rightarrow> (doc_id \<times> notification) list" where
  "oldest_notifs_first ns = sort_key (\<lambda>d. n_created_at (snd d)) ns"

definition repo_get_notifications_by_event_type ::
  "string \<Rightarrow> nat \<Rightarrow> notif_db \<Rightarrow> (doc_id \<times> notification) list" where
  "repo_get_notifications_by_event_type et limit db =
     mongo_limit limit (newest_notifs_first (filter (\<lambda>d. n_event_type (snd d) = et) (all_notifications db)))"

definition repo_get_pending_notifications :: "nat \<Rightarrow> notif_db \<Rightarrow> (doc_id \<times> notification) list" where
  "repo_get_pending_notifications limit db =
     mongo_limit limit (oldest_notifs_first (filter (\<lambda>d. n_status (snd d) = N_PENDING) (all_notifications db)))"

definition retryable_failed :: "int \<Rightarrow> doc_id \<times> notification \<Rightarrow> bool" where
  "retryable_failed max_retries d \<longleftrightarrow> n_status (snd d) = N_FAILED \<and> n_retry_count (snd d) < max_retries"

definition repo_get_failed_notifications :: "int \<Rightarrow> nat \<Rightarrow> notif_db \<Rightarrow> (doc_id \<times> notification) list" where
  "repo_get_failed_notifications max_retries limit db =
     mongo_limit limit (oldest_notifs_first (filter (retryable_failed max_retries) (all_notifications db)))"

subsection \<open>Contracts\<close>

lemma get_failed_notifications_contract:
  assumes "r = repo_get_failed_notifications mr limit db"
  shows "sorted (map (\<lambda>d. n_created_at (snd d)) r)
    \<and> (\<forall>d\<in>set r. n_status (snd d) = N_FAILED \<and> n_retry_count (snd d) < mr \<and> notifs db (fst d) = Some (snd d))
    \<and> (0 < limit \<longrightarrow> length r \<le> limit)
    \<and> (limit = 0 \<or> length r < limit \<longrightarrow> mset r = mset (filter (retryable_failed mr) (all_notifications db)))"
proof -
  have "r = mongo_limit limit (sort_key (\<lambda>d. n_created_at (snd d)) (filter (retryable_failed mr) (all_notifications db)))"
    using assms by (simp only: repo_get_failed_notifications_def oldest_notifs_first_def)
  from sorted_query_contract [OF this] show ?thesis
    by (auto simp: retryable_failed_def set_all_notifications)
qed

lemma get_pending_notifications_contract:
  assumes "r = repo_get_pending_notifications limit db"
  shows "sorted (map (\<lambda>d. n_created_at (snd d)) r)
    \<and> (\<forall>d\<in>set r. n_status (snd d) = N_PENDING \<and> notifs db (fst d) = Some (snd d))
    \<and> (0 < limit \<longrightarrow> length r \<le> limit)"
proof -
  have "r = mongo_limit limit (sort_key (\<lambda>d. n_created_at (snd d)) (filter (\<lambda>d. n_status (snd d) = N_PENDING) (all_notifications db)))"
    using assms by (simp only: repo_get_pending_notifications_def oldest_notifs_first_def)
  from sorted_query_contract [OF this] show ?thesis
    by (auto simp: set_all_notifications)
qed

lemma delete_notification_effect:
  "repo_delete_notification s db = (b, db') \<Longrightarrow>
     (b \<longleftrightarrow> repo_get_notification_by_id s db \<noteq> None)
     \<and> repo_get_notification_by_id s db' = None
     \<and> (\<forall>i. parse_id s \<noteq> Some i \<longrightarrow> notifs db' i = notifs db i)
     \<and> next_notif_id db' = next_notif_id db"
  by (auto simp: repo_delete_notification_def repo_get_notification_by_id_def split: option.splits)

lemma notif_inv_delete: "notif_inv db \<Longrightarrow> notif_inv (snd (repo_delete_notification s db))"
  by (auto simp: notif_inv_def repo_delete_notification_def split: option.splits)

end
