(* ===== verification/Users.thy ===== *)
theory Users
  imports Prelude
begin

text \<open>
  The user service: \<open>src/user_service/app/models/user.py\<close>,
  \<open>repositories/user_repository.py\<close> and \<open>services/user_service.py\<close>, with the
  token check of \<open>controllers/user_controller.py\<close>. The password and token helpers
  \<open>AuthUtils\<close> live in \<open>app/utils/auth.py\<close>, which is not part of the sources; they
  are modelled from their contract: \<open>verify_password\<close> accepts exactly the password a
  hash was made from, and \<open>verify_token\<close> returns the claims \<open>create_access_token\<close>
  encoded. Salts and expiry are not modelled.
\<close>

subsection \<open>Password hashes and tokens\<close>

definition hash_password :: "string \<Rightarrow> string" where
  "hash_password pw = ''$2b$'' @ pw"

definition verify_password :: "string \<Rightarrow> string \<Rightarrow> bool" where
  "verify_password pw h \<longleftrightarrow> h = hash_password pw"

text \<open>A token carries the claims \<open>sub\<close> and \<open>email\<close>, separated by a byte that no id contains.\<close>

definition token_sep :: char where
  "token_sep = CHR 0x00"

definition create_access_token :: "string \<Rightarrow> string \<Rightarrow> string" where
  "create_access_token sub email = sub @ [token_sep] @ email"

definition verify_token :: "string \<Rightarrow> (string \<times> string) option" where
  "verify_token t =
     (if token_sep \<in> set t then Some (takeWhile (\<lambda>c. c \<noteq> token_sep) t, tl (dropWhile (\<lambda>c. c \<noteq> token_sep) t))
      else None)"

lemma verify_create_access_token:
  assumes "token_sep \<notin> set sub"
  shows "verify_token (create_access_token sub email) = Some (sub, email)"
proof -
  have h: "\<And>x. x \<in> set sub \<Longrightarrow> x \<noteq> token_sep" using assms by auto
  show ?thesis
    by (simp add: verify_token_def create_access_token_def takeWhile_append2 [OF h] dropWhile_append2 [OF h])
qed

subsection \<open>Users\<close>

record user =
  u_name :: string
  u_email :: string
  password_hash :: string
  u_is_active :: bool
  u_created_at :: timestamp
  u_updated_at :: timestamp

record user_store =
  users :: "doc_id \<rightharpoonup> user"
  next_user_id :: doc_id

definition empty_user_store :: user_store where
  "empty_user_store = \<lparr>users = Map.empty, next_user_id = 0\<rparr>"

definition all_users :: "user_store \<Rightarrow> (doc_id \<times> user) list" where
  "all_users st = List.map_filter (\<lambda>i. map_option (Pair i) (users st i)) [0..<next_user_id st]"

definition create_user :: "string \<Rightarrow> string \<Rightarrow> string \<Rightarrow> timestamp \<Rightarrow> user_store \<Rightarrow> (doc_id \<times> user) \<times> user_store" where
  "create_user n e h now st =
     (let uid = next_user_id st;
          u = \<lparr>u_name = n, u_email = e, password_hash = h, u_is_active = True, u_created_at = now, u_updated_at = now\<rparr>
      in ((uid, u), st\<lparr>users := (users st)(uid \<mapsto> u), next_user_id := Suc uid\<rparr>))"

definition get_user_by_id :: "string \<Rightarrow> user_store \<Rightarrow> (doc_id \<times> user) option" where
  "get_user_by_id s st =
     (case parse_id s of None \<Rightarrow> None
      | Some uid \<Rightarrow> (case users st uid of None \<Rightarrow> None | Some u \<Rightarrow> Some (uid, u)))"

definition get_user_by_email :: "string \<Rightarrow> user_store \<Rightarrow> (doc_id \<times> user) option" where
  "get_user_by_email e st = find (\<lambda>d. u_email (snd d) = e) (all_users st)"

definition user_exists :: "string \<Rightarrow> user_store \<Rightarrow> bool" where
  "user_exists e st \<longleftrightarrow> get_user_by_email e st \<noteq> None"

text \<open>
  The request bodies' constraints: \<open>EmailStr\<close> accepts addresses of the form
  local part, \<open>@\<close>, domain (the finer syntax is not modelled), names have 2 to 100
  characters and new passwords 8 to 128.
\<close>

definition email_str :: "string \<Rightarrow> bool" where
  "email_str e \<longleftrightarrow> CHR ''@'' \<in> set e \<and> hd e \<noteq> CHR ''@'' \<and> last e \<noteq> CHR ''@''"

definition UserCreate_valid :: "string \<Rightarrow> string \<Rightarrow> string \<Rightarrow> bool" where
  "UserCreate_valid n e pw \<longleftrightarrow> 2 \<le> length n \<and> length n \<le> 100 \<and> email_str e \<and> 8 \<le> length pw \<and> length pw \<le> 128"

definition UserPasswordUpdate_valid :: "string \<Rightarrow> bool" where
  "UserPasswordUpdate_valid new \<longleftrightarrow> 8 \<le> length new \<and> length new \<le> 128"

definition UserUpdate_valid :: "string option \<Rightarrow> string option \<Rightarrow> bool" where
  "UserUpdate_valid n e \<longleftrightarrow>
     (case n of None \<Rightarrow> True | Some m \<Rightarrow> 2 \<le> length m \<and> length m \<le> 100)
     \<and> (case e of None \<Rightarrow> True | Some a \<Rightarrow> email_str a)"

text \<open>\<open>update_user\<close>: the keys of the update dictionary, then \<open>updated_at\<close>.\<close>

record user_update =
  upd_name :: "string option"
  upd_email :: "string option"
  upd_password_hash :: "string option"

definition update_user :: "string \<Rightarrow> user_update \<Rightarrow> timestamp \<Rightarrow> user_store \<Rightarrow> (doc_id \<times> user) option \<times> user_store" where
  "update_user s upd now st =
     (case get_user_by_id s st of
        None \<Rightarrow> (None, st)
      | Some (uid, u) \<Rightarrow>
          (let u' = u\<lparr>u_name := (case upd_name upd of None \<Rightarrow> u_name u | Some n \<Rightarrow> n),
                      u_email := (case upd_email upd of None \<Rightarrow> u_email u | Some e \<Rightarrow> e),
                      password_hash := (case upd_password_hash upd of None \<Rightarrow> password_hash u | Some h \<Rightarrow> h),
                      u_updated_at := now\<rparr>
           in (Some (uid, u'), st\<lparr>users := (users st)(uid \<mapsto> u')\<rparr>)))"

text \<open>\<open>delete_user\<close> is a soft delete: the user is kept, deactivated.\<close>

definition delete_user :: "string \<Rightarrow> timestamp \<Rightarrow> user_store \<Rightarrow> bool \<times> user_store" where
  "delete_user s now st =
     (case get_user_by_id s st of
        None \<Rightarrow> (False, st)
      | Some (uid, u) \<Rightarrow> (True, st\<lparr>users := (users st)(uid \<mapsto> u\<lparr>u_is_active := False, u_updated_at := now\<rparr>)\<rparr>))"

text \<open>\<open>find(User.is_active == True).skip(skip).limit(limit)\<close>, in insertion order.\<close>

definition get_all_users :: "nat \<Rightarrow> nat \<Rightarrow> user_store \<Rightarrow> (doc_id \<times> user) list" where
  "get_all_users skip limit st = page_of limit skip (filter (\<lambda>d. u_is_active (snd d)) (all_users st))"

subsection \<open>Service\<close>

type_synonym 'a uresult = "http_exception + 'a \<times> user_store"

definition register_user ::
  "string \<Rightarrow> string \<Rightarrow> string \<Rightarrow> timestamp \<Rightarrow> user_store \<Rightarrow> (doc_id \<times> user) uresult" where
  "register_user n e pw now st =
     (if user_exists e st then Inl (HTTPException 400 ''User with this email already exists'')
      else Inr (create_user n e (hash_password pw) now st))"

definition authenticate_user :: "string \<Rightarrow> string \<Rightarrow> user_store \<Rightarrow> (doc_id \<times> user) option" where
  "authenticate_user e pw st =
     (case get_user_by_email e st of
        None \<Rightarrow> None
      | Some (uid, u) \<Rightarrow>
          (if \<not> u_is_active u then None
           else if \<not> verify_password pw (password_hash u) then None
           else Some (uid, u)))"

definition login_user :: "string \<Rightarrow> string \<Rightarrow> user_store \<Rightarrow> (string \<times> doc_id \<times> user) uresult" where
  "login_user e pw st =
     (case authenticate_user e pw st of
        None \<Rightarrow> Inl (HTTPException 401 ''Incorrect email or password'')
      | Some (uid, u) \<Rightarrow> Inr ((create_access_token (decimal_digits uid) (u_email u), uid, u), st))"

definition get_user_profile :: "string \<Rightarrow> user_store \<Rightarrow> (doc_id \<times> user) uresult" where
  "get_user_profile s st =
     (case get_user_by_id s st of
        None \<Rightarrow> Inl (HTTPException 404 ''User not found'')
      | Some (uid, u) \<Rightarrow>
          (if \<not> u_is_active u then Inl (HTTPException 404 ''User not found'') else Inr ((uid, u), st)))"

definition update_user_profile ::
  "string \<Rightarrow> string option \<Rightarrow> string option \<Rightarrow> timestamp \<Rightarrow> user_store \<Rightarrow> (doc_id \<times> user) uresult" where
  "update_user_profile s name email now st =
     (case get_user_by_id s st of
        None \<Rightarrow> Inl (HTTPException 404 ''User not found'')
      | Some (uid, u) \<Rightarrow>
          (if \<not> u_is_active u then Inl (HTTPException 404 ''User not found'')
           else if py_truthy email \<and> the email \<noteq> u_email u \<and> user_exists (the email) st
           then Inl (HTTPException 400 ''Email already exists'')
           else (case update_user s \<lparr>upd_name = name, upd_email = email, upd_password_hash = None\<rparr> now st of
                   (None, st') \<Rightarrow> Inl (HTTPException 500 ''Failed to update user'')
                 | (Some r, st') \<Rightarrow> Inr (r, st'))))"

definition update_user_password ::
  "string \<Rightarrow> string \<Rightarrow> string \<Rightarrow> timestamp \<Rightarrow> user_store \<Rightarrow> string uresult" where
  "update_user_password s current new now st =
     (case get_user_by_id s st of
        None \<Rightarrow> Inl (HTTPException 404 ''User not found'')
      | Some (uid, u) \<Rightarrow>
          (if \<not> u_is_active u then Inl (HTTPException 404 ''User not found'')
           else if \<not> verify_password current (password_hash u)
           then Inl (HTTPException 400 ''Current password is incorrect'')
           else (case update_user s \<lparr>upd_name = None, upd_email = None, upd_password_hash = Some (hash_password new)\<rparr> now st of
                   (None, st') \<Rightarrow> Inl (HTTPException 500 ''Failed to update password'')
                 | (Some r, st') \<Rightarrow> Inr (''Password updated successfully'', st'))))"

text \<open>
  The controller's \<open>get_current_user\<close>: the token's claims, or 401 when
  \<open>AuthUtils.verify_token\<close> rejects it.
\<close>

definition get_current_user :: "string \<Rightarrow> (string \<times> string) + http_exception" where
  "get_current_user t =
     (case verify_token t of None \<Rightarrow> Inr (HTTPException 401 ''Could not validate credentials'') | Some c \<Rightarrow> Inl c)"

end
