(* ===== verification/UserController.thy ===== *)
theory UserController
  imports Users
begin

text \<open>
  The HTTP layer of the user service, \<open>src/user_service/app/controllers/user_controller.py\<close>.
  A request body reaches an endpoint only after pydantic has validated it, so the
  endpoints take validated fields. The endpoints that need a caller resolve the
  bearer token with the dependency \<open>get_current_user\<close> first; its 401 ends the request
  before the service is called. Every \<open>HTTPException\<close> of the service is re-raised
  unchanged; other exceptions (failures of MongoDB, not modelled) would become 500.
\<close>

subsection \<open>Response models\<close>

record user_response =
  ur_id :: string
  ur_name :: string
  ur_email :: string
  ur_is_active :: bool
  ur_created_at :: timestamp
  ur_updated_at :: timestamp

text \<open>\<open>UserResponse(id=str(user.id), ...)\<close>.\<close>

definition user_response_of :: "doc_id \<times> user \<Rightarrow> user_response" where
  "user_response_of d =
     \<lparr>ur_id = decimal_digits (fst d), ur_name = u_name (snd d), ur_email = u_email (snd d),
      ur_is_active = u_is_active (snd d), ur_created_at = u_created_at (snd d),
      ur_updated_at = u_updated_at (snd d)\<rparr>"

record standard_response =
  sr_success :: bool
  sr_message :: string
  sr_data :: "user_response option"

record login_response =
  lr_access_token :: string
  lr_token_type :: string
  lr_user :: user_response

type_synonym 'a api_result = "http_exception + 'a \<times> user_store"

text \<open>The service's result, or its exception, with the response built from it.\<close>

definition respond :: "('a \<Rightarrow> 'b) \<Rightarrow> 'a uresult \<Rightarrow> 'b api_result" where
  "respond f r = (case r of Inl ex \<Rightarrow> Inl ex | Inr (x, st') \<Rightarrow> Inr (f x, st'))"

text \<open>\<open>Depends(get_current_user)\<close> and \<open>current_user.get("sub")\<close>.\<close>

definition with_current_user :: "string \<Rightarrow> (string \<Rightarrow> 'a api_result) \<Rightarrow> 'a api_result" where
  "with_current_user token k = (case get_current_user token of Inr ex \<Rightarrow> Inl ex | Inl (sub, _) \<Rightarrow> k sub)"

subsection \<open>Endpoints\<close>

definition api_register :: "string \<Rightarrow> string \<Rightarrow> string \<Rightarrow> timestamp \<Rightarrow> user_store \<Rightarrow> standard_response api_result" where
  "api_register n e pw now st =
     respond (\<lambda>d. \<lparr>sr_success = True, sr_message = ''User registered successfully'', sr_data = Some (user_response_of d)\<rparr>)
       (register_user n e pw now st)"

definition api_login :: "string \<Rightarrow> string \<Rightarrow> user_store \<Rightarrow> login_response api_result" where
  "api_login e pw st =
     respond (\<lambda>(tok, d). \<lparr>lr_access_token = tok, lr_token_type = ''bearer'', lr_user = user_response_of d\<rparr>)
       (login_user e pw st)"

definition api_get_profile :: "string \<Rightarrow> user_store \<Rightarrow> user_response api_result" where
  "api_get_profile token st = with_current_user token (\<lambda>sub. respond user_response_of (get_user_profile sub st))"

definition api_update_profile ::
  "string \<Rightarrow> string option \<Rightarrow> string option \<Rightarrow> timestamp \<Rightarrow> user_store \<Rightarrow> standard_response api_result" where
  "api_update_profile token name email now st =
     with_current_user token (\<lambda>sub.
       respond (\<lambda>d. \<lparr>sr_success = True, sr_message = ''Profile updated successfully'', sr_data = Some (user_response_of d)\<rparr>)
         (update_user_profile sub name email now st))"

definition api_update_password ::
  "string \<Rightarrow> string \<Rightarrow> string \<Rightarrow> timestamp \<Rightarrow> user_store \<Rightarrow> standard_response api_result" where
  "api_update_password token cur new now st =
     with_current_user token (\<lambda>sub.
       respond (\<lambda>m. \<lparr>sr_success = True, sr_message = m, sr_data = None\<rparr>)
         (update_user_password sub cur new now st))"

text \<open>\<open>GET /profile/{user_id}\<close>: any valid token may read any active user's profile.\<close>

definition api_get_user_by_id :: "string \<Rightarrow> string \<Rightarrow> user_store \<Rightarrow> user_response api_result" where
  "api_get_user_by_id token uid st = with_current_user token (\<lambda>_. respond user_response_of (get_user_profile uid st))"

subsection \<open>Basic facts\<close>

lemma respond_Inr [simp]: "respond f (Inr (x, st')) = Inr (f x, st')"
  by (simp add: respond_def)

lemma respond_Inl [simp]: "respond f (Inl ex) = Inl ex"
  by (simp add: respond_def)

lemma token_sep_decimal_digits: "token_sep \<notin> set (decimal_digits n)"
proof
  assume "token_sep \<in> set (decimal_digits n)"
  with decimal_digits_props [of n] have "is_digit token_sep" by (simp add: list_all_iff)
  then show False by (simp add: is_digit_def token_sep_def)
qed

lemma with_current_user_token [simp]:
  "with_current_user (create_access_token (decimal_digits uid) e) k = k (decimal_digits uid)"
  by (simp add: with_current_user_def get_current_user_def verify_create_access_token [OF token_sep_decimal_digits])

end
