(* ===== verification/UserProperties.thy ===== *)
theory UserProperties
  imports UserController
begin

text \<open>
  Properties of the user service: the e-mail uniqueness its handlers maintain when
  requests run one at a time (\<open>UserConcurrency\<close> interleaves them), the
  duplicate-registration answer, and the password change. The claims with a
  hypothesis have witnesses on a store with one registered user.
\<close>

subsection \<open>Lookups\<close>

lemma set_all_users: "set (all_users st) = {(i, u). users st i = Some u \<and> i < next_user_id st}"
  by (force simp: all_users_def List.map_filter_def split: option.splits)

lemma user_exists_iff: "user_exists e st \<longleftrightarrow> (\<exists>i u. users st i = Some u \<and> i < next_user_id st \<and> u_email u = e)"
  by (auto simp: user_exists_def get_user_by_email_def find_None_iff set_all_users)

lemma get_user_by_email_Some:
  "get_user_by_email e st = Some (uid, u) \<Longrightarrow> users st uid = Some u \<and> u_email u = e"
  by (auto simp: get_user_by_email_def set_all_users dest!: find_Some_mem)

lemma get_user_by_id_Some:
  "get_user_by_id s st = Some (uid, u) \<longleftrightarrow> parse_id s = Some uid \<and> users st uid = Some u"
  by (auto simp: get_user_by_id_def split: option.splits)

lemma all_users_create:
  "all_users (snd (create_user n e h now st)) = all_users st @ [fst (create_user n e h now st)]"
proof -
  let ?u = "\<lparr>u_name = n, u_email = e, password_hash = h, u_is_active = True, u_created_at = now, u_updated_at = now\<rparr>"
  have "List.map_filter (\<lambda>i. map_option (Pair i) (((users st)(next_user_id st \<mapsto> ?u)) i)) [0..<next_user_id st]
        = all_users st"
    unfolding all_users_def by (rule map_filter_cong') simp
  then show ?thesis by (simp add: all_users_def create_user_def Let_def List.map_filter_simps map_filter_append')
qed

lemma register_user_Inr:
  assumes r: "register_user n e pw now st = Inr ((uid, u), st')"
  shows "u = \<lparr>u_name = n, u_email = e, password_hash = hash_password pw, u_is_active = True,
                u_created_at = now, u_updated_at = now\<rparr>"
    and "st' = st\<lparr>users := (users st)(uid \<mapsto> u), next_user_id := Suc uid\<rparr>"
    and "get_user_by_email e st' = Some (uid, u)"
proof -
  from r have ne: "\<not> user_exists e st" and c: "create_user n e (hash_password pw) now st = ((uid, u), st')"
    by (simp_all add: register_user_def split: if_splits)
  from c show u: "u = \<lparr>u_name = n, u_email = e, password_hash = hash_password pw, u_is_active = True,
                u_created_at = now, u_updated_at = now\<rparr>"
    and "st' = st\<lparr>users := (users st)(uid \<mapsto> u), next_user_id := Suc uid\<rparr>"
    by (auto simp: create_user_def Let_def)
  have nf: "find (\<lambda>d. u_email (snd d) = e) (all_users st) = None"
    using ne by (simp add: user_exists_def get_user_by_email_def del: not_None_eq)
  have "all_users st' = all_users st @ [(uid, u)]"
    using all_users_create [of n e "hash_password pw" now st] c by simp
  with nf u show "get_user_by_email e st' = Some (uid, u)"
    by (simp add: get_user_by_email_def find_append')
qed

lemma login_user_Inr:
  assumes "login_user e pw st = Inr ((tok, uid, u), st')"
  shows "st' = st \<and> users st uid = Some u \<and> u_email u = e \<and> u_is_active u
    \<and> verify_password pw (password_hash u) \<and> tok = create_access_token (decimal_digits uid) e"
proof -
  from assms have a: "authenticate_user e pw st = Some (uid, u)"
    and tok: "tok = create_access_token (decimal_digits uid) (u_email u)" and st': "st' = st"
    by (auto simp: login_user_def split: option.splits)
  from a obtain d where g: "get_user_by_email e st = Some (uid, u)"
    and act: "u_is_active u" and pwok: "verify_password pw (password_hash u)"
    by (auto simp: authenticate_user_def split: option.splits if_splits)
  from get_user_by_email_Some [OF g] tok st' act pwok show ?thesis by simp
qed

subsection \<open>The store invariant\<close>

definition user_inv :: "user_store \<Rightarrow> bool" where
  "user_inv st \<longleftrightarrow> (\<forall>i\<in>dom (users st). i < next_user_id st)
     \<and> (\<forall>i j u v. users st i = Some u \<longrightarrow> users st j = Some v \<longrightarrow> u_email u = u_email v \<longrightarrow> i = j)"

lemma user_inv_empty: "user_inv empty_user_store"
  by (simp add: user_inv_def empty_user_store_def)

lemma user_inv_register:
  assumes inv: "user_inv st" and r: "register_user n e pw now st = Inr (x, st')"
  shows "user_inv st'"
proof -
  from r have ne: "\<not> user_exists e st" and st': "st' = snd (create_user n e (hash_password pw) now st)"
    by (auto simp: register_user_def split: if_splits)
  from ne inv have fresh: "users st i = Some u \<Longrightarrow> u_email u \<noteq> e" for i u
    by (auto simp: user_exists_iff user_inv_def dom_def)
  have new: "users st (next_user_id st) = None" using inv by (auto simp: user_inv_def)
  show ?thesis
    unfolding user_inv_def
  proof (intro conjI allI impI ballI)
    fix i assume "i \<in> dom (users st')"
    then show "i < next_user_id st'" using inv st' by (auto simp: user_inv_def create_user_def Let_def dom_def split: if_splits)
  next
    fix i j u v
    assume a: "users st' i = Some u" "users st' j = Some v" "u_email u = u_email v"
    then show "i = j" using inv st' fresh
      by (auto simp: user_inv_def create_user_def Let_def split: if_splits) metis+
  qed
qed

lemma user_inv_replace:
  assumes inv: "user_inv st" and u: "users st uid = Some u"
    and fresh: "\<And>j v. users st j = Some v \<Longrightarrow> j \<noteq> uid \<Longrightarrow> u_email v \<noteq> u_email u'"
  shows "user_inv (st\<lparr>users := (users st)(uid \<mapsto> u')\<rparr>)"
  unfolding user_inv_def
proof (intro conjI allI impI ballI)
  fix i assume "i \<in> dom (users (st\<lparr>users := (users st)(uid \<mapsto> u')\<rparr>))"
  then show "i < next_user_id (st\<lparr>users := (users st)(uid \<mapsto> u')\<rparr>)"
    using inv u by (auto simp: user_inv_def dom_def split: if_splits)
next
  fix i j a b
  assume "users (st\<lparr>users := (users st)(uid \<mapsto> u')\<rparr>) i = Some a"
    "users (st\<lparr>users := (users st)(uid \<mapsto> u')\<rparr>) j = Some b" "u_email a = u_email b"
  then show "i = j" using inv fresh
    by (auto simp: user_inv_def split: if_splits)
qed

lemma update_user_Some:
  "update_user s upd now st = (Some r, st') \<Longrightarrow>
     \<exists>uid u. get_user_by_id s st = Some (uid, u) \<and> r = (uid, snd r)
       \<and> st' = st\<lparr>users := (users st)(uid \<mapsto> snd r)\<rparr>
       \<and> u_email (snd r) = (case upd_email upd of None \<Rightarrow> u_email u | Some e \<Rightarrow> e)
       \<and> password_hash (snd r) = (case upd_password_hash upd of None \<Rightarrow> password_hash u | Some h \<Rightarrow> h)"
  by (auto simp: update_user_def Let_def split: option.splits)

lemma all_users_replace:
  assumes "users st uid = Some u"
  shows "all_users (st\<lparr>users := (users st)(uid \<mapsto> u')\<rparr>) = map (\<lambda>d. if fst d = uid then (uid, u') else d) (all_users st)"
proof -
  have "List.map_filter (\<lambda>i. map_option (Pair i) (((users st)(uid \<mapsto> u')) i)) xs
        = map (\<lambda>d. if fst d = uid then (uid, u') else d) (List.map_filter (\<lambda>i. map_option (Pair i) (users st i)) xs)" for xs
    using assms by (induction xs) (auto simp: List.map_filter_simps split: option.splits)
  then show ?thesis by (simp add: all_users_def)
qed

text \<open>Replacing a user by one with the same address keeps the answer of the lookup by address.\<close>

lemma get_user_by_email_replace:
  assumes g: "get_user_by_email e st = Some (uid, u)" and em: "u_email u' = u_email u"
  shows "get_user_by_email e (st\<lparr>users := (users st)(uid \<mapsto> u')\<rparr>) = Some (uid, u')"
proof -
  have u: "users st uid = Some u" using get_user_by_email_Some [OF g] by simp
  let ?f = "\<lambda>d. if fst d = uid then (uid, u') else d"
  have "find ((\<lambda>d. u_email (snd d) = e) \<circ> ?f) (all_users st) = find (\<lambda>d. u_email (snd d) = e) (all_users st)"
    by (rule find_cong) (use em u in \<open>auto simp: set_all_users\<close>)
  then show ?thesis
    using g by (simp add: get_user_by_email_def all_users_replace [OF u] find_map')
qed

lemma delete_user_True:
  "delete_user s now st = (True, st') \<Longrightarrow>
     \<exists>uid u. parse_id s = Some uid \<and> users st uid = Some u
       \<and> st' = st\<lparr>users := (users st)(uid \<mapsto> u\<lparr>u_is_active := False, u_updated_at := now\<rparr>)\<rparr>"
  by (auto simp: delete_user_def get_user_by_id_def split: option.splits)

lemma user_inv_delete: "user_inv st \<Longrightarrow> user_inv (snd (delete_user s now st))"
proof (cases "delete_user s now st")
  case (Pair b st')
  assume inv: "user_inv st"
  show ?thesis
  proof (cases b)
    case True
    with Pair have "delete_user s now st = (True, st')" by simp
    then obtain uid u where u: "users st uid = Some u"
      and st': "st' = st\<lparr>users := (users st)(uid \<mapsto> u\<lparr>u_is_active := False, u_updated_at := now\<rparr>)\<rparr>"
      using delete_user_True by blast
    have "user_inv st'"
      unfolding st' by (rule user_inv_replace [OF inv u]) (use inv u in \<open>auto simp: user_inv_def\<close>)
    with Pair show ?thesis by simp
  next
    case False
    with Pair show ?thesis using inv by (auto simp: delete_user_def split: option.splits)
  qed
qed

lemma email_str_ne: "email_str e \<Longrightarrow> e \<noteq> []"
  by (auto simp: email_str_def)

lemma user_inv_update_profile:
  assumes inv: "user_inv st" and v: "UserUpdate_valid name email"
    and r: "update_user_profile s name email now st = Inr (x, st')"
  shows "user_inv st'"
proof -
  from r obtain uid u where g: "get_user_by_id s st = Some (uid, u)"
    and nc: "\<not> (py_truthy email \<and> the email \<noteq> u_email u \<and> user_exists (the email) st)"
    and up: "update_user s \<lparr>upd_name = name, upd_email = email, upd_password_hash = None\<rparr> now st = (Some x, st')"
    by (auto simp: update_user_profile_def split: option.splits if_splits prod.splits)
  from update_user_Some [OF up] g obtain
    st': "st' = st\<lparr>users := (users st)(uid \<mapsto> snd x)\<rparr>" and
    em: "u_email (snd x) = (case email of None \<Rightarrow> u_email u | Some e \<Rightarrow> e)" by auto
  from g have u: "users st uid = Some u" by (simp add: get_user_by_id_Some)
  have fresh: "u_email w \<noteq> u_email (snd x)" if w: "users st j = Some w" and j: "j \<noteq> uid" for j w
  proof (cases "u_email (snd x) = u_email u")
    case True
    with inv u w j show ?thesis by (auto simp: user_inv_def)
  next
    case False
    then obtain e where e: "email = Some e" "e \<noteq> u_email u" "u_email (snd x) = e" using em by (cases email) auto
    with v have "py_truthy email" by (simp add: UserUpdate_valid_def email_str_ne)
    with nc e have "\<not> user_exists e st" by simp
    with inv w e show ?thesis by (auto simp: user_exists_iff user_inv_def dom_def)
  qed
  show ?thesis unfolding st' by (rule user_inv_replace [OF inv u fresh])
qed

lemma user_inv_update_password:
  assumes inv: "user_inv st" and r: "update_user_password s cur new now st = Inr (x, st')"
  shows "user_inv st'"
proof -
  from r obtain uid u y where g: "get_user_by_id s st = Some (uid, u)"
    and up: "update_user s \<lparr>upd_name = None, upd_email = None, upd_password_hash = Some (hash_password new)\<rparr> now st = (Some y, st')"
    by (auto simp: update_user_password_def split: option.splits if_splits prod.splits)
  from update_user_Some [OF up] g obtain
    st': "st' = st\<lparr>users := (users st)(uid \<mapsto> snd y)\<rparr>" and em: "u_email (snd y) = u_email u" by auto
  from g have u: "users st uid = Some u" by (simp add: get_user_by_id_Some)
  have fresh: "u_email w \<noteq> u_email (snd y)" if "users st j = Some w" "j \<noteq> uid" for j w
    using inv u that em by (auto simp: user_inv_def)
  show ?thesis unfolding st' by (rule user_inv_replace [OF inv u fresh])
qed

subsection \<open>Reachable stores\<close>

inductive user_step :: "user_store \<Rightarrow> user_store \<Rightarrow> bool" where
  register: "UserCreate_valid n e pw \<Longrightarrow> register_user n e pw now st = Inr (x, st') \<Longrightarrow> user_step st st'"
| profile: "UserUpdate_valid name email \<Longrightarrow> update_user_profile s name email now st = Inr (x, st') \<Longrightarrow> user_step st st'"
| password: "UserPasswordUpdate_valid new \<Longrightarrow> update_user_password s cur new now st = Inr (m, st') \<Longrightarrow> user_step st st'"

inductive user_reachable :: "user_store \<Rightarrow> bool" where
  init: "user_reachable empty_user_store"
| step: "user_reachable st \<Longrightarrow> user_step st st' \<Longrightarrow> user_reachable st'"

lemma user_reachable_inv: "user_reachable st \<Longrightarrow> user_inv st"
proof (induction rule: user_reachable.induct)
  case init then show ?case by (rule user_inv_empty)
next
  case (step st st')
  from step(2,3) show ?case
    by (cases rule: user_step.cases) (auto intro: user_inv_register user_inv_update_profile user_inv_update_password)
qed

lemma get_user_by_email_unique:
  assumes inv: "user_inv st" and u: "users st uid = Some u"
  shows "get_user_by_email (u_email u) st = Some (uid, u)"
proof -
  from inv u have "uid < next_user_id st" by (auto simp: user_inv_def)
  with u have "(uid, u) \<in> set (all_users st)" by (simp add: set_all_users)
  then obtain d where d: "get_user_by_email (u_email u) st = Some d"
    by (cases "get_user_by_email (u_email u) st") (auto simp: get_user_by_email_def find_None_iff)
  obtain j w where dj: "d = (j, w)" by fastforce
  from get_user_by_email_Some [OF d [unfolded dj]] have "users st j = Some w" "u_email w = u_email u" by auto
  with inv u have "j = uid" by (auto simp: user_inv_def)
  with d dj u \<open>users st j = Some w\<close> show ?thesis by simp
qed

subsection \<open>A fixture store\<close>

definition ex_ann :: user where
  "ex_ann = \<lparr>u_name = ''Ann'', u_email = ''ann@example.com'', password_hash = hash_password ''secret12'',
     u_is_active = True, u_created_at = 1, u_updated_at = 1\<rparr>"

definition ex_users :: user_store where
  "ex_users = \<lparr>users = [0 \<mapsto> ex_ann], next_user_id = 1\<rparr>"

lemma ex_register: "register_user ''Ann'' ''ann@example.com'' ''secret12'' 1 empty_user_store = Inr ((0, ex_ann), ex_users)"
  by (simp add: register_user_def user_exists_def get_user_by_email_def all_users_def empty_user_store_def
                create_user_def ex_ann_def ex_users_def Let_def)

lemma ex_users_reachable: "user_reachable ex_users"
  by (rule user_reachable.step [OF user_reachable.init user_step.register [OF _ ex_register]])
     (simp add: UserCreate_valid_def email_str_def)

subsection \<open>Properties of the user service\<close>

text \<open>
  When every request runs to completion before the next begins (\<open>user_step\<close>), an
  e-mail address belongs to one user at most, a deactivated one included:
  registration and profile updates check every user. Under the interleaving the
  event loop allows this fails: see \<open>UserConcurrency.concurrent_registrations_duplicate_email\<close>.
\<close>

theorem reachable_emails_unique:
  "user_reachable st \<Longrightarrow> users st i = Some u \<Longrightarrow> users st j = Some v \<Longrightarrow> u_email u = u_email v \<Longrightarrow> i = j"
  using user_reachable_inv by (auto simp: user_inv_def)

theorem reachable_emails_unique_witness: "users ex_users 0 = Some ex_ann"
  using reachable_emails_unique [OF ex_users_reachable, of 0 ex_ann 0 ex_ann] by (simp add: ex_users_def)

text \<open>
  C27. A password change with the right current password takes effect: the call
  succeeds, the new password logs the user in, and the old one, if different, no
  longer does.
\<close>

theorem update_user_password_effect:
  assumes inv: "user_inv st" and g: "get_user_by_id s st = Some (uid, u)" and a: "u_is_active u"
    and c: "verify_password cur (password_hash u)"
  shows "\<exists>st'. update_user_password s cur new now st = Inr (''Password updated successfully'', st')
    \<and> (\<exists>v. authenticate_user (u_email u) new st' = Some (uid, v))
    \<and> (cur \<noteq> new \<longrightarrow> authenticate_user (u_email u) cur st' = None)"
proof -
  let ?u' = "u\<lparr>password_hash := hash_password new, u_updated_at := now\<rparr>"
  let ?st' = "st\<lparr>users := (users st)(uid \<mapsto> ?u')\<rparr>"
  from g have u: "users st uid = Some u" by (simp add: get_user_by_id_Some)
  have upd: "update_user_password s cur new now st = Inr (''Password updated successfully'', ?st')"
    using g a c by (simp add: update_user_password_def update_user_def Let_def)
  have inv': "user_inv ?st'"
    using inv u by (intro user_inv_replace) (auto simp: user_inv_def)
  have e: "get_user_by_email (u_email u) ?st' = Some (uid, ?u')"
    using get_user_by_email_unique [OF inv', of uid ?u'] by simp
  have "cur \<noteq> new \<Longrightarrow> \<not> verify_password cur (hash_password new)"
    by (simp add: verify_password_def hash_password_def)
  with upd e a show ?thesis
    by (auto simp: authenticate_user_def verify_password_def)
qed

theorem update_user_password_effect_witness:
  "\<exists>st'. update_user_password ''0'' ''secret12'' ''newpass99'' 2 ex_users = Inr (''Password updated successfully'', st')
     \<and> authenticate_user ''ann@example.com'' ''secret12'' st' = None"
proof -
  have inv: "user_inv ex_users" by (rule user_reachable_inv [OF ex_users_reachable])
  have g: "get_user_by_id ''0'' ex_users = Some (0, ex_ann)"
    by (simp add: get_user_by_id_def parse_id_def is_digit_def digits_value_def ex_users_def)
  from update_user_password_effect [OF inv g, of "''secret12''" "''newpass99''" 2] show ?thesis
    by (simp add: ex_ann_def verify_password_def) blast
qed

text \<open>
  A password change with a wrong current password is refused with 400 "Current
  password is incorrect" and changes nothing.
\<close>

theorem update_user_password_wrong_current:
  assumes "get_user_by_id s st = Some (uid, u)" "u_is_active u" "\<not> verify_password cur (password_hash u)"
  shows "update_user_password s cur new now st = Inl (HTTPException 400 ''Current password is incorrect'')"
  using assms by (simp add: update_user_password_def)

theorem update_user_password_wrong_current_witness:
  "update_user_password ''0'' ''guess1234'' ''newpass99'' 2 ex_users = Inl (HTTPException 400 ''Current password is incorrect'')"
proof -
  have g: "get_user_by_id ''0'' ex_users = Some (0, ex_ann)"
    by (simp add: get_user_by_id_def parse_id_def is_digit_def digits_value_def ex_users_def)
  show ?thesis
    by (rule update_user_password_wrong_current [OF g])
       (simp_all add: ex_ann_def verify_password_def hash_password_def)
qed

text \<open>
  C28. Registering an e-mail address any stored user has, deactivated or not, is
  refused with 400 "User with this email already exists" (the error taxonomy asks for
  a conflict).
\<close>

theorem register_duplicate_email:
  assumes "users st i = Some u" "i < next_user_id st"
  shows "register_user n (u_email u) pw now st = Inl (HTTPException 400 ''User with this email already exists'')"
  using assms by (auto simp: register_user_def user_exists_iff)

theorem register_duplicate_email_witness:
  "register_user ''Ann B'' ''ann@example.com'' ''another99'' 3 ex_users
     = Inl (HTTPException 400 ''User with this email already exists'')"
  using register_duplicate_email [of ex_users 0 ex_ann "''Ann B''" "''another99''" 3]
  by (simp add: ex_users_def ex_ann_def)

text \<open>
  C29. Registration, login and the token check agree: after \<open>POST /register\<close>
  succeeds, \<open>POST /login\<close> with the same address and password returns a bearer token
  and the registered user's profile, and \<open>GET /profile\<close> with that token returns the
  same profile.
\<close>

theorem register_login_profile:
  assumes r: "api_register n e pw now st = Inr (r, st')"
  shows "\<exists>tok. api_login e pw st' = Inr (\<lparr>lr_access_token = tok, lr_token_type = ''bearer'', lr_user = the (sr_data r)\<rparr>, st')
          \<and> api_get_profile tok st' = Inr (the (sr_data r), st')"
proof -
  from r obtain uid u where reg: "register_user n e pw now st = Inr ((uid, u), st')"
    and rr: "r = \<lparr>sr_success = True, sr_message = ''User registered successfully'', sr_data = Some (user_response_of (uid, u))\<rparr>"
    by (auto simp: api_register_def respond_def split: sum.splits)
  note facts = register_user_Inr [OF reg]
  have l: "login_user e pw st' = Inr ((create_access_token (decimal_digits uid) e, uid, u), st')"
    using facts by (simp add: login_user_def authenticate_user_def verify_password_def)
  have p: "get_user_profile (decimal_digits uid) st' = Inr ((uid, u), st')"
    using facts by (simp add: get_user_profile_def get_user_by_id_def)
  show ?thesis
    using l p rr by (simp add: api_login_def api_get_profile_def)
qed

theorem register_login_profile_witness:
  "\<exists>tok. api_get_profile tok ex_users = Inr (user_response_of (0, ex_ann), ex_users)"
proof -
  have "api_register ''Ann'' ''ann@example.com'' ''secret12'' 1 empty_user_store
          = Inr (\<lparr>sr_success = True, sr_message = ''User registered successfully'',
                  sr_data = Some (user_response_of (0, ex_ann))\<rparr>, ex_users)"
    unfolding api_register_def ex_register by simp
  from register_login_profile [OF this] show ?thesis by auto
qed

end
