(* ===== verification/UserConcurrency.thy ===== *)
theory UserConcurrency
  imports UserProperties
begin

text \<open>
  Registration under concurrent requests. \<open>UserService.register_user\<close> of
  \<open>src/user_service/app/services/user_service.py\<close> awaits
  \<open>user_repository.user_exists\<close> and later awaits \<open>user_repository.create_user\<close>;
  the event loop runs other requests between the two, and the \<open>users\<close> collection
  has no unique index on \<open>email\<close>. The handler is split at that await into
  \<open>register_check\<close> and \<open>register_insert\<close>; \<open>user_conc_step\<close> interleaves the halves of
  any number of registrations with the profile and password updates, each of which
  is one step as in \<open>user_step\<close>. Every sequential run of \<open>user_step\<close> is one of
  these interleavings (\<open>user_sequential_is_interleaved\<close>).
\<close>

subsection \<open>The two halves of a registration\<close>

definition register_check :: "string \<Rightarrow> user_store \<Rightarrow> http_exception option" where
  "register_check e st =
     (if user_exists e st then Some (HTTPException 400 ''User with this email already exists'') else None)"

definition register_insert :: "string \<Rightarrow> string \<Rightarrow> string \<Rightarrow> timestamp \<Rightarrow> user_store \<Rightarrow> (doc_id \<times> user) \<times> user_store" where
  "register_insert n e pw now st = create_user n e (hash_password pw) now st"

subsection \<open>Interleaved requests\<close>

record user_server =
  us_store :: user_store
  us_pending :: "(string \<times> string \<times> string \<times> timestamp) list"

definition user_server_init :: user_server where
  "user_server_init = \<lparr>us_store = empty_user_store, us_pending = []\<rparr>"

inductive user_conc_step :: "user_server \<Rightarrow> user_server \<Rightarrow> bool" where
  check: "UserCreate_valid n e pw \<Longrightarrow> register_check e (us_store s) = None \<Longrightarrow>
    user_conc_step s (s\<lparr>us_pending := us_pending s @ [(n, e, pw, now)]\<rparr>)"
| insert: "i < length (us_pending s) \<Longrightarrow> us_pending s ! i = (n, e, pw, now) \<Longrightarrow>
    user_conc_step s \<lparr>us_store = snd (register_insert n e pw now (us_store s)), us_pending = remove_at i (us_pending s)\<rparr>"
| profile: "UserUpdate_valid name email \<Longrightarrow> update_user_profile str name email now (us_store s) = Inr (x, st') \<Longrightarrow>
    user_conc_step s (s\<lparr>us_store := st'\<rparr>)"
| password: "UserPasswordUpdate_valid new \<Longrightarrow> update_user_password str cur new now (us_store s) = Inr (m, st') \<Longrightarrow>
    user_conc_step s (s\<lparr>us_store := st'\<rparr>)"

inductive user_conc_reachable :: "user_server \<Rightarrow> bool" where
  init: "user_conc_reachable user_server_init"
| step: "user_conc_reachable s \<Longrightarrow> user_conc_step s s' \<Longrightarrow> user_conc_reachable s'"

subsection \<open>Properties\<close>

lemma register_user_halves:
  "register_user n e pw now st =
     (case register_check e st of Some ex \<Rightarrow> Inl ex | None \<Rightarrow> Inr (register_insert n e pw now st))"
  by (simp add: register_user_def register_check_def register_insert_def)

text \<open>A registration whose halves run back to back is the sequential handler.\<close>

lemma register_back_to_back:
  assumes "UserCreate_valid n e pw" and "register_user n e pw now st = Inr (x, st')"
    and "us_pending s = []" and "us_store s = st"
  shows "\<exists>s1. user_conc_step s s1 \<and> user_conc_step s1 \<lparr>us_store = st', us_pending = []\<rparr>"
proof -
  let ?s1 = "s\<lparr>us_pending := [(n, e, pw, now)]\<rparr>"
  have c: "register_check e st = None" and i: "register_insert n e pw now st = (x, st')"
    using assms(2) by (simp_all add: register_user_halves split: option.splits)
  have "user_conc_step s ?s1"
    using user_conc_step.check [OF assms(1), of s now] c assms(3,4) by simp
  moreover have "user_conc_step ?s1 \<lparr>us_store = st', us_pending = []\<rparr>"
    using user_conc_step.insert [of 0 ?s1 n e pw now] i assms(4) by (simp add: remove_at_def)
  ultimately show ?thesis by blast
qed

lemma user_sequential_is_interleaved:
  "user_reachable st \<Longrightarrow> user_conc_reachable \<lparr>us_store = st, us_pending = []\<rparr>"
proof (induction rule: user_reachable.induct)
  case init
  then show ?case by (simp add: user_conc_reachable.init [unfolded user_server_init_def])
next
  case (step st st')
  from step.hyps(2) show ?case
  proof (cases rule: user_step.cases)
    case (register n e pw now x)
    then obtain s1 where "user_conc_step \<lparr>us_store = st, us_pending = []\<rparr> s1"
      and "user_conc_step s1 \<lparr>us_store = st', us_pending = []\<rparr>"
      using register_back_to_back [of n e pw now st x st' "\<lparr>us_store = st, us_pending = []\<rparr>"] by auto
    with step.IH show ?thesis by (blast intro: user_conc_reachable.step)
  next
    case (profile name email s now x)
    with step.IH show ?thesis
      using user_conc_step.profile [of name email s now "\<lparr>us_store = st, us_pending = []\<rparr>" x st']
      by (auto intro: user_conc_reachable.step)
  next
    case (password new s cur now m)
    with step.IH show ?thesis
      using user_conc_step.password [of new s cur now "\<lparr>us_store = st, us_pending = []\<rparr>" m st']
      by (auto intro: user_conc_reachable.step)
  qed
qed

lemma register_insert_store:
  "snd (register_insert n e pw now st) =
     st\<lparr>users := (users st)(next_user_id st \<mapsto> \<lparr>u_name = n, u_email = e, password_hash = hash_password pw,
         u_is_active = True, u_created_at = now, u_updated_at = now\<rparr>), next_user_id := Suc (next_user_id st)\<rparr>"
  by (simp add: register_insert_def create_user_def Let_def)

text \<open>
  C26. E-mail addresses are not unique under concurrent registrations: from any
  reachable state in which an address is free, two valid registrations of it that
  both pass \<open>user_exists\<close> before either inserts both succeed, and the store ends
  with two distinct users holding the address.
\<close>

theorem concurrent_registrations_duplicate_email:
  assumes "user_conc_reachable s" and "register_check e (us_store s) = None"
    and "UserCreate_valid n1 e pw1" and "UserCreate_valid n2 e pw2"
  shows "\<exists>s'. user_conc_reachable s' \<and> (\<exists>i j u v. i \<noteq> j \<and> users (us_store s') i = Some u
           \<and> users (us_store s') j = Some v \<and> u_email u = e \<and> u_email v = e)"
proof -
  let ?p = "us_pending s" and ?st = "us_store s"
  let ?s1 = "s\<lparr>us_pending := ?p @ [(n1, e, pw1, 0)]\<rparr>"
  let ?s2 = "s\<lparr>us_pending := ?p @ [(n1, e, pw1, 0), (n2, e, pw2, 0)]\<rparr>"
  let ?st3 = "snd (register_insert n1 e pw1 0 ?st)"
  let ?s3 = "\<lparr>us_store = ?st3, us_pending = ?p @ [(n2, e, pw2, 0)]\<rparr>"
  let ?s4 = "\<lparr>us_store = snd (register_insert n2 e pw2 0 ?st3), us_pending = ?p\<rparr>"
  have 1: "user_conc_step s ?s1"
    using user_conc_step.check [OF assms(3), of s 0] assms(2) by simp
  have 2: "user_conc_step ?s1 ?s2"
    using user_conc_step.check [OF assms(4), of ?s1 0] assms(2) by simp
  have 3: "user_conc_step ?s2 ?s3"
    using user_conc_step.insert [of "length ?p" ?s2 n1 e pw1 0] by simp
  have 4: "user_conc_step ?s3 ?s4"
    using user_conc_step.insert [of "length ?p" ?s3 n2 e pw2 0] by simp
  have "user_conc_reachable ?s4"
    using assms(1) 1 2 3 4 by (blast intro: user_conc_reachable.step)
  moreover have "users (us_store ?s4) (next_user_id ?st) \<noteq> None \<and> users (us_store ?s4) (Suc (next_user_id ?st)) \<noteq> None
      \<and> u_email (the (users (us_store ?s4) (next_user_id ?st))) = e
      \<and> u_email (the (users (us_store ?s4) (Suc (next_user_id ?st)))) = e"
    by (simp add: register_insert_store)
  ultimately show ?thesis
    by (metis n_not_Suc_n option.collapse)
qed

theorem concurrent_registrations_duplicate_email_witness:
  "\<exists>s'. user_conc_reachable s' \<and> (\<exists>i j u v. i \<noteq> j \<and> users (us_store s') i = Some u
      \<and> users (us_store s') j = Some v \<and> u_email u = ''ann@example.com'' \<and> u_email v = ''ann@example.com'')"
proof -
  have "register_check ''ann@example.com'' (us_store user_server_init) = None"
    by (simp add: register_check_def user_exists_def get_user_by_email_def all_users_def
                  user_server_init_def empty_user_store_def)
  moreover have "UserCreate_valid ''Ann'' ''ann@example.com'' ''secret12''"
    and "UserCreate_valid ''Anne'' ''ann@example.com'' ''secret34''"
    by (simp_all add: UserCreate_valid_def email_str_def)
  ultimately show ?thesis
    using concurrent_registrations_duplicate_email [OF user_conc_reachable.init] by blast
qed

end
