(* ===== verification/Spec2Isabelle.thy ===== *)
theory Spec2Isabelle
  imports OrderLifecycle OrderResponses ServiceApps OrderQueries ProductConcurrency NotificationApi NotificationQueries UserConcurrency ServiceProducers
begin

text \<open>
  \<^bold>\<open>A verification library for ecommerce-microservices.\<close>

  The repository is four FastAPI services (\<open>src/user_service\<close>, \<open>src/product_service\<close>,
  \<open>src/order_service\<close>, \<open>src/notification_service\<close>) that share no database and talk
  over HTTP (the order service asks the user service to verify bearer tokens and the
  product service for products) and over Kafka (services publish events to topics; the
  notification service consumes two of them). This development models the four
  services, each with its store as explicit state, and the two ways they interact.
  Inside the order service its HTTP peers are functions it is given
  (\<open>token_verifier\<close>, \<open>product_fetch\<close>); this theory implements them by the user
  service's \<open>GET /profile\<close> and the product service's \<open>GET /products/{id}\<close>
  endpoints (\<open>user_service_verifier\<close>, \<open>product_service_fetch\<close>) and proves the
  contract the order service relies on. Kafka is the producer's log of delivered
  messages, which the consumer's \<open>process_message\<close> reads.

  \<^item> \<open>Prelude\<close>: money as \<open>rat\<close> with Python's \<open>round(x, 2)\<close> (half to even,
    \<open>py_round2\<close>), timestamps and document ids as \<open>nat\<close> (\<open>parse_id\<close> is
    \<open>ObjectId(s)\<close>, proved inverse to the decimal rendering), Python truthiness,
    \<open>str.join\<close>, skip/limit pages (\<open>mongo_limit\<close>: MongoDB's \<open>limit(0)\<close> is no
    limit) with the contract of a sorted, limited query, JSON values (\<open>pyval\<close>, dicts as association lists,
    with the ObjectId of a stored document as a value \<open>json.dumps\<close> refuses:
    \<open>json_serializable\<close>), \<open>HTTPException\<close>, and \<open>remove_at\<close> for the list of
    requests in flight.
  \<^item> \<open>Orders\<close>: \<open>src/order_service/app/models/order.py\<close>. The enums are datatypes,
    \<open>OrderItem\<close> and \<open>Order\<close> records; the pydantic validators
    \<open>calculate_total_price\<close>, \<open>calculate_subtotal\<close>, \<open>calculate_total_amount\<close> run in
    declaration order in \<open>OrderItem\<close> and \<open>validate_order\<close>; \<open>order_wf\<close> is what
    they establish.
  \<^item> \<open>OrderRepository\<close>: \<open>src/order_service/app/repositories/order_repository.py\<close>. The
    collection is a map from ids to orders with an id counter (\<open>order_db\<close>); every
    writer preserves \<open>db_inv\<close> (keys below the counter, each order carries its key and
    is well formed). \<open>OrderQueries\<close> holds the reads no handler calls, with their
    contracts.
  \<^item> \<open>ExternalServices\<close>: \<open>src/order_service/app/utils/external_services.py\<close>:
    \<open>check_product_availability\<close> and the loop of \<open>reserve_products\<close>, proved equal
    to a one-reservation-per-line reference reading; \<open>get_products_by_ids\<close>; and
    \<open>update_product_stock\<close> as an HTTP call (\<open>http_call\<close>: path parameter, query,
    JSON body) to a peer whose state is a type variable.
  \<^item> \<open>Events\<close>: \<open>src/order_service/app/utils/kafka_producer.py\<close> (the product and
    user services carry the same class): producer state, \<open>start\<close>, \<open>stop\<close>,
    \<open>send_event\<close> with its envelope (a payload the \<open>json.dumps\<close> value serializer
    refuses raises inside \<open>send_and_wait\<close>, and the exception is logged and dropped), the seven \<open>publish_*_event\<close> helpers, and
    \<open>order_envelope\<close>, the shape of every message the order service sends.
  \<^item> \<open>ServiceProducers\<close>: the product and user services' \<open>utils/kafka_producer.py\<close>:
    the same \<open>send_event\<close> with their service names, and their \<open>publish_*_event\<close>
    helpers (which no handler calls).
  \<^item> \<open>OrderService\<close> and \<open>OrderLifecycle\<close>:
    \<open>src/order_service/app/services/order_service.py\<close>. The state
    \<open>order_service_state\<close> is the order collection, the address collection with its
    counter, and the producer. Each handler returns \<open>Inl (HTTPException code detail)\<close>
    for every \<open>raise\<close>, or its result with the new state; the clock (read once per
    handler) and the UUID of the order number are arguments.
  \<^item> \<open>OrderController\<close>: \<open>src/order_service/app/controllers/order_controller.py\<close>:
    the bearer header (\<open>get_auth_token\<close>), every endpoint that reaches the store,
    path ids as strings (a string that is no id answers as an absent id, which the
    \<open>*_absent\<close> lemmas show is the service's answer), and the admin listing.
  \<^item> \<open>OrderStats\<close>: \<open>OrderRepository.get_order_stats\<close> and \<open>GET /admin/stats\<close>: the
    aggregation by status and the loop that fills the statistics.
  \<^item> \<open>OrderResponses\<close>: the response schemas and \<open>OrderService._convert_to_response\<close>,
    which every order-returning handler applies to the stored order.
  \<^item> \<open>ProductCatalog\<close>, \<open>ProductService\<close>, \<open>ProductProperties\<close>:
    \<open>src/product_service/app/{models,schemas,repositories,services}\<close>. Both collections
    with their counters (\<open>product_store\<close>), every repository call and every handler of
    \<open>CategoryService\<close> and \<open>ProductService\<close>; \<open>store_inv\<close> (non-negative stock,
    positive prices, unique SKUs and category names) holds in every state of the step
    relation \<open>product_step\<close>, whose bodies are the ones pydantic accepts
    (\<open>CategoryCreate_valid\<close>, \<open>CategoryUpdate_valid\<close>, \<open>ProductCreate_valid\<close>,
    \<open>ProductUpdate_valid\<close>). In \<open>product_step\<close> each request runs to completion
    before the next begins.
  \<^item> \<open>ProductConcurrency\<close>: the same service with the requests interleaved at their
    awaits, as the event loop runs them: \<open>create_product\<close> and \<open>create_category\<close>
    are split after their uniqueness check (\<open>create_product_check\<close>,
    \<open>create_product_insert\<close>, \<open>create_category_check\<close>), the checked requests wait
    in a list, and any of them may insert next (\<open>product_conc_step\<close>). Every run of
    \<open>product_step\<close> is one of these (\<open>product_sequential_is_interleaved\<close>); SKU
    uniqueness does not survive the interleaving.
  \<^item> \<open>ProductController\<close>: \<open>src/product_service/app/controllers/product_controller.py\<close>.
    Every endpoint as the service call wrapped in its response, with the re-raise of
    \<open>HTTPException\<close>, the catch-all 500 of the listing endpoints, the page-to-skip
    conversion, the parsing of the comma-separated \<open>tags\<close> (\<open>py_split\<close>,
    \<open>py_strip\<close>), and \<open>PATCH /{product_id}/stock\<close> with FastAPI's binding of its
    \<open>Query\<close> parameter (\<open>patch_product_stock\<close>, \<open>parse_int_str\<close>, proved inverse to
    \<open>str()\<close> of an int).
  \<^item> \<open>Notifications\<close>, \<open>NotificationConsumer\<close>, \<open>NotificationProperties\<close>:
    \<open>src/notification_service/app/{models,repositories,services,utils/kafka_consumer.py}\<close>.
    The notification store, creation, the mock channels, the failure path (whether a
    channel raises is an argument, \<open>True\<close> for the code's mocks), the retry sweep, and
    the consumer's routing of a message to the handlers. \<open>NotificationQueries\<close>
    holds the repository operations the service does not call (lookup, delete, the
    queries by event type, pending and retryable failed).
  \<^item> \<open>NotificationRetry\<close>, \<open>NotificationApi\<close>: \<open>src/notification_service/app/main.py\<close>:
    the statistics, the listing with its status parameter, and the retry endpoint.
    \<open>retry_drain\<close> calls the retry endpoint until a sweep finds nothing to retry; it
    is a \<open>function\<close> whose termination is proved with the measure
    \<open>retry_budget\<close> (the retries left to the failed notifications).
  \<^item> \<open>Users\<close>, \<open>UserController\<close>, \<open>UserProperties\<close>:
    \<open>src/user_service/app/{models,schemas,repositories,services,controllers}\<close>. The users collection with its counter
    (\<open>user_store\<close>), every repository call and every handler of \<open>UserService\<close>. The
    password and token helpers \<open>AuthUtils\<close> (\<open>app/utils/auth.py\<close>, not part of the
    sources) are modelled from their contract. Every endpoint resolves the bearer
    token with \<open>get_current_user\<close> before it calls the service. The soft delete
    \<open>delete_user\<close> and \<open>get_all_users\<close>, which no handler calls, are modelled too. \<open>user_inv\<close> (keys below the counter,
    one user per e-mail address) holds in every state of the step relation
    \<open>user_step\<close>, whose bodies are the ones pydantic accepts and whose requests each
    run to completion before the next begins. The password hash is modelled as
    injective: no file of the repository names the hashing algorithm. A bcrypt-based
    \<open>AuthUtils\<close> would compare only the first 72 bytes, and then the old password
    stops working after a change only when the two differ within those bytes.
  \<^item> \<open>UserConcurrency\<close>: registration with the requests interleaved at their awaits:
    \<open>register_user\<close> is split after \<open>user_exists\<close> (\<open>register_check\<close>,
    \<open>register_insert\<close>) and \<open>user_conc_step\<close> interleaves any number of
    registrations with the profile and password updates; every run of \<open>user_step\<close>
    is one of these, and e-mail uniqueness does not survive the interleaving.
  \<^item> \<open>ServiceApps\<close>: \<open>src/*/app/main.py\<close>: the exception handlers that render every
    error as \<open>{success, message, status_code}\<close>, the lifespan hooks (the order step
    relation's start and stop steps are the order service's), and the order service's
    HTTP interface \<open>order_api\<close> over a datatype of its calls. It first applies
    FastAPI's validation of the declared \<open>Query\<close> bounds and of the \<open>OrderCreate\<close>
    body, whose violations get FastAPI's own 422 \<open>{detail: [...]}\<close>
    (\<open>request_errors\<close>). Its other error answers are shown to be envelopes with
    taxonomy codes.
  \<^item> This theory: the order service as a step relation \<open>order_step\<close> with
    \<open>reachable\<close> states, the services as each other's HTTP peers
    (\<open>user_service_verifier\<close>, \<open>product_service_fetch\<close>, \<open>user_service_get_user\<close>,
    \<open>product_service_stock_patch\<close>), and the properties that span components.

  \<^bold>\<open>What is shown.\<close> Orders: the totals of a created order follow the spec's
  formula (tax of 8 percent on whole cents never lands on a rounding tie, so the code's
  sum of rounded parts equals the spec's rounded sum); every stored order of every
  reachable state is well formed; each handler's error paths are exactly the source's
  guards, and for a body pydantic accepts \<open>create_order\<close>'s 500 branch is dead; cancellation and status updates do what the source does (any status may
  follow any other); milestones are stamped once; payment and order status are
  independent; a status update publishes its event except for shipped. Products: no
  negative stock in any reachable store, duplicate SKUs under concurrent creations,
  the stock endpoint's exact behaviour, the
  pagination of the listing. Notifications: creation with and without channel
  failures, the retry counter's bound in every reachable store. Users: duplicate
  e-mail addresses under concurrent registrations, duplicate registration refused, the
  password change taking effect only with the right current password, and register,
  login and \<open>GET /profile\<close> round-tripping through the token. Across services: the
  product endpoint meets the order service's price contract in every reachable
  store; an order placed with a login token belongs to the user who logged in; every
  message of the order service's log is a well-typed order envelope; the order
  service's stock client can never change stock; deactivating a user revokes their
  login token for orders and logins; the answer for a stored order agrees with it; the retry sweep
  sends every retryable failed notification in its window; repeated retry sweeps terminate
  within the retry budget; the notification statistics add up; the listing refuses
  unknown statuses; the order service's admin listing's pages cover the total; every
  error answer of the order API is FastAPI's 422 for a request that violates a
  declared bound, or else the envelope with a taxonomy code; the welcome notification for a registration is
  lost between the user service's producer and the consumer; the admin statistics
  count each status in its field, refunded orders only in the total.

  \<^bold>\<open>Findings the model records.\<close> The "reservation" checks stock and writes none
  (\<open>create_order_store_independent\<close>), so any number of orders of an in-stock line
  succeed against the same stock (\<open>reachable_oversell\<close>); the admin statistics have no field for
  refunded orders (\<open>order_stats_counts\<close>); \<open>send_event\<close> puts the topic name under
  \<open>event_type\<close>, so the consumer never creates a notification from any produced event
  (\<open>consumer_ignores_envelopes\<close>, \<open>user_registered_event_ignored\<close>); \<open>order.refunded\<close> is never published and
  \<open>order-events\<close> is not consumed; product search always reports one page;
  soft-deleted products stay writable; duplicates are 400, not a conflict; with the
  mock channels the failure and retry paths are dead code; the retry sweep only sees
  the 100 newest failed notifications; \<open>GET /profile\<close> answers a token of a
  missing or inactive user with 404, not the 401 the spec's identity verifier names;
  the admin endpoints of the order service take no credential; the user service never
  starts its producer (\<open>user_producer_never_started\<close>); the order
  service's \<open>update_product_stock\<close> sends its change as JSON where the
  endpoint reads a query parameter, so every call gets 422
  (\<open>order_stock_update_rejected\<close>); every item of an order response has the id
  \<open>None\<close>, since embedded items are never inserted (\<open>convert_to_response_consistent\<close>);
  the shipped event is never sent, because its payload carries the address's ObjectId,
  which \<open>json.dumps\<close> refuses (\<open>update_order_status_events\<close>); the
  check-then-insert of registrations and product creations admits duplicate e-mail
  addresses and SKUs under concurrent requests
  (\<open>concurrent_registrations_duplicate_email\<close>,
  \<open>concurrent_creations_duplicate_sku\<close>).

  \<^bold>\<open>Bounds and fuel.\<close> Every loop of the modelled code is a loop over a finite
  list, so every definition is structurally recursive and total; no fuel is needed.
  The one loop that is not, calling the retry endpoint until nothing is retryable
  (\<open>retry_drain\<close>), terminates by its measure, and \<open>retry_drain_quiesces\<close>
  bounds its number of rounds by the retry budget.
  The retry sweep's bound is the 3 that \<open>main.py\<close> passes.

  \<^bold>\<open>Not modelled.\<close> Of the \<open>main.py\<close> files: CORS, logging, the root and
  health endpoints and the uvicorn start-up (configuration without state); the
  routing of URLs to routes, which FastAPI does (\<open>order_api\<close> starts from the
  route's parameters), and FastAPI's 422 answers outside \<open>order_api\<close>, which the
  step relations exclude by their validity premises; a missing \<open>Authorization\<close>
  header and negative page numbers (the model's are \<open>nat\<close>; FastAPI answers both
  with 422); the message and type texts of a validation error; the interleaving of
  the order and notification services' handlers (their steps are atomic); the generic \<open>update_order\<close> of the order repository, which
  sets arbitrary attributes without validation; negative \<open>limit\<close> and
  \<open>offset\<close> of the notification listing; the database connection code; the internals of the password and JWT helpers outside
  \<open>src/\<close> (salts, signatures, expiry); float arithmetic (money is exact); failures of MongoDB writes; the string form of
  enums in f-strings, taken as their value (Python before 3.12); \<open>str()\<close> of floats,
  lists and dicts inside notification messages.
\<close>

subsection \<open>The order service as a state machine\<close>

definition init_state :: "bool \<Rightarrow> bool \<Rightarrow> order_service_state" where
  "init_state enabled up =
     \<lparr>db = empty_order_db, addresses = Map.empty, next_address_id = 0, kafka = KafkaProducer_init enabled up\<rparr>"

inductive order_step :: "token_verifier \<Rightarrow> product_fetch \<Rightarrow> order_service_state \<Rightarrow> order_service_state \<Rightarrow> bool"
  for verify fetch where
  create: "create_order verify fetch req token now uuid st = Inr (ordr, st') \<Longrightarrow> order_step verify fetch st st'"
| set_status: "update_order_status oid s n now st = Inr (ordr, st') \<Longrightarrow> order_step verify fetch st st'"
| set_payment: "update_payment_status oid ps pm txn now st = Inr (ordr, st') \<Longrightarrow> order_step verify fetch st st'"
| cancel: "cancel_order verify oid token now st = Inr (ordr, st') \<Longrightarrow> order_step verify fetch st st'"
| start: "order_step verify fetch st (order_lifespan_startup st)"
| stop: "order_step verify fetch st (order_lifespan_shutdown st)"

inductive reachable :: "token_verifier \<Rightarrow> product_fetch \<Rightarrow> order_service_state \<Rightarrow> bool"
  for verify fetch where
  init: "reachable verify fetch (init_state enabled up)"
| step: "reachable verify fetch st \<Longrightarrow> order_step verify fetch st st' \<Longrightarrow> reachable verify fetch st'"

subsection \<open>The services as each other's peers\<close>

text \<open>
  The order service's HTTP clients, \<open>UserServiceClient.verify_user_token\<close> and
  \<open>ProductServiceClient.get_product_by_id\<close>, answered by the other services'
  endpoints: a 200 answer's JSON, or \<open>None\<close>.
\<close>

definition product_info_of :: "product \<Rightarrow> product_info" where
  "product_info_of p =
     \<lparr>p_name = prod_name p, p_description = prod_description p, p_price = price p,
      p_category_name = category_name p, p_sku = sku p, p_stock_quantity = stock_quantity p,
      p_is_available = is_available p, p_image_urls = image_urls p\<rparr>"

definition product_service_fetch :: "product_store \<Rightarrow> product_fetch" where
  "product_service_fetch pst pid =
     (case api_get_product pid pst of Inl _ \<Rightarrow> None | Inr ((_, p), _) \<Rightarrow> Some (product_info_of p))"

definition user_service_verifier :: "user_store \<Rightarrow> token_verifier" where
  "user_service_verifier ust tok =
     (case api_get_profile tok ust of Inl _ \<Rightarrow> None | Inr (r, _) \<Rightarrow> Some \<lparr>ui_id = ur_id r, ui_email = ur_email r\<rparr>)"

text \<open>
  The clients' other calls. \<open>UserServiceClient.get_user_by_id\<close> calls
  \<open>GET /api/v1/users/profile/{user_id}\<close> with the caller's bearer token and returns
  the \<open>UserResponse\<close> JSON. \<open>ProductServiceClient.update_product_stock\<close> calls
  \<open>PATCH /api/v1/products/{product_id}/stock\<close>, which the product service serves as
  \<open>patch_product_stock\<close>; the call never raises here.
\<close>

definition user_service_get_user :: "user_store \<Rightarrow> string \<Rightarrow> string \<Rightarrow> user_response option" where
  "user_service_get_user ust uid tok = (case api_get_user_by_id tok uid ust of Inl _ \<Rightarrow> None | Inr (r, _) \<Rightarrow> Some r)"

definition product_service_stock_patch :: "timestamp \<Rightarrow> product_store http_call" where
  "product_service_stock_patch now pid query body pst =
     (case patch_product_stock now pid query body pst of (c, pst') \<Rightarrow> (Some c, pst'))"

subsection \<open>The order service's handlers and the store invariant\<close>

text \<open>Every handler's effect on the order collection.\<close>


lemma create_order_db_inv:
  "create_order verify fetch req token now uuid st = Inr (ordr, st') \<Longrightarrow> db_inv (db st) \<Longrightarrow> db_inv (db st')"
proof -
  assume c: "create_order verify fetch req token now uuid st = Inr (ordr, st')" and inv: "db_inv (db st)"
  from c obtain ui its sub where
    b: "build_order_items (oc_items req) (map (reserve_one fetch) (oc_items req)) [] 0 = Some (its, sub)" and
    p: "persist_order ui req its sub now uuid st = (ordr, st')"
    by (auto simp: create_order_Inr)
  from build_order_items_Some [OF b] have wf: "list_all item_wf its" by auto
  from p have "db st' = snd (repo_create_order (new_order_data ui req its sub ((oc_shipping_address req)\<lparr>address_id := next_address_id st\<rparr>)
          (generate_order_number now uuid) now) now (db st))"
    by (auto simp: persist_order_def Let_def split: prod.splits)
  with inv wf show ?thesis by (simp add: db_inv_repo_create_order)
qed

lemma update_order_status_db:
  "update_order_status oid s n now st = Inr (ordr, st') \<Longrightarrow> db st' = snd (repo_update_order_status oid s n now (db st))"
  by (auto simp: update_order_status_def split: option.splits prod.splits)

lemma cancel_order_db:
  "cancel_order verify oid token now st = Inr (ordr, st') \<Longrightarrow>
     db st' = snd (repo_update_order_status oid CANCELLED (Some cancel_reason) now (db st))"
  by (auto simp: cancel_order_def split: option.splits prod.splits if_splits)

lemma update_payment_status_db_inv:
  "update_payment_status oid ps pm txn now st = Inr (ordr', st') \<Longrightarrow> db_inv (db st) \<Longrightarrow> db_inv (db st')"
proof -
  assume u: "update_payment_status oid ps pm txn now st = Inr (ordr', st')" and inv: "db_inv (db st)"
  from u obtain ordr where o: "orders (db st) oid = Some ordr" by (auto simp: update_payment_status_Inr)
  with inv have oid: "order_id ordr = oid" and wf: "order_wf ordr" by (auto dest: db_inv_stored)
  let ?o1 = "ordr\<lparr>payment_status := ps, updated_at := now\<rparr>"
  let ?o2 = "if py_truthy txn then ?o1\<lparr>payment_transaction_id := txn\<rparr> else ?o1"
  let ?db1 = "(db st)\<lparr>orders := (orders (db st))(oid \<mapsto> ?o2)\<rparr>"
  have inv1: "db_inv ?db1" using inv o oid wf by (intro db_inv_replace) auto
  show ?thesis
  proof (cases "py_truthy pm")
    case True
    with u o have "db st' = repo_save (?o2\<lparr>payment_method := pm\<rparr>) ?db1" and "ordr' = ?o2\<lparr>payment_method := pm\<rparr>"
      by (auto simp: update_payment_status_Inr Let_def)
    moreover have "orders ?db1 (order_id (?o2\<lparr>payment_method := pm\<rparr>)) = Some ?o2" using oid by simp
    moreover have "order_wf (?o2\<lparr>payment_method := pm\<rparr>)" using wf by simp
    ultimately show ?thesis using inv1 by (simp add: db_inv_repo_save)
  next
    case False
    with u o have "db st' = ?db1" by (auto simp: update_payment_status_Inr Let_def)
    with inv1 show ?thesis by simp
  qed
qed

lemma order_step_db_inv: "order_step verify fetch st st' \<Longrightarrow> db_inv (db st) \<Longrightarrow> db_inv (db st')"
proof (induction rule: order_step.induct)
  case (create req token now uuid st ordr st')
  then show ?case by (rule create_order_db_inv)
next
  case (set_status oid s n now st ordr st')
  then show ?case by (simp add: update_order_status_db db_inv_repo_update_order_status)
next
  case (set_payment oid ps pm txn now st ordr st')
  then show ?case by (rule update_payment_status_db_inv)
next
  case (cancel oid token now st ordr st')
  then show ?case by (simp add: cancel_order_db db_inv_repo_update_order_status)
qed simp_all

lemma reachable_db_inv: "reachable verify fetch st \<Longrightarrow> db_inv (db st)"
proof (induction rule: reachable.induct)
  case (init enabled up)
  show ?case by (simp add: init_state_def db_inv_empty)
next
  case (step st st')
  then show ?case by (blast intro: order_step_db_inv)
qed

subsection \<open>The event log only grows\<close>

lemma sent_producer_start [simp]: "sent (producer_start p) = sent p"
  by (simp add: producer_start_def)

lemma sent_producer_stop [simp]: "sent (producer_stop p) = sent p"
  by (simp add: producer_stop_def)

lemma status_event_envelopes [simp]:
  "list_all order_envelope (sent k) \<Longrightarrow> list_all order_envelope (sent (status_event s n ordr k))"
  by (simp add: status_event_def Let_def)

lemma payment_event_envelopes [simp]:
  "list_all order_envelope (sent k) \<Longrightarrow> list_all order_envelope (sent (payment_event ps ordr k))"
  by (simp add: payment_event_def)

lemma create_order_kafka:
  assumes "create_order verify fetch req token now uuid st = Inr (ordr, st')"
  shows "kafka st' = publish_order_created_event (order_created_data ordr) (kafka st)"
proof -
  from assms obtain ui its sub where "persist_order ui req its sub now uuid st = (ordr, st')"
    by (auto simp: create_order_Inr)
  then show ?thesis by (auto simp: persist_order_def Let_def split: prod.splits)
qed

lemma update_order_status_kafka:
  "update_order_status oid s n now st = Inr (ordr, st') \<Longrightarrow> kafka st' = status_event s n ordr (kafka st)"
  by (auto simp: update_order_status_def split: option.splits prod.splits)

lemma update_payment_status_kafka:
  "update_payment_status oid ps pm txn now st = Inr (ordr, st') \<Longrightarrow> kafka st' = payment_event ps ordr (kafka st)"
  by (auto simp: update_payment_status_def Let_def split: option.splits prod.splits)

lemma cancel_order_kafka:
  "cancel_order verify oid token now st = Inr (ordr, st') \<Longrightarrow>
     \<exists>od. kafka st' = publish_order_cancelled_event od (kafka st)"
  by (auto simp: cancel_order_def split: option.splits prod.splits if_splits)

lemma order_step_kafka:
  assumes "order_step verify fetch st st'"
  obtains (created) od where "kafka st' = publish_order_created_event od (kafka st)"
  | (status) s n ordr where "kafka st' = status_event s n ordr (kafka st)"
  | (payment) ps ordr where "kafka st' = payment_event ps ordr (kafka st)"
  | (cancelled) od where "kafka st' = publish_order_cancelled_event od (kafka st)"
  | (start) "kafka st' = producer_start (kafka st)"
  | (stop) "kafka st' = producer_stop (kafka st)"
  using assms
  by (cases rule: order_step.cases)
     (auto dest: create_order_kafka update_order_status_kafka update_payment_status_kafka cancel_order_kafka)

subsection \<open>Properties of the service\<close>

text \<open>
  C2. In every state reachable from an empty store by successful handler calls, each
  stored order carries its key, has a non-negative total that is the validator's
  rounded sum of its parts, a subtotal that is the sum of its line totals, and lines
  with positive quantities whose totals are the rounded unit price times quantity.
\<close>

theorem reachable_orders_well_formed:
  assumes "reachable verify fetch st" "orders (db st) oid = Some ordr"
  shows "order_id ordr = oid \<and> 0 \<le> total_amount ordr
    \<and> total_amount ordr = calculate_total_amount (subtotal ordr) (tax_amount ordr) (shipping_cost ordr) (discount_amount ordr)
    \<and> (items ordr \<noteq> [] \<longrightarrow> subtotal ordr = sum_list (map total_price (items ordr)))
    \<and> (\<forall>it \<in> set (items ordr). 0 < quantity it \<and> total_price it = py_round2 (unit_price it * of_int (quantity it)))"
proof -
  from reachable_db_inv [OF assms(1)] assms(2) have "order_id ordr = oid" "order_wf ordr"
    by (auto dest: db_inv_stored)
  then show ?thesis
    by (auto simp: order_wf_def item_wf_def list_all_iff calculate_total_amount_nonneg)
qed

theorem reachable_orders_well_formed_witness:
  "\<exists>st ordr. reachable ex_verify ex_fetch st \<and> orders (db st) 0 = Some ordr
     \<and> order_id ordr = 0 \<and> 0 \<le> total_amount ordr"
proof -
  have av: "list_all (line_available ex_fetch) (oc_items ex_request)"
    by (simp add: ex_request_def ex_fetch_def line_available_def ex_product_A_def)
  obtain ordr st' where eq: "create_order ex_verify ex_fetch ex_request ''tok'' 1 ''abcdefgh'' ex_state = Inr (ordr, st')"
    using av ex_build by (simp add: create_order_Inr ex_verify_def) (metis prod.collapse)
  have r0: "reachable ex_verify ex_fetch ex_state"
    using reachable.init [of ex_verify ex_fetch False False] by (simp add: init_state_def ex_state_def)
  have r1: "reachable ex_verify ex_fetch st'"
    by (rule reachable.step [OF r0 order_step.create [OF eq]])
  have stored: "orders (db st') 0 = Some ordr"
    using eq by (auto simp: create_order_Inr persist_order_def repo_create_order_def Let_def ex_state_def
                            empty_order_db_def split: prod.splits)
  from reachable_orders_well_formed [OF r1 stored] r1 stored show ?thesis by blast
qed

text \<open>
  C35. Every message in the order service's Kafka log, in every reachable state, is
  well typed: it is on \<open>order-events\<close>, it is the envelope \<open>send_event\<close> builds
  around a payload dictionary, and the payload's \<open>event_type\<close> is one of the seven
  order event names.
\<close>

theorem reachable_log_envelopes:
  "reachable verify fetch st \<Longrightarrow> list_all order_envelope (sent (kafka st))"
proof (induction rule: reachable.induct)
  case (init enabled up)
  then show ?case by (simp add: init_state_def KafkaProducer_init_def)
next
  case (step st st')
  from step.hyps(2) show ?case
    by (cases rule: order_step_kafka) (simp_all add: step.IH)
qed

theorem reachable_log_envelopes_witness:
  "\<exists>st. reachable ex_verify ex_fetch st \<and> sent (kafka st) \<noteq> [] \<and> list_all order_envelope (sent (kafka st))"
proof -
  let ?st0 = "order_lifespan_startup (init_state True True)"
  have r0: "reachable ex_verify ex_fetch ?st0"
    by (rule reachable.step [OF reachable.init order_step.start])
  have av: "list_all (line_available ex_fetch) (oc_items ex_request)"
    by (simp add: ex_request_def ex_fetch_def line_available_def ex_product_A_def)
  obtain ordr st' where eq: "create_order ex_verify ex_fetch ex_request ''tok'' 1 ''abcdefgh'' ?st0 = Inr (ordr, st')"
    using av ex_build by (simp add: create_order_Inr ex_verify_def) (metis prod.collapse)
  have r1: "reachable ex_verify ex_fetch st'"
    by (rule reachable.step [OF r0 order_step.create [OF eq]])
  have "sent (kafka st') \<noteq> []"
    using create_order_kafka [OF eq]
    by (simp add: publish_defs sent_send_event delivers_def init_state_def KafkaProducer_init_def producer_start_def
                  order_created_data_def item_event_json_def)
  with reachable_log_envelopes [OF r1] r1 show ?thesis by blast
qed

text \<open>
  Whether an order is accepted, and with which error it is refused, does not
  depend on the service's state: the orders already placed never reduce what the
  reservation step sees, because it reads stock and writes none.
\<close>

theorem create_order_store_independent:
  "map_sum id (\<lambda>_. ()) (create_order verify fetch req token now uuid st1) =
   map_sum id (\<lambda>_. ()) (create_order verify fetch req token now uuid st2)"
  by (simp add: create_order_def Let_def split: option.splits prod.splits)

text \<open>
  The notification consumer ignores every message the services' producers send:
  \<open>send_event\<close> puts the topic name under \<open>event_type\<close>, and no topic name is one of
  the event names the consumer's handlers react to, so handling the envelope of any
  payload on any topic leaves the notification store unchanged.
\<close>

theorem consumer_ignores_envelopes:
  "process_message ok now (topic, enrich_event service topic d) ndb = ndb"
  by (simp add: process_message_def enrich_event_def handle_user_event_def handle_product_event_def Let_def)

subsection \<open>Properties across services\<close>

lemma product_service_fetch_Some:
  "product_service_fetch pst pid = Some p \<longleftrightarrow>
     (\<exists>i q. parse_id pid = Some i \<and> products pst i = Some q \<and> is_active q \<and> p = product_info_of q)"
  by (auto simp: product_service_fetch_def api_get_product_def get_product_by_id_def prod_repo_get_by_id_def
           split: sum.splits option.splits prod.splits if_splits)

lemma user_service_verifier_login:
  assumes "login_user e pw ust = Inr ((tok, uid, u), ust')"
  shows "user_service_verifier ust tok = Some \<lparr>ui_id = decimal_digits uid, ui_email = e\<rparr>"
proof -
  from login_user_Inr [OF assms] have "users ust uid = Some u" "u_email u = e" "u_is_active u"
    and tok: "tok = create_access_token (decimal_digits uid) e" by auto
  then show ?thesis
    by (simp add: user_service_verifier_def api_get_profile_def get_user_profile_def get_user_by_id_def
                  user_response_of_def del: decimal_digits.simps)
qed

text \<open>
  C30. The product service keeps the promise the order service's model of it relies
  on: in every reachable product store, \<open>GET /products/{id}\<close> (which is what the
  order service's \<open>get_product_by_id\<close> calls) answers only for stored, active
  products, with a positive price and non-negative stock.
\<close>

theorem product_service_fetch_contract:
  assumes "product_reachable pst"
  shows "prices_positive (product_service_fetch pst)
    \<and> (\<forall>pid p. product_service_fetch pst pid = Some p \<longrightarrow>
         (\<exists>i q. parse_id pid = Some i \<and> products pst i = Some q \<and> is_active q \<and> p = product_info_of q
                \<and> 0 \<le> p_stock_quantity p))"
proof -
  have "stock_price_ok pst"
    using product_reachable_store_inv [OF assms] by (simp add: store_inv_def)
  then show ?thesis
    by (auto simp: prices_positive_def product_service_fetch_Some stock_price_ok_def product_info_of_def)
qed

theorem product_service_fetch_contract_witness:
  "prices_positive (product_service_fetch ex_store) \<and> product_service_fetch ex_store ''0'' = Some (product_info_of ex_product)"
proof -
  have "product_service_fetch ex_store ''0'' = Some (product_info_of ex_product)"
    by (auto simp: product_service_fetch_Some parse_id_def is_digit_def digits_value_def ex_product_def)
  with product_service_fetch_contract [OF ex_store_reachable] show ?thesis by blast
qed

text \<open>
  C12. The availability check is only a check: with the product service as the
  order service's inventory, a single product with stock \<open>S\<close> and a line of
  \<open>q \<le> S\<close> units admit, for every \<open>n\<close>, a reachable order-service state holding
  \<open>n\<close> orders of exactly that line, while the product store, which no order-service
  step writes, still reports stock \<open>S\<close>: \<open>n * q\<close> units are sold against \<open>S\<close>.
\<close>

theorem reachable_oversell:
  assumes f: "product_service_fetch pst pid = Some p" and av: "p_is_available p"
    and q: "0 < q" "q \<le> p_stock_quantity p" and v: "verify tok = Some ui"
  shows "\<exists>st. reachable verify (product_service_fetch pst) st \<and> length (all_orders (db st)) = n
    \<and> (\<forall>ordr\<in>set (all_orders (db st)). map (\<lambda>it. (product_id it, quantity it)) (items ordr) = [(pid, q)])"
proof (induction n)
  case 0
  have "reachable verify (product_service_fetch pst) (init_state True True)" by (rule reachable.init)
  then show ?case by (auto simp: init_state_def empty_order_db_def all_orders_def)
next
  case (Suc n)
  then obtain st where r: "reachable verify (product_service_fetch pst) st" and len: "length (all_orders (db st)) = n"
    and lines: "\<forall>ordr\<in>set (all_orders (db st)). map (\<lambda>it. (product_id it, quantity it)) (items ordr) = [(pid, q)]"
    by blast
  let ?req = "ex_request\<lparr>oc_items := [(pid, q)]\<rparr>"
  have "OrderCreate_valid ?req" using q by (simp add: OrderCreate_valid_def)
  moreover have "list_all (line_available (product_service_fetch pst)) (oc_items ?req)"
    using f av q by (simp add: line_available_def)
  ultimately obtain ordr st' where c: "create_order verify (product_service_fetch pst) ?req tok 1 ''abcdefgh'' st = Inr (ordr, st')"
    using create_order_valid_Inr [of ?req verify tok ui] v by blast
  have "reachable verify (product_service_fetch pst) st'"
    using r order_step.create [OF c] by (rule reachable.step)
  moreover have "length (all_orders (db st')) = Suc n"
    and "\<forall>ordr\<in>set (all_orders (db st')). map (\<lambda>it. (product_id it, quantity it)) (items ordr) = [(pid, q)]"
    using create_order_lines [OF c] len lines by auto
  ultimately show ?case by blast
qed

theorem reachable_oversell_witness:
  "\<exists>st. reachable ex_verify (product_service_fetch ProductProperties.ex_store) st
     \<and> length (all_orders (db st)) = 2
     \<and> (\<forall>ordr\<in>set (all_orders (db st)). map (\<lambda>it. (product_id it, quantity it)) (items ordr) = [(''0'', 5)])"
proof -
  have "product_service_fetch ProductProperties.ex_store ''0'' = Some (product_info_of ProductProperties.ex_product)"
    by (auto simp: product_service_fetch_Some parse_id_def is_digit_def digits_value_def ProductProperties.ex_product_def)
  moreover have "ex_verify ''tok'' = Some ex_user" by (simp add: ex_verify_def)
  ultimately show ?thesis
    using reachable_oversell [of ProductProperties.ex_store "''0''" "product_info_of ProductProperties.ex_product" 5
            ex_verify "''tok''" ex_user 2]
    by (simp add: product_info_of_def ProductProperties.ex_product_def)
qed

text \<open>
  The user service answers \<open>get_user_by_id\<close> for any caller with a valid token:
  the profile of an active user is returned whoever asks.
\<close>

lemma user_service_get_user_any_caller:
  "get_current_user tok = Inl c \<Longrightarrow>
   user_service_get_user ust uid tok = (case get_user_profile uid ust of Inl _ \<Rightarrow> None | Inr (d, _) \<Rightarrow> Some (user_response_of d))"
  by (simp add: user_service_get_user_def api_get_user_by_id_def with_current_user_def respond_def
           split: sum.splits prod.splits)

text \<open>
  C31. The order service's stock-update client never changes stock: it sends
  \<open>quantity_change\<close> as a JSON body, the product service's endpoint reads it from
  the query string, so every call is answered 422, the client returns \<open>False\<close> and
  the product store is unchanged. The same change sent as the query parameter
  \<open>str(quantity_change)\<close> is applied exactly as \<open>update_stock\<close> applies it.
\<close>

theorem order_stock_update_rejected:
  "update_product_stock_client (product_service_stock_patch now) pid q pst = (False, pst)
   \<and> (update_stock pid q now pst = Inr (r, pst') \<longrightarrow>
        product_service_stock_patch now pid [(''quantity_change'', py_int_str q)] [] pst = (Some 200, pst'))"
  by (simp add: update_product_stock_client_def product_service_stock_patch_def patch_product_stock_no_query
                patch_product_stock_query)

theorem order_stock_update_rejected_witness:
  "\<exists>r pst'. update_product_stock_client (product_service_stock_patch 3) ''0'' (-2) ProductProperties.ex_store
       = (False, ProductProperties.ex_store)
     \<and> update_stock ''0'' (-2) 3 ProductProperties.ex_store = Inr (r, pst')
     \<and> product_service_stock_patch 3 ''0'' [(''quantity_change'', py_int_str (-2))] [] ProductProperties.ex_store
       = (Some 200, pst')"
proof -
  obtain r pst' where u: "update_stock ''0'' (-2) 3 ProductProperties.ex_store = Inr (r, pst')"
    by (simp add: update_stock_def prod_repo_update_stock_def prod_repo_get_by_id_def parse_id_def is_digit_def
                  digits_value_def Let_def ProductProperties.ex_product_def)
  then show ?thesis
    using order_stock_update_rejected [of 3 "''0''" "-2" ProductProperties.ex_store r pst'] by blast
qed

lemma ex_users_login:
  "login_user ''ann@example.com'' ''secret12'' ex_users
     = Inr ((create_access_token ''0'' ''ann@example.com'', 0, ex_ann), ex_users)"
  by (simp add: login_user_def authenticate_user_def get_user_by_email_def all_users_def ex_users_def
                ex_ann_def verify_password_def)

text \<open>
  C32. With the user service as the order service's token verifier, an order created
  with the token that \<open>POST /login\<close> returned belongs to the user who logged in: its
  \<open>user_id\<close> is the id in the login response and its \<open>user_email\<close> the address
  used to log in.
\<close>

theorem login_order_owner:
  assumes l: "api_login e pw ust = Inr (lr, ust')"
    and c: "create_order (user_service_verifier ust') fetch req (lr_access_token lr) now uuid st = Inr (ordr, st')"
  shows "user_id ordr = ur_id (lr_user lr) \<and> user_email ordr = e \<and> orders (db st') (order_id ordr) = Some ordr"
proof -
  from l obtain tok uid u where li: "login_user e pw ust = Inr ((tok, uid, u), ust')"
    and lr: "lr = \<lparr>lr_access_token = tok, lr_token_type = ''bearer'', lr_user = user_response_of (uid, u)\<rparr>"
    by (auto simp: api_login_def respond_def split: sum.splits prod.splits)
  from login_user_Inr [OF li] have ust': "ust' = ust" and ue: "u_email u = e" by auto
  have v: "user_service_verifier ust' tok = Some \<lparr>ui_id = decimal_digits uid, ui_email = e\<rparr>"
    using user_service_verifier_login [OF li] ust' by simp
  from c v lr obtain its sub where
    p: "persist_order \<lparr>ui_id = decimal_digits uid, ui_email = e\<rparr> req its sub now uuid st = (ordr, st')"
    by (auto simp: create_order_Inr)
  from persist_order_db [OF p] lr show ?thesis
    by (simp add: user_response_of_def new_order_data_def Let_def del: decimal_digits.simps)
qed

theorem login_order_owner_witness:
  "\<exists>lr ordr st'. api_login ''ann@example.com'' ''secret12'' ex_users = Inr (lr, ex_users)
     \<and> create_order (user_service_verifier ex_users) ex_fetch ex_request (lr_access_token lr) 1 ''abcdefgh'' ex_state
         = Inr (ordr, st')
     \<and> user_id ordr = ''0'' \<and> user_email ordr = ''ann@example.com''"
proof -
  let ?tok = "create_access_token ''0'' ''ann@example.com''"
  let ?lr = "\<lparr>lr_access_token = ?tok, lr_token_type = ''bearer'', lr_user = user_response_of (0, ex_ann)\<rparr>"
  note li = ex_users_login
  then have al: "api_login ''ann@example.com'' ''secret12'' ex_users = Inr (?lr, ex_users)"
    by (simp add: api_login_def)
  have v: "user_service_verifier ex_users ?tok = Some \<lparr>ui_id = ''0'', ui_email = ''ann@example.com''\<rparr>"
    using user_service_verifier_login [OF li] by simp
  have av: "list_all (line_available ex_fetch) (oc_items ex_request)"
    by (simp add: ex_request_def ex_fetch_def line_available_def ex_product_A_def)
  obtain ordr st' where c:
    "create_order (user_service_verifier ex_users) ex_fetch ex_request ?tok 1 ''abcdefgh'' ex_state = Inr (ordr, st')"
    using v av ex_build by (simp add: create_order_Inr) (metis prod.collapse)
  have "lr_access_token ?lr = ?tok" by simp
  with login_order_owner [OF al] c have "user_id ordr = ur_id (lr_user ?lr) \<and> user_email ordr = ''ann@example.com''"
    by simp
  then have "user_id ordr = ''0'' \<and> user_email ordr = ''ann@example.com''"
    by (simp add: user_response_of_def)
  with al c show ?thesis by auto
qed

text \<open>
  C33. Deactivating a user revokes what their login token grants across the
  services: after \<open>UserRepository.delete_user\<close> (a soft delete) of a user who
  logged in, the user service no longer verifies the token, so the order service
  refuses to create an order with it (401), and the same credentials no longer log in.
\<close>

theorem deactivated_user_token_rejected:
  assumes l: "api_login e pw ust = Inr (lr, ust1)"
    and d: "delete_user (ur_id (lr_user lr)) now ust1 = (b, ust2)"
  shows "b \<and> user_service_verifier ust2 (lr_access_token lr) = None
    \<and> create_order (user_service_verifier ust2) fetch req (lr_access_token lr) now' uuid st
        = Inl (HTTPException 401 ''Invalid or expired token'')
    \<and> api_login e pw ust2 = Inl (HTTPException 401 ''Incorrect email or password'')"
proof -
  from l obtain tok uid u where li: "login_user e pw ust = Inr ((tok, uid, u), ust1)"
    and lr: "lr = \<lparr>lr_access_token = tok, lr_token_type = ''bearer'', lr_user = user_response_of (uid, u)\<rparr>"
    by (auto simp: api_login_def respond_def split: sum.splits prod.splits)
  from login_user_Inr [OF li] have ust1: "ust1 = ust" and uu: "users ust uid = Some u" and ue: "u_email u = e"
    and tok: "tok = create_access_token (decimal_digits uid) e" by auto
  from li have "authenticate_user e pw ust = Some (uid, u)"
    by (auto simp: login_user_def split: option.splits)
  then have ge: "get_user_by_email e ust = Some (uid, u)"
    by (auto simp: authenticate_user_def split: option.splits if_splits)
  let ?u' = "u\<lparr>u_is_active := False, u_updated_at := now\<rparr>"
  have "delete_user (decimal_digits uid) now ust = (True, ust\<lparr>users := (users ust)(uid \<mapsto> ?u')\<rparr>)"
    using uu by (simp add: delete_user_def get_user_by_id_def)
  with d lr ust1 have b: b and ust2: "ust2 = ust\<lparr>users := (users ust)(uid \<mapsto> ?u')\<rparr>"
    by (simp_all add: user_response_of_def)
  have v: "user_service_verifier ust2 tok = None"
    using tok ust2 by (simp add: user_service_verifier_def api_get_profile_def get_user_profile_def get_user_by_id_def)
  have "get_user_by_email e ust2 = Some (uid, ?u')"
    using get_user_by_email_replace [OF ge, of ?u'] ust2 by simp
  then have "api_login e pw ust2 = Inl (HTTPException 401 ''Incorrect email or password'')"
    by (simp add: api_login_def login_user_def authenticate_user_def)
  with b v lr show ?thesis by (simp add: create_order_def)
qed

theorem deactivated_user_token_rejected_witness:
  "\<exists>lr ust2. api_login ''ann@example.com'' ''secret12'' ex_users = Inr (lr, ex_users)
     \<and> delete_user (ur_id (lr_user lr)) 5 ex_users = (True, ust2)
     \<and> user_service_verifier ust2 (lr_access_token lr) = None"
proof -
  let ?lr = "\<lparr>lr_access_token = create_access_token ''0'' ''ann@example.com'', lr_token_type = ''bearer'',
              lr_user = user_response_of (0, ex_ann)\<rparr>"
  have al: "api_login ''ann@example.com'' ''secret12'' ex_users = Inr (?lr, ex_users)"
    using ex_users_login by (simp add: api_login_def)
  obtain b ust2 where d: "delete_user (ur_id (lr_user ?lr)) 5 ex_users = (b, ust2)" by fastforce
  from deactivated_user_token_rejected [OF al d] have "b" and "user_service_verifier ust2 (lr_access_token ?lr) = None"
    by simp_all
  moreover from d \<open>b\<close> have "delete_user (ur_id (lr_user ?lr)) 5 ex_users = (True, ust2)" by simp
  ultimately show ?thesis using al by blast
qed

lemma create_notification_next:
  "parse_type (rq_type rq) \<noteq> None \<Longrightarrow> next_notif_id (snd (create_notification ok rq now ndb)) = Suc (next_notif_id ndb)"
  by (auto simp: create_notification_valid repo_create_notification_def Let_def)

text \<open>
  C38. The welcome notification is lost between the services: when the user service's
  producer delivers \<open>user.registered\<close> for an address, the notification consumer
  leaves its store unchanged, although the envelope's \<open>data\<close> is a payload whose
  own \<open>event_type\<close> is \<open>user.registered\<close> and on which the consumer's user handler
  would create a notification.
\<close>

theorem user_registered_event_ignored:
  assumes "delivers p" and "json_serializable (PDict ud)" and "dict_get ud ''email'' PNone = PStr e" and "e \<noteq> []"
  shows "\<exists>m. sent (publish_user_registered_event ud p) = sent p @ [(''user-events'', m, dict_get ud ''id'' PNone)]
    \<and> process_message ok now (''user-events'', m) ndb = ndb
    \<and> (\<exists>d. val_get m ''data'' PNone = PDict d \<and> dict_get d ''event_type'' PNone = PStr ''user.registered''
           \<and> handle_user_event ok (dict_get d ''event_type'' PNone) d (val_get m ''service'' PNone) now ndb \<noteq> ndb)"
proof -
  let ?d = "[(''event_type'', PStr USER_REGISTERED), (''user_id'', dict_get ud ''id'' PNone),
             (''email'', dict_get ud ''email'' PNone), (''name'', dict_get ud ''name'' PNone),
             (''timestamp'', dict_get ud ''created_at'' PNone)]"
  let ?m = "enrich_event ''user-service'' ''user-events'' ?d"
  have s: "sent (publish_user_registered_event ud p) = sent p @ [(''user-events'', ?m, dict_get ud ''id'' PNone)]"
    using assms(1,2) by (simp add: service_publish_defs sent_send_event)
  have i: "process_message ok now (''user-events'', ?m) ndb = ndb"
    by (simp add: process_message_def enrich_event_def handle_user_event_def Let_def)
  have "next_notif_id (handle_user_event ok (PStr ''user.registered'') ?d (PStr ''user-service'') now ndb)
          = Suc (next_notif_id ndb)"
    using assms(3,4)
    by (simp add: handle_user_event_def handle_user_registered_def notify_def Let_def create_notification_next
                  parse_type_def USER_REGISTERED_def)
  then have "handle_user_event ok (PStr ''user.registered'') ?d (PStr ''user-service'') now ndb \<noteq> ndb" by auto
  with s i show ?thesis by (auto simp: enrich_event_def USER_REGISTERED_def)
qed

theorem user_registered_event_ignored_witness:
  "\<exists>m. sent (publish_user_registered_event [(''id'', PStr ''0''), (''email'', PStr ''ann@example.com''), (''name'', PStr ''Ann'')]
            ex_live_producer) = [(''user-events'', m, PStr ''0'')]
     \<and> process_message True 1 (''user-events'', m) empty_notif_db = empty_notif_db"
  using user_registered_event_ignored [of ex_live_producer "[(''id'', PStr ''0''), (''email'', PStr ''ann@example.com''), (''name'', PStr ''Ann'')]"
          "''ann@example.com''" True 1 empty_notif_db]
  by (auto simp: ex_live_producer_def delivers_def)

end
